(* ===== verification/Prelude.thy ===== *)
theory Prelude
  imports Main "HOL-Library.Word" "HOL-Library.AList" "HOL-Library.Code_Target_Numeral"
begin

text \<open>
  Vocabulary shared by the components: machine integers, Rust's \<open>Result\<close> as a sum type
  with the \<open>?\<close> operator, byte strings with the operations of \<open>str\<close> the program uses,
  network addresses, instants and durations, and hash maps as association lists without
  duplicate keys. The lemmas are general facts about these that several components share.
\<close>

section \<open>Collections of facts\<close>

named_theorems result_simps \<open>evaluation and inversion of results\<close>
named_theorems str_simps \<open>characterisation of the string operations\<close>

section \<open>Machine integers\<close>

type_synonym u8 = "8 word"
type_synonym u16 = "16 word"
type_synonym u32 = "32 word"
type_synonym u64 = "64 word"

text \<open>\<open>saturating_add\<close> of an unsigned integer.\<close>

definition saturating_add :: "'a::len word \<Rightarrow> 'a word \<Rightarrow> 'a word" where
  "saturating_add a b = (if unat a + unat b < 2 ^ LENGTH('a) then a + b else - 1)"

lemma unat_saturating_add:
  "unat (saturating_add a b) = min (unat a + unat b) (2 ^ LENGTH('a) - 1)"
  for a b :: "'a::len word"
proof (cases "unat a + unat b < 2 ^ LENGTH('a)")
  case True
  then have "unat (a + b) = unat a + unat b"
    by (simp add: unat_word_ariths)
  moreover have "min (unat a + unat b) (2 ^ LENGTH('a) - 1) = unat a + unat b"
    by (rule min_absorb1) (use True in linarith)
  ultimately show ?thesis
    using True by (simp add: saturating_add_def)
next
  case False
  have "unat (- 1 :: 'a word) = 2 ^ LENGTH('a) - 1"
    by (simp add: unsigned_minus_1_eq_mask mask_eq_exp_minus_1)
  moreover have "min (unat a + unat b) (2 ^ LENGTH('a) - 1) = 2 ^ LENGTH('a) - 1"
    by (rule min_absorb2) (use False in linarith)
  ultimately show ?thesis
    using False by (simp add: saturating_add_def)
qed

lemma u16_less [simp]: "unat (w :: u16) < 65536"
  using unsigned_less [of w, where ?'a = nat] by simp

lemma u16_le [simp]: "unat (w :: u16) \<le> 65535"
  using u16_less [of w] by linarith

lemma unat_ucast_u16_u64 [simp]: "unat (ucast (w :: u16) :: u64) = unat w"
proof -
  have "unat w < 2 ^ 64" by (rule less_trans [OF u16_less]) simp
  then show ?thesis by (simp add: unsigned_ucast_eq take_bit_nat_eq_self)
qed

section \<open>Results\<close>

text \<open>
  \<open>Result<T, E>\<close> is \<open>'e + 'a\<close> with \<open>Inl\<close> the error. \<open>and_then\<close> is the \<open>?\<close>
  operator followed by the rest of the function, \<open>try_map\<close> is
  \<open>iter.map(f).collect::<Result<Vec<_>, _>>()\<close>: the first error stops the iteration.
\<close>

definition and_then :: "'e + 'a \<Rightarrow> ('a \<Rightarrow> 'e + 'b) \<Rightarrow> 'e + 'b" where
  "and_then r k = (case r of Inl e \<Rightarrow> Inl e | Inr x \<Rightarrow> k x)"

definition is_ok :: "'e + 'a \<Rightarrow> bool" where
  "is_ok r = (case r of Inl _ \<Rightarrow> False | Inr _ \<Rightarrow> True)"

definition ok_or :: "'a option \<Rightarrow> 'e \<Rightarrow> 'e + 'a" where
  "ok_or x e = (case x of None \<Rightarrow> Inl e | Some y \<Rightarrow> Inr y)"

fun try_map :: "('a \<Rightarrow> 'e + 'b) \<Rightarrow> 'a list \<Rightarrow> 'e + 'b list" where
  "try_map f [] = Inr []"
| "try_map f (x # xs) = and_then (f x) (\<lambda>y. and_then (try_map f xs) (\<lambda>ys. Inr (y # ys)))"

lemma and_then_simps [simp]:
  "and_then (Inl e) k = Inl e"
  "and_then (Inr x) k = k x"
  by (simp_all add: and_then_def)

lemma and_then_Inr_iff [result_simps]:
  "and_then r k = Inr y \<longleftrightarrow> (\<exists>x. r = Inr x \<and> k x = Inr y)"
  by (cases r) auto

lemma and_then_Inl_iff [result_simps]:
  "and_then r k = Inl e \<longleftrightarrow> r = Inl e \<or> (\<exists>x. r = Inr x \<and> k x = Inl e)"
  by (cases r) auto

lemma is_ok_simps [simp]:
  "is_ok (Inl e) = False"
  "is_ok (Inr x) = True"
  by (simp_all add: is_ok_def)

lemma is_ok_iff: "is_ok r \<longleftrightarrow> (\<exists>x. r = Inr x)"
  by (cases r) auto

lemma is_ok_and_then_iff: "is_ok (and_then r k) \<longleftrightarrow> (\<exists>x. r = Inr x \<and> is_ok (k x))"
  by (cases r) auto

lemma is_ok_and_then_Inr [simp]: "is_ok (and_then r (\<lambda>x. Inr (f x))) \<longleftrightarrow> is_ok r"
  by (cases r) auto

lemma ok_or_simps [simp]:
  "ok_or None e = Inl e"
  "ok_or (Some x) e = Inr x"
  by (simp_all add: ok_or_def)

lemma ok_or_Inr_iff [result_simps]: "ok_or x e = Inr y \<longleftrightarrow> x = Some y"
  by (cases x) auto

lemma ok_or_Inl_iff [result_simps]: "ok_or x e = Inl e' \<longleftrightarrow> x = None \<and> e = e'"
  by (cases x) auto

lemma try_map_Inr_iff: "try_map f xs = Inr ys \<longleftrightarrow> list_all2 (\<lambda>x y. f x = Inr y) xs ys"
proof (induction xs arbitrary: ys)
  case Nil
  then show ?case by auto
next
  case (Cons x xs)
  then show ?case
    by (cases ys) (auto simp: and_then_Inr_iff)
qed

lemma try_map_length: "try_map f xs = Inr ys \<Longrightarrow> length ys = length xs"
  by (auto simp: try_map_Inr_iff dest: list_all2_lengthD)

lemma try_map_in_set:
  "try_map f xs = Inr ys \<Longrightarrow> y \<in> set ys \<Longrightarrow> \<exists>x \<in> set xs. f x = Inr y"
  by (induction xs arbitrary: ys) (auto simp: and_then_Inr_iff)

lemma try_map_all:
  "try_map f xs = Inr ys \<Longrightarrow> (\<And>x y. f x = Inr y \<Longrightarrow> P y) \<Longrightarrow> \<forall>y \<in> set ys. P y"
  using try_map_in_set by metis

lemma try_map_Inl_D: "try_map f xs = Inl e \<Longrightarrow> \<exists>x \<in> set xs. f x = Inl e"
  by (induction xs) (auto simp: and_then_Inl_iff)

lemma is_ok_try_map: "is_ok (try_map f xs) \<longleftrightarrow> (\<forall>x \<in> set xs. is_ok (f x))"
proof (induction xs)
  case Nil
  then show ?case by simp
next
  case (Cons x xs)
  then show ?case
    by (cases "f x"; cases "try_map f xs") auto
qed

section \<open>Instants and durations\<close>

text \<open>
  An \<open>Instant\<close> is a number of nanoseconds on the monotonic clock (an integer: the
  platform's representation is signed, so going back from an early instant is no error), a
  \<open>Duration\<close> is a non-negative number of nanoseconds. \<open>elapsed\<close> saturates at zero, as
  \<open>Instant::elapsed\<close> does.
\<close>

type_synonym instant = int
type_synonym duration = nat

definition from_secs :: "nat \<Rightarrow> duration" where
  "from_secs s = s * 1000000000"

definition as_secs :: "duration \<Rightarrow> u64" where
  "as_secs d = of_nat (d div 1000000000)"

definition elapsed :: "instant \<Rightarrow> instant \<Rightarrow> duration" where
  "elapsed now t = nat (now - t)"

lemma from_secs_pos [simp]: "0 < from_secs s \<longleftrightarrow> 0 < s"
  by (simp add: from_secs_def)

lemma from_secs_eq_0 [simp]: "from_secs s = 0 \<longleftrightarrow> s = 0"
  by (simp add: from_secs_def)

lemma from_secs_div [simp]: "from_secs s div 1000000000 = s"
  by (simp add: from_secs_def)

section \<open>Hash maps\<close>

text \<open>
  A \<open>HashMap\<close> or \<open>DashMap\<close> is an association list without duplicate keys, in the order
  an iteration visits it: \<open>map_of m k\<close> is \<open>get\<close>, \<open>AList.update k v m\<close> is
  \<open>insert\<close>, \<open>AList.delete k m\<close> is \<open>remove\<close>. \<open>collect_map\<close> is \<open>collect\<close> into a
  map: a later pair replaces an earlier one.
\<close>

definition collect_map :: "('k \<times> 'v) list \<Rightarrow> ('k \<times> 'v) list" where
  "collect_map xs = fold (\<lambda>(k, v). AList.update k v) xs []"

lemma map_of_fold_update:
  "map_of (fold (\<lambda>(k, v). AList.update k v) xs m) = map_of m ++ map_of (rev xs)"
proof (induction xs arbitrary: m)
  case Nil
  then show ?case by simp
next
  case (Cons x xs)
  then show ?case
    by (cases x) (simp add: update_conv map_add_def fun_eq_iff split: option.split)
qed

lemma map_of_collect_map: "map_of (collect_map xs) = map_of (rev xs)"
  by (simp add: collect_map_def map_of_fold_update)

lemma map_of_rev_distinct:
  assumes "distinct (map fst xs)"
  shows "map_of (rev xs) = map_of xs"
proof (rule ext)
  fix k
  have "distinct (map fst (rev xs))" using assms by (simp flip: rev_map)
  with assms have "map_of (rev xs) k = Some v \<longleftrightarrow> map_of xs k = Some v" for v
    by simp
  then show "map_of (rev xs) k = map_of xs k"
    by (metis not_None_eq)
qed

lemma map_of_collect_map_distinct:
  "distinct (map fst xs) \<Longrightarrow> map_of (collect_map xs) = map_of xs"
  by (simp add: map_of_collect_map map_of_rev_distinct)

lemma distinct_fold_update:
  "distinct (map fst m) \<Longrightarrow> distinct (map fst (fold (\<lambda>(k, v). AList.update k v) xs m))"
  by (induction xs arbitrary: m) (auto simp: distinct_update)

lemma distinct_collect_map [simp]: "distinct (map fst (collect_map xs))"
  by (simp add: collect_map_def distinct_fold_update)

lemma collect_map_subset: "set (collect_map xs) \<subseteq> set xs"
proof -
  have "set (fold (\<lambda>(k, v). AList.update k v) xs m) \<subseteq> set m \<union> set xs" for m
  proof (induction xs arbitrary: m)
    case (Cons x xs)
    obtain k v where x: "x = (k, v)" by fastforce
    have "set (AList.update k v m) \<subseteq> insert (k, v) (set m)"
      by (induction m) (auto split: if_splits)
    with Cons [of "AList.update k v m"] show ?case by (auto simp: x)
  qed simp
  from this [of "[]"] show ?thesis by (simp add: collect_map_def)
qed

lemma map_of_eq_None_dom: "map_of m k = None \<longleftrightarrow> k \<notin> fst ` set m"
  by (rule map_of_eq_None_iff)

end
