(* ===== verification/Admission.thy ===== *)
theory Admission
  imports Prelude
begin

text \<open>
  The contract between a request counter and the code that admits requests by asking it: the
  counter keeps, for one client, a number of used units; admitting a request of that client
  uses at least one more unit and never exceeds the budget. What a client of the contract may
  conclude, that a run admits at most the rest of the budget, is proved here once.
\<close>

fun serve_all :: "('s \<Rightarrow> 'q \<Rightarrow> 's \<times> bool) \<Rightarrow> 's \<Rightarrow> 'q list \<Rightarrow> 's \<times> bool list" where
  "serve_all serve s [] = (s, [])"
| "serve_all serve s (q # qs) =
     (let (s', a) = serve s q; (s'', as) = serve_all serve s' qs in (s'', a # as))"

fun run_ok :: "('s \<Rightarrow> 'q \<Rightarrow> bool) \<Rightarrow> ('s \<Rightarrow> 'q \<Rightarrow> 's \<times> bool) \<Rightarrow> 's \<Rightarrow> 'q list \<Rightarrow> bool" where
  "run_ok ok serve s [] = True"
| "run_ok ok serve s (q # qs) = (ok s q \<and> run_ok ok serve (fst (serve s q)) qs)"

definition admitted :: "('q \<Rightarrow> bool) \<Rightarrow> 'q list \<Rightarrow> bool list \<Rightarrow> nat" where
  "admitted mine qs as = length (filter (\<lambda>(q, a). mine q \<and> a) (zip qs as))"

lemma admitted_simps [simp]:
  "admitted mine [] as = 0"
  "admitted mine (q # qs) (a # as) = (if mine q \<and> a then 1 else 0) + admitted mine qs as"
  by (simp_all add: admitted_def)

locale admission =
  fixes inv :: "'s \<Rightarrow> bool"
    and ok :: "'s \<Rightarrow> 'q \<Rightarrow> bool"
    and serve :: "'s \<Rightarrow> 'q \<Rightarrow> 's \<times> bool"
    and mine :: "'q \<Rightarrow> bool"
    and used :: "'s \<Rightarrow> nat"
    and budget :: "'s \<Rightarrow> nat"
  assumes inv_serve: "inv s \<Longrightarrow> ok s q \<Longrightarrow> inv (fst (serve s q))"
    and budget_serve: "inv s \<Longrightarrow> ok s q \<Longrightarrow> budget (fst (serve s q)) = budget s"
    and used_serve: "inv s \<Longrightarrow> ok s q \<Longrightarrow> used s \<le> used (fst (serve s q))"
    and used_admit: "inv s \<Longrightarrow> ok s q \<Longrightarrow> mine q \<Longrightarrow> snd (serve s q) \<Longrightarrow>
      used s < used (fst (serve s q)) \<and> used (fst (serve s q)) \<le> budget s"
begin

lemma admitted_le_rest:
  "inv s \<Longrightarrow> run_ok ok serve s qs \<Longrightarrow>
     admitted mine qs (snd (serve_all serve s qs)) \<le> budget s - used s"
proof (induction qs arbitrary: s)
  case Nil
  then show ?case by simp
next
  case (Cons q qs)
  let ?s = "fst (serve s q)"
  from Cons.prems have ok: "ok s q" and rest: "run_ok ok serve ?s qs" by simp_all
  have IH: "admitted mine qs (snd (serve_all serve ?s qs)) \<le> budget s - used ?s"
    using Cons.IH [OF inv_serve [OF Cons.prems(1) ok] rest] budget_serve [OF Cons.prems(1) ok]
    by simp
  have "used s \<le> used ?s" by (rule used_serve [OF Cons.prems(1) ok])
  moreover have "mine q \<and> snd (serve s q) \<Longrightarrow> used s < used ?s \<and> used ?s \<le> budget s"
    using used_admit [OF Cons.prems(1) ok] by simp
  ultimately show ?case
    using IH by (auto simp: case_prod_beta)
qed

end

end
