(* ===== verification/Net.thy ===== *)
theory Net
  imports Prelude
begin

text \<open>
  Network addresses of the Rust standard library as the program uses them:
  \<open>IpAddr\<close>, \<open>SocketAddr\<close>, the loopback and multicast tests, parsing of integers and of
  addresses, and their \<open>Display\<close> texts.
\<close>

section \<open>Addresses\<close>

datatype ip_addr = V4 u32 | V6 "128 word"

datatype socket_addr = SocketAddr (sa_ip: ip_addr) (sa_port: u16)

fun is_ipv6 :: "ip_addr \<Rightarrow> bool" where
  "is_ipv6 (V4 _) = False"
| "is_ipv6 (V6 _) = True"

fun is_loopback :: "ip_addr \<Rightarrow> bool" where
  "is_loopback (V4 a) = (drop_bit 24 a = 127)"
| "is_loopback (V6 a) = (a = 1)"

fun is_multicast :: "ip_addr \<Rightarrow> bool" where
  "is_multicast (V4 a) = (drop_bit 28 a = 14)"
| "is_multicast (V6 a) = (drop_bit 120 a = 255)"

definition ipv4_localhost :: ip_addr where
  "ipv4_localhost = V4 (127 * 2 ^ 24 + 1)"

section \<open>Numbers\<close>

definition digit_of :: "char \<Rightarrow> nat option" where
  "digit_of c =
     (let n = of_char c :: nat
      in if 48 \<le> n \<and> n \<le> 57 then Some (n - 48) else None)"

definition hex_digit_of :: "char \<Rightarrow> nat option" where
  "hex_digit_of c =
     (let n = of_char c :: nat
      in if 48 \<le> n \<and> n \<le> 57 then Some (n - 48)
         else if 97 \<le> n \<and> n \<le> 102 then Some (n - 87)
         else if 65 \<le> n \<and> n \<le> 70 then Some (n - 55)
         else None)"

fun parse_digits :: "nat \<Rightarrow> string \<Rightarrow> nat option" where
  "parse_digits acc [] = Some acc"
| "parse_digits acc (c # cs) =
     (case digit_of c of None \<Rightarrow> None | Some d \<Rightarrow> parse_digits (10 * acc + d) cs)"

text \<open>\<open>str::parse\<close> for an unsigned type below \<open>bound\<close>: an optional plus sign and at least one digit.\<close>

definition parse_unsigned :: "nat \<Rightarrow> string \<Rightarrow> nat option" where
  "parse_unsigned bound s =
     (let ds = (case s of c # cs \<Rightarrow> if c = CHR ''+'' then cs else s | [] \<Rightarrow> s)
      in if ds = [] then None
         else case parse_digits 0 ds of
                None \<Rightarrow> None
              | Some n \<Rightarrow> if n < bound then Some n else None)"

definition parse_u16 :: "string \<Rightarrow> u16 option" where
  "parse_u16 s = map_option of_nat (parse_unsigned 65536 s)"

definition parse_u32 :: "string \<Rightarrow> u32 option" where
  "parse_u32 s = map_option of_nat (parse_unsigned 4294967296 s)"

text \<open>\<open>str::parse::<i64>\<close>: a sign is allowed, the range is checked.\<close>

definition parse_i64 :: "string \<Rightarrow> int option" where
  "parse_i64 s =
     (case s of
        c # cs \<Rightarrow>
          if c = CHR ''-'' then
            (if cs = [] then None
             else case parse_digits 0 cs of
                    None \<Rightarrow> None
                  | Some n \<Rightarrow> if n \<le> 2 ^ 63 then Some (- int n) else None)
          else map_option int (parse_unsigned (2 ^ 63) s)
      | [] \<Rightarrow> None)"

fun show_nat :: "nat \<Rightarrow> string" where
  "show_nat n =
     (if n < 10 then [char_of (48 + n)] else show_nat (n div 10) @ [char_of (48 + n mod 10)])"

declare show_nat.simps [simp del]

section \<open>Parsing addresses\<close>

text \<open>
  The standard library's parser: a reader takes the rest of the input and returns the value
  and what is left, or nothing (then the input is not consumed).
\<close>

type_synonym 'a reader = "string \<Rightarrow> ('a \<times> string) option"

fun take_digits :: "(char \<Rightarrow> nat option) \<Rightarrow> string \<Rightarrow> nat list \<times> string" where
  "take_digits f [] = ([], [])"
| "take_digits f (c # cs) =
     (case f c of
        None \<Rightarrow> ([], c # cs)
      | Some d \<Rightarrow> (let (ds, rest) = take_digits f cs in (d # ds, rest)))"

definition read_number ::
  "(char \<Rightarrow> nat option) \<Rightarrow> nat \<Rightarrow> nat \<Rightarrow> bool \<Rightarrow> nat \<Rightarrow> nat reader" where
  "read_number digit radix max_digits allow_zero_prefix bound s =
     (let (ds, rest) = take_digits digit s; n = foldl (\<lambda>a d. radix * a + d) 0 ds
      in if ds = [] \<or> length ds > max_digits \<or> bound \<le> n
            \<or> (\<not> allow_zero_prefix \<and> hd ds = 0 \<and> length ds > 1)
         then None else Some (n, rest))"

definition read_separator :: "char \<Rightarrow> nat \<Rightarrow> 'a reader \<Rightarrow> 'a reader" where
  "read_separator sep i p s =
     (if i = 0 then p s
      else case s of
             c # cs \<Rightarrow> if c = sep then p cs else None
           | [] \<Rightarrow> None)"

definition read_octet :: "nat \<Rightarrow> nat reader" where
  "read_octet i = read_separator (CHR ''.'') i (read_number digit_of 10 3 False 256)"

definition read_ipv4 :: "u32 reader" where
  "read_ipv4 s =
     Option.bind (read_octet 0 s) (\<lambda>(a, s).
     Option.bind (read_octet 1 s) (\<lambda>(b, s).
     Option.bind (read_octet 2 s) (\<lambda>(c, s).
     Option.bind (read_octet 3 s) (\<lambda>(d, s).
       Some (of_nat (((a * 256 + b) * 256 + c) * 256 + d), s)))))"

text \<open>
  Up to \<open>limit\<close> groups of sixteen bits, the last two possibly an embedded IPv4 address;
  \<open>i\<close> is the number of groups already read.
\<close>

fun read_groups :: "nat \<Rightarrow> nat \<Rightarrow> string \<Rightarrow> nat list \<times> bool \<times> string" where
  "read_groups 0 i s = ([], False, s)"
| "read_groups (Suc left) i s =
     (case (if left > 0 then read_separator (CHR '':'') i read_ipv4 s else None) of
        Some (a, rest) \<Rightarrow> ([unat (drop_bit 16 a), unat (take_bit 16 a)], True, rest)
      | None \<Rightarrow>
          (case read_separator (CHR '':'') i (read_number hex_digit_of 16 4 True 65536) s of
             None \<Rightarrow> ([], False, s)
           | Some (g, rest) \<Rightarrow>
               (let (gs, v4, rest') = read_groups left (Suc i) rest in (g # gs, v4, rest'))))"

definition join_groups :: "nat list \<Rightarrow> 128 word" where
  "join_groups gs = of_nat (foldl (\<lambda>a g. 65536 * a + g) 0 gs)"

definition read_ipv6 :: "128 word reader" where
  "read_ipv6 s =
     (let (head, head_v4, rest) = read_groups 8 0 s
      in if length head = 8 then Some (join_groups head, rest)
         else if head_v4 then None
         else case rest of
                c1 # c2 # rest' \<Rightarrow>
                  if c1 = CHR '':'' \<and> c2 = CHR '':'' then
                    (let (tail, _, rest'') = read_groups (8 - (length head + 1)) 0 rest'
                     in Some (join_groups (head @ replicate (8 - length head - length tail) 0 @ tail), rest''))
                  else None
              | _ \<Rightarrow> None)"

definition parse_ip_addr :: "string \<Rightarrow> ip_addr option" where
  "parse_ip_addr s =
     (case read_ipv4 s of
        Some (a, rest) \<Rightarrow> if rest = [] then Some (V4 a) else None
      | None \<Rightarrow>
          (case read_ipv6 s of
             Some (a, rest) \<Rightarrow> if rest = [] then Some (V6 a) else None
           | None \<Rightarrow> None))"

section \<open>Printing addresses\<close>

definition hex_char :: "nat \<Rightarrow> char" where
  "hex_char d = (if d < 10 then char_of (48 + d) else char_of (87 + d))"

fun show_hex :: "nat \<Rightarrow> string" where
  "show_hex n = (if n < 16 then [hex_char n] else show_hex (n div 16) @ [hex_char (n mod 16)])"

declare show_hex.simps [simp del]

fun join :: "string \<Rightarrow> string list \<Rightarrow> string" where
  "join sep [] = []"
| "join sep [x] = x"
| "join sep (x # y # zs) = x @ sep @ join sep (y # zs)"

definition show_ipv4 :: "u32 \<Rightarrow> string" where
  "show_ipv4 a = join ''.''
     (map show_nat [unat a div 2 ^ 24, unat a div 2 ^ 16 mod 256, unat a div 2 ^ 8 mod 256, unat a mod 256])"

text \<open>The first longest run of zero groups, as (start, length).\<close>

fun longest_zeros :: "nat list \<Rightarrow> nat \<Rightarrow> nat \<times> nat \<Rightarrow> nat \<times> nat \<Rightarrow> nat \<times> nat" where
  "longest_zeros [] i cur best = best"
| "longest_zeros (g # gs) i cur best =
     (if g = 0 then
        (let cur' = (if snd cur = 0 then i else fst cur, Suc (snd cur))
         in longest_zeros gs (Suc i) cur' (if snd cur' > snd best then cur' else best))
      else longest_zeros gs (Suc i) (0, 0) best)"

definition groups_of :: "128 word \<Rightarrow> nat list" where
  "groups_of a = map (\<lambda>i. unat a div 2 ^ (16 * (7 - i)) mod 65536) [0..<8]"

definition show_ipv6 :: "128 word \<Rightarrow> string" where
  "show_ipv6 a =
     (let gs = groups_of a
      in if unat a div 2 ^ 32 = 65535 then ''::ffff:'' @ show_ipv4 (of_nat (unat a mod 2 ^ 32))
         else (let (start, n) = longest_zeros gs 0 (0, 0) (0, 0)
               in if n > 1 then
                    join '':'' (map show_hex (take start gs)) @ ''::''
                      @ join '':'' (map show_hex (drop (start + n) gs))
                  else join '':'' (map show_hex gs)))"

fun show_ip :: "ip_addr \<Rightarrow> string" where
  "show_ip (V4 a) = show_ipv4 a"
| "show_ip (V6 a) = show_ipv6 a"

fun show_socket_addr :: "socket_addr \<Rightarrow> string" where
  "show_socket_addr (SocketAddr (V4 a) p) = show_ipv4 a @ '':'' @ show_nat (unat p)"
| "show_socket_addr (SocketAddr (V6 a) p) = ''['' @ show_ipv6 a @ '']:'' @ show_nat (unat p)"

end
