(* ===== verification/Config_Types.thy ===== *)
theory Config_Types
  imports Net
begin

text \<open>
  The data of the configuration (\<^verbatim>\<open>pingoo/config/config.rs\<close>), the program's error type
  (\<^verbatim>\<open>pingoo/error.rs\<close>), upstreams (\<^verbatim>\<open>pingoo/service_discovery/service_registry.rs\<close>)
  and rules (\<^verbatim>\<open>rules/rules.rs\<close>, \<^verbatim>\<open>pingoo/rules.rs\<close>). Compiled expressions belong to
  the expression-language library: their type is the parameter \<open>'prog\<close>. The text of an error is
  its literal part; texts of foreign errors and interpolated values are left out.
\<close>

section \<open>Errors\<close>

datatype error =
  Config string
| Unspecified string
| Listening string socket_addr
| Tls string
| IO string

text \<open>Of a file system error only the kind is ever inspected.\<close>

datatype io_error_kind = NotFound | OtherIoError

section \<open>Listeners\<close>

datatype listener_protocol = Tcp | TcpAndTls | Http | Https

record listener_config =
  lc_name :: string
  lc_address :: socket_addr
  lc_protocol :: listener_protocol
  lc_services :: "string list"

definition listener_protocol_from_str :: "string \<Rightarrow> error + listener_protocol" where
  "listener_protocol_from_str s =
     (if s = ''http'' then Inr Http
      else if s = ''https'' then Inr Https
      else if s = ''tcp'' then Inr Tcp
      else if s = ''tcp+tls'' then Inr TcpAndTls
      else Inl (Config ''is not a valid protocol''))"

fun show_listener_protocol :: "listener_protocol \<Rightarrow> string" where
  "show_listener_protocol Http = ''http''"
| "show_listener_protocol Https = ''https''"
| "show_listener_protocol Tcp = ''tcp''"
| "show_listener_protocol TcpAndTls = ''tcp+tls''"

section \<open>Services\<close>

record upstream =
  up_socket_address :: socket_addr
  up_hostname :: string
  up_tls :: bool

datatype upstream_config =
  IPAddress upstream
| Domain (dom_hostname: string) (dom_tls: bool) (dom_port: u16)

record static_not_found =
  snf_file :: "string option"
  snf_status_code :: nat

record static_site_config =
  ssc_root :: string
  ssc_not_found :: static_not_found

record 'prog service_config =
  sc_name :: string
  sc_route :: "'prog option"
  sc_http_proxy :: "upstream_config list option"
  sc_static :: "static_site_config option"
  sc_tcp_proxy :: "upstream_config list option"

section \<open>Rules and lists\<close>

datatype action = Block | Captcha | Limit

record rate_limit =
  rlim_max :: u16
  rlim_window :: u16
  rlim_capacity :: nat

text \<open>A rule holds the sending side of its limiter's channel: the number of the limiter task.\<close>

record 'prog rule =
  rule_name :: string
  rule_expression :: "'prog option"
  rule_actions :: "action list"
  rule_limiter_tx :: "nat option"

datatype list_type = StringList | IntList | IpList

record list_config =
  list_type :: list_type
  list_file :: string

record tls_acme_config =
  acme_directory_url :: string
  acme_domains :: "string list"

record tls_config =
  tls_acme :: "tls_acme_config option"

record 'prog config =
  cfg_listeners :: "listener_config list"
  cfg_services :: "'prog service_config list"
  cfg_rules :: "'prog rule list"
  cfg_tls :: tls_config
  cfg_docker_socket :: string
  cfg_lists :: "(string \<times> list_config) list"
  cfg_child_process :: "string list option"
  cfg_limiter_workers :: "rate_limit list"

lemma listener_protocol_roundtrip:
  "listener_protocol_from_str (show_listener_protocol p) = Inr p"
  by (cases p) (simp_all add: listener_protocol_from_str_def)

lemma listener_protocol_from_str_Inr:
  "listener_protocol_from_str s = Inr p \<longleftrightarrow> s = show_listener_protocol p"
  by (cases p) (auto simp: listener_protocol_from_str_def split: if_splits)

end
