(* ===== verification/Strings.thy ===== *)
theory Strings
  imports Net "HOL-Library.Sublist"
begin

text \<open>
  The operations of Rust's \<open>str\<close> that the program uses. A string is its UTF-8 bytes; a
  character of the theory is one byte. \<open>trim\<close> removes the characters with the Unicode property
  White_Space, which take one to three bytes.
\<close>

section \<open>Tests and searches\<close>

definition byte :: "char \<Rightarrow> nat" where
  "byte c = of_char c"

lemma byte_char_of: "n < 256 \<Longrightarrow> byte (char_of n) = n"
  by (simp add: byte_def)

definition is_ascii :: "string \<Rightarrow> bool" where
  "is_ascii s = list_all (\<lambda>c. byte c < 128) s"

definition ascii_lower :: "char \<Rightarrow> char" where
  "ascii_lower c = (if 65 \<le> byte c \<and> byte c \<le> 90 then char_of (byte c + 32) else c)"

definition to_ascii_lowercase :: "string \<Rightarrow> string" where
  "to_ascii_lowercase s = map ascii_lower s"

definition starts_with :: "string \<Rightarrow> string \<Rightarrow> bool" where
  "starts_with s p = (take (length p) s = p)"

definition ends_with :: "string \<Rightarrow> string \<Rightarrow> bool" where
  "ends_with s p = (drop (length s - length p) s = p \<and> length p \<le> length s)"

definition contains_char :: "string \<Rightarrow> char \<Rightarrow> bool" where
  "contains_char s c = list_ex (\<lambda>d. d = c) s"

fun contains_str :: "string \<Rightarrow> string \<Rightarrow> bool" where
  "contains_str [] p = (p = [])"
| "contains_str (c # s) p = (starts_with (c # s) p \<or> contains_str s p)"

section \<open>Splitting\<close>

text \<open>\<open>split(c)\<close>: one piece more than there are separators.\<close>

fun split_char :: "char \<Rightarrow> string \<Rightarrow> string list" where
  "split_char c [] = [[]]"
| "split_char c (d # s) =
     (if d = c then [] # split_char c s
      else case split_char c s of [] \<Rightarrow> [[d]] | p # ps \<Rightarrow> (d # p) # ps)"

fun split_once :: "char \<Rightarrow> string \<Rightarrow> (string \<times> string) option" where
  "split_once c [] = None"
| "split_once c (d # s) =
     (if d = c then Some ([], s) else map_option (apfst ((#) d)) (split_once c s))"

section \<open>Trimming\<close>

text \<open>The number of bytes of the White_Space character a string begins with, or 0.\<close>

definition whitespace_at :: "nat list \<Rightarrow> nat" where
  "whitespace_at bs =
     (case bs of
        [] \<Rightarrow> 0
      | a # bs \<Rightarrow>
          if (9 \<le> a \<and> a \<le> 13) \<or> a = 32 then 1
          else case bs of
             [] \<Rightarrow> 0
           | b # bs \<Rightarrow>
               if a = 194 \<and> (b = 133 \<or> b = 160) then 2
               else case bs of
                  [] \<Rightarrow> 0
                | c # _ \<Rightarrow>
                    if (a = 225 \<and> b = 154 \<and> c = 128)
                       \<or> (a = 226 \<and> b = 128 \<and> (128 \<le> c \<and> c \<le> 138 \<or> c = 168 \<or> c = 169 \<or> c = 175))
                       \<or> (a = 226 \<and> b = 129 \<and> c = 159)
                       \<or> (a = 227 \<and> b = 128 \<and> c = 128)
                    then 3 else 0)"

text \<open>The same at the end of a string, given its bytes reversed.\<close>

definition whitespace_end :: "nat list \<Rightarrow> nat" where
  "whitespace_end rbs =
     (if whitespace_at (rev (take 1 rbs)) = 1 then 1
      else if whitespace_at (rev (take 2 rbs)) = 2 then 2
      else if whitespace_at (rev (take 3 rbs)) = 3 then 3 else 0)"

lemma whitespace_at_le: "whitespace_at bs \<le> length bs"
  by (simp add: whitespace_at_def split: list.splits)

lemma whitespace_end_le: "whitespace_end bs \<le> length bs"
  using whitespace_at_le [of "rev (take 1 bs)"] whitespace_at_le [of "rev (take 2 bs)"]
    whitespace_at_le [of "rev (take 3 bs)"]
  by (auto simp: whitespace_end_def)

function trim_start :: "string \<Rightarrow> string" where
  "trim_start s =
     (let n = whitespace_at (map byte s) in if n = 0 then s else trim_start (drop n s))"
  by auto
termination
proof (relation "measure length")
  fix s :: string and n
  assume "n = whitespace_at (map byte s)" "n \<noteq> 0"
  moreover have "whitespace_at (map byte s) \<le> length s"
    using whitespace_at_le [of "map byte s"] by simp
  ultimately show "(drop n s, s) \<in> measure length" by simp
qed simp

function trim_end_rev :: "string \<Rightarrow> string" where
  "trim_end_rev s =
     (let n = whitespace_end (map byte s) in if n = 0 then s else trim_end_rev (drop n s))"
  by auto
termination
proof (relation "measure length")
  fix s :: string and n
  assume "n = whitespace_end (map byte s)" "n \<noteq> 0"
  moreover have "whitespace_end (map byte s) \<le> length s"
    using whitespace_end_le [of "map byte s"] by simp
  ultimately show "(drop n s, s) \<in> measure length" by simp
qed simp

declare trim_start.simps [simp del] trim_end_rev.simps [simp del]

definition trim_end :: "string \<Rightarrow> string" where
  "trim_end s = rev (trim_end_rev (rev s))"

definition trim :: "string \<Rightarrow> string" where
  "trim s = trim_end (trim_start s)"

definition trim_start_matches :: "char \<Rightarrow> string \<Rightarrow> string" where
  "trim_start_matches c s = dropWhile (\<lambda>d. d = c) s"

definition trim_end_matches :: "char \<Rightarrow> string \<Rightarrow> string" where
  "trim_end_matches c s = rev (dropWhile (\<lambda>d. d = c) (rev s))"

function trim_start_matches_str :: "string \<Rightarrow> string \<Rightarrow> string" where
  "trim_start_matches_str p s =
     (if p \<noteq> [] \<and> starts_with s p then trim_start_matches_str p (drop (length p) s) else s)"
  by auto
termination
proof (relation "measure (length \<circ> snd)")
  fix p s :: string
  assume "p \<noteq> [] \<and> starts_with s p"
  then have "0 < length p \<and> length p \<le> length s"
    by (auto simp: starts_with_def) (metis length_take min.cobounded1)
  then show "((p, drop (length p) s), (p, s)) \<in> measure (length \<circ> snd)"
    by (cases p) auto
qed simp

declare trim_start_matches_str.simps [simp del]

section \<open>Facts\<close>

lemma split_char_not_Nil [simp]: "split_char c s \<noteq> []"
  by (induction s) (auto split: list.splits)

lemma split_char_no_sep: "p \<in> set (split_char c s) \<Longrightarrow> c \<notin> set p"
proof (induction s arbitrary: p)
  case (Cons d s)
  then show ?case
    by (cases "split_char c s") (auto split: if_splits)
qed simp

lemma join_split_char: "join [c] (split_char c s) = s"
proof (induction s)
  case (Cons d s)
  then show ?case
    by (cases "split_char c s"; cases "tl (split_char c s)") auto
qed simp

lemma split_once_Some: "split_once c s = Some (a, b) \<longleftrightarrow> s = a @ c # b \<and> c \<notin> set a"
proof (induction s arbitrary: a)
  case (Cons d s)
  then show ?case by (cases a) auto
qed simp

lemma contains_char_iff [simp]: "contains_char s c \<longleftrightarrow> c \<in> set s"
  by (auto simp: contains_char_def list_ex_iff)

lemma starts_with_iff: "starts_with s p \<longleftrightarrow> prefix p s"
  by (auto simp: starts_with_def prefix_def) (metis append_take_drop_id)

lemma ends_with_iff: "ends_with s p \<longleftrightarrow> suffix p s"
  by (auto simp: ends_with_def suffix_def) (metis append_take_drop_id)

section \<open>Pieces of strings\<close>

lemma contains_str_iff: "contains_str s p \<longleftrightarrow> (\<exists>a b. s = a @ p @ b)"
proof (induction s)
  case (Cons c s)
  have "(\<exists>a b. c # s = a @ p @ b) \<longleftrightarrow> (\<exists>b. c # s = p @ b) \<or> (\<exists>a b. s = a @ p @ b)"
    by (metis append_Cons append_Nil list.sel(3) tl_append2)
  then show ?case
    using Cons by (auto simp: starts_with_iff prefix_def)
qed auto

lemma split_char_append: "split_char c (a @ c # b) = split_char c a @ split_char c b"
  by (induction a) (auto split: list.splits)

lemma split_char_single: "c \<notin> set s \<Longrightarrow> split_char c s = [s]"
  by (induction s) auto

lemma join_append:
  "xs \<noteq> [] \<Longrightarrow> ys \<noteq> [] \<Longrightarrow> join d (xs @ ys) = join d xs @ d @ join d ys"
proof (induction xs)
  case (Cons x xs)
  then show ?case by (cases xs; cases ys) auto
qed simp

lemma split_char_join:
  assumes "xs \<noteq> []" and "\<forall>x \<in> set xs. c \<notin> set x"
  shows "split_char c (join [c] xs) = xs"
  using assms
proof (induction xs)
  case (Cons x xs)
  then show ?case
    by (cases xs) (simp_all add: split_char_single split_char_append)
qed simp

end
