(* ===== verification/Http.thy ===== *)
theory Http
  imports Config_Types Strings
begin

text \<open>
  HTTP messages (the types of the \<^verbatim>\<open>http\<close> library as the program uses them) and
  \<^verbatim>\<open>pingoo/services/http_utils.rs\<close>: the request context, the fixed responses and the
  request path. A header map is a list of pairs with lower-case names: \<open>insert\<close> replaces every
  value of a name, \<open>append\<close> adds one, \<open>get\<close> is the first.
\<close>

section \<open>Messages\<close>

type_synonym headers = "(string \<times> string) list"

definition header_get :: "headers \<Rightarrow> string \<Rightarrow> string option" where
  "header_get hs n = map_of hs n"

definition header_get_all :: "headers \<Rightarrow> string \<Rightarrow> string list" where
  "header_get_all hs n = map snd (filter (\<lambda>(m, _). m = n) hs)"

definition header_remove :: "string \<Rightarrow> headers \<Rightarrow> headers" where
  "header_remove n hs = filter (\<lambda>(m, _). m \<noteq> n) hs"

definition header_insert :: "string \<Rightarrow> string \<Rightarrow> headers \<Rightarrow> headers" where
  "header_insert n v hs = header_remove n hs @ [(n, v)]"

definition header_append :: "string \<Rightarrow> string \<Rightarrow> headers \<Rightarrow> headers" where
  "header_append n v hs = hs @ [(n, v)]"

text \<open>
  The validity of header values: \<open>to_str\<close> of a value and \<open>from_str\<close> of a string, both
  the library's; both give the same bytes back when they succeed.
\<close>

record header_env =
  he_to_str :: "string \<Rightarrow> bool"
  he_from_str :: "string \<Rightarrow> bool"

definition to_str :: "header_env \<Rightarrow> string \<Rightarrow> string option" where
  "to_str he v = (if he_to_str he v then Some v else None)"

definition value_from_str :: "header_env \<Rightarrow> string \<Rightarrow> string option" where
  "value_from_str he s = (if he_from_str he s then Some s else None)"

text \<open>
  The documented contract of header values: every text of visible ASCII characters and blanks is
  a header value, and \<open>to_str\<close> succeeds on no other value.
\<close>

definition visible :: "string \<Rightarrow> bool" where
  "visible s \<longleftrightarrow> (\<forall>c \<in> set s. 32 \<le> byte c \<and> byte c < 127)"

definition header_env_ok :: "header_env \<Rightarrow> bool" where
  "header_env_ok he \<longleftrightarrow>
     (\<forall>s. visible s \<longrightarrow> he_from_str he s) \<and> (\<forall>v. he_to_str he v \<longrightarrow> he_from_str he v)
     \<and> (\<forall>a b. he_from_str he a \<longrightarrow> he_from_str he b \<longrightarrow> he_from_str he (a @ b))"

lemma visible_append [simp]: "visible (a @ b) \<longleftrightarrow> visible a \<and> visible b"
  by (auto simp: visible_def)

lemma visible_Nil [simp]: "visible []"
  by (simp add: visible_def)

lemma visible_Cons [simp]: "visible (c # s) \<longleftrightarrow> 32 \<le> byte c \<and> byte c < 127 \<and> visible s"
  by (auto simp: visible_def)

definition or_default :: "string option \<Rightarrow> string" where
  "or_default x = (case x of Some s \<Rightarrow> s | None \<Rightarrow> '''')"

text \<open>A body: bytes in memory, a file streamed from a path, or what an upstream sends.\<close>

datatype body = Full string | FileStream string | UpstreamBody string

record response =
  res_status :: nat
  res_headers :: headers
  res_body :: body

datatype http_version = HTTP_11 | HTTP_2

text \<open>\<open>heapless::String<N>::from_str\<close> fails on more than \<open>N\<close> bytes.\<close>

definition heapless_from_str :: "nat \<Rightarrow> string \<Rightarrow> string option" where
  "heapless_from_str n s = (if length s \<le> n then Some s else None)"

section \<open>The request context\<close>

datatype country_code = CountryCode char char

fun country_str :: "country_code \<Rightarrow> string" where
  "country_str (CountryCode a b) = [a, b]"

definition user_agent_max_length :: nat where
  "user_agent_max_length = 256"

definition hostname_max_length :: nat where
  "hostname_max_length = 256"

record request_context =
  ctx_client_address :: socket_addr
  ctx_server_address :: socket_addr
  ctx_asn :: u32
  ctx_country :: country_code
  ctx_geoip_enabled :: bool
  ctx_tls :: bool
  ctx_host :: string

record request =
  rq_method :: string
  rq_uri_host :: "string option"
  rq_path :: string
  rq_path_and_query :: "string option"
  rq_uri :: string
  rq_version :: http_version
  rq_headers :: headers
  rq_body :: "unit + string"
  rq_context :: "request_context option"

section \<open>Fixed responses\<close>

definition cache_control_no_cache :: string where
  "cache_control_no_cache = ''private, no-cache, no-store, must-revalidate''"

definition cache_control_dynamic :: string where
  "cache_control_dynamic = ''public, no-cache, must-revalidate''"

definition error_response :: "nat \<Rightarrow> string \<Rightarrow> response" where
  "error_response status message =
     \<lparr>res_status = status, res_headers = [(''cache-control'', cache_control_no_cache)], res_body = Full message\<rparr>"

definition new_internal_error_response_500 :: response where
  "new_internal_error_response_500 = error_response 500 ''500 Internal Server Error''"

definition new_bad_gateway_error :: response where
  "new_bad_gateway_error = error_response 502 ''502 Bad Gateway''"

definition new_service_unavailable_error_503 :: response where
  "new_service_unavailable_error_503 = error_response 503 ''503 Service Unavailable''"

definition new_not_found_error :: response where
  "new_not_found_error = error_response 404 ''404 Not Found.''"

definition new_blocked_response :: response where
  "new_blocked_response = error_response 403 ''Permission Denied''"

definition new_method_not_allowed_error :: response where
  "new_method_not_allowed_error = error_response 405 ''405 Method Not Allowed''"

definition new_too_many_requests_response_429 :: response where
  "new_too_many_requests_response_429 = error_response 429 ''429 Too Many Requests''"

definition get_path :: "request \<Rightarrow> string" where
  "get_path req = trim_end_matches CHR ''/'' (rq_path req)"

lemmas fixed_responses = new_internal_error_response_500_def new_bad_gateway_error_def
  new_service_unavailable_error_503_def new_not_found_error_def new_blocked_response_def
  new_method_not_allowed_error_def new_too_many_requests_response_429_def error_response_def

section \<open>Facts about headers\<close>

lemma header_get_all_remove [simp]:
  "header_get_all (header_remove n hs) m = (if m = n then [] else header_get_all hs m)"
  by (induction hs) (auto simp: header_get_all_def header_remove_def)

lemma header_get_all_append [simp]:
  "header_get_all (header_append n v hs) m = header_get_all hs m @ (if m = n then [v] else [])"
  by (simp add: header_get_all_def header_append_def)

lemma header_get_all_insert [simp]:
  "header_get_all (header_insert n v hs) m = (if m = n then [v] else header_get_all hs m)"
proof -
  have "header_get_all (xs @ ys) m = header_get_all xs m @ header_get_all ys m" for xs ys
    by (simp add: header_get_all_def)
  then have "header_get_all (header_insert n v hs) m = header_get_all (header_remove n hs) m @ header_get_all [(n, v)] m"
    by (simp add: header_insert_def)
  then show ?thesis by (simp add: header_get_all_def [of "[(n, v)]"])
qed

lemma header_get_hd: "header_get hs n = (case header_get_all hs n of [] \<Rightarrow> None | v # _ \<Rightarrow> Some v)"
  by (induction hs) (auto simp: header_get_def header_get_all_def)

end
