(* ===== verification/Rate_Limiter.thy ===== *)
theory Rate_Limiter
  imports Admission Http
begin

text \<open>
  \<^verbatim>\<open>pingoo/rate_limiter.rs\<close>: the two-bucket sliding-window request counter. A bucket is a
  hash map from client addresses to saturating 16-bit counters; the bucket with the later start
  is the current one. The clock readings of a call are arguments: \<open>now\<close> for
  \<open>Instant::now()\<close> and \<open>later\<close> for the reading inside \<open>elapsed()\<close>. How many entries
  \<open>HashMap::with_capacity\<close> really reserves is the parameter \<open>alloc\<close> (documented: at least
  what is asked for). A panic is the result \<open>None\<close>.
\<close>

section \<open>State\<close>

record counter =
  ctr_sum :: u16

record 'ip bucket =
  bkt_starts_at :: instant
  bkt_inner :: "('ip \<times> counter) list"
  bkt_capacity :: nat

record 'ip rate_limiter =
  rl_limit :: u16
  rl_sampling_period :: duration
  rl_green :: "'ip bucket"
  rl_blue :: "'ip bucket"

definition counter_new :: counter where
  "counter_new = \<lparr>ctr_sum = 0\<rparr>"

definition increment :: "counter \<Rightarrow> counter" where
  "increment c = c\<lparr>ctr_sum := saturating_add (ctr_sum c) 1\<rparr>"

definition bucket_new :: "(nat \<Rightarrow> nat) \<Rightarrow> instant \<Rightarrow> nat \<Rightarrow> 'ip bucket" where
  "bucket_new alloc starts_at capacity =
     \<lparr>bkt_starts_at = starts_at, bkt_inner = [], bkt_capacity = alloc capacity\<rparr>"

definition create_prev_window :: "instant \<Rightarrow> duration \<Rightarrow> instant \<Rightarrow> instant" where
  "create_prev_window t period later =
     (if elapsed later t < period then t else t - int period)"

definition rate_limiter_new ::
  "(nat \<Rightarrow> nat) \<Rightarrow> u16 \<Rightarrow> duration \<Rightarrow> nat \<Rightarrow> instant \<Rightarrow> instant \<Rightarrow> 'ip rate_limiter" where
  "rate_limiter_new alloc limit period capacity now later =
     (let sanitized_limit = (if limit = - 1 then limit - 1 else limit);
          before = create_prev_window now period later
      in \<lparr>rl_limit = sanitized_limit,
          rl_sampling_period = period,
          rl_green = bucket_new alloc now capacity,
          rl_blue = bucket_new alloc before capacity\<rparr>)"

section \<open>The decision for one request\<close>

definition is_within_curr_bucket_window :: "'ip rate_limiter \<Rightarrow> instant \<Rightarrow> instant \<Rightarrow> bool" where
  "is_within_curr_bucket_window rl now curr_starts_at \<longleftrightarrow>
     now < curr_starts_at + int (rl_sampling_period rl)"

definition is_outside_next_monothonic_window :: "'ip rate_limiter \<Rightarrow> instant \<Rightarrow> instant \<Rightarrow> bool" where
  "is_outside_next_monothonic_window rl now curr_starts_at \<longleftrightarrow>
     curr_starts_at + 2 * int (rl_sampling_period rl) \<le> now"

text \<open>
  The weighted count of the previous window, in 64-bit arithmetic. Dividing by the whole
  seconds of a period shorter than one second is a panic.
\<close>

definition get_approx :: "u16 \<Rightarrow> duration \<Rightarrow> duration \<Rightarrow> u64 option" where
  "get_approx prev_counter window_needle sampling_period =
     (if sampling_period \<le> window_needle then Some 0
      else if as_secs sampling_period = 0 then None
      else Some (ucast prev_counter * (as_secs sampling_period - as_secs window_needle)
                 div as_secs sampling_period))"

definition is_green_current :: "'ip rate_limiter \<Rightarrow> bool" where
  "is_green_current rl \<longleftrightarrow> bkt_starts_at (rl_blue rl) \<le> bkt_starts_at (rl_green rl)"

definition curr_bucket :: "'ip rate_limiter \<Rightarrow> 'ip bucket" where
  "curr_bucket rl = (if is_green_current rl then rl_green rl else rl_blue rl)"

definition prev_bucket :: "'ip rate_limiter \<Rightarrow> 'ip bucket" where
  "prev_bucket rl = (if is_green_current rl then rl_blue rl else rl_green rl)"

definition set_curr_bucket :: "'ip rate_limiter \<Rightarrow> 'ip bucket \<Rightarrow> 'ip rate_limiter" where
  "set_curr_bucket rl b =
     (if is_green_current rl then rl\<lparr>rl_green := b\<rparr> else rl\<lparr>rl_blue := b\<rparr>)"

text \<open>The first half of \<open>can_resume\<close>: open a new window when the current one has passed.\<close>

definition rollover :: "(nat \<Rightarrow> nat) \<Rightarrow> instant \<Rightarrow> 'ip rate_limiter \<Rightarrow> 'ip rate_limiter" where
  "rollover alloc now rl =
     (let starts_at = (if is_green_current rl then bkt_starts_at (rl_green rl)
                       else bkt_starts_at (rl_blue rl))
      in if \<not> is_within_curr_bucket_window rl now starts_at \<and> rl_sampling_period rl > 0 then
           let capacity = bkt_capacity (rl_green rl)
           in if is_outside_next_monothonic_window rl now (bkt_starts_at (rl_green rl)) then
                rl\<lparr>rl_green := bucket_new alloc now capacity,
                   rl_blue := bucket_new alloc now capacity\<rparr>
              else if is_green_current rl then
                rl\<lparr>rl_blue := bucket_new alloc
                     (bkt_starts_at (rl_green rl) + int (rl_sampling_period rl)) capacity\<rparr>
              else
                rl\<lparr>rl_green := bucket_new alloc
                     (bkt_starts_at (rl_blue rl) + int (rl_sampling_period rl)) capacity\<rparr>
         else rl)"

text \<open>
  Counting the request in the current bucket: an address already present is incremented, a
  new one is refused when the map is full.
\<close>

definition count_request :: "'ip \<Rightarrow> 'ip bucket \<Rightarrow> unit + 'ip bucket \<times> u16" where
  "count_request ip b =
     (case map_of (bkt_inner b) ip of
        Some c \<Rightarrow>
          (let c' = increment c
           in Inr (b\<lparr>bkt_inner := AList.update ip c' (bkt_inner b)\<rparr>, ctr_sum c'))
      | None \<Rightarrow>
          if bkt_capacity b = length (bkt_inner b) then Inl ()
          else (let c' = increment counter_new
                in Inr (b\<lparr>bkt_inner := AList.update ip c' (bkt_inner b)\<rparr>, ctr_sum c')))"

definition can_resume ::
  "(nat \<Rightarrow> nat) \<Rightarrow> 'ip \<Rightarrow> instant \<Rightarrow> instant \<Rightarrow> 'ip rate_limiter \<Rightarrow>
     ('ip rate_limiter \<times> (unit + bool)) option" where
  "can_resume alloc ip now later rl =
     (if rl_limit rl = 0 then Some (rl, Inr False)
      else let rl = rollover alloc now rl
           in case count_request ip (curr_bucket rl) of
                Inl e \<Rightarrow> Some (rl, Inl e)
              | Inr (b, curr_sum) \<Rightarrow>
                  let prev_sum = (case map_of (bkt_inner (prev_bucket rl)) ip of
                                    Some c \<Rightarrow> ctr_sum c | None \<Rightarrow> 0)
                  in map_option
                       (\<lambda>approx. (set_curr_bucket rl b,
                                  Inr (approx + ucast curr_sum \<le> ucast (rl_limit rl))))
                       (get_approx prev_sum (elapsed later (bkt_starts_at (curr_bucket rl)))
                          (rl_sampling_period rl)))"

section \<open>The worker task and the HTTP answer\<close>

text \<open>
  The task of \<open>get_rate_limit_handle\<close> owns the limiter and answers the probes in the order
  of the channel. A probe is the address with the two clock readings of its call.
\<close>

type_synonym 'ip probe = "'ip \<times> instant \<times> instant"

fun limiter_worker ::
  "(nat \<Rightarrow> nat) \<Rightarrow> 'ip rate_limiter \<Rightarrow> 'ip probe list \<Rightarrow> ('ip rate_limiter \<times> (unit + bool) list) option" where
  "limiter_worker alloc rl [] = Some (rl, [])"
| "limiter_worker alloc rl ((ip, now, later) # ps) =
     (case can_resume alloc ip now later rl of
        None \<Rightarrow> None
      | Some (rl', r) \<Rightarrow> map_option (apsnd ((#) r)) (limiter_worker alloc rl' ps))"

definition get_rate_limit_handle ::
  "(nat \<Rightarrow> nat) \<Rightarrow> u16 \<Rightarrow> u16 \<Rightarrow> nat \<Rightarrow> instant \<Rightarrow> instant \<Rightarrow> 'ip probe list \<Rightarrow>
     ('ip rate_limiter \<times> (unit + bool) list) option" where
  "get_rate_limit_handle alloc cfg_max window capacity now later ps =
     limiter_worker alloc
       (rate_limiter_new alloc cfg_max (from_secs (unat window)) capacity now later) ps"

text \<open>
  The caller's side: the answer is \<open>None\<close> when the request may go on, else a response.
  \<open>sent\<close> says whether the channel took the probe; \<open>answer\<close> is \<open>None\<close> when the
  task dropped the reply channel.
\<close>

definition limit_http_request :: "bool \<Rightarrow> (unit + bool) option \<Rightarrow> response option" where
  "limit_http_request sent answer =
     (if \<not> sent then Some new_internal_error_response_500
      else case answer of
             None \<Rightarrow> Some new_internal_error_response_500
           | Some (Inl _) \<Rightarrow> Some new_service_unavailable_error_503
           | Some (Inr resume) \<Rightarrow> if \<not> resume then Some new_too_many_requests_response_429 else None)"

section \<open>Arithmetic of the weighted count\<close>

lemma unat_increment [simp]: "unat (ctr_sum (increment c)) = min (Suc (unat (ctr_sum c))) 65535"
  by (simp add: increment_def unat_saturating_add)

lemma ctr_sum_new [simp]: "ctr_sum counter_new = 0"
  by (simp add: counter_new_def)

lemma unat_increment_new [simp]: "unat (ctr_sum (increment counter_new)) = 1"
  by (simp add: counter_new_def)

lemma unat_as_secs: "d < 2 ^ 64 \<Longrightarrow> unat (as_secs d) = d div 1000000000"
  by (simp add: as_secs_def unat_of_nat take_bit_nat_eq_self)

lemma div_less_of_less:
  fixes a b :: nat
  assumes "a < b" and "b \<le> m"
  shows "a div n \<le> m"
  using assms div_le_dividend [of a n] by linarith

lemma get_approx_from_secs:
  assumes "0 < window" and "window < 65536" and "needle < from_secs window"
  shows "\<exists>a. get_approx prev needle (from_secs window) = Some a
           \<and> unat a = unat prev * (window - needle div 1000000000) div window"
proof -
  let ?S = "as_secs (from_secs window)" and ?N = "as_secs needle"
  have small: "from_secs window < 2 ^ 64" using assms(2) by (simp add: from_secs_def)
  then have S: "unat ?S = window" by (simp add: unat_as_secs)
  from small assms(3) have N: "unat ?N = needle div 1000000000"
    by (intro unat_as_secs) linarith
  have le: "needle div 1000000000 \<le> window"
    using assms(3) div_le_mono [of needle "from_secs window" 1000000000] by simp
  then have "?N \<le> ?S" by (simp add: word_le_nat_alt S N)
  then have D: "unat (?S - ?N) = window - needle div 1000000000"
    by (simp add: unat_sub S N)
  have "unat prev * (window - needle div 1000000000) < 2 ^ 16 * 2 ^ 16"
  proof (rule mult_strict_mono')
    show "unat prev < 2 ^ 16" by simp
    show "window - needle div 1000000000 < 2 ^ 16" using assms(2) by simp
  qed simp_all
  then have M: "unat (ucast prev * (?S - ?N)) = unat prev * (window - needle div 1000000000)"
    by (simp add: unat_word_ariths D)
  have "?S \<noteq> 0" using S assms(1) by (metis less_irrefl unat_0)
  with assms(3) show ?thesis
    by (simp add: get_approx_def not_le unat_div M S)
qed

lemma get_approx_past: "period \<le> needle \<Longrightarrow> get_approx prev needle period = Some 0"
  by (simp add: get_approx_def)

text \<open>The weight of a previous count, as the documentation gives it, on natural numbers.\<close>

definition weighted :: "nat \<Rightarrow> nat \<Rightarrow> duration \<Rightarrow> nat" where
  "weighted prev window needle =
     (if from_secs window \<le> needle then 0
      else prev * (window - needle div 1000000000) div window)"

lemma weighted_le: "weighted prev window needle \<le> prev"
proof (cases "from_secs window \<le> needle")
  case False
  then have "0 < window" by (cases window) (auto simp: from_secs_def)
  moreover have "prev * (window - needle div 1000000000) div window \<le> prev * window div window"
    by (intro div_le_mono mult_le_mono) simp_all
  ultimately show ?thesis by (simp add: weighted_def)
qed (simp add: weighted_def)

lemma weighted_0 [simp]: "weighted 0 window needle = 0"
  by (simp add: weighted_def)

lemma get_approx_weighted:
  assumes "window < 65536"
  shows "\<exists>a. get_approx prev needle (from_secs window) = Some a
           \<and> unat a = weighted (unat prev) window needle"
proof (cases "from_secs window \<le> needle")
  case True
  then show ?thesis by (simp add: get_approx_past weighted_def)
next
  case False
  then have "0 < window" by (cases window) (auto simp: from_secs_def)
  with False assms get_approx_from_secs [of window needle prev] show ?thesis
    by (auto simp: weighted_def)
qed

lemma admit_test_nat:
  fixes a :: u64 and c l :: u16
  assumes "unat a \<le> 65535"
  shows "a + ucast c \<le> ucast l \<longleftrightarrow> unat a + unat c \<le> unat l"
proof -
  have "unat a + unat c < 18446744073709551616" using assms u16_less [of c] by linarith
  then show ?thesis
    by (simp add: word_le_nat_alt unat_word_ariths)
qed

section \<open>Invariants of the two buckets\<close>

text \<open>
  The start of blue is at most one period away from the start of green: this is what the
  rollover keeps, and it makes its last branch unreachable.
\<close>

definition windows_adjacent :: "'ip rate_limiter \<Rightarrow> bool" where
  "windows_adjacent rl \<longleftrightarrow>
     bkt_starts_at (rl_blue rl) \<in>
       {bkt_starts_at (rl_green rl) - int (rl_sampling_period rl),
        bkt_starts_at (rl_green rl),
        bkt_starts_at (rl_green rl) + int (rl_sampling_period rl)}"

definition bucket_ok :: "'ip bucket \<Rightarrow> bool" where
  "bucket_ok b \<longleftrightarrow> distinct (map fst (bkt_inner b)) \<and> length (bkt_inner b) \<le> bkt_capacity b"

definition limiter_ok :: "'ip rate_limiter \<Rightarrow> bool" where
  "limiter_ok rl \<longleftrightarrow> windows_adjacent rl \<and> rl_limit rl \<noteq> - 1
     \<and> bucket_ok (rl_green rl) \<and> bucket_ok (rl_blue rl)"

inductive limiter_reachable :: "(nat \<Rightarrow> nat) \<Rightarrow> 'ip rate_limiter \<Rightarrow> bool" for alloc where
  start: "limiter_reachable alloc (rate_limiter_new alloc limit period capacity now later)"
| request: "limiter_reachable alloc rl \<Longrightarrow> can_resume alloc ip now later rl = Some (rl', r) \<Longrightarrow>
     limiter_reachable alloc rl'"

lemma bucket_new_simps [simp]:
  "bkt_starts_at (bucket_new alloc t n) = t"
  "bkt_inner (bucket_new alloc t n) = []"
  "bkt_capacity (bucket_new alloc t n) = alloc n"
  "bucket_ok (bucket_new alloc t n)"
  by (simp_all add: bucket_new_def bucket_ok_def)

lemma limiter_ok_new: "limiter_ok (rate_limiter_new alloc limit period capacity now later)"
  by (simp add: limiter_ok_def rate_limiter_new_def windows_adjacent_def create_prev_window_def)

lemma blue_current_expired_is_outside:
  assumes "windows_adjacent rl" and "\<not> is_green_current rl"
    and "\<not> is_within_curr_bucket_window rl now (bkt_starts_at (rl_blue rl))"
  shows "is_outside_next_monothonic_window rl now (bkt_starts_at (rl_green rl))"
  using assms
  by (auto simp: windows_adjacent_def is_green_current_def is_within_curr_bucket_window_def
      is_outside_next_monothonic_window_def)

lemma rollover_fields [simp]:
  "rl_limit (rollover alloc now rl) = rl_limit rl"
  "rl_sampling_period (rollover alloc now rl) = rl_sampling_period rl"
  by (simp_all add: rollover_def Let_def)

lemma rollover_within:
  "is_within_curr_bucket_window rl now (bkt_starts_at (curr_bucket rl)) \<Longrightarrow> rollover alloc now rl = rl"
  by (auto simp: rollover_def curr_bucket_def)

lemma limiter_ok_rollover:
  assumes "limiter_ok rl"
  shows "limiter_ok (rollover alloc now rl)"
  using assms blue_current_expired_is_outside [of rl now]
  by (auto simp: limiter_ok_def rollover_def Let_def windows_adjacent_def)

lemma count_request_starts [result_simps]:
  "count_request ip b = Inr (b', n) \<Longrightarrow> bkt_starts_at b' = bkt_starts_at b \<and> bkt_capacity b' = bkt_capacity b"
  by (auto simp: count_request_def Let_def split: option.splits if_splits)

lemma length_update: "length (AList.update k v al) = (if k \<in> fst ` set al then length al else Suc (length al))"
  by (induction al) auto

lemma bucket_ok_count:
  assumes "bucket_ok b" and "count_request ip b = Inr (b', n)"
  shows "bucket_ok b'"
proof (cases "map_of (bkt_inner b) ip")
  case None
  then have "ip \<notin> fst ` set (bkt_inner b)" by (simp add: map_of_eq_None_iff)
  with assms None show ?thesis
    by (auto simp: count_request_def Let_def bucket_ok_def distinct_update length_update split: if_splits)
next
  case (Some c)
  then have "ip \<in> fst ` set (bkt_inner b)" by (metis map_of_eq_None_iff option.distinct(1))
  moreover have "b' = b\<lparr>bkt_inner := AList.update ip (increment c) (bkt_inner b)\<rparr>"
    using Some assms(2) by (simp add: count_request_def Let_def)
  ultimately show ?thesis
    using assms(1) by (simp add: bucket_ok_def distinct_update length_update)
qed

lemma is_green_current_set_curr [simp]:
  "bkt_starts_at b = bkt_starts_at (curr_bucket rl) \<Longrightarrow>
     is_green_current (set_curr_bucket rl b) = is_green_current rl"
  by (auto simp: is_green_current_def set_curr_bucket_def curr_bucket_def)

lemma curr_bucket_set_curr [simp]:
  "bkt_starts_at b = bkt_starts_at (curr_bucket rl) \<Longrightarrow> curr_bucket (set_curr_bucket rl b) = b"
  by (auto simp: curr_bucket_def set_curr_bucket_def is_green_current_def split: if_splits)

lemma prev_bucket_set_curr [simp]:
  "bkt_starts_at b = bkt_starts_at (curr_bucket rl) \<Longrightarrow>
     prev_bucket (set_curr_bucket rl b) = prev_bucket rl"
  by (auto simp: curr_bucket_def prev_bucket_def set_curr_bucket_def is_green_current_def split: if_splits)

lemma set_curr_bucket_fields [simp]:
  "rl_limit (set_curr_bucket rl b) = rl_limit rl"
  "rl_sampling_period (set_curr_bucket rl b) = rl_sampling_period rl"
  by (simp_all add: set_curr_bucket_def)

lemma limiter_ok_set_curr:
  assumes "limiter_ok rl" and "bucket_ok b" and "bkt_starts_at b = bkt_starts_at (curr_bucket rl)"
  shows "limiter_ok (set_curr_bucket rl b)"
  using assms
  by (auto simp: limiter_ok_def set_curr_bucket_def curr_bucket_def windows_adjacent_def)

lemma limiter_ok_curr: "limiter_ok rl \<Longrightarrow> bucket_ok (curr_bucket rl)"
  by (simp add: limiter_ok_def curr_bucket_def)

lemma limiter_ok_can_resume:
  assumes "limiter_ok rl" and "can_resume alloc ip now later rl = Some (rl', r)"
  shows "limiter_ok rl'"
proof (cases "rl_limit rl = 0")
  case True
  with assms show ?thesis by (simp add: can_resume_def)
next
  case False
  let ?rl = "rollover alloc now rl"
  have ok: "limiter_ok ?rl" by (rule limiter_ok_rollover [OF assms(1)])
  show ?thesis
  proof (cases "count_request ip (curr_bucket ?rl)")
    case (Inl e)
    with False assms(2) ok show ?thesis by (simp add: can_resume_def)
  next
    case (Inr p)
    obtain b n where p: "p = (b, n)" by (cases p)
    have "bucket_ok b" using bucket_ok_count [OF limiter_ok_curr [OF ok]] Inr p by blast
    moreover have "bkt_starts_at b = bkt_starts_at (curr_bucket ?rl)"
      using count_request_starts [of ip "curr_bucket ?rl" b n] Inr p by simp
    ultimately have "limiter_ok (set_curr_bucket ?rl b)"
      by (rule limiter_ok_set_curr [OF ok])
    with False assms(2) Inr p show ?thesis by (auto simp: can_resume_def Let_def)
  qed
qed

lemma limiter_reachable_ok: "limiter_reachable alloc rl \<Longrightarrow> limiter_ok rl"
  by (induction rule: limiter_reachable.induct) (simp_all add: limiter_ok_new limiter_ok_can_resume)

section \<open>What a call does inside the current window\<close>

text \<open>
  \<open>hits\<close> reads a bucket's count for one address, \<open>in_window\<close> says that a call at this
  instant stays in the current window, \<open>period_ok\<close> that the period is a whole number of
  seconds that fits 16 bits, as \<open>get_rate_limit_handle\<close> makes it.
\<close>

definition hits :: "'ip \<Rightarrow> 'ip bucket \<Rightarrow> nat" where
  "hits ip b = (case map_of (bkt_inner b) ip of Some c \<Rightarrow> unat (ctr_sum c) | None \<Rightarrow> 0)"

definition has_room :: "'ip \<Rightarrow> 'ip bucket \<Rightarrow> bool" where
  "has_room ip b \<longleftrightarrow> map_of (bkt_inner b) ip \<noteq> None \<or> length (bkt_inner b) \<noteq> bkt_capacity b"

definition period_ok :: "nat \<Rightarrow> 'ip rate_limiter \<Rightarrow> bool" where
  "period_ok window rl \<longleftrightarrow> window < 65536 \<and> rl_sampling_period rl = from_secs window"

definition in_window :: "instant \<Rightarrow> 'ip rate_limiter \<Rightarrow> bool" where
  "in_window now rl \<longleftrightarrow>
     is_within_curr_bucket_window rl now (bkt_starts_at (curr_bucket rl)) \<or> rl_sampling_period rl = 0"

lemma hits_bucket_new [simp]: "hits ip (bucket_new alloc t n) = 0"
  by (simp add: hits_def)

lemma rollover_in_window [simp]: "in_window now rl \<Longrightarrow> rollover alloc now rl = rl"
  by (auto simp: in_window_def rollover_within) (simp add: rollover_def)

lemma period_ok_rollover [simp]: "period_ok w (rollover alloc now rl) = period_ok w rl"
  by (simp add: period_ok_def)

lemma count_request_Inl: "count_request ip b = Inl e \<longleftrightarrow> \<not> has_room ip b"
  by (auto simp: count_request_def has_room_def Let_def split: option.splits)

lemma count_request_hits:
  assumes "count_request ip b = Inr (b', n)"
  shows "unat n = min (Suc (hits ip b)) 65535" and "hits ip b' = unat n"
    and "ip' \<noteq> ip \<Longrightarrow> hits ip' b' = hits ip' b"
  using assms
  by (auto simp: count_request_def hits_def Let_def update_conv' split: option.splits if_splits)

lemma hits_le: "hits ip b \<le> 65535"
  by (simp add: hits_def split: option.splits)

lemma prev_sum_hits:
  "unat (case map_of (bkt_inner b) ip of Some c \<Rightarrow> ctr_sum c | None \<Rightarrow> 0) = hits ip b"
  by (simp add: hits_def split: option.splits)

text \<open>The decision on natural numbers, with every machine-integer operation discharged.\<close>

lemma can_resume_room:
  assumes "rl_limit rl \<noteq> 0" and "period_ok w rl"
    and "has_room ip (curr_bucket (rollover alloc now rl))"
  shows "\<exists>b. can_resume alloc ip now later rl =
      Some (set_curr_bucket (rollover alloc now rl) b,
            Inr (weighted (hits ip (prev_bucket (rollover alloc now rl))) w
                   (elapsed later (bkt_starts_at (curr_bucket (rollover alloc now rl))))
                 + min (Suc (hits ip (curr_bucket (rollover alloc now rl)))) 65535
                 \<le> unat (rl_limit rl)))
    \<and> count_request ip (curr_bucket (rollover alloc now rl)) =
        Inr (b, of_nat (min (Suc (hits ip (curr_bucket (rollover alloc now rl)))) 65535))"
proof -
  let ?rl = "rollover alloc now rl"
  let ?prev = "case map_of (bkt_inner (prev_bucket ?rl)) ip of Some c \<Rightarrow> ctr_sum c | None \<Rightarrow> 0"
  let ?needle = "elapsed later (bkt_starts_at (curr_bucket ?rl))"
  obtain b n where C: "count_request ip (curr_bucket ?rl) = Inr (b, n)"
    using assms(3) count_request_Inl [of ip "curr_bucket ?rl"]
    by (cases "count_request ip (curr_bucket ?rl)") auto
  from assms(2) have w: "w < 65536" and P: "rl_sampling_period ?rl = from_secs w"
    by (simp_all add: period_ok_def)
  obtain a where A: "get_approx ?prev ?needle (from_secs w) = Some a"
    and a: "unat a = weighted (hits ip (prev_bucket ?rl)) w ?needle"
    using get_approx_weighted [OF w, of ?prev ?needle] by (auto simp: prev_sum_hits)
  have le: "unat a \<le> 65535"
    unfolding a by (rule le_trans [OF weighted_le hits_le])
  have n: "unat n = min (Suc (hits ip (curr_bucket ?rl))) 65535"
    by (rule count_request_hits(1) [OF C])
  have "n = of_nat (min (Suc (hits ip (curr_bucket ?rl))) 65535)"
  proof -
    have "n = of_nat (unat n)" by simp
    then show ?thesis by (simp only: n)
  qed
  with C show ?thesis
    using assms(1) A admit_test_nat [OF le, of n "rl_limit rl"] a n P
    by (simp add: can_resume_def Let_def)
qed

lemma can_resume_full:
  assumes "rl_limit rl \<noteq> 0" and "\<not> has_room ip (curr_bucket (rollover alloc now rl))"
  shows "can_resume alloc ip now later rl = Some (rollover alloc now rl, Inl ())"
  using assms count_request_Inl [of ip "curr_bucket (rollover alloc now rl)" "()"]
  by (simp add: can_resume_def)

section \<open>Admission inside one window\<close>

text \<open>
  The limiter as a provider of the admission contract: inside one window (or with a zero
  period) the current bucket counts every request of an address, so at most \<open>limit\<close> of them
  are admitted. The contract needs \<open>limit < 65535\<close>: a saturated counter would not grow.
\<close>

definition limiter_serve ::
  "(nat \<Rightarrow> nat) \<Rightarrow> 'ip rate_limiter \<Rightarrow> 'ip probe \<Rightarrow> 'ip rate_limiter \<times> bool" where
  "limiter_serve alloc rl p =
     (case p of (ip, now, later) \<Rightarrow>
        case can_resume alloc ip now later rl of
          None \<Rightarrow> (rl, False)
        | Some (rl', r) \<Rightarrow> (rl', r = Inr True))"

definition admission_inv :: "'ip rate_limiter \<Rightarrow> bool" where
  "admission_inv rl \<longleftrightarrow> rl_limit rl \<noteq> - 1 \<and> (\<exists>w. period_ok w rl)"

definition probe_in_window :: "'ip rate_limiter \<Rightarrow> 'ip probe \<Rightarrow> bool" where
  "probe_in_window rl p \<longleftrightarrow> in_window (fst (snd p)) rl"

lemma limit_less: "l \<noteq> - 1 \<Longrightarrow> unat l < 65535" for l :: u16
proof (rule ccontr)
  assume "l \<noteq> - 1" and "\<not> unat l < 65535"
  then have "unat l = 65535" using u16_le [of l] by linarith
  then have "l = of_nat 65535" by (metis of_nat_unat ucast_id)
  with \<open>l \<noteq> - 1\<close> show False by simp
qed

lemma limiter_serve_step:
  assumes inv: "admission_inv rl" and w: "in_window now rl"
  shows "admission_inv (fst (limiter_serve alloc rl (ip, now, later)))"
    and "rl_limit (fst (limiter_serve alloc rl (ip, now, later))) = rl_limit rl"
    and "hits c (curr_bucket rl) \<le> hits c (curr_bucket (fst (limiter_serve alloc rl (ip, now, later))))"
    and "snd (limiter_serve alloc rl (ip, now, later)) \<Longrightarrow>
      hits ip (curr_bucket rl) < hits ip (curr_bucket (fst (limiter_serve alloc rl (ip, now, later))))
      \<and> hits ip (curr_bucket (fst (limiter_serve alloc rl (ip, now, later)))) \<le> unat (rl_limit rl)"
proof -
  let ?r = "limiter_serve alloc rl (ip, now, later)"
  obtain p where p: "period_ok p rl" using inv by (auto simp: admission_inv_def)
  have R: "rollover alloc now rl = rl" using w by simp
  have "admission_inv (fst ?r) \<and> rl_limit (fst ?r) = rl_limit rl
      \<and> hits c (curr_bucket rl) \<le> hits c (curr_bucket (fst ?r))
      \<and> (snd ?r \<longrightarrow> hits ip (curr_bucket rl) < hits ip (curr_bucket (fst ?r))
           \<and> hits ip (curr_bucket (fst ?r)) \<le> unat (rl_limit rl))"
  proof (cases "rl_limit rl = 0 \<or> \<not> has_room ip (curr_bucket rl)")
    case True
    then have "fst ?r = rl \<and> \<not> snd ?r"
      using can_resume_full [of rl ip alloc now later] R
      by (auto simp: limiter_serve_def can_resume_def)
    with inv show ?thesis by simp
  next
    case False
    then obtain b where S: "?r = (set_curr_bucket rl b,
        weighted (hits ip (prev_bucket rl)) p (elapsed later (bkt_starts_at (curr_bucket rl)))
          + min (Suc (hits ip (curr_bucket rl))) 65535 \<le> unat (rl_limit rl))"
      and C: "count_request ip (curr_bucket rl) =
        Inr (b, of_nat (min (Suc (hits ip (curr_bucket rl))) 65535))"
      using can_resume_room [of rl p ip alloc now later] p R by (auto simp: limiter_serve_def)
    note H = count_request_hits [OF C]
    have B: "curr_bucket (set_curr_bucket rl b) = b"
      using count_request_starts [OF C] by simp
    have lim: "unat (rl_limit rl) < 65535"
      using inv limit_less by (auto simp: admission_inv_def)
    have own: "hits ip b = min (Suc (hits ip (curr_bucket rl))) 65535"
      using H(1,2) by simp
    have "hits c (curr_bucket rl) \<le> hits c b"
      using own hits_le [of ip "curr_bucket rl"] H(3) by (cases "c = ip") auto
    moreover have "admission_inv (set_curr_bucket rl b)"
      using inv by (simp add: admission_inv_def period_ok_def)
    ultimately show ?thesis
      using own lim by (auto simp: S B)
  qed
  then show "admission_inv (fst ?r)" and "rl_limit (fst ?r) = rl_limit rl"
    and "hits c (curr_bucket rl) \<le> hits c (curr_bucket (fst ?r))"
    and "snd ?r \<Longrightarrow> hits ip (curr_bucket rl) < hits ip (curr_bucket (fst ?r))
        \<and> hits ip (curr_bucket (fst ?r)) \<le> unat (rl_limit rl)"
    by simp_all
qed

interpretation window: admission admission_inv probe_in_window "limiter_serve alloc"
  "\<lambda>q. fst q = ip" "\<lambda>rl. hits ip (curr_bucket rl)" "\<lambda>rl. unat (rl_limit rl)"
  for alloc and ip :: 'ip
proof (unfold_locales, goal_cases)
  case (1 s q)
  then show ?case by (cases q) (auto simp: probe_in_window_def limiter_serve_step(1))
next
  case (2 s q)
  then show ?case by (cases q) (auto simp: probe_in_window_def limiter_serve_step(2))
next
  case (3 s q)
  then show ?case by (cases q) (auto simp: probe_in_window_def limiter_serve_step(3))
next
  case (4 s q)
  then show ?case
    using limiter_serve_step(4) [of s "fst (snd q)" alloc ip "snd (snd q)"]
    by (cases q) (auto simp: probe_in_window_def)
qed

section \<open>The worker over a sequence of probes\<close>

lemma can_resume_Some: "period_ok w rl \<Longrightarrow> \<exists>rl' r. can_resume alloc ip now later rl = Some (rl', r) \<and> period_ok w rl'"
proof (cases "rl_limit rl = 0")
  case True
  then show "period_ok w rl \<Longrightarrow> ?thesis" by (simp add: can_resume_def)
next
  case False
  assume p: "period_ok w rl"
  show ?thesis
  proof (cases "has_room ip (curr_bucket (rollover alloc now rl))")
    case True
    show ?thesis
      using can_resume_room [OF False p True, of later] p by (auto simp: period_ok_def)
  next
    case no_room: False
    show ?thesis
      using can_resume_full [OF False no_room, of later] p by simp
  qed
qed

lemma limiter_worker_Some:
  "period_ok w rl \<Longrightarrow> \<exists>rl' rs. limiter_worker alloc rl ps = Some (rl', rs) \<and> length rs = length ps"
proof (induction ps arbitrary: rl)
  case Nil
  then show ?case by simp
next
  case (Cons p ps)
  obtain ip now later where p: "p = (ip, now, later)" by (cases p) auto
  from can_resume_Some [OF Cons.prems] obtain rl' r
    where R: "can_resume alloc ip now later rl = Some (rl', r)" and ok: "period_ok w rl'"
    by blast
  from Cons.IH [OF ok] show ?case by (auto simp: p R)
qed

lemma limiter_worker_ok:
  "limiter_worker alloc rl ps = Some (rl', rs) \<Longrightarrow> limiter_ok rl \<Longrightarrow> limiter_ok rl'"
  by (induction alloc rl ps arbitrary: rs rule: limiter_worker.induct)
    (auto split: option.splits prod.splits dest: limiter_ok_can_resume)

lemma limiter_worker_append:
  "limiter_worker alloc rl (ps @ qs) =
     (case limiter_worker alloc rl ps of
        None \<Rightarrow> None
      | Some (rl', rs) \<Rightarrow> map_option (apsnd ((@) rs)) (limiter_worker alloc rl' qs))"
  by (induction alloc rl ps rule: limiter_worker.induct)
    (auto simp: map_option_case apsnd_def map_prod_def split: option.splits prod.splits)

lemma in_window_rollover:
  assumes "limiter_ok rl"
  shows "in_window now (rollover alloc now rl)"
  using assms blue_current_expired_is_outside [of rl now]
  by (auto simp: limiter_ok_def rollover_def Let_def in_window_def curr_bucket_def is_green_current_def
      is_within_curr_bucket_window_def is_outside_next_monothonic_window_def)

lemma can_resume_rollover:
  assumes "limiter_ok rl" and "rl_limit rl \<noteq> 0"
  shows "can_resume alloc ip now later rl = can_resume alloc ip now later (rollover alloc now rl)"
  using assms in_window_rollover [OF assms(1), of now alloc] by (simp add: can_resume_def)

lemma set_curr_bucket_id [simp]: "set_curr_bucket rl (curr_bucket rl) = rl"
  by (simp add: set_curr_bucket_def curr_bucket_def)

lemma set_curr_bucket_twice [simp]:
  "bkt_starts_at b = bkt_starts_at (curr_bucket rl) \<Longrightarrow>
     set_curr_bucket (set_curr_bucket rl b) b' = set_curr_bucket rl b'"
  by (subst set_curr_bucket_def) (simp, simp add: set_curr_bucket_def)

lemma count_request_room: "count_request ip b = Inr (b', n) \<Longrightarrow> has_room ip b'"
  by (auto simp: count_request_def has_room_def Let_def update_conv' split: option.splits if_splits)

text \<open>A burst of one address in one window is admitted as long as the count stays in the limit.\<close>

lemma burst_in_window:
  assumes "period_ok w rl" and "rl_limit rl \<noteq> - 1" and "in_window now rl"
    and "hits ip (prev_bucket rl) = 0" and "has_room ip (curr_bucket rl)"
    and "hits ip (curr_bucket rl) + n \<le> unat (rl_limit rl)"
  shows "\<exists>b. limiter_worker alloc rl (replicate n (ip, now, later)) =
        Some (set_curr_bucket rl b, replicate n (Inr True))
    \<and> bkt_starts_at b = bkt_starts_at (curr_bucket rl)"
  using assms
proof (induction n arbitrary: rl)
  case 0
  then show ?case by (intro exI [of _ "curr_bucket rl"]) simp
next
  case (Suc n)
  have R: "rollover alloc now rl = rl" using Suc.prems(3) by simp
  have nz: "rl_limit rl \<noteq> 0" using Suc.prems(6) by (metis add_is_0 le_zero_eq nat.distinct(1) unat_0)
  obtain b where S: "can_resume alloc ip now later rl = Some (set_curr_bucket rl b,
        Inr (min (Suc (hits ip (curr_bucket rl))) 65535 \<le> unat (rl_limit rl)))"
    and C: "count_request ip (curr_bucket rl) =
        Inr (b, of_nat (min (Suc (hits ip (curr_bucket rl))) 65535))"
    using can_resume_room [of rl w ip alloc now later] Suc.prems nz R by auto
  note st = count_request_starts [OF C]
  have step: "min (Suc (hits ip (curr_bucket rl))) 65535 \<le> unat (rl_limit rl)"
    using Suc.prems(6) by simp
  let ?rl = "set_curr_bucket rl b"
  have "hits ip b + n \<le> unat (rl_limit rl)"
    using count_request_hits(1,2) [OF C] Suc.prems(6) by simp
  then obtain b' where "limiter_worker alloc ?rl (replicate n (ip, now, later)) =
        Some (set_curr_bucket ?rl b', replicate n (Inr True))"
    and "bkt_starts_at b' = bkt_starts_at (curr_bucket ?rl)"
    using Suc.IH [of ?rl] Suc.prems st count_request_room [OF C]
    by (auto simp: period_ok_def in_window_def is_within_curr_bucket_window_def)
  with S step st show ?case by auto
qed

lemma burst:
  assumes "period_ok w rl" and "limiter_ok rl" and "0 < n" and "n \<le> unat (rl_limit rl)"
    and "hits ip (prev_bucket (rollover alloc now rl)) = 0"
    and "hits ip (curr_bucket (rollover alloc now rl)) = 0"
    and "has_room ip (curr_bucket (rollover alloc now rl))"
  shows "\<exists>b. limiter_worker alloc rl (replicate n (ip, now, later)) =
        Some (set_curr_bucket (rollover alloc now rl) b, replicate n (Inr True))
    \<and> bkt_starts_at b = bkt_starts_at (curr_bucket (rollover alloc now rl))"
proof -
  have nz: "rl_limit rl \<noteq> 0" using assms(3,4) by auto
  obtain m where n: "n = Suc m" using assms(3) by (cases n) auto
  have "limiter_worker alloc rl (replicate n (ip, now, later)) =
        limiter_worker alloc (rollover alloc now rl) (replicate n (ip, now, later))"
    by (simp add: n can_resume_rollover [OF assms(2) nz])
  moreover have "rl_limit rl \<noteq> - 1" using assms(2) by (simp add: limiter_ok_def)
  ultimately show ?thesis
    using burst_in_window [of w "rollover alloc now rl" now ip n alloc later]
      assms in_window_rollover [OF assms(2), of now alloc] by simp
qed

section \<open>A small instance for the witnesses\<close>

definition demo_limiter :: "nat rate_limiter" where
  "demo_limiter = rate_limiter_new (\<lambda>n. n) 2 (from_secs 1) 4 0 0"

definition demo_probes :: "nat probe list" where
  "demo_probes = [(7, 0, 0), (7, 1, 1), (8, 1, 2), (7, 2, 2)]"

definition demo_blue :: "nat rate_limiter" where
  "demo_blue = fst (the (can_resume (\<lambda>n. n) 7 1999999999 1999999999 demo_limiter))"

lemmas limiter_eval = demo_limiter_def rate_limiter_new_def create_prev_window_def bucket_new_def
  elapsed_def from_secs_def as_secs_def increment_def counter_new_def saturating_add_def can_resume_def
  rollover_def count_request_def curr_bucket_def prev_bucket_def set_curr_bucket_def is_green_current_def
  is_within_curr_bucket_window_def is_outside_next_monothonic_window_def get_approx_def
  limiter_serve_def probe_in_window_def in_window_def hits_def has_room_def weighted_def Let_def

lemma demo_limiter_reachable: "limiter_reachable (\<lambda>n. n) demo_limiter"
  unfolding demo_limiter_def by (rule limiter_reachable.start)

lemma demo_limiter_period: "period_ok 1 demo_limiter"
  by (simp add: period_ok_def demo_limiter_def rate_limiter_new_def Let_def)

section \<open>Properties\<close>

text \<open>C1: whatever probes the worker answers inside one window, from any reachable state, one
  client address is admitted at most as often as the limit leaves after the requests already
  counted for it; requests of other addresses and refused requests do not enlarge this.\<close>

theorem window_budget:
  assumes "limiter_reachable alloc rl" and "period_ok w rl"
    and "run_ok probe_in_window (limiter_serve alloc) rl ps"
  shows "admitted (\<lambda>q. fst q = ip) ps (snd (serve_all (limiter_serve alloc) rl ps))
    \<le> unat (rl_limit rl) - hits ip (curr_bucket rl)"
proof (rule window.admitted_le_rest [OF _ assms(3)])
  show "admission_inv rl"
    using limiter_reachable_ok [OF assms(1)] assms(2)
    by (auto simp: limiter_ok_def admission_inv_def)
qed

theorem window_budget_witness:
  "admitted (\<lambda>q. fst q = 7) demo_probes
     (snd (serve_all (limiter_serve (\<lambda>n. n)) demo_limiter demo_probes)) \<le> 2"
proof -
  have run: "run_ok probe_in_window (limiter_serve (\<lambda>n. n)) demo_limiter demo_probes"
    by (simp add: demo_probes_def limiter_eval)
  have "unat (rl_limit demo_limiter) - hits 7 (curr_bucket demo_limiter) = 2" by (simp add: limiter_eval)
  from window_budget [OF demo_limiter_reachable demo_limiter_period run, of 7, unfolded this]
  show ?thesis .
qed

text \<open>C34: the decision of every call, on natural numbers: a zero limit refuses; a full bucket
  without the address is the capacity error; otherwise the request is admitted exactly when the
  weighted previous count plus the incremented current count stays in the limit. No call
  panics, overflows or divides by zero when the period is a whole number of seconds below 2^16.\<close>

theorem can_resume_decides:
  assumes "period_ok w rl"
  shows "map_option snd (can_resume alloc ip now later rl) =
    Some (let rl' = rollover alloc now rl
          in if rl_limit rl = 0 then Inr False
             else if \<not> has_room ip (curr_bucket rl') then Inl ()
             else Inr (weighted (hits ip (prev_bucket rl')) w
                         (elapsed later (bkt_starts_at (curr_bucket rl')))
                       + min (Suc (hits ip (curr_bucket rl'))) 65535 \<le> unat (rl_limit rl)))"
proof (cases "rl_limit rl = 0")
  case True
  then show ?thesis by (simp add: can_resume_def)
next
  case False
  then show ?thesis
    using can_resume_room [OF False assms, of ip alloc now later]
      can_resume_full [OF False, of ip alloc now later]
    by (cases "has_room ip (curr_bucket (rollover alloc now rl))") (auto simp: Let_def)
qed

theorem can_resume_decides_witness:
  "map_option snd (can_resume (\<lambda>n. n) 7 0 0 demo_limiter) = Some (Inr True)"
proof -
  have "(let rl' = rollover (\<lambda>n. n) 0 demo_limiter
          in if rl_limit demo_limiter = 0 then Inr False
             else if \<not> has_room 7 (curr_bucket rl') then Inl ()
             else Inr (weighted (hits 7 (prev_bucket rl')) 1
                         (elapsed 0 (bkt_starts_at (curr_bucket rl')))
                       + min (Suc (hits 7 (curr_bucket rl'))) 65535 \<le> unat (rl_limit demo_limiter)))
        = (Inr True :: unit + bool)"
    by (simp add: limiter_eval)
  then show ?thesis
    using can_resume_decides [OF demo_limiter_period, of "\<lambda>n. n" 7 0 0] by simp
qed

text \<open>The worker task survives every sequence of probes and answers each of them, for every
  configuration the rules file can express (16-bit limit and window, any capacity).\<close>

lemma worker_answers_every_probe:
  "\<exists>rl rs. get_rate_limit_handle alloc cfg_max window capacity now later ps = Some (rl, rs)
     \<and> length rs = length ps"
proof -
  have "period_ok (unat window)
      (rate_limiter_new alloc cfg_max (from_secs (unat window)) capacity now later)"
    by (simp add: period_ok_def rate_limiter_new_def Let_def)
  then show ?thesis
    unfolding get_rate_limit_handle_def by (rule limiter_worker_Some)
qed

text \<open>Reachable limiters keep their invariant: both buckets hold distinct addresses, at most
  as many as the reserved capacity, the two windows start at most one period apart, and the limit
  stays below the saturation value of the counters.\<close>

lemma limiter_invariant:
  assumes "limiter_reachable alloc rl"
  shows "bucket_ok (rl_green rl) \<and> bucket_ok (rl_blue rl)
    \<and> \<bar>bkt_starts_at (rl_blue rl) - bkt_starts_at (rl_green rl)\<bar> \<in> {0, int (rl_sampling_period rl)}
    \<and> unat (rl_limit rl) < 65535"
  using limiter_reachable_ok [OF assms] limit_less [of "rl_limit rl"]
  by (auto simp: limiter_ok_def windows_adjacent_def)

lemma limiter_invariant_witness:
  "bucket_ok (rl_green demo_limiter) \<and> unat (rl_limit demo_limiter) < 65535"
  using limiter_invariant [OF demo_limiter_reachable] by simp

text \<open>When blue is the current bucket and its window has passed, the next call of a reachable
  limiter always empties both buckets, however short the pause was: the requests of the window
  that just ended are forgotten, and the branch that would keep them is never taken. (The code
  tests the start of green, where the start of the current bucket is meant.)\<close>

lemma blue_window_is_forgotten:
  assumes "limiter_reachable alloc rl" and "\<not> is_green_current rl" and "0 < rl_sampling_period rl"
    and "bkt_starts_at (rl_blue rl) + int (rl_sampling_period rl) \<le> now"
  shows "rollover alloc now rl =
    rl\<lparr>rl_green := bucket_new alloc now (bkt_capacity (rl_green rl)),
       rl_blue := bucket_new alloc now (bkt_capacity (rl_green rl))\<rparr>"
proof -
  have "windows_adjacent rl" using limiter_reachable_ok [OF assms(1)] by (simp add: limiter_ok_def)
  then have "is_outside_next_monothonic_window rl now (bkt_starts_at (rl_green rl))"
    using blue_current_expired_is_outside assms(2,4) by (force simp: is_within_curr_bucket_window_def)
  with assms(2-4) show ?thesis
    by (simp add: rollover_def Let_def is_within_curr_bucket_window_def)
qed

lemma blue_window_is_forgotten_witness:
  "hits 7 (curr_bucket demo_blue) = 1 \<and>
   hits 7 (prev_bucket (rollover (\<lambda>n. n) 2000000000 demo_blue)) = 0"
proof -
  have "can_resume (\<lambda>n. n) 7 1999999999 1999999999 demo_limiter = Some (demo_blue, Inr True)"
    by (simp add: demo_blue_def limiter_eval)
  then have "limiter_reachable (\<lambda>n. n) demo_blue"
    by (rule limiter_reachable.request [OF demo_limiter_reachable])
  moreover have "\<not> is_green_current demo_blue" by (simp add: demo_blue_def limiter_eval)
  moreover have "0 < rl_sampling_period demo_blue" by (simp add: demo_blue_def limiter_eval)
  moreover have "bkt_starts_at (rl_blue demo_blue) + int (rl_sampling_period demo_blue) \<le> 2000000000"
    by (simp add: demo_blue_def limiter_eval)
  ultimately have "rollover (\<lambda>n. n) 2000000000 demo_blue =
      demo_blue\<lparr>rl_green := bucket_new (\<lambda>n. n) 2000000000 (bkt_capacity (rl_green demo_blue)),
        rl_blue := bucket_new (\<lambda>n. n) 2000000000 (bkt_capacity (rl_green demo_blue))\<rparr>"
    by (rule blue_window_is_forgotten)
  moreover have "hits 7 (curr_bucket demo_blue) = 1" by (simp add: demo_blue_def limiter_eval)
  ultimately show ?thesis by (simp add: prev_bucket_def)
qed

text \<open>
  A client that spends its limit at the end of the second window after the start, and again when the
  third opens: both bursts, for a limiter that has just been made.
\<close>

lemma rate_limiter_new_at_0:
  assumes "0 < P" and "unat cfg_max < 65535"
  shows "rate_limiter_new alloc cfg_max P capacity 0 0 = \<lparr>rl_limit = cfg_max, rl_sampling_period = P,
      rl_green = bucket_new alloc 0 capacity, rl_blue = bucket_new alloc 0 capacity\<rparr>"
proof -
  have "cfg_max \<noteq> - 1" using assms(2) by (auto simp: unsigned_minus_1_eq_mask mask_eq_exp_minus_1)
  then show ?thesis using assms(1) by (simp add: rate_limiter_new_def create_prev_window_def elapsed_def)
qed

lemma burst_ending_blue:
  fixes ip :: 'ip
  assumes "0 < unat cfg_max" and "unat cfg_max < 65535" and "0 < w" and "alloc capacity \<noteq> 0" "alloc (alloc capacity) \<noteq> 0" and w: "w < 65536"
    and t: "t = 2 * int (from_secs w)"
  shows "\<exists>b. limiter_worker alloc (rate_limiter_new alloc cfg_max (from_secs w) capacity 0 0) (replicate (unat cfg_max) (ip, t - 1, t - 1))
      = Some ((rate_limiter_new alloc cfg_max (from_secs w) capacity 0 0)\<lparr>rl_blue := b\<rparr>, replicate (unat cfg_max) (Inr True))
    \<and> bkt_starts_at b = int (from_secs w)"
proof -
  let ?P = "from_secs w" and ?n = "unat cfg_max"
  let ?new = "rate_limiter_new alloc cfg_max ?P capacity 0 0 :: 'ip rate_limiter"
  let ?roll = "rollover alloc (t - 1) ?new"
  have P: "0 < ?P" using assms(3) by simp
  note new = rate_limiter_new_at_0 [OF P assms(2)]
  have roll: "?roll = ?new\<lparr>rl_blue := bucket_new alloc (int ?P) (alloc capacity)\<rparr>"
    using P by (simp add: new t rollover_def is_green_current_def is_within_curr_bucket_window_def
        is_outside_next_monothonic_window_def)
  have blue: "curr_bucket ?roll = bucket_new alloc (int ?P) (alloc capacity)"
    "prev_bucket ?roll = bucket_new alloc 0 capacity"
    using P unfolding roll by (simp_all add: new curr_bucket_def prev_bucket_def is_green_current_def)
  have fits: "period_ok w ?new" "unat cfg_max \<le> unat (rl_limit ?new)"
    using w by (simp_all add: new period_ok_def)
  have room: "hits ip (prev_bucket ?roll) = 0" "hits ip (curr_bucket ?roll) = 0" "has_room ip (curr_bucket ?roll)"
    using assms(4,5) unfolding blue by (simp_all add: has_room_def)
  from burst [OF fits(1) limiter_ok_new assms(1) fits(2) room, of "t - 1"]
  obtain b where B: "limiter_worker alloc ?new (replicate ?n (ip, t - 1, t - 1)) =
      Some (set_curr_bucket ?roll b, replicate ?n (Inr True))"
    and st: "bkt_starts_at b = bkt_starts_at (curr_bucket ?roll)"
    by blast
  have "set_curr_bucket ?roll b = ?new\<lparr>rl_blue := b\<rparr>"
    using P unfolding roll by (simp add: new set_curr_bucket_def is_green_current_def)
  with B st show ?thesis unfolding blue by auto
qed

lemma burst_after_blue:
  fixes ip :: 'ip
  assumes "0 < unat cfg_max" and "unat cfg_max < 65535" and "0 < w" and "alloc capacity \<noteq> 0" "alloc (alloc capacity) \<noteq> 0" and w: "w < 65536"
    and t: "t = 2 * int (from_secs w)" and st: "bkt_starts_at b = int (from_secs w)"
    and rl: "rl = (rate_limiter_new alloc cfg_max (from_secs w) capacity 0 0)\<lparr>rl_blue := b\<rparr>" and ok: "limiter_ok rl"
  shows "\<exists>rl'. limiter_worker alloc rl (replicate (unat cfg_max) (ip, t, t)) = Some (rl', replicate (unat cfg_max) (Inr True))"
proof -
  have P: "0 < from_secs w" using assms(3) by simp
  note new = rate_limiter_new_at_0 [OF P assms(2)]
  have roll: "rollover alloc t rl =
      rl\<lparr>rl_green := bucket_new alloc t (alloc capacity), rl_blue := bucket_new alloc t (alloc capacity)\<rparr>"
    using P st unfolding rl
    by (simp add: new t rollover_def is_green_current_def is_within_curr_bucket_window_def
        is_outside_next_monothonic_window_def Let_def)
  have fits: "period_ok w rl" "unat cfg_max \<le> unat (rl_limit rl)"
    unfolding rl using w by (simp_all add: new period_ok_def)
  have room: "hits ip (prev_bucket (rollover alloc t rl)) = 0"
    "hits ip (curr_bucket (rollover alloc t rl)) = 0" "has_room ip (curr_bucket (rollover alloc t rl))"
    using assms(4,5) unfolding roll by (simp_all add: has_room_def curr_bucket_def prev_bucket_def is_green_current_def)
  from burst [OF fits(1) ok assms(1) fits(2) room, of t] show ?thesis by blast
qed

text \<open>C33: so twice the limit is admitted within one nanosecond: a client that spends its limit at
  the end of the second window after the start, and again when the third opens, is never refused,
  for every limit, window and capacity.\<close>

theorem double_burst:
  fixes ip :: 'ip
  assumes "0 < unat cfg_max" and "unat cfg_max < 65535" and "0 < unat window" and "0 < capacity"
    and alloc: "\<And>n. n \<le> alloc n"
    and t: "t = 2 * int (from_secs (unat window))"
  shows "\<exists>rl. get_rate_limit_handle alloc cfg_max window capacity 0 0
      (replicate (unat cfg_max) (ip, t - 1, t - 1) @ replicate (unat cfg_max) (ip, t, t)) =
    Some (rl, replicate (2 * unat cfg_max) (Inr True))"
proof -
  let ?new = "rate_limiter_new alloc cfg_max (from_secs (unat window)) capacity 0 0 :: 'ip rate_limiter"
  have cap: "alloc capacity \<noteq> 0" "alloc (alloc capacity) \<noteq> 0"
    using alloc [of capacity] alloc [of "alloc capacity"] assms(4) by auto
  have w: "unat window < 65536" by (rule u16_less)
  from burst_ending_blue [where alloc = alloc and ip = ip, OF assms(1-3) cap w t]
  obtain b where B: "limiter_worker alloc ?new (replicate (unat cfg_max) (ip, t - 1, t - 1))
      = Some (?new\<lparr>rl_blue := b\<rparr>, replicate (unat cfg_max) (Inr True))"
    and st: "bkt_starts_at b = int (from_secs (unat window))"
    by (elim exE conjE)
  from burst_after_blue [where alloc = alloc and ip = ip, OF assms(1-3) cap w t st refl limiter_worker_ok [OF B limiter_ok_new]]
  obtain rl where "limiter_worker alloc (?new\<lparr>rl_blue := b\<rparr>) (replicate (unat cfg_max) (ip, t, t))
      = Some (rl, replicate (unat cfg_max) (Inr True))"
    by (elim exE)
  then show ?thesis
    unfolding get_rate_limit_handle_def limiter_worker_append B by (simp add: mult_2 replicate_add)
qed

theorem double_burst_witness:
  "\<exists>rl. get_rate_limit_handle (\<lambda>n. n) 50 60 8 0 0
      (replicate 50 (7 :: nat, 119999999999, 119999999999) @ replicate 50 (7, 120000000000, 120000000000)) =
    Some (rl, replicate 100 (Inr True))"
  using double_burst [of 50 60 8 "\<lambda>n. n" 120000000000 "7 :: nat"] by (simp add: from_secs_def)

end
