(* ===== verification/Rate_Limiter_Tests.thy ===== *)
theory Rate_Limiter_Tests
  imports Rate_Limiter
begin

text \<open>
  The unit tests of \<^verbatim>\<open>pingoo/rate_limiter.rs\<close>, evaluated on the model with the paused clock
  of the tests: each call reads the same instant twice. Where a test repeats a call 65535 times, a
  shorter run and the general lemmas of \<open>Rate_Limiter\<close> stand for it.
\<close>

text \<open>A limiter made at instant 0, and its answers to a list of calls, each at an instant in seconds.\<close>

definition answers ::
  "(nat \<Rightarrow> nat) \<Rightarrow> u16 \<Rightarrow> duration \<Rightarrow> nat \<Rightarrow> (nat \<times> nat) list \<Rightarrow> (unit + bool) list option" where
  "answers alloc limit period capacity calls =
     map_option snd (limiter_worker alloc (rate_limiter_new alloc limit period capacity 0 0)
       (map (\<lambda>(ip, t). (ip, int (from_secs t), int (from_secs t))) calls))"

section \<open>Calls of one address at one instant\<close>

lemma calls_in_window:
  assumes "period_ok w rl" and "rl_limit rl \<noteq> 0" and "in_window now rl" and "has_room ip (curr_bucket rl)"
  shows "\<exists>b. limiter_worker alloc rl (replicate n (ip, now, later)) = Some (set_curr_bucket rl b,
        map (\<lambda>k. Inr (weighted (hits ip (prev_bucket rl)) w (elapsed later (bkt_starts_at (curr_bucket rl)))
          + min (Suc (hits ip (curr_bucket rl) + k)) 65535 \<le> unat (rl_limit rl))) [0..<n])
    \<and> bkt_starts_at b = bkt_starts_at (curr_bucket rl) \<and> bkt_capacity b = bkt_capacity (curr_bucket rl)
    \<and> hits ip b = min (hits ip (curr_bucket rl) + n) 65535 \<and> has_room ip b"
  using assms
proof (induction n arbitrary: rl)
  case 0
  then show ?case using hits_le [of ip "curr_bucket rl"] by (intro exI [of _ "curr_bucket rl"]) simp
next
  case (Suc n)
  let ?h = "hits ip (curr_bucket rl)"
  let ?fits = "\<lambda>k. weighted (hits ip (prev_bucket rl)) w (elapsed later (bkt_starts_at (curr_bucket rl)))
    + min (Suc (?h + k)) 65535 \<le> unat (rl_limit rl)"
  have R: "rollover alloc now rl = rl" using Suc.prems(3) by simp
  obtain b where S: "can_resume alloc ip now later rl = Some (set_curr_bucket rl b, Inr (?fits 0))"
    and C: "count_request ip (curr_bucket rl) = Inr (b, of_nat (min (Suc ?h) 65535))"
    using can_resume_room [of rl w ip alloc now later] Suc.prems R by auto
  note st = count_request_starts [OF C]
  have h: "hits ip b = min (Suc ?h) 65535" using count_request_hits(1,2) [OF C] by simp
  let ?rl = "set_curr_bucket rl b"
  have same: "curr_bucket ?rl = b" "prev_bucket ?rl = prev_bucket rl" "rl_limit ?rl = rl_limit rl"
    using st by simp_all
  obtain b' where rest: "limiter_worker alloc ?rl (replicate n (ip, now, later)) = Some (set_curr_bucket ?rl b',
        map (\<lambda>k. Inr (weighted (hits ip (prev_bucket rl)) w (elapsed later (bkt_starts_at b))
          + min (Suc (hits ip b + k)) 65535 \<le> unat (rl_limit rl))) [0..<n])"
    "bkt_starts_at b' = bkt_starts_at b" "bkt_capacity b' = bkt_capacity b"
    "hits ip b' = min (hits ip b + n) 65535" "has_room ip b'"
    using Suc.IH [of ?rl, unfolded same] Suc.prems st count_request_room [OF C]
    by (auto simp: period_ok_def in_window_def is_within_curr_bucket_window_def)
  have "min (Suc (hits ip b + k)) 65535 = min (Suc (?h + Suc k)) 65535" for k using h by simp
  then have "map (\<lambda>k. Inr (weighted (hits ip (prev_bucket rl)) w (elapsed later (bkt_starts_at b))
      + min (Suc (hits ip b + k)) 65535 \<le> unat (rl_limit rl))) [0..<n] = map (\<lambda>k. Inr (?fits (Suc k)) :: unit + bool) [0..<n]"
    using st by simp
  then have "limiter_worker alloc rl (replicate (Suc n) (ip, now, later))
      = Some (set_curr_bucket rl b', map (\<lambda>k. Inr (?fits k)) [0..<Suc n])"
    using S rest(1,2) st by (simp add: map_upt_Suc del: upt_Suc)
  then show ?case using rest(2-5) st h by auto
qed

lemma calls_at_once:
  assumes "period_ok w rl" and "limiter_ok rl" and "rl_limit rl \<noteq> 0" and "0 < n"
    and R: "rollover alloc now rl = R" and "has_room ip (curr_bucket R)"
  shows "\<exists>b. limiter_worker alloc rl (replicate n (ip, now, later)) = Some (set_curr_bucket R b,
        map (\<lambda>k. Inr (weighted (hits ip (prev_bucket R)) w (elapsed later (bkt_starts_at (curr_bucket R)))
          + min (Suc (hits ip (curr_bucket R) + k)) 65535 \<le> unat (rl_limit rl))) [0..<n])
    \<and> bkt_starts_at b = bkt_starts_at (curr_bucket R) \<and> bkt_capacity b = bkt_capacity (curr_bucket R)
    \<and> hits ip b = min (hits ip (curr_bucket R) + n) 65535 \<and> has_room ip b"
proof -
  obtain m where n: "n = Suc m" using assms(4) by (cases n) auto
  have "limiter_worker alloc rl (replicate n (ip, now, later)) = limiter_worker alloc R (replicate n (ip, now, later))"
    by (simp add: n can_resume_rollover [OF assms(2,3)] R)
  moreover have "in_window now R" using in_window_rollover [OF assms(2), of now alloc] R by simp
  moreover have "period_ok w R" "rl_limit R = rl_limit rl" using assms(1) R by (auto simp: period_ok_def)
  ultimately show ?thesis using calls_in_window [of w R now ip alloc n later] assms(3,6) by simp
qed

section \<open>The tests\<close>

text \<open>
  The example of the algorithm: 42 calls in the first minute; 20 at 15 seconds into the second, of which
  the last is one too many; one more three seconds later; and after two minutes of silence the whole
  limit again, and then nothing.
\<close>

definition alg_limiter :: "nat bucket \<Rightarrow> nat bucket \<Rightarrow> nat rate_limiter" where
  "alg_limiter green blue = \<lparr>rl_limit = 50, rl_sampling_period = from_secs 60, rl_green = green, rl_blue = blue\<rparr>"

abbreviation at_secs :: "nat \<Rightarrow> instant" where
  "at_secs t \<equiv> int (from_secs t)"

lemma map_upt_two:
  "(\<And>k. k < a \<Longrightarrow> f k = x) \<Longrightarrow> (\<And>k. a \<le> k \<Longrightarrow> k < a + b \<Longrightarrow> f k = y) \<Longrightarrow>
     map f [0..<a + b] = replicate a x @ replicate b y"
  by (rule nth_equalityI) (auto simp: nth_append)

lemma limiter_worker_reachable:
  "limiter_worker alloc rl ps = Some (rl', rs) \<Longrightarrow> limiter_reachable alloc rl \<Longrightarrow> limiter_reachable alloc rl'"
  by (induction alloc rl ps arbitrary: rs rule: limiter_worker.induct)
    (auto split: option.splits prod.splits dest: limiter_reachable.request)

text \<open>\<open>a\<close> calls are admitted and \<open>b\<close> are not, when the current bucket and what the previous one weighs say so.\<close>

lemma alg_calls:
  assumes reach: "limiter_reachable (\<lambda>n. n) (alg_limiter g b)" and "rollover (\<lambda>n. n) t (alg_limiter g b) = R"
    and "has_room 1 (curr_bucket R)" and "0 < x + y"
    and weight: "weighted (hits 1 (prev_bucket R)) 60 (elapsed t (bkt_starts_at (curr_bucket R))) + hits 1 (curr_bucket R) + x \<le> 50"
    and full: "y = 0 \<or> 50 \<le> weighted (hits 1 (prev_bucket R)) 60 (elapsed t (bkt_starts_at (curr_bucket R))) + hits 1 (curr_bucket R) + x"
  shows "\<exists>c. limiter_worker (\<lambda>n. n) (alg_limiter g b) (replicate (x + y) (1, t, t))
      = Some (set_curr_bucket R c, replicate x (Inr True) @ replicate y (Inr False))
    \<and> limiter_reachable (\<lambda>n. n) (set_curr_bucket R c) \<and> bkt_starts_at c = bkt_starts_at (curr_bucket R)
    \<and> bkt_capacity c = bkt_capacity (curr_bucket R) \<and> hits 1 c = min (hits 1 (curr_bucket R) + (x + y)) 65535 \<and> has_room 1 c"
proof -
  let ?w = "weighted (hits 1 (prev_bucket R)) 60 (elapsed t (bkt_starts_at (curr_bucket R)))"
  have ok: "period_ok 60 (alg_limiter g b)" "limiter_ok (alg_limiter g b)" "rl_limit (alg_limiter g b) \<noteq> 0"
    using limiter_reachable_ok [OF reach] by (simp_all add: alg_limiter_def period_ok_def)
  have "map (\<lambda>k. Inr (?w + min (Suc (hits 1 (curr_bucket R) + k)) 65535 \<le> unat (rl_limit (alg_limiter g b))) :: unit + bool) [0..<x + y]
      = replicate x (Inr True) @ replicate y (Inr False)"
    by (rule map_upt_two) (use weight full in \<open>auto simp: alg_limiter_def\<close>)
  with calls_at_once [OF ok assms(4,2,3), of t] show ?thesis
    using limiter_worker_reachable [OF _ reach] by metis
qed

lemma alg_example:
  fixes n :: nat
  obtains rl1 rl2 rl3 rl4 where
    "limiter_worker (\<lambda>n. n) (rate_limiter_new (\<lambda>n. n) 50 (from_secs 60) 2 0 0) (replicate (42 + 0) (1 :: nat, 0, 0))
       = Some (rl1, replicate 42 (Inr True) @ replicate 0 (Inr False))"
    and "limiter_worker (\<lambda>n. n) rl1 (replicate (19 + 1) (1, at_secs 75, at_secs 75)) = Some (rl2, replicate 19 (Inr True) @ replicate 1 (Inr False))"
    and "limiter_worker (\<lambda>n. n) rl2 (replicate (1 + 0) (1, at_secs 78, at_secs 78)) = Some (rl3, replicate 1 (Inr True) @ replicate 0 (Inr False))"
    and "limiter_worker (\<lambda>n. n) rl3 (replicate (50 + n) (1, at_secs 198, at_secs 198))
       = Some (rl4, replicate 50 (Inr True) @ replicate n (Inr False))"
proof -
  let ?empty = "\<lambda>t. bucket_new (\<lambda>n. n) t 2 :: nat bucket"
  note state = alg_limiter_def curr_bucket_def prev_bucket_def is_green_current_def from_secs_def set_curr_bucket_def
  note roll = state rollover_def is_within_curr_bucket_window_def is_outside_next_monothonic_window_def Let_def
  have new: "rate_limiter_new (\<lambda>n. n) 50 (from_secs 60) 2 0 0 = alg_limiter (?empty 0) (?empty 0)"
    by (simp add: rate_limiter_new_def alg_limiter_def create_prev_window_def elapsed_def from_secs_def)
  have r0: "limiter_reachable (\<lambda>n. n) (alg_limiter (?empty 0) (?empty 0))"
    unfolding new [symmetric] by (rule limiter_reachable.start)
  have "rollover (\<lambda>n. n) 0 (alg_limiter (?empty 0) (?empty 0)) = alg_limiter (?empty 0) (?empty 0)" by (simp add: roll)
  from alg_calls [OF r0 this, of 42 0] obtain g where
    g: "limiter_worker (\<lambda>n. n) (alg_limiter (?empty 0) (?empty 0)) (replicate (42 + 0) (1, 0, 0))
        = Some (alg_limiter g (?empty 0), replicate 42 (Inr True) @ replicate 0 (Inr False))"
      "limiter_reachable (\<lambda>n. n) (alg_limiter g (?empty 0))" "bkt_starts_at g = 0" "bkt_capacity g = 2" "hits 1 g = 42"
    by (auto simp: state has_room_def weighted_def elapsed_def)
  have "rollover (\<lambda>n. n) (at_secs 75) (alg_limiter g (?empty 0)) = alg_limiter g (?empty (at_secs 60))"
    using g(3,4) by (simp add: roll)
  from alg_calls [OF g(2) this, of 19 1] obtain b where
    b: "limiter_worker (\<lambda>n. n) (alg_limiter g (?empty 0)) (replicate (19 + 1) (1, at_secs 75, at_secs 75))
        = Some (alg_limiter g b, replicate 19 (Inr True) @ replicate 1 (Inr False))"
      "limiter_reachable (\<lambda>n. n) (alg_limiter g b)" "bkt_starts_at b = at_secs 60" "hits 1 b = 20" "has_room 1 b"
    using g(3,5) by (auto simp: state has_room_def weighted_def elapsed_def)
  have "rollover (\<lambda>n. n) (at_secs 78) (alg_limiter g b) = alg_limiter g b" using g(3) b(3) by (simp add: roll)
  from alg_calls [OF b(2) this, of 1 0] obtain b' where
    b': "limiter_worker (\<lambda>n. n) (alg_limiter g b) (replicate (1 + 0) (1, at_secs 78, at_secs 78))
        = Some (alg_limiter g b', replicate 1 (Inr True) @ replicate 0 (Inr False))"
      "limiter_reachable (\<lambda>n. n) (alg_limiter g b')" "bkt_starts_at b' = at_secs 60"
    using g(3,5) b(3-5) by (auto simp: state weighted_def elapsed_def)
  have "rollover (\<lambda>n. n) (at_secs 198) (alg_limiter g b') = alg_limiter (?empty (at_secs 198)) (?empty (at_secs 198))"
    using g(3,4) b'(3) by (simp add: roll)
  from alg_calls [OF b'(2) this, of 50 n] obtain rl4 where
    "limiter_worker (\<lambda>n. n) (alg_limiter g b') (replicate (50 + n) (1, at_secs 198, at_secs 198))
        = Some (rl4, replicate 50 (Inr True) @ replicate n (Inr False))"
    by (auto simp: state has_room_def weighted_def elapsed_def)
  then show thesis using that g(1) b(1) b'(1) unfolding new by blast
qed

text \<open>
  A test of one address: batches of calls at a moment, every call of which is expected to be admitted or
  not.
\<close>

lemma limiter_worker_split:
  "limiter_worker alloc rl (ps @ qs) = Some (rl2, rs) \<Longrightarrow>
     \<exists>rl1 rs1 rs2. limiter_worker alloc rl ps = Some (rl1, rs1) \<and> limiter_worker alloc rl1 qs = Some (rl2, rs2)
       \<and> rs = rs1 @ rs2 \<and> length rs1 = length ps"
proof (induction ps arbitrary: rl rs)
  case (Cons p ps)
  obtain ip now later where p: "p = (ip, now, later)" by (cases p)
  obtain rl' r rs' where r: "can_resume alloc ip now later rl = Some (rl', r)"
    "limiter_worker alloc rl' (ps @ qs) = Some (rl2, rs')" "rs = r # rs'"
    using Cons.prems by (auto simp: p split: option.splits)
  from Cons.IH [OF this(2)] show ?case using r by (fastforce simp: p)
qed simp

fun batches_pass :: "(nat \<Rightarrow> nat) \<Rightarrow> nat rate_limiter \<Rightarrow> (nat \<times> nat \<times> bool) list \<Rightarrow> bool" where
  "batches_pass alloc rl [] = True"
| "batches_pass alloc rl ((n, t, expected) # bs) =
     (case limiter_worker alloc rl (replicate n (1, at_secs t, at_secs t)) of
        None \<Rightarrow> False
      | Some (rl', rs) \<Rightarrow> rs = replicate n (Inr expected) \<and> batches_pass alloc rl' bs)"

lemma batches_split:
  assumes "limiter_worker alloc rl (replicate (a + b) (1, at_secs t, at_secs t))
      = Some (rl2, replicate a (Inr x) @ replicate b (Inr y))"
  shows "batches_pass alloc rl ((a, t, x) # (b, t, y) # bs) = batches_pass alloc rl2 bs"
  using limiter_worker_split [OF assms [unfolded replicate_add]]
  by (auto simp: append_eq_append_conv)

lemma batches_one:
  assumes "limiter_worker alloc rl (replicate n (1, at_secs t, at_secs t)) = Some (rl2, replicate n (Inr x))"
  shows "batches_pass alloc rl ((n, t, x) # bs) = batches_pass alloc rl2 bs"
  using assms by simp

definition test_rate_limiter_alg :: "(nat \<Rightarrow> nat) \<Rightarrow> bool" where
  "test_rate_limiter_alg alloc =
     batches_pass alloc (rate_limiter_new alloc 50 (from_secs 60) 2 0 0)
       [(42, 0, True), (19, 75, True), (1, 75, False), (1, 78, True), (50, 198, True), (65535, 198, False)]"

lemma alg_test_passes: "test_rate_limiter_alg (\<lambda>n. n)"
proof (rule alg_example [of 65535])
  fix rl1 rl2 rl3 rl4
  assume runs: "limiter_worker (\<lambda>n. n) (rate_limiter_new (\<lambda>n. n) 50 (from_secs 60) 2 0 0) (replicate (42 + 0) (1 :: nat, 0, 0))
       = Some (rl1, replicate 42 (Inr True) @ replicate 0 (Inr False))"
    "limiter_worker (\<lambda>n. n) rl1 (replicate (19 + 1) (1, at_secs 75, at_secs 75)) = Some (rl2, replicate 19 (Inr True) @ replicate 1 (Inr False))"
    "limiter_worker (\<lambda>n. n) rl2 (replicate (1 + 0) (1, at_secs 78, at_secs 78)) = Some (rl3, replicate 1 (Inr True) @ replicate 0 (Inr False))"
    "limiter_worker (\<lambda>n. n) rl3 (replicate (50 + 65535) (1, at_secs 198, at_secs 198))
       = Some (rl4, replicate 50 (Inr True) @ replicate 65535 (Inr False))"
  have zero: "at_secs 0 = 0" by (simp add: from_secs_def)
  have first: "limiter_worker (\<lambda>n. n) (rate_limiter_new (\<lambda>n. n) 50 (from_secs 60) 2 0 0) (replicate 42 (1, at_secs 0, at_secs 0))
      = Some (rl1, replicate 42 (Inr True))"
    using runs(1) by (simp only: zero add_0_right replicate_0 append_Nil2)
  have third: "limiter_worker (\<lambda>n. n) rl2 (replicate 1 (1, at_secs 78, at_secs 78)) = Some (rl3, replicate 1 (Inr True))"
    using runs(3) by (simp only: add_0_right replicate_0 append_Nil2)
  show ?thesis
    unfolding test_rate_limiter_alg_def batches_one [OF first] batches_split [OF runs(2)] batches_one [OF third] batches_split [OF runs(4)]
    by simp
qed

text \<open>The limits 0 and 1, with and without a window, and the largest limit, at one moment.\<close>

definition test_rate_limiter_boundary_single_ip :: "(nat \<Rightarrow> nat) \<Rightarrow> bool" where
  "test_rate_limiter_boundary_single_ip alloc =
     (batches_pass alloc (rate_limiter_new alloc 1 (from_secs 1) 2 0 0) [(1, 0, True), (1, 0, False)]
      \<and> batches_pass alloc (rate_limiter_new alloc 0 (from_secs 1) 2 0 0) [(1, 0, False), (1, 0, False)]
      \<and> batches_pass alloc (rate_limiter_new alloc 0 (from_secs 0) 2 0 0) [(1, 0, False), (1, 0, False)]
      \<and> batches_pass alloc (rate_limiter_new alloc 1 (from_secs 0) 2 0 0) [(1, 0, True), (1, 0, False)]
      \<and> batches_pass alloc (rate_limiter_new alloc (- 1) (from_secs 1) 2 0 0) [(65534, 0, True), (65535, 0, False)])"

text \<open>The largest limit is lowered by one, so that saturated counters are refused.\<close>

lemma test_largest_limit: "rl_limit (rate_limiter_new alloc (- 1) period capacity now later) = - 2"
  by (simp add: rate_limiter_new_def Let_def)

lemma largest_limit_batches:
  "batches_pass (\<lambda>n. n) (rate_limiter_new (\<lambda>n. n) (- 1) (from_secs 1) 2 0 0) [(65534, 0, True), (65535, 0, False)]"
proof -
  let ?rl = "rate_limiter_new (\<lambda>n. n) (- 1) (from_secs 1) 2 0 0 :: nat rate_limiter"
  have reach: "limiter_reachable (\<lambda>n. n) ?rl" by (rule limiter_reachable.start)
  note state = rate_limiter_new_def Let_def curr_bucket_def prev_bucket_def is_green_current_def create_prev_window_def elapsed_def
    from_secs_def
  have roll: "rollover (\<lambda>n. n) 0 ?rl = ?rl"
    by (simp add: state rollover_def is_within_curr_bucket_window_def is_outside_next_monothonic_window_def)
  have ok: "period_ok 1 ?rl" "limiter_ok ?rl" "rl_limit ?rl \<noteq> 0" "has_room 1 (curr_bucket ?rl)"
    using limiter_reachable_ok [OF reach] by (simp_all add: period_ok_def state has_room_def)
  have hits: "weighted (hits 1 (prev_bucket ?rl)) 1 (elapsed 0 (bkt_starts_at (curr_bucket ?rl))) = 0" "hits 1 (curr_bucket ?rl) = 0"
    "unat (rl_limit ?rl) = 65534"
    by (simp_all add: state weighted_def)
  have map: "map (\<lambda>k. Inr (min (Suc k) 65535 \<le> (65534 :: nat)) :: unit + bool) [0..<65534 + 65535]
      = replicate 65534 (Inr True) @ replicate 65535 (Inr False)"
    by (rule map_upt_two) auto
  have zero: "at_secs 0 = 0" by (simp add: from_secs_def)
  have many: "0 < (65534 + 65535 :: nat)" by simp
  obtain rl' where "limiter_worker (\<lambda>n. n) ?rl (replicate (65534 + 65535) (1, 0, 0))
      = Some (rl', map (\<lambda>k. Inr (0 + min (Suc (0 + k)) 65535 \<le> (65534 :: nat))) [0..<65534 + 65535])"
    using calls_at_once [OF ok(1-3) many roll ok(4), of 0] unfolding hits by blast
  then have "limiter_worker (\<lambda>n. n) ?rl (replicate (65534 + 65535) (1, at_secs 0, at_secs 0))
      = Some (rl', replicate 65534 (Inr True) @ replicate 65535 (Inr False))"
    unfolding add_0_left map zero .
  from batches_split [OF this, of "[]"] show ?thesis by (simp only: batches_pass.simps(1))
qed

lemma boundary_test_passes: "test_rate_limiter_boundary_single_ip (\<lambda>n. n)"
proof -
  have "batches_pass (\<lambda>n. n) (rate_limiter_new (\<lambda>n. n) 1 (from_secs 1) 2 0 0) [(1, 0, True), (1, 0, False)]"
    "batches_pass (\<lambda>n. n) (rate_limiter_new (\<lambda>n. n) 0 (from_secs 1) 2 0 0) [(1, 0, False), (1, 0, False)]"
    "batches_pass (\<lambda>n. n) (rate_limiter_new (\<lambda>n. n) 0 (from_secs 0) 2 0 0) [(1, 0, False), (1, 0, False)]"
    "batches_pass (\<lambda>n. n) (rate_limiter_new (\<lambda>n. n) 1 (from_secs 0) 2 0 0) [(1, 0, True), (1, 0, False)]"
    by code_simp+
  with largest_limit_batches show ?thesis unfolding test_rate_limiter_boundary_single_ip_def by blast
qed

text \<open>The weighted count of the previous window, and the start of that window.\<close>

definition test_get_approx :: bool where
  "test_get_approx =
     (let counter = fold (\<lambda>_ counter. saturating_add counter 1) [0..<42] 0 :: u16
      in counter = 42 \<and> get_approx counter (from_secs 0) (from_secs 60) = Some 42
         \<and> get_approx counter (from_secs 15) (from_secs 60) = Some 31)"

lemma get_approx_test_passes: test_get_approx
  by code_simp

definition test_create_prev_window :: "instant \<Rightarrow> bool" where
  "test_create_prev_window now =
     (list_all (\<lambda>tc. create_prev_window now (from_secs 60) (now + int (from_secs tc)) = now) [0, 13, 59]
      \<and> list_all (\<lambda>tc. create_prev_window now (from_secs 60) (now + int (from_secs tc)) = now - int (from_secs 60)) [60, 73, 119])"

lemma create_prev_window_test_passes: "test_create_prev_window now"
  by (simp add: test_create_prev_window_def create_prev_window_def elapsed_def from_secs_def)

text \<open>
  The test of back-pressure: nine addresses, each expected to be admitted; those from the tenth on are
  probed once before, and expected to be refused for want of room, but there is no tenth.
\<close>

definition test_rate_limiter_backpressure :: "(nat \<Rightarrow> nat) \<Rightarrow> bool" where
  "test_rate_limiter_backpressure alloc =
     (let capacity = 8;
          calls = concat (map (\<lambda>i. (if i > capacity then [((i, 0), Inl ())] else []) @ [((i, 0), Inr True)]) [0..<9])
      in answers alloc 10 (from_secs 1) capacity (map fst calls) = Some (map snd calls))"

text \<open>
  It passes because a hash map of capacity 8 really has room for 14 addresses. With room for exactly
  8, as its comment has it, the ninth address is refused and the test fails.
\<close>

lemma backpressure_test_exact:
  "test_rate_limiter_backpressure (\<lambda>n. if n = 8 then 14 else n)"
  "\<not> test_rate_limiter_backpressure (\<lambda>n. n)"
  by code_simp+

end
