(* ===== verification/Json.thy ===== *)
theory Json
  imports Strings
begin

text \<open>
  \<open>serde_json::Value\<close> and its accessors. A number that is no integer keeps its text. How a value
  is written and read as text belongs to the library: a \<open>codec\<close> packs what the derived
  serialisers give for one type.
\<close>

datatype json =
  JNull
| JBool bool
| JInt int
| JFloat string
| JString string
| JArray "json list"
| JObject "(string \<times> json) list"

fun as_i64 :: "json \<Rightarrow> int option" where
  "as_i64 (JInt i) = (if - (2 ^ 63) \<le> i \<and> i < 2 ^ 63 then Some i else None)"
| "as_i64 _ = None"

fun as_str :: "json \<Rightarrow> string option" where
  "as_str (JString s) = Some s"
| "as_str _ = None"

fun as_bool :: "json \<Rightarrow> bool option" where
  "as_bool (JBool b) = Some b"
| "as_bool _ = None"

fun as_object :: "json \<Rightarrow> (string \<times> json) list option" where
  "as_object (JObject fs) = Some fs"
| "as_object _ = None"

lemma as_str_Some: "as_str v = Some s \<longleftrightarrow> v = JString s"
  by (cases v) auto

record 'a codec =
  cd_to_string :: "'a \<Rightarrow> unit + string"
  cd_from_slice :: "string \<Rightarrow> 'a option"
  cd_from_value :: "json \<Rightarrow> 'a option"

text \<open>What is written can be read back, directly and through a value.\<close>

definition codec_ok :: "(string \<Rightarrow> json option) \<Rightarrow> 'a codec \<Rightarrow> bool" where
  "codec_ok parse cd \<longleftrightarrow>
     (\<forall>a s. cd_to_string cd a = Inr s \<longrightarrow>
        cd_from_slice cd s = Some a \<and> (\<exists>v. parse s = Some v \<and> cd_from_value cd v = Some a))"

text \<open>The codec of a type whose derived serialiser writes the value \<open>to_value a\<close>.\<close>

definition value_codec ::
  "(json \<Rightarrow> string) \<Rightarrow> (string \<Rightarrow> json option) \<Rightarrow> ('a \<Rightarrow> json) \<Rightarrow> (json \<Rightarrow> 'a option) \<Rightarrow> 'a codec" where
  "value_codec print parse to_value of_value =
     \<lparr>cd_to_string = \<lambda>a. Inr (print (to_value a)),
      cd_from_slice = \<lambda>s. Option.bind (parse s) of_value,
      cd_from_value = of_value\<rparr>"

lemma value_codec_ok:
  assumes "\<And>v. parse (print v) = Some v" and "\<And>a. of_value (to_value a) = Some a"
  shows "codec_ok parse (value_codec print parse to_value of_value)"
  using assms by (simp add: codec_ok_def value_codec_def)

section \<open>Fields of an object\<close>

text \<open>An optional field is left out when it is \<open>None\<close> and read as \<open>None\<close> when it is missing.\<close>

definition opt_field :: "string \<Rightarrow> ('a \<Rightarrow> json) \<Rightarrow> 'a option \<Rightarrow> (string \<times> json) list" where
  "opt_field name f x = (case x of None \<Rightarrow> [] | Some y \<Rightarrow> [(name, f y)])"

definition get_opt_field :: "(string \<times> json) list \<Rightarrow> string \<Rightarrow> (json \<Rightarrow> 'a option) \<Rightarrow> 'a option option" where
  "get_opt_field fs name f =
     (case map_of fs name of
        None \<Rightarrow> Some None
      | Some JNull \<Rightarrow> Some None
      | Some v \<Rightarrow> map_option Some (f v))"

definition get_field :: "(string \<times> json) list \<Rightarrow> string \<Rightarrow> (json \<Rightarrow> 'a option) \<Rightarrow> 'a option" where
  "get_field fs name f = Option.bind (map_of fs name) f"

text \<open>An array whose elements all have the type.\<close>

fun all_elements :: "('b \<Rightarrow> 'a option) \<Rightarrow> 'b list \<Rightarrow> 'a list option" where
  "all_elements f [] = Some []"
| "all_elements f (v # vs) = Option.bind (f v) (\<lambda>x. map_option ((#) x) (all_elements f vs))"

fun array_of :: "(json \<Rightarrow> 'a option) \<Rightarrow> json \<Rightarrow> 'a list option" where
  "array_of f (JArray vs) = all_elements f vs"
| "array_of f _ = None"

lemma array_of_map: "(\<And>x. f (g x) = Some x) \<Longrightarrow> array_of f (JArray (map g xs)) = Some xs"
  by (induction xs) simp_all

lemma opt_field_simps [simp]:
  "opt_field n f None = []"
  "opt_field n f (Some y) = [(n, f y)]"
  by (simp_all add: opt_field_def)

lemma map_of_opt_field [simp]: "map_of (opt_field n f x) m = (if m = n then map_option f x else None)"
  by (cases x) auto

lemma case_option_same [simp]: "(case x of None \<Rightarrow> None | Some y \<Rightarrow> Some y) = x"
  by (cases x) simp_all

end
