(* ===== verification/Instances.thy ===== *)
theory Instances
  imports Json "HOL-Library.Countable"
begin

text \<open>
  Small instances of the text libraries, on which the properties that have a library as an
  argument are tried: base64 with the alphabet from 0 to o, and JSON text that counts the values.
\<close>

section \<open>JSON text\<close>

instance json :: countable
  by countable_datatype

definition demo_print :: "json \<Rightarrow> string" where
  "demo_print v = replicate (to_nat v) CHR ''x''"

definition demo_parse :: "string \<Rightarrow> json option" where
  "demo_parse s = Some (from_nat (length s))"

lemma demo_parse_print [simp]: "demo_parse (demo_print v) = Some v"
  by (simp add: demo_parse_def demo_print_def)

section \<open>Base64\<close>

fun demo_encode :: "string \<Rightarrow> string" where
  "demo_encode [] = []"
| "demo_encode [a] = (let n = byte a * 16 in map (\<lambda>d. char_of (48 + d)) [n div 64, n mod 64])"
| "demo_encode [a, b] = (let n = (byte a * 256 + byte b) * 4
     in map (\<lambda>d. char_of (48 + d)) [n div 4096, n div 64 mod 64, n mod 64])"
| "demo_encode (a # b # c # bs) = (let n = (byte a * 256 + byte b) * 256 + byte c
     in map (\<lambda>d. char_of (48 + d)) [n div 262144, n div 4096 mod 64, n div 64 mod 64, n mod 64] @ demo_encode bs)"

definition digit :: "char \<Rightarrow> nat" where "digit c = byte c - 48"

fun demo_decode :: "string \<Rightarrow> string option" where
  "demo_decode [] = Some []"
| "demo_decode [w] = None"
| "demo_decode [w, x] = Some [char_of ((digit w * 64 + digit x) div 16)]"
| "demo_decode [w, x, y] =
     (let n = ((digit w * 64 + digit x) * 64 + digit y) div 4 in Some [char_of (n div 256), char_of (n mod 256)])"
| "demo_decode (w # x # y # z # s) =
     (let n = ((digit w * 64 + digit x) * 64 + digit y) * 64 + digit z
      in map_option (\<lambda>bs. char_of (n div 65536) # char_of (n div 256 mod 256) # char_of (n mod 256) # bs) (demo_decode s))"

lemma byte_less [simp]: "byte c < 256"
  by (simp add: byte_def)

declare byte_char_of [simp]

lemma char_of_byte [simp]: "char_of (byte c) = c"
  by (simp add: byte_def)

lemma digit_char [simp]: "d < 64 \<Longrightarrow> digit (char_of (48 + d)) = d"
  by (simp add: digit_def)

lemma digits2: "(n :: nat) div 64 * 64 + n mod 64 = n" by simp
lemma digits3: "((n :: nat) div 4096 * 64 + n div 64 mod 64) * 64 + n mod 64 = n"
proof -
  have "n div 4096 = n div 64 div 64" by (simp add: div_mult2_eq [symmetric])
  then show ?thesis by simp
qed
lemma digits4: "(((n :: nat) div 262144 * 64 + n div 4096 mod 64) * 64 + n div 64 mod 64) * 64 + n mod 64 = n"
proof -
  have "n div 262144 = n div 4096 div 64" by (simp add: div_mult2_eq [symmetric])
  then show ?thesis using digits3 [of n] by simp
qed

lemma div_mod_256: "(c :: nat) < 256 \<Longrightarrow> (x * 256 + c) div 256 = x" "c < 256 \<Longrightarrow> (x * 256 + c) mod 256 = c"
  by simp_all

lemma demo_decode_encode: "demo_decode (demo_encode b) = Some b"
proof (induction b rule: demo_encode.induct)
  case (2 a)
  let ?n = "byte a * 16"
  have "?n div 64 < 64" using byte_less [of a] by linarith
  then show ?case using digits2 [of ?n] by (simp add: Let_def)
next
  case (3 a b)
  let ?n = "(byte a * 256 + byte b) * 4"
  have "?n < 64 * 4096" using byte_less [of a] byte_less [of b] unfolding distrib_right by linarith
  then have "?n div 4096 < 64" by (rule less_mult_imp_div_less)
  moreover have "((?n div 4096 * 64 + ?n div 64 mod 64) * 64 + ?n mod 64) div 4 = byte a * 256 + byte b"
    unfolding digits3 by simp
  moreover have "(byte a * 256 + byte b) div 256 = byte a" "(byte a * 256 + byte b) mod 256 = byte b"
    by (rule div_mod_256 [OF byte_less])+
  ultimately show ?case
    by (simp only: Let_def demo_encode.simps list.map demo_decode.simps digit_char) simp
next
  case (4 a b c bs)
  let ?n = "(byte a * 256 + byte b) * 256 + byte c"
  have "?n < 64 * 262144" using byte_less [of a] byte_less [of b] byte_less [of c] unfolding distrib_right by linarith
  then have "?n div 262144 < 64" by (rule less_mult_imp_div_less)
  moreover have q: "?n div 256 = byte a * 256 + byte b" "?n mod 256 = byte c"
    by (rule div_mod_256 [OF byte_less])+
  moreover have "?n div 65536 = ?n div 256 div 256" by (simp add: div_mult2_eq [symmetric])
  then have "?n div 65536 = byte a" "?n div 256 mod 256 = byte b"
    by (simp_all only: q div_mod_256 [OF byte_less])
  ultimately show ?case using 4 by (simp only: Let_def demo_encode.simps list.map append.simps demo_decode.simps digit_char digits4) simp
qed simp

definition demo_digits :: "char set" where "demo_digits = (\<lambda>d. char_of (48 + d :: nat)) ` {..<64}"

lemma demo_digit: "d < 64 \<Longrightarrow> char_of (48 + d :: nat) \<in> demo_digits"
  unfolding demo_digits_def by (rule imageI) simp

lemma demo_encode_digits: "set (demo_encode b) \<subseteq> demo_digits"
proof (induction b rule: demo_encode.induct)
  case (2 a)
  have "byte a * 16 div 64 < 64" using byte_less [of a] by linarith
  then show ?case by (simp add: Let_def demo_digit)
next
  case (3 a b)
  have "(byte a * 256 + byte b) * 4 < 64 * 4096" using byte_less [of a] byte_less [of b] unfolding distrib_right by linarith
  then have "(byte a * 256 + byte b) * 4 div 4096 < 64" by (rule less_mult_imp_div_less)
  then show ?case by (simp only: Let_def demo_encode.simps list.map) (simp add: demo_digit)
next
  case (4 a b c bs)
  let ?n = "(byte a * 256 + byte b) * 256 + byte c"
  have "?n < 64 * 262144" using byte_less [of a] byte_less [of b] byte_less [of c] unfolding distrib_right by linarith
  then have "?n div 262144 < 64" by (rule less_mult_imp_div_less)
  then show ?case using 4 by (simp only: Let_def demo_encode.simps list.map) (simp add: demo_digit)
qed simp

lemma demo_encode_no_dot: "CHR ''.'' \<notin> set (demo_encode b)"
proof
  assume "CHR ''.'' \<in> set (demo_encode b)"
  then obtain d :: nat where d: "d < 64" "CHR ''.'' = char_of (48 + d)" using demo_encode_digits by (auto simp: demo_digits_def)
  then have "byte (CHR ''.'') = 48 + d" using byte_char_of [of "48 + d"] by simp
  then show False by (simp add: byte_def)
qed

lemma demo_encode_length: "length (demo_encode b) \<le> (4 * length b + 2) div 3"
  by (induction b rule: demo_encode.induct) (simp_all add: Let_def)

end
