(* ===== verification/Paths.thy ===== *)
theory Paths
  imports Strings
begin

text \<open>
  The operations of \<open>PathBuf\<close> on Unix that the program uses, on paths as byte strings:
  joining, the name, stem and extension of the last component, and replacing the extension.
\<close>

text \<open>\<open>PathBuf::push\<close> on Unix: an absolute path replaces the whole path.\<close>

definition path_push :: "string \<Rightarrow> string \<Rightarrow> string" where
  "path_push root p =
     (if starts_with p ''/'' then p
      else if root = [] \<or> last root = CHR ''/'' then root @ p
      else root @ ''/'' @ p)"


text \<open>
  \<open>PathBuf\<close> on Unix: the last component skips trailing separators and dots; \<open>..\<close> has no
  name. The name splits at its last dot, unless that is its first character.
\<close>

definition last_parts :: "string \<Rightarrow> string list" where
  "last_parts p = dropWhile (\<lambda>s. s = '''' \<or> s = ''.'') (rev (split_char CHR ''/'' p))"

definition file_name :: "string \<Rightarrow> string option" where
  "file_name p = (case last_parts p of [] \<Rightarrow> None | s # _ \<Rightarrow> if s = ''..'' then None else Some s)"

text \<open>\<open>rsplitn(2, '.')\<close>: the parts before and after the last dot.\<close>

definition split_last_dot :: "string \<Rightarrow> (string \<times> string) option" where
  "split_last_dot s =
     (case rev (split_char CHR ''.'' s) of
        ext # b # bs \<Rightarrow> Some (join ''.'' (rev (b # bs)), ext)
      | _ \<Rightarrow> None)"

definition file_stem :: "string \<Rightarrow> string" where
  "file_stem s =
     (case split_last_dot s of
        Some (stem, ext) \<Rightarrow> if stem = '''' then s else stem
      | None \<Rightarrow> s)"

definition path_extension :: "string \<Rightarrow> string option" where
  "path_extension p =
     (case file_name p of
        None \<Rightarrow> None
      | Some s \<Rightarrow>
          (case split_last_dot s of
             Some (stem, ext) \<Rightarrow> if stem = '''' then None else Some ext
           | None \<Rightarrow> None))"

definition set_extension :: "string \<Rightarrow> string \<Rightarrow> string" where
  "set_extension p ext =
     (case last_parts p of
        [] \<Rightarrow> p
      | s # rest \<Rightarrow>
          if s = ''..'' then p
          else join ''/'' (rev (file_stem s # rest)) @ (if ext = '''' then '''' else ''.'' @ ext))"

end
