(* ===== verification/Config_File.thy ===== *)
theory Config_File
  imports Config_Types Paths
begin

text \<open>
  \<^verbatim>\<open>pingoo/config/config_file.rs\<close>: from the deserialised configuration file to the
  configuration. The libraries used (\<open>http::Uri\<close>, \<open>url::Url\<close>, \<open>http::StatusCode\<close>
  and the expression language) are the fields of an environment.
\<close>

section \<open>The file's data\<close>

record service_config_file_static_not_found =
  scfn_file :: "string option"
  scfn_status :: u16

record service_config_file_static =
  scfs_root :: string
  scfs_not_found :: service_config_file_static_not_found

record service_config_file =
  scf_route :: "string option"
  scf_http_proxy :: "string list option"
  scf_static :: "service_config_file_static option"
  scf_tcp_proxy :: "string list option"

record rule_config_file =
  rcf_expression :: "string option"
  rcf_actions :: "action list"
  rcf_limit :: "rate_limit option"

record listener_address_config_file =
  lacf_socket_address :: socket_addr
  lacf_protocol :: listener_protocol

record 'addr listener_config_file =
  lcf_address :: 'addr
  lcf_services :: "string list option"

text \<open>
  Before and after deserialisation the file has the same shape; only the listener addresses go
  from strings (\<open>'addr\<close> is \<open>string\<close>) to parsed addresses.
\<close>

record 'addr config_file =
  cf_listeners :: "(string \<times> 'addr listener_config_file) list"
  cf_services :: "(string \<times> service_config_file) list"
  cf_rules :: "(string \<times> rule_config_file) list"
  cf_tls :: "tls_config option"
  cf_docker_socket :: "string option"
  cf_lists :: "(string \<times> list_config) list option"
  cf_child_process :: "string list option"

definition default_service_static_not_found_status :: u16 where
  "default_service_static_not_found_status = 404"

definition static_not_found_default :: service_config_file_static_not_found where
  "static_not_found_default =
     \<lparr>scfn_file = None, scfn_status = default_service_static_not_found_status\<rparr>"

section \<open>The libraries\<close>

record uri_parts =
  uri_scheme_str :: "string option"
  uri_path :: string
  uri_authority :: "(string \<times> u16 option) option"

record url_parts =
  url_scheme :: string
  url_host_str :: "string option"
  url_port :: "u16 option"

record 'prog parse_env =
  pe_uri :: "string \<Rightarrow> unit + uri_parts"
  pe_url :: "string \<Rightarrow> unit + url_parts"
  pe_status_from_u16 :: "u16 \<Rightarrow> nat option"
  pe_compile :: "string \<Rightarrow> unit + 'prog"

section \<open>Listener addresses\<close>

text \<open>
  A non-empty path makes the code build an error and drop it, so the path decides nothing: the
  test of it is not a branch of the result.
\<close>

definition parse_listener_address ::
  "'prog parse_env \<Rightarrow> string \<Rightarrow> error + listener_address_config_file" where
  "parse_listener_address env listener_address =
     (case pe_uri env listener_address of
        Inl _ \<Rightarrow> Inl (Config ''config: error parsing listener'')
      | Inr listener_uri \<Rightarrow>
          (case listener_protocol_from_str
                  (case uri_scheme_str listener_uri of
                     Some scheme \<Rightarrow> scheme
                   | None \<Rightarrow> show_listener_protocol Http) of
             Inl _ \<Rightarrow> Inl (Config ''config: listeners: protocol is not valid'')
           | Inr protocol \<Rightarrow>
               (let _ = (if uri_path listener_uri \<noteq> [] then Some (Config ''path must be empty'') else None)
                in case uri_authority listener_uri of
                     None \<Rightarrow> Inl (Config ''listener address is not valid: authority is missing'')
                   | Some (host, authority_port) \<Rightarrow>
                       (case (case (authority_port, protocol) of
                                (Some port, _) \<Rightarrow> Inr port
                              | (None, Http) \<Rightarrow> Inr 80
                              | (None, Https) \<Rightarrow> Inr 443
                              | _ \<Rightarrow> Inl (Config ''listener address is not valid: port is missing'')) of
                          Inl e \<Rightarrow> Inl e
                        | Inr port \<Rightarrow>
                            (case parse_ip_addr host of
                               None \<Rightarrow> Inl (Config ''listener address is not valid'')
                             | Some ip_address \<Rightarrow>
                                 Inr \<lparr>lacf_socket_address = SocketAddr ip_address port,
                                      lacf_protocol = protocol\<rparr>)))))"

section \<open>Upstreams and services\<close>

definition parse_upstream :: "'prog parse_env \<Rightarrow> string \<Rightarrow> error + upstream_config" where
  "parse_upstream env upstream_str =
     (case pe_url env upstream_str of
        Inl _ \<Rightarrow> Inl (Config ''is not a valid URL'')
      | Inr url \<Rightarrow>
          (let hostname = (case url_host_str url of Some h \<Rightarrow> h | None \<Rightarrow> '''');
               protocol = url_scheme url
           in if hostname = [] then Inl (Config ''is not a valid URL: host is missing'')
              else if \<not> is_ascii hostname
              then Inl (Config ''is not a valid URL: only ascii hostnames are currently supported'')
              else if protocol \<notin> {''tcp'', ''http'', ''https''}
              then Inl (Config ''is not a valid URL: is not a valid protocol'')
              else
                case (case url_port url of
                        Some port \<Rightarrow> Some port
                      | None \<Rightarrow> if protocol = ''http'' then Some 80
                                else if protocol = ''https'' then Some 443 else None) of
                  None \<Rightarrow> Inl (Config ''is not a valid URL: port is missing'')
                | Some port \<Rightarrow>
                    (let tls = (protocol = ''https'')
                     in if hostname = ''localhost'' then
                          Inr (IPAddress \<lparr>up_socket_address = SocketAddr (V4 (127 * 2 ^ 24 + 1)) port,
                                          up_hostname = hostname, up_tls = tls\<rparr>)
                        else case parse_ip_addr hostname of
                               Some ip \<Rightarrow>
                                 Inr (IPAddress \<lparr>up_socket_address = SocketAddr ip port,
                                                 up_hostname = hostname, up_tls = tls\<rparr>)
                             | None \<Rightarrow> Inr (Domain hostname tls port))))"

definition count_true :: "bool list \<Rightarrow> nat" where
  "count_true bs = length (filter id bs)"

definition parse_static ::
  "'prog parse_env \<Rightarrow> service_config_file_static option \<Rightarrow> error + static_site_config option" where
  "parse_static env static =
     (case static of
        None \<Rightarrow> Inr None
      | Some s \<Rightarrow>
          (let root = scfs_root s;
               not_found_file = map_option (path_push root) (scfn_file (scfs_not_found s))
           in case pe_status_from_u16 env (scfn_status (scfs_not_found s)) of
                None \<Rightarrow> Inl (Config ''services.static.not_found.status: Not a valid HTTP status code'')
              | Some status \<Rightarrow>
                  Inr (Some \<lparr>ssc_root = root,
                     ssc_not_found = \<lparr>snf_file = not_found_file, snf_status_code = status\<rparr>\<rparr>)))"

definition parse_upstreams ::
  "'prog parse_env \<Rightarrow> string list option \<Rightarrow> error + upstream_config list option" where
  "parse_upstreams env upstreams =
     (case upstreams of
        None \<Rightarrow> Inr None
      | Some us \<Rightarrow> and_then (try_map (parse_upstream env) us) (\<lambda>us. Inr (Some us)))"

definition parse_route :: "'prog parse_env \<Rightarrow> string option \<Rightarrow> error + 'prog option" where
  "parse_route env route =
     (case route of
        None \<Rightarrow> Inr None
      | Some r \<Rightarrow>
          (case pe_compile env r of
             Inl _ \<Rightarrow> Inl (Config ''error parsing route for service'')
           | Inr compiled_route \<Rightarrow> Inr (Some compiled_route)))"

definition parse_service ::
  "'prog parse_env \<Rightarrow> string \<Rightarrow> service_config_file \<Rightarrow> error + 'prog service_config" where
  "parse_service env service_name service =
     (if count_true [scf_http_proxy service \<noteq> None, scf_tcp_proxy service \<noteq> None, scf_static service \<noteq> None] \<noteq> 1
      then Inl (Config ''invalid service definition: services must have exactly 1 http_proxy, tcp_proxy or static field'')
      else
        and_then (parse_static env (scf_static service)) (\<lambda>static.
        and_then (parse_upstreams env (scf_http_proxy service)) (\<lambda>http_proxy.
        if scf_tcp_proxy service \<noteq> None \<and> scf_route service \<noteq> None
        then Inl (Config ''Invalid service definition: TCP proxy can't have a route'')
        else
          and_then (parse_upstreams env (scf_tcp_proxy service)) (\<lambda>tcp_proxy.
          and_then (parse_route env (scf_route service)) (\<lambda>route.
            Inr \<lparr>sc_name = service_name, sc_route = route, sc_http_proxy = http_proxy,
                 sc_static = static, sc_tcp_proxy = tcp_proxy\<rparr>)))))"

section \<open>What is accepted\<close>

fun upstream_valid :: "upstream_config \<Rightarrow> bool" where
  "upstream_valid (IPAddress u) \<longleftrightarrow>
     (if up_hostname u = ''localhost'' then sa_ip (up_socket_address u) = ipv4_localhost
      else parse_ip_addr (up_hostname u) = Some (sa_ip (up_socket_address u)))"
| "upstream_valid (Domain h t p) \<longleftrightarrow>
     h \<noteq> [] \<and> is_ascii h \<and> h \<noteq> ''localhost'' \<and> parse_ip_addr h = None"

definition service_kinds :: "'prog service_config \<Rightarrow> nat" where
  "service_kinds sc = count_true [sc_http_proxy sc \<noteq> None, sc_tcp_proxy sc \<noteq> None, sc_static sc \<noteq> None]"

definition service_upstreams :: "'prog service_config \<Rightarrow> upstream_config list" where
  "service_upstreams sc =
     (case sc_http_proxy sc of Some us \<Rightarrow> us | None \<Rightarrow> []) @ (case sc_tcp_proxy sc of Some us \<Rightarrow> us | None \<Rightarrow> [])"

definition service_valid :: "'prog service_config \<Rightarrow> bool" where
  "service_valid sc \<longleftrightarrow> service_kinds sc = 1 \<and> (sc_tcp_proxy sc \<noteq> None \<longrightarrow> sc_route sc = None)
     \<and> (\<forall>u \<in> set (service_upstreams sc). upstream_valid u)"

lemma parse_upstream_valid: "parse_upstream env s = Inr u \<Longrightarrow> upstream_valid u"
  by (auto simp: parse_upstream_def Let_def ipv4_localhost_def split: sum.splits if_splits option.splits)

lemma parse_upstreams_Inr:
  "parse_upstreams env x = Inr y \<Longrightarrow>
     (y = None \<longleftrightarrow> x = None) \<and> (\<forall>us. y = Some us \<longrightarrow> (\<forall>u \<in> set us. upstream_valid u))"
  by (auto simp: parse_upstreams_def and_then_Inr_iff split: option.splits
      dest!: try_map_all [where P = upstream_valid, OF _ parse_upstream_valid])

lemma parse_static_Inr: "parse_static env x = Inr y \<Longrightarrow> y = None \<longleftrightarrow> x = None"
  by (auto simp: parse_static_def Let_def split: option.splits)

lemma parse_route_Inr: "parse_route env x = Inr y \<Longrightarrow> y = None \<longleftrightarrow> x = None"
  by (auto simp: parse_route_def split: option.splits sum.splits)

lemma parse_service_Inr:
  assumes "parse_service env n s = Inr sc"
  shows "sc_name sc = n \<and> service_valid sc"
proof -
  from assms obtain static http tcp route
    where *: "parse_static env (scf_static s) = Inr static"
      "parse_upstreams env (scf_http_proxy s) = Inr http"
      "parse_upstreams env (scf_tcp_proxy s) = Inr tcp" "parse_route env (scf_route s) = Inr route"
      and count: "count_true [scf_http_proxy s \<noteq> None, scf_tcp_proxy s \<noteq> None, scf_static s \<noteq> None] = 1"
      and route: "\<not> (scf_tcp_proxy s \<noteq> None \<and> scf_route s \<noteq> None)"
      and sc: "sc = \<lparr>sc_name = n, sc_route = route, sc_http_proxy = http, sc_static = static, sc_tcp_proxy = tcp\<rparr>"
    unfolding parse_service_def by (auto simp: and_then_Inr_iff simp del: not_None_eq split: if_splits)
  note none = parse_static_Inr [OF *(1)] parse_route_Inr [OF *(4)]
    parse_upstreams_Inr [OF *(2), THEN conjunct1] parse_upstreams_Inr [OF *(3), THEN conjunct1]
  note valid = parse_upstreams_Inr [OF *(2), THEN conjunct2] parse_upstreams_Inr [OF *(3), THEN conjunct2]
  have "service_kinds sc = 1"
    using count by (simp only: service_kinds_def sc service_config.simps none)
  moreover have "sc_tcp_proxy sc \<noteq> None \<longrightarrow> sc_route sc = None"
    using route by (simp only: sc service_config.simps none) blast
  moreover have "\<forall>u \<in> set (service_upstreams sc). upstream_valid u"
    using valid by (auto simp: service_upstreams_def sc split: option.splits)
  ultimately show ?thesis by (simp add: service_valid_def sc)
qed

lemma is_ok_parse_upstreams:
  "is_ok (parse_upstreams env x) \<longleftrightarrow>
     (\<forall>us. x = Some us \<longrightarrow> (\<forall>u \<in> set us. is_ok (parse_upstream env u)))"
  by (cases x) (simp_all add: parse_upstreams_def is_ok_try_map)

section \<open>Properties\<close>

text \<open>A service definition is accepted exactly when it has one of the three kinds, a valid
  not-found status, valid upstreams, no route on a TCP proxy and a route that compiles; the service
  built has the given name, keeps these conditions, resolves literal addresses and the name
  localhost, and keeps only non-empty ASCII names as domains.\<close>

lemma parse_service_exact:
  "(is_ok (parse_service env n s) \<longleftrightarrow>
      count_true [scf_http_proxy s \<noteq> None, scf_tcp_proxy s \<noteq> None, scf_static s \<noteq> None] = 1
      \<and> (scf_tcp_proxy s \<noteq> None \<longrightarrow> scf_route s = None)
      \<and> is_ok (parse_static env (scf_static s)) \<and> is_ok (parse_route env (scf_route s))
      \<and> is_ok (parse_upstreams env (scf_http_proxy s)) \<and> is_ok (parse_upstreams env (scf_tcp_proxy s)))
   \<and> (\<forall>sc. parse_service env n s = Inr sc \<longrightarrow> sc_name sc = n \<and> service_valid sc)"
proof
  show "\<forall>sc. parse_service env n s = Inr sc \<longrightarrow> sc_name sc = n \<and> service_valid sc"
    using parse_service_Inr by blast
qed (auto simp: parse_service_def is_ok_and_then_iff simp del: not_None_eq split: if_splits
    dest!: is_ok_iff [THEN iffD1])

definition demo_parse_env :: "unit parse_env" where
  "demo_parse_env =
     \<lparr>pe_uri = \<lambda>s.
        if s = ''http://0.0.0.0'' then Inr \<lparr>uri_scheme_str = Some ''http'', uri_path = '''', uri_authority = Some (''0.0.0.0'', None)\<rparr>
        else if s = ''http://0.0.0.0/admin'' then Inr \<lparr>uri_scheme_str = Some ''http'', uri_path = ''/admin'', uri_authority = Some (''0.0.0.0'', None)\<rparr>
        else Inl (),
      pe_url = \<lambda>s.
        if s = ''http://db:5'' then Inr \<lparr>url_scheme = ''http'', url_host_str = Some ''db'', url_port = Some 5\<rparr>
        else Inl (),
      pe_status_from_u16 = \<lambda>s. if 100 \<le> s \<and> s < 1000 then Some (unat s) else None,
      pe_compile = \<lambda>s. if s = '''' then Inl () else Inr ()\<rparr>"

definition demo_service_file :: service_config_file where
  "demo_service_file =
     \<lparr>scf_route = Some ''true'', scf_http_proxy = Some [''http://db:5''], scf_static = None, scf_tcp_proxy = None\<rparr>"

lemma parse_service_exact_witness:
  "\<exists>sc. parse_service demo_parse_env ''api'' demo_service_file = Inr sc \<and> sc_name sc = ''api'' \<and> service_valid sc"
proof -
  have *: "is_ok (parse_static demo_parse_env None)" "is_ok (parse_route demo_parse_env (Some ''true''))"
    "is_ok (parse_upstreams demo_parse_env (Some [''http://db:5'']))" "is_ok (parse_upstreams demo_parse_env None)"
    by code_simp+
  have "is_ok (parse_service demo_parse_env ''api'' demo_service_file)"
    using parse_service_exact [of demo_parse_env "''api''" demo_service_file, THEN conjunct1] *
    by (simp add: demo_service_file_def count_true_def)
  with parse_service_exact [of demo_parse_env "''api''" demo_service_file, THEN conjunct2]
  show ?thesis by (auto simp: is_ok_iff)
qed

text \<open>A path in a listener's address is accepted and ignored: two addresses that differ in
  their path only give the same listener, so the check of the path has no effect.\<close>

lemma listener_path_ignored:
  assumes "pe_uri env a = Inr u" and "pe_uri env b = Inr (u\<lparr>uri_path := p\<rparr>)"
  shows "parse_listener_address env a = parse_listener_address env b"
  using assms by (simp add: parse_listener_address_def Let_def cong: sum.case_cong)

lemma listener_path_ignored_witness:
  "parse_listener_address demo_parse_env ''http://0.0.0.0/admin''
     = Inr \<lparr>lacf_socket_address = SocketAddr (V4 0) 80, lacf_protocol = Http\<rparr>"
proof -
  have "pe_uri demo_parse_env ''http://0.0.0.0''
      = Inr \<lparr>uri_scheme_str = Some ''http'', uri_path = '''', uri_authority = Some (''0.0.0.0'', None)\<rparr>"
    by (simp add: demo_parse_env_def)
  then have "parse_listener_address demo_parse_env ''http://0.0.0.0''
      = parse_listener_address demo_parse_env ''http://0.0.0.0/admin''"
    by (rule listener_path_ignored [where p = "''/admin''"]) (simp add: demo_parse_env_def)
  moreover have "parse_listener_address demo_parse_env ''http://0.0.0.0''
     = Inr \<lparr>lacf_socket_address = SocketAddr (V4 0) 80, lacf_protocol = Http\<rparr>"
    by code_simp
  ultimately show ?thesis by simp
qed

end
