(* ===== verification/Load_Config.thy ===== *)
theory Load_Config
  imports Config_File
begin

text \<open>
  \<^verbatim>\<open>pingoo/config/config.rs\<close>: reading, converting and validating the configuration. The
  file system and the YAML library are the fields of an environment. An \<open>IndexMap\<close> is a list
  of pairs with distinct keys in insertion order.
\<close>

section \<open>Duplicates\<close>

fun find_duplicate_from :: "'a list \<Rightarrow> 'a list \<Rightarrow> 'a option" where
  "find_duplicate_from seen [] = None"
| "find_duplicate_from seen (item # v) =
     (if item \<in> set seen then Some item else find_duplicate_from (item # seen) v)"

definition find_duplicate :: "'a list \<Rightarrow> 'a option" where
  "find_duplicate v = find_duplicate_from [] v"

definition find_duplicate2 :: "'a list \<Rightarrow> 'a list \<Rightarrow> 'a option" where
  "find_duplicate2 a b = List.find (\<lambda>item. item \<in> set a) b"

section \<open>The libraries\<close>

record 'prog load_env =
  le_parse :: "'prog parse_env"
  le_config_bytes :: "unit + string"
  le_yaml_config :: "string \<Rightarrow> unit + string config_file"
  le_rules_dir :: "io_error_kind + (string option \<times> (unit + string)) list"
  le_yaml_rules :: "string \<Rightarrow> unit + (string \<times> rule_config_file) list"

section \<open>Rule files\<close>

text \<open>\<open>ret\<close> are the rules read so far; a file is its extension and its content.\<close>

definition index_map_extend :: "(string \<times> 'v) list \<Rightarrow> (string \<times> 'v) list \<Rightarrow> (string \<times> 'v) list" where
  "index_map_extend ret xs = fold (\<lambda>(k, v). AList.update k v) xs ret"

fun load_rule_files ::
  "(string \<Rightarrow> unit + (string \<times> rule_config_file) list) \<Rightarrow> (string option \<times> (unit + string)) list \<Rightarrow>
     (string \<times> rule_config_file) list \<Rightarrow> error + (string \<times> rule_config_file) list" where
  "load_rule_files yaml [] ret = Inr ret"
| "load_rule_files yaml ((ext, content) # files) ret =
     (if (case ext of Some e \<Rightarrow> e | None \<Rightarrow> '''') \<noteq> ''yml'' then load_rule_files yaml files ret
      else case content of
             Inl _ \<Rightarrow> Inl (Config ''error reading rules file'')
           | Inr rule_file_content \<Rightarrow>
               (case yaml rule_file_content of
                  Inl _ \<Rightarrow> Inl (Config ''error parsing rules file'')
                | Inr rules \<Rightarrow>
                    (case find_duplicate2 (map fst rules) (map fst ret) of
                       Some _ \<Rightarrow> Inl (Config ''duplicate rule name'')
                     | None \<Rightarrow> load_rule_files yaml files (index_map_extend ret rules))))"

definition load_rules :: "'prog load_env \<Rightarrow> error + (string \<times> rule_config_file) list" where
  "load_rules env =
     (case le_rules_dir env of
        Inl NotFound \<Rightarrow> Inr []
      | Inl OtherIoError \<Rightarrow> Inl (Config ''error reading rules folder'')
      | Inr rule_dir \<Rightarrow> load_rule_files (le_yaml_rules env) rule_dir [])"

section \<open>Listeners\<close>

definition validate_listener ::
  "listener_config list \<Rightarrow> (string \<times> 'prog service_config) list \<Rightarrow> nat \<times> listener_config \<Rightarrow> error + unit" where
  "validate_listener listeners all_services = (\<lambda>(i, listener).
     if list_ex (\<lambda>(j, other_listener). i \<noteq> j \<and>
          sa_port (lc_address listener) = sa_port (lc_address other_listener)) (List.enumerate 0 listeners)
     then Inl (Config ''config: listeners: can't listen on the same port'')
     else if length (lc_services listener) = 0
     then Inl (Config ''config: listeners: no service found for this listener'')
     else if (lc_protocol listener = Tcp \<or> lc_protocol listener = TcpAndTls) \<and> length (lc_services listener) > 1
     then Inl (Config ''config: listeners: TCP listeners can only have 1 associated service'')
     else if list_ex (\<lambda>service_name. map_of all_services service_name = None) (lc_services listener)
     then Inl (Config ''config: listeners: service doesn't exist'')
     else if find_duplicate (lc_services listener) \<noteq> None
     then Inl (Config ''config: listeners: duplicate services are not allowed'')
     else Inr ())"

definition validate_listeners_config ::
  "listener_config list \<Rightarrow> (string \<times> 'prog service_config) list \<Rightarrow> error + unit" where
  "validate_listeners_config listeners all_services =
     and_then (try_map (validate_listener listeners all_services) (List.enumerate 0 listeners)) (\<lambda>_. Inr ())"

definition all_http_services :: "(string \<times> 'prog service_config) list \<Rightarrow> string list" where
  "all_http_services services =
     map fst (filter (\<lambda>(_, sc). sc_http_proxy sc \<noteq> None \<or> sc_static sc \<noteq> None) services)"

definition all_tcp_services :: "(string \<times> 'prog service_config) list \<Rightarrow> string list" where
  "all_tcp_services services = map fst (filter (\<lambda>(_, sc). sc_tcp_proxy sc \<noteq> None) services)"

definition default_services_for_listener ::
  "(string \<times> 'prog service_config) list \<Rightarrow> listener_protocol \<Rightarrow> string list" where
  "default_services_for_listener services protocol =
     (case protocol of
        Tcp \<Rightarrow> all_tcp_services services
      | TcpAndTls \<Rightarrow> all_tcp_services services
      | Http \<Rightarrow> all_http_services services
      | Https \<Rightarrow> all_http_services services)"

definition listener_of_file ::
  "(string \<times> 'prog service_config) list \<Rightarrow>
     string \<times> listener_address_config_file listener_config_file \<Rightarrow> listener_config" where
  "listener_of_file services = (\<lambda>(name, l).
     \<lparr>lc_name = name, lc_address = lacf_socket_address (lcf_address l),
      lc_protocol = lacf_protocol (lcf_address l),
      lc_services = (case lcf_services l of
         Some ss \<Rightarrow> ss
       | None \<Rightarrow> default_services_for_listener services (lacf_protocol (lcf_address l)))\<rparr>)"

section \<open>Rules\<close>

text \<open>
  Every rule with a limit starts a limiter task and keeps the sending side of its channel.
  \<open>workers\<close> are the tasks started so far.
\<close>

fun build_rules ::
  "(string \<Rightarrow> unit + 'prog) \<Rightarrow> (string \<times> rule_config_file) list \<Rightarrow> rate_limit list \<Rightarrow>
     error + 'prog rule list \<times> rate_limit list" where
  "build_rules compile [] workers = Inr ([], workers)"
| "build_rules compile ((name, rule_config) # rcs) workers =
     (let (limiter_tx, workers) =
            (case rcf_limit rule_config of
               Some limiter_cfg \<Rightarrow> (Some (length workers), workers @ [limiter_cfg])
             | None \<Rightarrow> (None, workers))
      in case (case rcf_expression rule_config of
                 None \<Rightarrow> Inr None
               | Some expression \<Rightarrow>
                   (case compile expression of Inl _ \<Rightarrow> Inl () | Inr p \<Rightarrow> Inr (Some p))) of
           Inl _ \<Rightarrow> Inl (Config ''error parsing rules'')
         | Inr expression \<Rightarrow>
             and_then (build_rules compile rcs workers) (\<lambda>(rules, workers).
               Inr (\<lparr>rule_name = name, rule_expression = expression,
                     rule_actions = rcf_actions rule_config, rule_limiter_tx = limiter_tx\<rparr> # rules,
                    workers)))"

section \<open>ACME\<close>

definition valid_acme_domain :: "string \<Rightarrow> error + unit" where
  "valid_acme_domain domain =
     (if contains_char domain CHR ''*''
      then Inl (Config ''acme: Pingoo currently doesn't support wildcard domains for automatic TLS'')
      else if \<not> is_ascii domain \<or> to_ascii_lowercase domain \<noteq> domain
      then Inl (Config ''acme: invalid domain'')
      else Inr ())"

definition validate_tls :: "tls_config option \<Rightarrow> error + tls_config" where
  "validate_tls tls =
     (let tls_config = (case tls of Some t \<Rightarrow> t | None \<Rightarrow> \<lparr>tls_acme = None\<rparr>)
      in case tls_acme tls_config of
           None \<Rightarrow> Inr tls_config
         | Some acme_config \<Rightarrow>
             (let acme_config = acme_config\<lparr>acme_directory_url :=
                    trim_end_matches CHR ''/'' (trim (acme_directory_url acme_config))\<rparr>
              in if find_duplicate (acme_domains acme_config) \<noteq> None
                 then Inl (Config ''acme: duplicate domain'')
                 else and_then (try_map valid_acme_domain (acme_domains acme_config))
                        (\<lambda>_. Inr (tls_config\<lparr>tls_acme := Some acme_config\<rparr>))))"

section \<open>The whole\<close>

text \<open>Listener addresses are parsed during deserialisation, so their errors are parse errors.\<close>

definition parse_config_file ::
  "'prog load_env \<Rightarrow> string \<Rightarrow> error + listener_address_config_file config_file" where
  "parse_config_file env raw_config =
     (case le_yaml_config env raw_config of
        Inl _ \<Rightarrow> Inl (Config ''error parsing config file'')
      | Inr f \<Rightarrow>
          (case try_map (\<lambda>(name, l).
                  and_then (parse_listener_address (le_parse env) (lcf_address l)) (\<lambda>a.
                    Inr (name, \<lparr>lcf_address = a, lcf_services = lcf_services l\<rparr>))) (cf_listeners f) of
             Inl _ \<Rightarrow> Inl (Config ''error parsing config file'')
           | Inr listeners \<Rightarrow>
               Inr \<lparr>cf_listeners = listeners, cf_services = cf_services f, cf_rules = cf_rules f,
                    cf_tls = cf_tls f, cf_docker_socket = cf_docker_socket f, cf_lists = cf_lists f,
                    cf_child_process = cf_child_process f\<rparr>))"

definition load_and_validate :: "'prog load_env \<Rightarrow> error + 'prog config" where
  "load_and_validate env =
     (case le_config_bytes env of
        Inl _ \<Rightarrow> Inl (Config ''error reading config file'')
      | Inr raw_config \<Rightarrow>
          and_then (parse_config_file env raw_config) (\<lambda>config_file.
          and_then (load_rules env) (\<lambda>rules_from_folder.
          if find_duplicate2 (map fst rules_from_folder) (map fst (cf_rules config_file)) \<noteq> None
          then Inl (Config ''duplicate rule name'')
          else
            (let rule_configs = index_map_extend (cf_rules config_file) rules_from_folder
             in and_then (try_map (\<lambda>(name, service).
                    and_then (parse_service (le_parse env) name service) (\<lambda>s. Inr (name, s)))
                  (cf_services config_file)) (\<lambda>service_pairs.
                (let services = collect_map service_pairs;
                     listeners = map (listener_of_file services) (cf_listeners config_file)
                 in and_then (validate_listeners_config listeners services) (\<lambda>_.
                    and_then (build_rules (pe_compile (le_parse env)) rule_configs []) (\<lambda>(rules, limiter_workers).
                    and_then (validate_tls (cf_tls config_file)) (\<lambda>tls_config.
                      Inr \<lparr>cfg_listeners = listeners, cfg_services = map snd services,
                           cfg_rules = rules, cfg_tls = tls_config,
                           cfg_docker_socket =
                             (case cf_docker_socket config_file of
                                Some socket \<Rightarrow> socket | None \<Rightarrow> ''/var/run/docker.sock''),
                           cfg_lists = collect_map
                             (case cf_lists config_file of Some ls \<Rightarrow> ls | None \<Rightarrow> []),
                           cfg_child_process = cf_child_process config_file,
                           cfg_limiter_workers = limiter_workers\<rparr>)))))))))"

section \<open>Duplicates, specified\<close>

lemma find_duplicate_from_None:
  "find_duplicate_from seen v = None \<longleftrightarrow> distinct v \<and> set v \<inter> set seen = {}"
  by (induction v arbitrary: seen) auto

lemma find_duplicate_None [simp]: "find_duplicate v = None \<longleftrightarrow> distinct v"
  by (simp add: find_duplicate_def find_duplicate_from_None)

lemma find_duplicate_from_Some:
  "find_duplicate_from seen v = Some x \<longleftrightarrow>
     (\<exists>a b. v = a @ x # b \<and> x \<in> set seen \<union> set a \<and> distinct a \<and> set a \<inter> set seen = {})"
proof (induction v arbitrary: seen)
  case (Cons y v)
  show ?case
  proof (cases "y \<in> set seen")
    case True
    show ?thesis
    proof
      assume "find_duplicate_from seen (y # v) = Some x"
      with True show "\<exists>a b. y # v = a @ x # b \<and> x \<in> set seen \<union> set a \<and> distinct a \<and> set a \<inter> set seen = {}"
        by (auto intro: exI [of _ "[]"])
    next
      assume "\<exists>a b. y # v = a @ x # b \<and> x \<in> set seen \<union> set a \<and> distinct a \<and> set a \<inter> set seen = {}"
      with True show "find_duplicate_from seen (y # v) = Some x"
        by (auto simp: Cons_eq_append_conv)
    qed
  next
    case False
    show ?thesis
    proof
      assume "find_duplicate_from seen (y # v) = Some x"
      with False Cons obtain a b where "v = a @ x # b" "x \<in> set (y # seen) \<union> set a" "distinct a"
        "set a \<inter> set (y # seen) = {}" by auto
      with False show "\<exists>a b. y # v = a @ x # b \<and> x \<in> set seen \<union> set a \<and> distinct a \<and> set a \<inter> set seen = {}"
        by (intro exI [of _ "y # a"] exI [of _ b]) auto
    next
      assume "\<exists>a b. y # v = a @ x # b \<and> x \<in> set seen \<union> set a \<and> distinct a \<and> set a \<inter> set seen = {}"
      then obtain a b where ab: "y # v = a @ x # b" "x \<in> set seen \<union> set a" "distinct a" "set a \<inter> set seen = {}"
        by blast
      with False obtain a' where "a = y # a'" by (cases a) auto
      with ab have "\<exists>a b. v = a @ x # b \<and> x \<in> set (y # seen) \<union> set a \<and> distinct a \<and> set a \<inter> set (y # seen) = {}"
        by (intro exI [of _ a'] exI [of _ b]) auto
      with False Cons show "find_duplicate_from seen (y # v) = Some x" by simp
    qed
  qed
qed simp

lemma find_duplicate_Some:
  "find_duplicate v = Some x \<longleftrightarrow> (\<exists>a b. v = a @ x # b \<and> x \<in> set a \<and> distinct a)"
  by (simp add: find_duplicate_def find_duplicate_from_Some)

lemma find_duplicate2_None [simp]: "find_duplicate2 a b = None \<longleftrightarrow> set a \<inter> set b = {}"
  by (auto simp: find_duplicate2_def find_None_iff)

section \<open>Validation, specified\<close>

definition listener_valid :: "string set \<Rightarrow> listener_config \<Rightarrow> bool" where
  "listener_valid names l \<longleftrightarrow>
     lc_services l \<noteq> [] \<and> distinct (lc_services l) \<and> set (lc_services l) \<subseteq> names
     \<and> (lc_protocol l \<in> {Tcp, TcpAndTls} \<longrightarrow> length (lc_services l) = 1)"

definition listeners_valid :: "listener_config list \<Rightarrow> string set \<Rightarrow> bool" where
  "listeners_valid listeners names \<longleftrightarrow>
     distinct (map (sa_port \<circ> lc_address) listeners) \<and> (\<forall>l \<in> set listeners. listener_valid names l)"

lemma enumerate_ex:
  "list_ex (\<lambda>(j, y). i \<noteq> j \<and> P y) (List.enumerate 0 xs) \<longleftrightarrow> (\<exists>j < length xs. i \<noteq> j \<and> P (xs ! j))"
  by (auto simp: list_ex_iff in_set_enumerate_eq)

lemma is_ok_validate_listeners:
  "is_ok (validate_listeners_config listeners services) \<longleftrightarrow> listeners_valid listeners (fst ` set services)"
proof -
  let ?port = "\<lambda>l. sa_port (lc_address l)"
  have one: "is_ok (validate_listener listeners services (i, l)) \<longleftrightarrow>
      (\<forall>j < length listeners. i \<noteq> j \<longrightarrow> ?port l \<noteq> ?port (listeners ! j))
      \<and> listener_valid (fst ` set services) l" for i l
    unfolding validate_listener_def prod.case enumerate_ex listener_valid_def
    by (cases "lc_services l") (auto simp: list_ex_iff map_of_eq_None_iff split: if_splits)
  have d: "distinct (map (sa_port \<circ> lc_address) listeners) \<longleftrightarrow>
      (\<forall>i < length listeners. \<forall>j < length listeners. i \<noteq> j \<longrightarrow> ?port (listeners ! i) \<noteq> ?port (listeners ! j))"
    by (simp add: distinct_conv_nth)
  have "is_ok (validate_listeners_config listeners services) \<longleftrightarrow>
      (\<forall>i < length listeners. is_ok (validate_listener listeners services (i, listeners ! i)))"
    by (auto simp: validate_listeners_config_def is_ok_try_map in_set_enumerate_eq)
  also have "\<dots> \<longleftrightarrow> listeners_valid listeners (fst ` set services)"
    unfolding one listeners_valid_def d all_set_conv_all_nth by blast
  finally show ?thesis .
qed

section \<open>The configuration that is returned\<close>

definition rule_valid :: "'prog config \<Rightarrow> 'prog rule \<Rightarrow> bool" where
  "rule_valid cfg r \<longleftrightarrow>
     (case rule_limiter_tx r of None \<Rightarrow> True | Some i \<Rightarrow> i < length (cfg_limiter_workers cfg))"

definition acme_valid :: "tls_config \<Rightarrow> bool" where
  "acme_valid tls \<longleftrightarrow>
     (case tls_acme tls of
        None \<Rightarrow> True
      | Some acme \<Rightarrow> distinct (acme_domains acme)
          \<and> (\<forall>d \<in> set (acme_domains acme). CHR ''*'' \<notin> set d \<and> is_ascii d \<and> to_ascii_lowercase d = d))"

definition config_valid :: "'prog config \<Rightarrow> bool" where
  "config_valid cfg \<longleftrightarrow>
     distinct (map sc_name (cfg_services cfg))
     \<and> (\<forall>sc \<in> set (cfg_services cfg). service_valid sc)
     \<and> listeners_valid (cfg_listeners cfg) (sc_name ` set (cfg_services cfg))
     \<and> distinct (map rule_name (cfg_rules cfg))
     \<and> (\<forall>r \<in> set (cfg_rules cfg). rule_valid cfg r)
     \<and> acme_valid (cfg_tls cfg)
     \<and> distinct (map fst (cfg_lists cfg))"

text \<open>The maps of the YAML library have distinct keys, as an \<open>IndexMap\<close> has.\<close>

definition load_env_ok :: "'prog load_env \<Rightarrow> bool" where
  "load_env_ok env \<longleftrightarrow>
     (\<forall>s f. le_yaml_config env s = Inr f \<longrightarrow> distinct (map fst (cf_rules f)))"

lemma distinct_index_map_extend:
  "distinct (map fst xs) \<Longrightarrow> distinct (map fst (index_map_extend xs ys))"
  by (simp add: index_map_extend_def distinct_fold_update)

lemma validate_tls_Inr: "validate_tls tls = Inr t \<Longrightarrow> acme_valid t"
proof -
  assume t: "validate_tls tls = Inr t"
  have dom: "valid_acme_domain d = Inr u \<longleftrightarrow> CHR ''*'' \<notin> set d \<and> is_ascii d \<and> to_ascii_lowercase d = d" for d u
    by (auto simp: valid_acme_domain_def)
  have "try_map valid_acme_domain ds = Inr us \<Longrightarrow>
      \<forall>d \<in> set ds. CHR ''*'' \<notin> set d \<and> is_ascii d \<and> to_ascii_lowercase d = d" for ds us
    by (induction ds arbitrary: us) (auto simp: and_then_Inr_iff dom)
  with t show ?thesis
    by (auto simp: validate_tls_def acme_valid_def Let_def and_then_Inr_iff split: option.splits if_splits)
qed

lemma build_rules_Inr:
  "build_rules compile rcs workers = Inr (rules, workers') \<Longrightarrow>
     map rule_name rules = map fst rcs \<and> map rule_actions rules = map (rcf_actions \<circ> snd) rcs
     \<and> (\<exists>ws. workers' = workers @ ws)
     \<and> list_all2 (\<lambda>r (_, rc). case rcf_limit rc of
           None \<Rightarrow> rule_limiter_tx r = None
         | Some l \<Rightarrow> \<exists>i < length workers'. rule_limiter_tx r = Some i \<and> workers' ! i = l) rules rcs"
proof (induction rcs arbitrary: workers rules workers')
  case (Cons rc rcs)
  obtain n c where rc: "rc = (n, c)" by fastforce
  define ws where "ws = (case rcf_limit c of Some l \<Rightarrow> workers @ [l] | None \<Rightarrow> workers)"
  define tx where "tx = (case rcf_limit c of Some l \<Rightarrow> Some (length workers) | None \<Rightarrow> None)"
  from Cons.prems obtain ex rules' where rest: "build_rules compile rcs ws = Inr (rules', workers')"
    and rules: "rules = \<lparr>rule_name = n, rule_expression = ex, rule_actions = rcf_actions c, rule_limiter_tx = tx\<rparr> # rules'"
    by (cases "rcf_limit c") (auto simp: rc ws_def tx_def and_then_Inr_iff split: sum.splits)
  from Cons.IH [OF rest] obtain ws' where ws': "workers' = ws @ ws'" by blast
  show ?case
  proof (cases "rcf_limit c")
    case None
    with Cons.IH [OF rest] ws' show ?thesis by (auto simp: rules rc ws_def tx_def)
  next
    case (Some l)
    with ws' have "length workers < length workers' \<and> workers' ! length workers = l"
      by (simp add: ws_def nth_append)
    with Some Cons.IH [OF rest] ws' show ?thesis by (auto simp: rules rc ws_def tx_def)
  qed
qed simp

lemma load_and_validate_Inr:
  assumes "load_and_validate env = Inr cfg"
  obtains raw f folder service_pairs where "le_config_bytes env = Inr raw"
    and "parse_config_file env raw = Inr f" and "load_rules env = Inr folder"
    and "set (map fst folder) \<inter> set (map fst (cf_rules f)) = {}"
    and "try_map (\<lambda>(name, service). and_then (parse_service (le_parse env) name service) (\<lambda>s. Inr (name, s)))
           (cf_services f) = Inr service_pairs"
    and "cfg_services cfg = map snd (collect_map service_pairs)"
    and "cfg_listeners cfg = map (listener_of_file (collect_map service_pairs)) (cf_listeners f)"
    and "validate_listeners_config (cfg_listeners cfg) (collect_map service_pairs) = Inr ()"
    and "build_rules (pe_compile (le_parse env)) (index_map_extend (cf_rules f) folder) []
           = Inr (cfg_rules cfg, cfg_limiter_workers cfg)"
    and "validate_tls (cf_tls f) = Inr (cfg_tls cfg)"
    and "cfg_lists cfg = collect_map (case cf_lists f of Some ls \<Rightarrow> ls | None \<Rightarrow> [])"
    and "cfg_child_process cfg = cf_child_process f"
  using assms
  by (auto simp: load_and_validate_def and_then_Inr_iff Let_def find_duplicate2_None
      split: sum.splits if_splits)

lemma service_pairs_named:
  assumes "try_map (\<lambda>(name, service). and_then (parse_service env name service) (\<lambda>s. Inr (name, s))) xs = Inr ps"
  shows "\<forall>p \<in> set ps. sc_name (snd p) = fst p \<and> service_valid (snd p)"
  by (rule try_map_all [OF assms]) (auto simp: and_then_Inr_iff dest: parse_service_Inr)

lemma collect_map_named:
  assumes "\<forall>p \<in> set ps. sc_name (snd p) = fst p \<and> service_valid (snd p)"
  shows "map sc_name (map snd (collect_map ps)) = map fst (collect_map ps)"
    and "\<forall>sc \<in> set (map snd (collect_map ps)). service_valid sc"
    and "sc_name ` set (map snd (collect_map ps)) = fst ` set (collect_map ps)"
proof -
  have *: "\<forall>p \<in> set (collect_map ps). sc_name (snd p) = fst p \<and> service_valid (snd p)"
    using assms collect_map_subset by blast
  then show "map sc_name (map snd (collect_map ps)) = map fst (collect_map ps)" by simp
  from * show "\<forall>sc \<in> set (map snd (collect_map ps)). service_valid sc" by simp
  from * show "sc_name ` set (map snd (collect_map ps)) = fst ` set (collect_map ps)"
    by (force simp: image_image)
qed

lemma load_config_valid:
  assumes ok: "load_env_ok env" and cfg: "load_and_validate env = Inr cfg"
  shows "config_valid cfg"
  using cfg
proof (rule load_and_validate_Inr)
  fix raw f folder ps
  assume f: "parse_config_file env raw = Inr f"
    and ps: "try_map (\<lambda>(name, service). and_then (parse_service (le_parse env) name service) (\<lambda>s. Inr (name, s)))
           (cf_services f) = Inr ps"
    and services: "cfg_services cfg = map snd (collect_map ps)"
    and listeners: "validate_listeners_config (cfg_listeners cfg) (collect_map ps) = Inr ()"
    and rules: "build_rules (pe_compile (le_parse env)) (index_map_extend (cf_rules f) folder) []
           = Inr (cfg_rules cfg, cfg_limiter_workers cfg)"
    and tls: "validate_tls (cf_tls f) = Inr (cfg_tls cfg)"
    and lists: "cfg_lists cfg = collect_map (case cf_lists f of Some ls \<Rightarrow> ls | None \<Rightarrow> [])"
  note named = collect_map_named [OF service_pairs_named [OF ps]]
  obtain f0 where "le_yaml_config env raw = Inr f0" and "cf_rules f = cf_rules f0"
    using f by (auto simp: parse_config_file_def split: sum.splits)
  then have "distinct (map fst (cf_rules f))"
    using ok by (auto simp: load_env_ok_def)
  then have keys: "distinct (map rule_name (cfg_rules cfg))"
    using build_rules_Inr [OF rules, THEN conjunct1] by (simp only: distinct_index_map_extend)
  have "list_all2 (\<lambda>r _. rule_valid cfg r) (cfg_rules cfg) (index_map_extend (cf_rules f) folder)"
    using build_rules_Inr [OF rules]
    by (auto elim!: list_all2_mono simp: rule_valid_def split: option.splits)
  then have rv: "\<forall>r \<in> set (cfg_rules cfg). rule_valid cfg r"
    by (auto simp: list_all2_conv_all_nth in_set_conv_nth)
  have lv: "listeners_valid (cfg_listeners cfg) (sc_name ` set (cfg_services cfg))"
    using is_ok_validate_listeners [of "cfg_listeners cfg" "collect_map ps"] listeners
    by (simp only: services named(3) is_ok_simps)
  have "distinct (map sc_name (cfg_services cfg))"
    unfolding services named(1) by simp
  with named(2) lv keys rv validate_tls_Inr [OF tls] lists show ?thesis
    by (simp add: config_valid_def services)
qed

section \<open>Properties\<close>

text \<open>C19: a configuration that loads is valid: services have distinct names and exactly one kind
  each; listeners use distinct ports and name existing, distinct services, exactly one on a TCP
  listener; rule names are distinct and every limited rule has a running limiter; the ACME domains
  are distinct lower-case ASCII names without wildcards.\<close>

theorem load_and_validate_sound:
  assumes "load_env_ok env" and "load_and_validate env = Inr cfg"
  shows "config_valid cfg"
  using assms by (rule load_config_valid)

definition demo_load_env :: "string option \<Rightarrow> unit load_env" where
  "demo_load_env acme_domain =
     \<lparr>le_parse = demo_parse_env,
      le_config_bytes = Inr ''yaml'',
      le_yaml_config = \<lambda>_. Inr
        \<lparr>cf_listeners = [(''web'', \<lparr>lcf_address = ''http://0.0.0.0'', lcf_services = None\<rparr>)],
         cf_services = [(''api'', demo_service_file)],
         cf_rules = [(''limit'', \<lparr>rcf_expression = None, rcf_actions = [Limit],
                       rcf_limit = Some \<lparr>rlim_max = 1, rlim_window = 1, rlim_capacity = 3\<rparr>\<rparr>)],
         cf_tls = map_option (\<lambda>d. \<lparr>tls_acme = Some \<lparr>acme_directory_url = '' https://acme/ '', acme_domains = [d]\<rparr>\<rparr>) acme_domain,
         cf_docker_socket = None, cf_lists = None, cf_child_process = None\<rparr>,
      le_rules_dir = Inr [(Some ''yml'', Inr ''rule''), (None, Inl ())],
      le_yaml_rules = \<lambda>_. Inr [(''bots'', \<lparr>rcf_expression = Some ''true'', rcf_actions = [Block], rcf_limit = None\<rparr>)]\<rparr>"

lemma demo_load_env_ok: "load_env_ok (demo_load_env d)"
  by (simp add: load_env_ok_def demo_load_env_def)

theorem load_and_validate_sound_witness:
  "\<exists>cfg. load_and_validate (demo_load_env (Some ''a.b'')) = Inr cfg \<and> config_valid cfg"
proof -
  have "is_ok (load_and_validate (demo_load_env (Some ''a.b'')))"
    by code_simp
  then obtain cfg where "load_and_validate (demo_load_env (Some ''a.b'')) = Inr cfg"
    by (auto simp: is_ok_iff)
  with load_and_validate_sound [OF demo_load_env_ok this] show ?thesis by blast
qed

text \<open>The validation of the listeners accepts exactly the valid ones: the errors of the nested
  loops are all there are, and a duplicate found is the first element that repeats an earlier one.\<close>

lemma listeners_validation_exact:
  "(is_ok (validate_listeners_config listeners services)
      \<longleftrightarrow> listeners_valid listeners (fst ` set services))
   \<and> (find_duplicate v = Some x \<longleftrightarrow> (\<exists>a b. v = a @ x # b \<and> x \<in> set a \<and> distinct a))"
  using is_ok_validate_listeners find_duplicate_Some by metis

text \<open>The rules run in the order of the file, then of the folder, with their configured actions,
  and each limited rule sends to a limiter that runs its own configuration.\<close>

lemma rules_as_configured:
  assumes "load_and_validate env = Inr cfg" and "le_config_bytes env = Inr raw"
    and "le_yaml_config env raw = Inr f" and "load_rules env = Inr folder"
  shows "map rule_name (cfg_rules cfg) = map fst (index_map_extend (cf_rules f) folder)
    \<and> map rule_actions (cfg_rules cfg) = map (rcf_actions \<circ> snd) (index_map_extend (cf_rules f) folder)
    \<and> list_all2 (\<lambda>r (_, rc). case rcf_limit rc of
           None \<Rightarrow> rule_limiter_tx r = None
         | Some l \<Rightarrow> \<exists>i < length (cfg_limiter_workers cfg).
             rule_limiter_tx r = Some i \<and> cfg_limiter_workers cfg ! i = l)
        (cfg_rules cfg) (index_map_extend (cf_rules f) folder)"
  using assms(1)
proof (rule load_and_validate_Inr)
  fix raw' f' folder' ps
  assume "le_config_bytes env = Inr raw'" "parse_config_file env raw' = Inr f'" "load_rules env = Inr folder'"
    and rules: "build_rules (pe_compile (le_parse env)) (index_map_extend (cf_rules f') folder') []
           = Inr (cfg_rules cfg, cfg_limiter_workers cfg)"
  with assms have "cf_rules f' = cf_rules f" and "folder' = folder"
    by (auto simp: parse_config_file_def split: sum.splits)
  with build_rules_Inr [OF rules] show ?thesis by simp
qed

lemma rules_as_configured_witness:
  "\<exists>cfg. load_and_validate (demo_load_env None) = Inr cfg
     \<and> map rule_name (cfg_rules cfg) = [''limit'', ''bots'']"
proof -
  have "is_ok (load_and_validate (demo_load_env None))" by code_simp
  then obtain cfg where cfg: "load_and_validate (demo_load_env None) = Inr cfg"
    by (auto simp: is_ok_iff)
  obtain f where f: "le_yaml_config (demo_load_env None) ''yaml'' = Inr f"
    and rules: "map fst (index_map_extend (cf_rules f)
        [(''bots'', \<lparr>rcf_expression = Some ''true'', rcf_actions = [Block], rcf_limit = None\<rparr>)]) = [''limit'', ''bots'']"
    by (simp add: demo_load_env_def index_map_extend_def)
  have "load_rules (demo_load_env None)
      = Inr [(''bots'', \<lparr>rcf_expression = Some ''true'', rcf_actions = [Block], rcf_limit = None\<rparr>)]"
    by code_simp
  from rules_as_configured [OF cfg _ f this] rules cfg show ?thesis
    by (simp add: demo_load_env_def)
qed

end
