(* ===== verification/Config_Values.thy ===== *)
theory Config_Values
  imports Load_Config Json
begin

text \<open>
  The deserialisation of the configuration file: the serde attributes of
  \<^verbatim>\<open>pingoo/config/config_file.rs\<close>, \<^verbatim>\<open>pingoo/config/config.rs\<close> and
  \<^verbatim>\<open>rules/rules.rs\<close> over generic values, with every default. The YAML library turns text
  into a value; a value has the shape of JSON. Structs have distinct fields; in a map a later entry
  replaces an earlier one of its key, as in an \<open>IndexMap\<close>.
\<close>

section \<open>Basic types\<close>

fun as_u16 :: "json \<Rightarrow> u16 option" where
  "as_u16 (JInt i) = (if 0 \<le> i \<and> i < 2 ^ 16 then Some (of_int i) else None)"
| "as_u16 _ = None"

fun as_usize :: "json \<Rightarrow> nat option" where
  "as_usize (JInt i) = (if 0 \<le> i \<and> i < 2 ^ 64 then Some (nat i) else None)"
| "as_usize _ = None"

text \<open>A field with a default that is used when it is missing.\<close>

definition field_or :: "'a \<Rightarrow> (string \<times> json) list \<Rightarrow> string \<Rightarrow> (json \<Rightarrow> 'a option) \<Rightarrow> 'a option" where
  "field_or d fs name f = (case map_of fs name of None \<Rightarrow> Some d | Some v \<Rightarrow> f v)"

definition index_map_of :: "(json \<Rightarrow> 'a option) \<Rightarrow> json \<Rightarrow> (string \<times> 'a) list option" where
  "index_map_of f v =
     Option.bind (as_object v) (\<lambda>fs. map_option collect_map (all_elements (\<lambda>(k, v). map_option (Pair k) (f v)) fs))"

definition strings_of :: "json \<Rightarrow> string list option" where
  "strings_of = array_of as_str"

section \<open>Rules\<close>

text \<open>An action is an object tagged by the field \<open>action\<close>.\<close>

definition action_of_value :: "json \<Rightarrow> action option" where
  "action_of_value v =
     Option.bind (as_object v) (\<lambda>fs.
       Option.bind (get_field fs ''action'' as_str) (\<lambda>tag.
         if tag = ''block'' then Some Block
         else if tag = ''captcha'' then Some Captcha
         else if tag = ''limit'' then Some Limit
         else None))"

definition rate_limit_of_value :: "json \<Rightarrow> rate_limit option" where
  "rate_limit_of_value v =
     Option.bind (as_object v) (\<lambda>fs.
       Option.bind (get_field fs ''max'' as_u16) (\<lambda>m.
         Option.bind (get_field fs ''window'' as_u16) (\<lambda>w.
           map_option (\<lambda>c. \<lparr>rlim_max = m, rlim_window = w, rlim_capacity = c\<rparr>) (get_field fs ''capacity'' as_usize))))"

definition rule_config_file_of_value :: "json \<Rightarrow> rule_config_file option" where
  "rule_config_file_of_value v =
     Option.bind (as_object v) (\<lambda>fs.
       Option.bind (get_opt_field fs ''expression'' as_str) (\<lambda>expression.
         Option.bind (get_field fs ''actions'' (array_of action_of_value)) (\<lambda>actions.
           map_option (\<lambda>l. \<lparr>rcf_expression = expression, rcf_actions = actions, rcf_limit = l\<rparr>)
             (get_opt_field fs ''limit'' rate_limit_of_value))))"

section \<open>Services and listeners\<close>

definition static_not_found_of_value :: "json \<Rightarrow> service_config_file_static_not_found option" where
  "static_not_found_of_value v =
     Option.bind (as_object v) (\<lambda>fs.
       Option.bind (get_opt_field fs ''file'' as_str) (\<lambda>file_name.
         map_option (\<lambda>status. \<lparr>scfn_file = file_name, scfn_status = status\<rparr>)
           (field_or default_service_static_not_found_status fs ''status'' as_u16)))"

definition static_of_value :: "json \<Rightarrow> service_config_file_static option" where
  "static_of_value v =
     Option.bind (as_object v) (\<lambda>fs.
       Option.bind (field_or [] fs ''root'' as_str) (\<lambda>root.
         map_option (\<lambda>not_found. \<lparr>scfs_root = root, scfs_not_found = not_found\<rparr>)
           (field_or static_not_found_default fs ''not_found'' static_not_found_of_value)))"

definition service_config_file_of_value :: "json \<Rightarrow> service_config_file option" where
  "service_config_file_of_value v =
     Option.bind (as_object v) (\<lambda>fs.
       Option.bind (get_opt_field fs ''route'' as_str) (\<lambda>route.
         Option.bind (get_opt_field fs ''http_proxy'' strings_of) (\<lambda>http_proxy.
           Option.bind (get_opt_field fs ''static'' static_of_value) (\<lambda>static.
             map_option (\<lambda>tcp_proxy. \<lparr>scf_route = route, scf_http_proxy = http_proxy, scf_static = static,
                                      scf_tcp_proxy = tcp_proxy\<rparr>)
               (get_opt_field fs ''tcp_proxy'' strings_of)))))"

text \<open>The address is a string; what it denotes is parsed by \<open>parse_config_file\<close>.\<close>

definition listener_config_file_of_value :: "json \<Rightarrow> string listener_config_file option" where
  "listener_config_file_of_value v =
     Option.bind (as_object v) (\<lambda>fs.
       Option.bind (get_field fs ''address'' as_str) (\<lambda>address.
         map_option (\<lambda>services. \<lparr>lcf_address = address, lcf_services = services\<rparr>)
           (get_opt_field fs ''services'' strings_of)))"

section \<open>The rest of the file\<close>

definition letsencrypt_production_url :: string where
  "letsencrypt_production_url = ''https://acme-v02.api.letsencrypt.org/directory''"

definition tls_acme_config_of_value :: "json \<Rightarrow> tls_acme_config option" where
  "tls_acme_config_of_value v =
     Option.bind (as_object v) (\<lambda>fs.
       Option.bind (field_or letsencrypt_production_url fs ''directory_url'' as_str) (\<lambda>url.
         map_option (\<lambda>domains. \<lparr>acme_directory_url = url, acme_domains = domains\<rparr>) (get_field fs ''domains'' strings_of)))"

definition tls_config_of_value :: "json \<Rightarrow> tls_config option" where
  "tls_config_of_value v =
     Option.bind (as_object v) (\<lambda>fs.
       map_option (\<lambda>acme. \<lparr>tls_acme = acme\<rparr>) (get_opt_field fs ''acme'' tls_acme_config_of_value))"

definition docker_socket_of_value :: "json \<Rightarrow> string option" where
  "docker_socket_of_value v = Option.bind (as_object v) (\<lambda>fs. field_or ''/var/run/docker.sock'' fs ''socket'' as_str)"

definition service_discovery_of_value :: "json \<Rightarrow> string option" where
  "service_discovery_of_value v = Option.bind (as_object v) (\<lambda>fs. get_field fs ''docker'' docker_socket_of_value)"

definition list_type_of_value :: "json \<Rightarrow> list_type option" where
  "list_type_of_value v =
     Option.bind (as_str v) (map_of [(''String'', StringList), (''Int'', IntList), (''Ip'', IpList)])"

definition list_config_of_value :: "json \<Rightarrow> list_config option" where
  "list_config_of_value v =
     Option.bind (as_object v) (\<lambda>fs.
       Option.bind (get_field fs ''type'' list_type_of_value) (\<lambda>ty.
         map_option (\<lambda>path. \<lparr>list_type = ty, list_file = path\<rparr>) (get_field fs ''file'' as_str)))"

definition child_process_of_value :: "json \<Rightarrow> string list option" where
  "child_process_of_value v = Option.bind (as_object v) (\<lambda>fs. get_field fs ''command'' strings_of)"

definition config_file_of_value :: "json \<Rightarrow> string config_file option" where
  "config_file_of_value v =
     Option.bind (as_object v) (\<lambda>fs.
       Option.bind (get_field fs ''listeners'' (index_map_of listener_config_file_of_value)) (\<lambda>listeners.
         Option.bind (get_field fs ''services'' (index_map_of service_config_file_of_value)) (\<lambda>services.
           Option.bind (field_or [] fs ''rules'' (index_map_of rule_config_file_of_value)) (\<lambda>rules.
             Option.bind (get_opt_field fs ''tls'' tls_config_of_value) (\<lambda>tls.
               Option.bind (get_opt_field fs ''service_discovery'' service_discovery_of_value) (\<lambda>socket.
                 Option.bind (get_opt_field fs ''lists'' (index_map_of list_config_of_value)) (\<lambda>ls.
                   map_option (\<lambda>child. \<lparr>cf_listeners = listeners, cf_services = services, cf_rules = rules, cf_tls = tls,
                                        cf_docker_socket = socket, cf_lists = ls, cf_child_process = child\<rparr>)
                     (get_opt_field fs ''child_process'' child_process_of_value))))))))"

text \<open>The two calls of the YAML library, from the text of a file.\<close>

definition yaml_config :: "(string \<Rightarrow> json option) \<Rightarrow> string \<Rightarrow> unit + string config_file" where
  "yaml_config parse s = (case Option.bind (parse s) config_file_of_value of None \<Rightarrow> Inl () | Some f \<Rightarrow> Inr f)"

definition yaml_rules :: "(string \<Rightarrow> json option) \<Rightarrow> string \<Rightarrow> unit + (string \<times> rule_config_file) list" where
  "yaml_rules parse s =
     (case Option.bind (parse s) (index_map_of rule_config_file_of_value) of None \<Rightarrow> Inl () | Some rs \<Rightarrow> Inr rs)"

section \<open>What loading relies on\<close>

lemma index_map_of_distinct: "index_map_of f v = Some m \<Longrightarrow> distinct (map fst m)"
  by (auto simp: index_map_of_def bind_eq_Some_conv)

lemma config_file_rules_distinct: "config_file_of_value v = Some f \<Longrightarrow> distinct (map fst (cf_rules f))"
  by (auto simp: config_file_of_value_def bind_eq_Some_conv field_or_def index_map_of_distinct split: option.splits)

text \<open>Reading files this way gives the distinct rule names that the validity of what loads rests on.\<close>

lemma load_env_ok_yaml: "le_yaml_config env = yaml_config parse \<Longrightarrow> load_env_ok env"
  by (auto simp: load_env_ok_def yaml_config_def config_file_rules_distinct bind_eq_Some_conv split: option.splits)

section \<open>The documentation\<close>

text \<open>The reference configuration of \<^verbatim>\<open>docs/configuration.md\<close>.\<close>

definition documented_config :: json where
  "documented_config =
     JObject
      [(''listeners'', JObject
         [(''http'', JObject [(''address'', JString ''http://0.0.0.0:8080''), (''services'', JArray [JString ''api''])])]),
       (''tls'', JObject [(''acme'', JObject [(''domains'', JArray [JString ''pingoo.io''])])]),
       (''services'', JObject
         [(''api'', JObject [(''route'', JString ''http_request.starts_with()''), (''http_proxy'', JArray [])]),
          (''webapp'', JObject [(''static'', JObject [(''root'', JString ''/var/www'')])])]),
       (''rules'', JObject
         [(''captcha_bots'', JObject
            [(''expression'', JString ''true''), (''actions'', JArray [JObject [(''action'', JString ''captcha'')]])])]),
       (''lists'', JObject
         [(''blocked_ips'', JObject [(''type'', JString ''Ip''), (''file'', JString ''/etc/pingoo/lists/blocked_ip.csv'')])])]"

lemma documented_config_loads:
  "config_file_of_value documented_config = Some
     \<lparr>cf_listeners = [(''http'', \<lparr>lcf_address = ''http://0.0.0.0:8080'', lcf_services = Some [''api'']\<rparr>)],
      cf_services =
        [(''api'', \<lparr>scf_route = Some ''http_request.starts_with()'', scf_http_proxy = Some [], scf_static = None, scf_tcp_proxy = None\<rparr>),
         (''webapp'', \<lparr>scf_route = None, scf_http_proxy = None,
            scf_static = Some \<lparr>scfs_root = ''/var/www'', scfs_not_found = \<lparr>scfn_file = None, scfn_status = 404\<rparr>\<rparr>,
            scf_tcp_proxy = None\<rparr>)],
      cf_rules = [(''captcha_bots'', \<lparr>rcf_expression = Some ''true'', rcf_actions = [Captcha], rcf_limit = None\<rparr>)],
      cf_tls = Some \<lparr>tls_acme = Some \<lparr>acme_directory_url = letsencrypt_production_url, acme_domains = [''pingoo.io'']\<rparr>\<rparr>,
      cf_docker_socket = None,
      cf_lists = Some [(''blocked_ips'', \<lparr>list_type = IpList, list_file = ''/etc/pingoo/lists/blocked_ip.csv''\<rparr>)],
      cf_child_process = None\<rparr>"
  by code_simp

text \<open>
  The limit of \<^verbatim>\<open>docs/rules.md\<close> names its window \<open>period\<close>: a rule with it does not
  load, whatever else it says. The list types \<^verbatim>\<open>docs/configuration.md\<close> gives do not load either.
\<close>

lemma documented_limit_refused:
  assumes "map_of fs ''limit'' = Some (JObject limit)" and "map_of limit ''window'' = None"
  shows "rule_config_file_of_value (JObject fs) = None"
  using assms
  by (auto simp: rule_config_file_of_value_def rate_limit_of_value_def get_opt_field_def get_field_def bind_eq_None_conv
      split: option.split)

lemma documented_list_types_refused:
  "list_type_of_value (JString ''int'') = None \<and> list_type_of_value (JString ''ip'') = None
   \<and> list_type_of_value (JString ''string'') = None"
  by (simp add: list_type_of_value_def)

end
