(* ===== verification/Upstream_Source.thy ===== *)
theory Upstream_Source
  imports Config_Types
begin

text \<open>
  What the proxies rely on when they ask for the upstreams of a service: the answer comes from
  the last refresh, and repeating a refresh settles on everything it offers. The provider is the
  service registry.
\<close>

locale upstream_source =
  fixes ok :: "'reg \<Rightarrow> bool"
    and get :: "'reg \<Rightarrow> string \<Rightarrow> upstream list"
    and refresh :: "'view \<Rightarrow> 'reg \<Rightarrow> 'reg"
    and offered :: "'view \<Rightarrow> 'reg \<Rightarrow> string \<Rightarrow> upstream list"
  assumes ok_refresh: "ok r \<Longrightarrow> ok (refresh v r)"
    and offered_refresh: "ok r \<Longrightarrow> offered w (refresh v r) s = offered w r s"
    and refresh_sound: "ok r \<Longrightarrow> set (get (refresh v r) s) \<subseteq> set (offered v r s)"
    and refresh_settles: "ok r \<Longrightarrow> set (get (refresh v (refresh v r)) s) = set (offered v r s)"
begin

lemma ok_run: "ok r \<Longrightarrow> ok (fold refresh vs r)"
  by (induction vs arbitrary: r) (simp_all add: ok_refresh)

lemma offered_run: "ok r \<Longrightarrow> offered w (fold refresh vs r) s = offered w r s"
  by (induction vs arbitrary: r) (simp_all add: ok_refresh offered_refresh)

lemma run_sound:
  "ok r \<Longrightarrow> set (get (fold refresh (vs @ [v]) r) s) \<subseteq> set (offered v r s)"
  using refresh_sound [OF ok_run] by (simp add: offered_run)

lemma run_settles:
  assumes "ok r"
  shows "set (get (fold refresh (vs @ [v, v] @ replicate n v) r) s) = set (offered v r s)"
proof -
  let ?r = "fold refresh (vs @ replicate n v) r"
  have "vs @ [v, v] @ replicate n v = (vs @ replicate n v) @ [v, v]"
    by (simp add: replicate_app_Cons_same)
  then have "fold refresh (vs @ [v, v] @ replicate n v) r = refresh v (refresh v ?r)"
    by (simp only: fold_append o_apply fold_simps)
  moreover have "set (get (refresh v (refresh v ?r)) s) = set (offered v ?r s)"
    by (rule refresh_settles [OF ok_run [OF assms]])
  ultimately show ?thesis
    by (simp only: offered_run [OF assms])
qed

end

end
