(* ===== verification/Service_Registry.thy ===== *)
theory Service_Registry
  imports Upstream_Source
begin

text \<open>
  \<^verbatim>\<open>pingoo/service_discovery/service_registry.rs\<close>: which upstreams each service has. The
  registry is refreshed every two seconds from the static configuration and the discoverers; the
  proxies read it. A map of services to upstreams is an association list. The answers of the two
  discoverers (\<open>dns\<close> first, then \<open>docker\<close>) are arguments of a refresh.
\<close>

section \<open>State and construction\<close>

type_synonym upstream_map = "(string \<times> upstream list) list"

record service_registry =
  sr_upstreams :: upstream_map
  sr_static_upstreams :: upstream_map

record upstream_diff =
  ud_updated :: "string list"
  ud_deleted :: "string list"

definition ip_upstreams :: "upstream_config list \<Rightarrow> upstream list" where
  "ip_upstreams us =
     List.map_filter (\<lambda>u. case u of IPAddress up \<Rightarrow> Some up | Domain _ _ _ \<Rightarrow> None) us"

definition get_static_upstreams :: "'prog service_config list \<Rightarrow> upstream_map" where
  "get_static_upstreams services =
     collect_map (map (\<lambda>sc.
       case sc_http_proxy sc of
         Some us \<Rightarrow> (sc_name sc, ip_upstreams us)
       | None \<Rightarrow>
           (case sc_tcp_proxy sc of
              Some us \<Rightarrow> (sc_name sc, ip_upstreams us)
            | None \<Rightarrow> (sc_name sc, []))) services)"

definition service_registry_new :: "'prog service_config list \<Rightarrow> service_registry" where
  "service_registry_new services =
     (let static_upstreams = get_static_upstreams services
      in \<lparr>sr_upstreams = collect_map static_upstreams, sr_static_upstreams = static_upstreams\<rparr>)"

definition get_upstreams :: "service_registry \<Rightarrow> string \<Rightarrow> upstream list" where
  "get_upstreams sr service =
     (case map_of (sr_upstreams sr) service of Some us \<Rightarrow> us | None \<Rightarrow> [])"

section \<open>The difference of two maps\<close>

text \<open>
  \<open>add_name\<close> is \<open>HashSet::insert\<close>. One service of the new map contributes to \<open>deleted\<close>
  when an old upstream is missing and to \<open>updated\<close> when a new one appears, possibly to both.
\<close>

definition add_name :: "string \<Rightarrow> string list \<Rightarrow> string list" where
  "add_name n ns = (if n \<in> set ns then ns else n # ns)"

definition diff_service ::
  "upstream_map \<Rightarrow> string \<times> upstream list \<Rightarrow> upstream_diff \<Rightarrow> upstream_diff" where
  "diff_service old_upstreams entry ret =
     (let (service_name, new_for_service) = entry
      in case map_of old_upstreams service_name of
           Some old_for_service \<Rightarrow>
             (let ret = fold (\<lambda>old ret.
                    if old \<in> set new_for_service then ret
                    else ret\<lparr>ud_deleted := add_name service_name (ud_deleted ret)\<rparr>)
                  old_for_service ret
              in fold (\<lambda>new ret.
                    if new \<in> set old_for_service then ret
                    else ret\<lparr>ud_updated := add_name service_name (ud_updated ret)\<rparr>)
                  new_for_service ret)
         | None \<Rightarrow> ret\<lparr>ud_updated := add_name service_name (ud_updated ret)\<rparr>)"

definition diff_upstreams :: "upstream_map \<Rightarrow> upstream_map \<Rightarrow> upstream_diff" where
  "diff_upstreams old_upstreams new_upstreams =
     (let ret = fold (diff_service old_upstreams) new_upstreams \<lparr>ud_updated = [], ud_deleted = []\<rparr>
      in fold (\<lambda>(service_name, _) ret.
            if map_of new_upstreams service_name = None
            then ret\<lparr>ud_deleted := add_name service_name (ud_deleted ret)\<rparr> else ret)
          old_upstreams ret)"

section \<open>A refresh\<close>

definition merge_upstreams :: "upstream_map \<Rightarrow> upstream_map \<Rightarrow> upstream_map" where
  "merge_upstreams discovered new_upstreams =
     fold (\<lambda>(service_name, us) m.
         AList.update service_name
           ((case map_of m service_name of Some vs \<Rightarrow> vs | None \<Rightarrow> []) @ us) m)
       discovered new_upstreams"

definition merge_results :: "(error + upstream_map) list \<Rightarrow> upstream_map \<Rightarrow> upstream_map" where
  "merge_results res new_upstreams =
     fold (\<lambda>r m. case r of Inl _ \<Rightarrow> m | Inr discovered \<Rightarrow> merge_upstreams discovered m)
       res new_upstreams"

text \<open>
  The registry is written in two loops: first the updated services are inserted (each taken out
  of the new map), then the deleted ones are removed.
\<close>

definition insert_updated ::
  "string list \<Rightarrow> upstream_map \<times> upstream_map \<Rightarrow> upstream_map \<times> upstream_map" where
  "insert_updated names =
     fold (\<lambda>service_name (new_upstreams, upstreams).
         case map_of new_upstreams service_name of
           Some us \<Rightarrow> (AList.delete service_name new_upstreams, AList.update service_name us upstreams)
         | None \<Rightarrow> (new_upstreams, upstreams))
       names"

definition remove_deleted :: "string list \<Rightarrow> upstream_map \<Rightarrow> upstream_map" where
  "remove_deleted names = fold AList.delete names"

definition discover :: "(error + upstream_map) list \<Rightarrow> service_registry \<Rightarrow> service_registry" where
  "discover res sr =
     (let new_upstreams = merge_results res (sr_static_upstreams sr);
          diff = diff_upstreams (sr_upstreams sr) new_upstreams;
          (_, upstreams) = insert_updated (ud_updated diff) (new_upstreams, sr_upstreams sr)
      in sr\<lparr>sr_upstreams := remove_deleted (ud_deleted diff) upstreams\<rparr>)"

text \<open>The background task: one refresh per tick.\<close>

definition run_ticks :: "(error + upstream_map) list list \<Rightarrow> service_registry \<Rightarrow> service_registry" where
  "run_ticks = fold discover"

section \<open>What a refresh computes\<close>

definition lookup_list :: "upstream_map \<Rightarrow> string \<Rightarrow> upstream list" where
  "lookup_list m s = (case map_of m s of Some us \<Rightarrow> us | None \<Rightarrow> [])"

lemma get_upstreams_lookup: "get_upstreams sr s = lookup_list (sr_upstreams sr) s"
  by (simp add: get_upstreams_def lookup_list_def)

lemma set_add_name [simp]: "set (add_name n ns) = insert n (set ns)"
  by (auto simp: add_name_def)

lemma fold_mark_deleted:
  "ud_updated (fold (\<lambda>x ret. if x \<in> A then ret else ret\<lparr>ud_deleted := add_name n (ud_deleted ret)\<rparr>) xs ret)
     = ud_updated ret"
  "set (ud_deleted (fold (\<lambda>x ret. if x \<in> A then ret else ret\<lparr>ud_deleted := add_name n (ud_deleted ret)\<rparr>) xs ret))
     = set (ud_deleted ret) \<union> (if set xs \<subseteq> A then {} else {n})"
  by (induction xs arbitrary: ret) auto

lemma fold_mark_updated:
  "ud_deleted (fold (\<lambda>x ret. if x \<in> A then ret else ret\<lparr>ud_updated := add_name n (ud_updated ret)\<rparr>) xs ret)
     = ud_deleted ret"
  "set (ud_updated (fold (\<lambda>x ret. if x \<in> A then ret else ret\<lparr>ud_updated := add_name n (ud_updated ret)\<rparr>) xs ret))
     = set (ud_updated ret) \<union> (if set xs \<subseteq> A then {} else {n})"
  by (induction xs arbitrary: ret) auto

definition is_updated :: "upstream_map \<Rightarrow> string \<Rightarrow> upstream list \<Rightarrow> bool" where
  "is_updated old s new_for_service =
     (case map_of old s of None \<Rightarrow> True | Some us \<Rightarrow> \<not> set new_for_service \<subseteq> set us)"

definition is_deleted :: "upstream_map \<Rightarrow> string \<Rightarrow> upstream list \<Rightarrow> bool" where
  "is_deleted old s new_for_service =
     (case map_of old s of None \<Rightarrow> False | Some us \<Rightarrow> \<not> set us \<subseteq> set new_for_service)"

lemma diff_service_sets:
  "set (ud_updated (diff_service old (s, us) ret)) =
     set (ud_updated ret) \<union> (if is_updated old s us then {s} else {})"
  "set (ud_deleted (diff_service old (s, us) ret)) =
     set (ud_deleted ret) \<union> (if is_deleted old s us then {s} else {})"
  by (auto simp: diff_service_def Let_def is_updated_def is_deleted_def fold_mark_deleted
      fold_mark_updated split: option.splits)

lemma fold_diff_service_sets:
  "set (ud_updated (fold (diff_service old) new ret)) =
     set (ud_updated ret) \<union> {s. \<exists>us. (s, us) \<in> set new \<and> is_updated old s us}"
  "set (ud_deleted (fold (diff_service old) new ret)) =
     set (ud_deleted ret) \<union> {s. \<exists>us. (s, us) \<in> set new \<and> is_deleted old s us}"
proof (induction new arbitrary: ret)
  case (Cons e new)
  obtain s us where e: "e = (s, us)" by (cases e)
  {
    case 1
    show ?case by (auto simp: Cons.IH(1) e diff_service_sets)
  next
    case 2
    show ?case by (auto simp: Cons.IH(2) e diff_service_sets)
  }
qed auto

lemma fold_removed_sets:
  "ud_updated (fold (\<lambda>(s, _) ret. if map_of new s = None
      then ret\<lparr>ud_deleted := add_name s (ud_deleted ret)\<rparr> else ret) old ret) = ud_updated ret"
  "set (ud_deleted (fold (\<lambda>(s, _) ret. if map_of new s = None
      then ret\<lparr>ud_deleted := add_name s (ud_deleted ret)\<rparr> else ret) old ret)) =
     set (ud_deleted ret) \<union> {s \<in> fst ` set old. map_of new s = None}"
  by (induction old arbitrary: ret) (auto split: if_splits)

lemma diff_upstreams_sets:
  "set (ud_updated (diff_upstreams old new)) = {s. \<exists>us. (s, us) \<in> set new \<and> is_updated old s us}"
  "set (ud_deleted (diff_upstreams old new)) =
     {s. \<exists>us. (s, us) \<in> set new \<and> is_deleted old s us} \<union> {s \<in> fst ` set old. map_of new s = None}"
  by (simp_all add: diff_upstreams_def Let_def fold_diff_service_sets fold_removed_sets)

lemma insert_updated_lookup:
  "map_of (snd (insert_updated names (new, ups))) s =
     (if s \<in> set names then (case map_of new s of Some us \<Rightarrow> Some us | None \<Rightarrow> map_of ups s)
      else map_of ups s)"
  by (induction names arbitrary: new ups)
    (auto simp: insert_updated_def update_conv' delete_conv' split: option.splits)

lemma remove_deleted_lookup:
  "map_of (remove_deleted names m) s = (if s \<in> set names then None else map_of m s)"
  unfolding remove_deleted_def
  by (induction names arbitrary: m) (auto simp: delete_conv')

lemma map_of_distinct_in: "distinct (map fst m) \<Longrightarrow> (s, us) \<in> set m \<longleftrightarrow> map_of m s = Some us"
  by auto

text \<open>The entry of one service after a refresh whose merged map is \<open>new\<close>.\<close>

definition refreshed :: "upstream list option \<Rightarrow> upstream list option \<Rightarrow> upstream list option" where
  "refreshed old new =
     (case new of
        None \<Rightarrow> None
      | Some n \<Rightarrow>
          (case old of
             None \<Rightarrow> Some n
           | Some us \<Rightarrow>
               if \<not> set us \<subseteq> set n then None
               else if \<not> set n \<subseteq> set us then Some n
               else Some us))"

lemma discover_lookup:
  assumes "distinct (map fst (merge_results res (sr_static_upstreams sr)))"
  shows "map_of (sr_upstreams (discover res sr)) s =
    refreshed (map_of (sr_upstreams sr) s) (map_of (merge_results res (sr_static_upstreams sr)) s)"
proof -
  let ?new = "merge_results res (sr_static_upstreams sr)" and ?old = "sr_upstreams sr"
  let ?diff = "diff_upstreams ?old ?new"
  have up: "s \<in> set (ud_updated ?diff) \<longleftrightarrow> (\<exists>us. map_of ?new s = Some us \<and> is_updated ?old s us)"
    using map_of_distinct_in [OF assms] by (auto simp: diff_upstreams_sets)
  have del: "s \<in> set (ud_deleted ?diff) \<longleftrightarrow>
      (\<exists>us. map_of ?new s = Some us \<and> is_deleted ?old s us) \<or> (map_of ?old s \<noteq> None \<and> map_of ?new s = None)"
    using map_of_distinct_in [OF assms] by (auto simp: diff_upstreams_sets map_of_eq_None_iff)
  have "map_of (sr_upstreams (discover res sr)) s =
      (if s \<in> set (ud_deleted ?diff) then None
       else map_of (snd (insert_updated (ud_updated ?diff) (?new, ?old))) s)"
    by (simp add: discover_def Let_def case_prod_beta remove_deleted_lookup)
  then show ?thesis
    by (auto simp: up del insert_updated_lookup refreshed_def is_updated_def is_deleted_def
        split: option.splits)
qed

lemma discover_static [simp]: "sr_static_upstreams (discover res sr) = sr_static_upstreams sr"
  by (simp add: discover_def Let_def case_prod_beta)

lemma merge_upstreams_fold_distinct:
  "distinct (map fst m) \<Longrightarrow> distinct (map fst (merge_upstreams d m))"
  unfolding merge_upstreams_def
  by (induction d arbitrary: m) (auto simp: distinct_update)

lemma merge_results_distinct:
  "distinct (map fst m) \<Longrightarrow> distinct (map fst (merge_results res m))"
  unfolding merge_results_def
  by (induction res arbitrary: m) (auto simp: merge_upstreams_fold_distinct split: sum.splits)

lemma merge_upstreams_lookup:
  "lookup_list (merge_upstreams d m) s = lookup_list m s @ concat (map snd (filter (\<lambda>(k, _). k = s) d))"
  unfolding merge_upstreams_def
  by (induction d arbitrary: m) (auto simp: lookup_list_def update_conv' split: option.splits)

lemma merge_upstreams_lookup_distinct:
  assumes "distinct (map fst d)"
  shows "lookup_list (merge_upstreams d m) s = lookup_list m s @ lookup_list d s"
proof -
  have "concat (map snd (filter (\<lambda>(k, _). k = s) d)) = lookup_list d s"
    using assms
  proof (induction d)
    case (Cons e d)
    obtain k us where e: "e = (k, us)" by (cases e)
    have "k = s \<Longrightarrow> filter (\<lambda>(k, _). k = s) d = []"
      using Cons.prems e by (force simp: filter_empty_conv)
    with Cons e show ?case by (auto simp: lookup_list_def)
  qed (simp add: lookup_list_def)
  then show ?thesis by (simp add: merge_upstreams_lookup)
qed

section \<open>The registry as a source of upstreams\<close>

definition registry_ok :: "service_registry \<Rightarrow> bool" where
  "registry_ok sr \<longleftrightarrow> distinct (map fst (sr_static_upstreams sr))"

definition offered_upstreams :: "(error + upstream_map) list \<Rightarrow> service_registry \<Rightarrow> string \<Rightarrow> upstream list" where
  "offered_upstreams res sr s = lookup_list (merge_results res (sr_static_upstreams sr)) s"

lemma registry_ok_new: "registry_ok (service_registry_new services)"
  by (simp add: registry_ok_def service_registry_new_def Let_def get_static_upstreams_def)

lemma registry_ok_discover [simp]: "registry_ok (discover res sr) = registry_ok sr"
  by (simp add: registry_ok_def)

lemma offered_discover [simp]: "offered_upstreams res (discover res' sr) = offered_upstreams res sr"
  by (simp add: offered_upstreams_def fun_eq_iff)

lemma discover_lookup_ok:
  "registry_ok sr \<Longrightarrow> map_of (sr_upstreams (discover res sr)) s =
    refreshed (map_of (sr_upstreams sr) s) (map_of (merge_results res (sr_static_upstreams sr)) s)"
  by (rule discover_lookup) (simp add: registry_ok_def merge_results_distinct)

lemma get_upstreams_discover:
  "registry_ok sr \<Longrightarrow> get_upstreams (discover res sr) s =
    (case refreshed (map_of (sr_upstreams sr) s)
       (map_of (merge_results res (sr_static_upstreams sr)) s) of Some us \<Rightarrow> us | None \<Rightarrow> [])"
  by (simp add: get_upstreams_lookup lookup_list_def discover_lookup_ok)

lemma refreshed_sound:
  "set (case refreshed old new of Some us \<Rightarrow> us | None \<Rightarrow> [])
     \<subseteq> set (case new of Some us \<Rightarrow> us | None \<Rightarrow> [])"
  by (auto simp: refreshed_def split: option.splits if_splits)

lemma refreshed_twice:
  "set (case refreshed (refreshed old new) new of Some us \<Rightarrow> us | None \<Rightarrow> [])
     = set (case new of Some us \<Rightarrow> us | None \<Rightarrow> [])"
  by (auto simp: refreshed_def split: option.splits if_splits)

interpretation registry: upstream_source registry_ok get_upstreams discover offered_upstreams
proof (unfold_locales, goal_cases)
  case (3 r v s)
  then show ?case
    using refreshed_sound by (simp add: get_upstreams_discover offered_upstreams_def lookup_list_def)
next
  case (4 r v s)
  then show ?case
    using refreshed_twice
    by (simp add: get_upstreams_discover discover_lookup_ok offered_upstreams_def lookup_list_def)
qed simp_all

lemma merge_results_keeps: "set (lookup_list m s) \<subseteq> set (lookup_list (merge_results res m) s)"
  unfolding merge_results_def
proof (induction res arbitrary: m)
  case (Cons r res)
  show ?case
  proof (cases r)
    case (Inr d)
    have "set (lookup_list m s) \<subseteq> set (lookup_list (merge_upstreams d m) s)"
      by (simp add: merge_upstreams_lookup)
    with Cons [of "merge_upstreams d m"] Inr show ?thesis by auto
  qed (use Cons in simp)
qed simp

section \<open>Properties\<close>

text \<open>C15: the exact effect of a refresh on every service: an unknown service appears with its new
  upstreams; a service gone from the new map, or one old upstream of which is gone, has none; a
  service that only gained upstreams has the new list; otherwise the old list stays.\<close>

theorem discover_exact:
  assumes "registry_ok sr"
  shows "get_upstreams (discover res sr) s =
    (let old = map_of (sr_upstreams sr) s; new = offered_upstreams res sr s
     in case old of
          None \<Rightarrow> new
        | Some us \<Rightarrow>
            if \<not> set us \<subseteq> set new \<or> map_of (merge_results res (sr_static_upstreams sr)) s = None then []
            else if set new \<subseteq> set us then us else new)"
  by (auto simp: get_upstreams_discover [OF assms] refreshed_def offered_upstreams_def lookup_list_def
      Let_def split: option.splits)

definition demo_upstream :: "u16 \<Rightarrow> upstream" where
  "demo_upstream p = \<lparr>up_socket_address = SocketAddr ipv4_localhost p, up_hostname = ''h'', up_tls = False\<rparr>"

definition demo_registry :: service_registry where
  "demo_registry = \<lparr>sr_upstreams = [(''api'', [demo_upstream 1, demo_upstream 2])], sr_static_upstreams = []\<rparr>"

lemma demo_registry_ok: "registry_ok demo_registry"
  by (simp add: registry_ok_def demo_registry_def)

theorem discover_exact_witness:
  "get_upstreams (discover [Inr [(''api'', [demo_upstream 2])]] demo_registry) ''api'' = []"
  unfolding discover_exact [OF demo_registry_ok]
  by (simp add: demo_registry_def demo_upstream_def offered_upstreams_def lookup_list_def
      merge_results_def merge_upstreams_def Let_def)

text \<open>C16: no stale upstream is ever served: after any sequence of refreshes, whatever the
  discoverers answered in them, each upstream of each service is one the last refresh offered.\<close>

theorem no_stale_upstream:
  "set (get_upstreams (run_ticks (views @ [res]) (service_registry_new services)) s)
     \<subseteq> set (offered_upstreams res (service_registry_new services) s)"
  unfolding run_ticks_def by (rule registry.run_sound [OF registry_ok_new])

text \<open>The first refresh gives every service what it offers: no configured upstream is lost by it.\<close>

lemma first_refresh:
  "set (get_upstreams (discover res (service_registry_new services)) s)
     = set (offered_upstreams res (service_registry_new services) s)"
proof -
  let ?sr = "service_registry_new services" and ?static = "get_static_upstreams services"
  have "map_of (sr_upstreams ?sr) s = map_of ?static s"
    by (simp add: service_registry_new_def Let_def map_of_collect_map_distinct get_static_upstreams_def)
  then have "lookup_list ?static s = (case map_of (sr_upstreams ?sr) s of Some us \<Rightarrow> us | None \<Rightarrow> [])"
    by (simp only: lookup_list_def)
  moreover have "set (lookup_list ?static s) \<subseteq> set (lookup_list (merge_results res ?static) s)"
    by (rule merge_results_keeps)
  moreover have "sr_static_upstreams ?sr = ?static" by (simp add: service_registry_new_def Let_def)
  ultimately show ?thesis
    by (auto simp: get_upstreams_discover [OF registry_ok_new] offered_upstreams_def refreshed_def
        lookup_list_def [of "merge_results res ?static"] split: option.splits)
qed

text \<open>C17: when the discoverers answer the same twice or more, every service has exactly the
  offered upstreams, whatever happened before; upstreams given as addresses in the configuration
  are among them even when every discoverer fails.\<close>

theorem registry_converges:
  "set (get_upstreams (run_ticks (views @ [res, res] @ replicate n res) (service_registry_new services)) s)
     = set (offered_upstreams res (service_registry_new services) s)
   \<and> set (lookup_list (get_static_upstreams services) s)
     \<subseteq> set (offered_upstreams res (service_registry_new services) s)"
proof
  show "set (get_upstreams (run_ticks (views @ [res, res] @ replicate n res) (service_registry_new services)) s)
      = set (offered_upstreams res (service_registry_new services) s)"
    unfolding run_ticks_def by (rule registry.run_settles [OF registry_ok_new])
  show "set (lookup_list (get_static_upstreams services) s)
      \<subseteq> set (offered_upstreams res (service_registry_new services) s)"
    using merge_results_keeps [of "get_static_upstreams services" s res]
    by (simp add: offered_upstreams_def service_registry_new_def Let_def)
qed

text \<open>Losing one upstream takes the whole service away until the next refresh: when one of a
  service's upstreams disappears, the refresh leaves the service with no upstream at all, although
  the others are still offered. (The code puts such a service in \<open>deleted\<close>, and deletes
  after it inserts.)\<close>

lemma lost_upstream_empties_service:
  assumes "registry_ok sr" and "lost \<in> set (get_upstreams sr s)"
    and "lost \<notin> set (offered_upstreams res sr s)"
  shows "get_upstreams (discover res sr) s = []"
proof -
  obtain us where us: "map_of (sr_upstreams sr) s = Some us" "lost \<in> set us"
    using assms(2) by (cases "map_of (sr_upstreams sr) s") (auto simp: get_upstreams_def)
  with assms(3) show ?thesis
    by (auto simp: get_upstreams_discover [OF assms(1)] refreshed_def offered_upstreams_def
        lookup_list_def split: option.splits)
qed

lemma lost_upstream_empties_service_witness:
  "offered_upstreams [Inr [(''api'', [demo_upstream 2])]] demo_registry ''api'' = [demo_upstream 2]
   \<and> get_upstreams (discover [Inr [(''api'', [demo_upstream 2])]] demo_registry) ''api'' = []"
proof
  show o: "offered_upstreams [Inr [(''api'', [demo_upstream 2])]] demo_registry ''api'' = [demo_upstream 2]"
    by (simp add: offered_upstreams_def demo_registry_def merge_results_def merge_upstreams_def lookup_list_def)
  show "get_upstreams (discover [Inr [(''api'', [demo_upstream 2])]] demo_registry) ''api'' = []"
    by (rule lost_upstream_empties_service [OF demo_registry_ok, where lost = "demo_upstream 1"])
      (simp_all add: o, simp_all add: get_upstreams_def demo_registry_def demo_upstream_def)
qed

end
