(* ===== verification/Dns.thy ===== *)
theory Dns
  imports Service_Registry
begin

text \<open>
  \<^verbatim>\<open>pingoo/service_discovery/dns.rs\<close>: upstreams given as host names are resolved at
  every refresh. The resolver library is the argument \<open>lookup_ip\<close>; the iteration order of the
  \<open>HashSet\<close> that removes duplicate addresses is the argument \<open>order\<close>, documented to list
  each element once. Both are fixed within a refresh.
\<close>

record upstream_host =
  uh_hostname :: string
  uh_tls :: bool
  uh_port :: u16

type_synonym host_map = "(string \<times> upstream_host list) list"

definition domain_hosts :: "upstream_config list \<Rightarrow> upstream_host list" where
  "domain_hosts us =
     List.map_filter (\<lambda>u. case u of
         IPAddress _ \<Rightarrow> None
       | Domain h t p \<Rightarrow> Some \<lparr>uh_hostname = h, uh_tls = t, uh_port = p\<rparr>) us"

definition get_upstream_hosts :: "'prog service_config list \<Rightarrow> host_map" where
  "get_upstream_hosts services =
     collect_map (map (\<lambda>sc.
       case sc_http_proxy sc of
         Some us \<Rightarrow> (sc_name sc, domain_hosts us)
       | None \<Rightarrow>
           (case sc_tcp_proxy sc of
              Some us \<Rightarrow> (sc_name sc, domain_hosts us)
            | None \<Rightarrow> (sc_name sc, []))) services)"

definition resolved_address :: "u16 \<Rightarrow> ip_addr \<Rightarrow> socket_addr" where
  "resolved_address port ip =
     (if is_ipv6 ip \<and> is_loopback ip then SocketAddr ipv4_localhost port else SocketAddr ip port)"

definition host_upstreams ::
  "(string \<Rightarrow> 'e + ip_addr list) \<Rightarrow> (socket_addr list \<Rightarrow> socket_addr list) \<Rightarrow> upstream_host \<Rightarrow> upstream list" where
  "host_upstreams lookup_ip order host =
     (let ips = (case lookup_ip (uh_hostname host) of Inr records \<Rightarrow> records | Inl _ \<Rightarrow> [])
      in map (\<lambda>socket_address.
             \<lparr>up_socket_address = socket_address, up_hostname = uh_hostname host, up_tls = uh_tls host\<rparr>)
           (order (map (resolved_address (uh_port host)) ips)))"

definition dns_discover ::
  "(string \<Rightarrow> 'e + ip_addr list) \<Rightarrow> (socket_addr list \<Rightarrow> socket_addr list) \<Rightarrow> host_map \<Rightarrow> error + upstream_map" where
  "dns_discover lookup_ip order hosts =
     Inr (collect_map (map (\<lambda>(service, upstream_hosts).
         (service, concat (map (host_upstreams lookup_ip order) upstream_hosts))) hosts))"

section \<open>Lemmas\<close>

definition hash_order :: "('a list \<Rightarrow> 'a list) \<Rightarrow> bool" where
  "hash_order order \<longleftrightarrow> (\<forall>xs. distinct (order xs) \<and> set (order xs) = set xs)"

lemma hash_order_remdups: "hash_order remdups"
  by (simp add: hash_order_def)

lemma distinct_get_upstream_hosts [simp]: "distinct (map fst (get_upstream_hosts services))"
  by (simp add: get_upstream_hosts_def)

lemma map_of_map_snd: "map_of (map (\<lambda>(k, v). (k, f v)) m) k = map_option f (map_of m k)"
  by (induction m) auto

lemma dns_discover_lookup:
  assumes "distinct (map fst hosts)" and "dns_discover lookup_ip order hosts = Inr found"
  shows "lookup_list found service =
    concat (map (host_upstreams lookup_ip order)
      (case map_of hosts service of Some hs \<Rightarrow> hs | None \<Rightarrow> []))"
proof -
  let ?f = "\<lambda>upstream_hosts. concat (map (host_upstreams lookup_ip order) upstream_hosts)"
  have "distinct (map fst (map (\<lambda>(k, v). (k, ?f v)) hosts))"
    using assms(1) by (simp add: o_def case_prod_beta)
  then have "map_of found service = map_option ?f (map_of hosts service)"
    using assms(2) by (auto simp: dns_discover_def map_of_collect_map_distinct map_of_map_snd)
  then show ?thesis by (auto simp: lookup_list_def split: option.splits)
qed

lemma host_upstreams_set:
  assumes "hash_order order"
  shows "up \<in> set (host_upstreams lookup_ip order host) \<longleftrightarrow>
    up_hostname up = uh_hostname host \<and> up_tls up = uh_tls host \<and>
    (\<exists>ips ip. lookup_ip (uh_hostname host) = Inr ips \<and> ip \<in> set ips
       \<and> up_socket_address up = resolved_address (uh_port host) ip)"
  using assms
  by (cases up; cases "lookup_ip (uh_hostname host)") (auto simp: host_upstreams_def Let_def hash_order_def)

lemma in_ip_upstreams: "up \<in> set (ip_upstreams us) \<longleftrightarrow> IPAddress up \<in> set us"
  by (induction us) (auto simp: ip_upstreams_def List.map_filter_simps split: upstream_config.splits)

lemma in_domain_hosts:
  "\<lparr>uh_hostname = h, uh_tls = t, uh_port = p\<rparr> \<in> set (domain_hosts us) \<longleftrightarrow> Domain h t p \<in> set us"
  by (induction us) (auto simp: domain_hosts_def List.map_filter_simps split: upstream_config.splits)

definition proxy_upstreams :: "'prog service_config \<Rightarrow> upstream_config list" where
  "proxy_upstreams sc =
     (case sc_http_proxy sc of Some us \<Rightarrow> us
      | None \<Rightarrow> (case sc_tcp_proxy sc of Some us \<Rightarrow> us | None \<Rightarrow> []))"

lemma map_of_services:
  assumes "distinct (map sc_name services)" and "sc \<in> set services"
  shows "map_of (map (\<lambda>sc. (sc_name sc, f sc)) services) (sc_name sc) = Some (f sc)"
  using assms
proof (induction services)
  case (Cons a services)
  then show ?case by (cases "sc = a") (auto simp: image_iff)
qed simp

lemma get_static_upstreams_lookup:
  assumes "distinct (map sc_name services)" and "sc \<in> set services"
  shows "lookup_list (get_static_upstreams services) (sc_name sc) = ip_upstreams (proxy_upstreams sc)"
proof -
  have eq: "(\<lambda>sc. case sc_http_proxy sc of Some us \<Rightarrow> (sc_name sc, ip_upstreams us)
       | None \<Rightarrow> (case sc_tcp_proxy sc of Some us \<Rightarrow> (sc_name sc, ip_upstreams us) | None \<Rightarrow> (sc_name sc, [])))
     = (\<lambda>sc. (sc_name sc, ip_upstreams (proxy_upstreams sc)))"
    by (auto simp: fun_eq_iff proxy_upstreams_def ip_upstreams_def List.map_filter_def split: option.splits)
  show ?thesis
    using assms unfolding get_static_upstreams_def eq
    by (simp add: lookup_list_def map_of_collect_map_distinct o_def map_of_services)
qed

lemma get_upstream_hosts_lookup:
  assumes "distinct (map sc_name services)" and "sc \<in> set services"
  shows "map_of (get_upstream_hosts services) (sc_name sc) = Some (domain_hosts (proxy_upstreams sc))"
proof -
  have eq: "(\<lambda>sc. case sc_http_proxy sc of Some us \<Rightarrow> (sc_name sc, domain_hosts us)
       | None \<Rightarrow> (case sc_tcp_proxy sc of Some us \<Rightarrow> (sc_name sc, domain_hosts us) | None \<Rightarrow> (sc_name sc, [])))
     = (\<lambda>sc. (sc_name sc, domain_hosts (proxy_upstreams sc)))"
    by (auto simp: fun_eq_iff proxy_upstreams_def domain_hosts_def List.map_filter_def split: option.splits)
  show ?thesis
    using assms unfolding get_upstream_hosts_def eq
    by (simp add: map_of_collect_map_distinct o_def map_of_services)
qed

section \<open>What a refresh offers\<close>

text \<open>The hosts of a configuration give each address that their names resolve to.\<close>

lemma resolved_upstreams:
  assumes order: "hash_order order"
  shows "(\<exists>h \<in> set (domain_hosts us). up \<in> set (host_upstreams lookup_ip order h)) \<longleftrightarrow>
    (\<exists>port ips ip. Domain (up_hostname up) (up_tls up) port \<in> set us
         \<and> lookup_ip (up_hostname up) = Inr ips \<and> ip \<in> set ips
         \<and> up_socket_address up = resolved_address port ip)"
proof
  assume "\<exists>h \<in> set (domain_hosts us). up \<in> set (host_upstreams lookup_ip order h)"
  then obtain h t p where "\<lparr>uh_hostname = h, uh_tls = t, uh_port = p\<rparr> \<in> set (domain_hosts us)"
    and "up \<in> set (host_upstreams lookup_ip order \<lparr>uh_hostname = h, uh_tls = t, uh_port = p\<rparr>)"
    by (metis upstream_host.cases)
  then show "\<exists>port ips ip. Domain (up_hostname up) (up_tls up) port \<in> set us
       \<and> lookup_ip (up_hostname up) = Inr ips \<and> ip \<in> set ips
       \<and> up_socket_address up = resolved_address port ip"
    by (auto simp: in_domain_hosts host_upstreams_set [OF order])
next
  assume "\<exists>port ips ip. Domain (up_hostname up) (up_tls up) port \<in> set us
       \<and> lookup_ip (up_hostname up) = Inr ips \<and> ip \<in> set ips
       \<and> up_socket_address up = resolved_address port ip"
  then show "\<exists>h \<in> set (domain_hosts us). up \<in> set (host_upstreams lookup_ip order h)"
    using in_domain_hosts [of "up_hostname up" "up_tls up" _ us]
    by (force simp: host_upstreams_set [OF order])
qed

text \<open>A refresh joins the table, the resolver and a second discoverer.\<close>

lemma joined_upstreams:
  assumes names: "distinct (map sc_name services)" and sc: "sc \<in> set services"
    and dist: "\<And>found. other = Inr found \<Longrightarrow> distinct (map fst found)"
  shows "offered_upstreams [dns_discover lookup_ip order (get_upstream_hosts services), other]
      (service_registry_new services) (sc_name sc)
    = ip_upstreams (proxy_upstreams sc)
      @ concat (map (host_upstreams lookup_ip order) (domain_hosts (proxy_upstreams sc)))
      @ (case other of Inl _ \<Rightarrow> [] | Inr found \<Rightarrow> lookup_list found (sc_name sc))"
proof -
  obtain found where found: "dns_discover lookup_ip order (get_upstream_hosts services) = Inr found"
    and fresh: "distinct (map fst found)"
    by (simp add: dns_discover_def)
  show ?thesis
    using dns_discover_lookup [OF distinct_get_upstream_hosts found, of "sc_name sc"] dist
    by (auto simp: offered_upstreams_def merge_results_def found service_registry_new_def Let_def
        merge_upstreams_lookup_distinct [OF fresh] merge_upstreams_lookup_distinct
        get_static_upstreams_lookup [OF names sc] get_upstream_hosts_lookup [OF names sc] split: sum.split)
qed

definition demo_service :: "unit service_config" where
  "demo_service = \<lparr>sc_name = ''api'', sc_route = None,
     sc_http_proxy = Some [IPAddress (demo_upstream 1), Domain ''db'' False 5], sc_static = None, sc_tcp_proxy = None\<rparr>"

end
