(* ===== verification/Docker_Model.thy ===== *)
theory Docker_Model
  imports Net
begin

text \<open>
  The data model of the Docker API (\<^verbatim>\<open>docker/src/model.rs\<close>): the structs with all their
  fields, the two enums with their texts, and the default values the code derives. A JSON field
  that is absent is \<open>None\<close>; the names of the fields on the wire belong to the JSON library.
\<close>

section \<open>Enums\<close>

datatype port_type_enum = EMPTY | TCP | UDP | SCTP

datatype mount_point_type_enum = MOUNT_EMPTY | BIND | VOLUME | TMPFS | NPIPE | CLUSTER

fun show_port_type :: "port_type_enum \<Rightarrow> string" where
  "show_port_type EMPTY = ''''"
| "show_port_type TCP = ''tcp''"
| "show_port_type UDP = ''udp''"
| "show_port_type SCTP = ''sctp''"

definition port_type_from_str :: "string \<Rightarrow> string + port_type_enum" where
  "port_type_from_str s =
     (if s = '''' then Inr EMPTY
      else if s = ''tcp'' then Inr TCP
      else if s = ''udp'' then Inr UDP
      else if s = ''sctp'' then Inr SCTP
      else Inl (''Invalid enum type: '' @ s))"

fun show_mount_point_type :: "mount_point_type_enum \<Rightarrow> string" where
  "show_mount_point_type MOUNT_EMPTY = ''''"
| "show_mount_point_type BIND = ''bind''"
| "show_mount_point_type VOLUME = ''volume''"
| "show_mount_point_type TMPFS = ''tmpfs''"
| "show_mount_point_type NPIPE = ''npipe''"
| "show_mount_point_type CLUSTER = ''cluster''"

definition mount_point_type_from_str :: "string \<Rightarrow> string + mount_point_type_enum" where
  "mount_point_type_from_str s =
     (if s = '''' then Inr MOUNT_EMPTY
      else if s = ''bind'' then Inr BIND
      else if s = ''volume'' then Inr VOLUME
      else if s = ''tmpfs'' then Inr TMPFS
      else if s = ''npipe'' then Inr NPIPE
      else if s = ''cluster'' then Inr CLUSTER
      else Inl (''Invalid enum type: '' @ s))"

text \<open>\<open>AsRef<str>\<close>: the same texts.\<close>

fun port_type_as_ref :: "port_type_enum \<Rightarrow> string" where
  "port_type_as_ref EMPTY = ''''"
| "port_type_as_ref TCP = ''tcp''"
| "port_type_as_ref UDP = ''udp''"
| "port_type_as_ref SCTP = ''sctp''"

fun mount_point_type_as_ref :: "mount_point_type_enum \<Rightarrow> string" where
  "mount_point_type_as_ref MOUNT_EMPTY = ''''"
| "mount_point_type_as_ref BIND = ''bind''"
| "mount_point_type_as_ref VOLUME = ''volume''"
| "mount_point_type_as_ref TMPFS = ''tmpfs''"
| "mount_point_type_as_ref NPIPE = ''npipe''"
| "mount_point_type_as_ref CLUSTER = ''cluster''"

lemma port_type_as_ref_shows: "port_type_as_ref t = show_port_type t"
  by (cases t) simp_all

lemma mount_point_type_as_ref_shows: "mount_point_type_as_ref t = show_mount_point_type t"
  by (cases t) simp_all

lemma port_type_from_str_Inr: "port_type_from_str s = Inr t \<longleftrightarrow> s = show_port_type t"
  by (cases t) (auto simp: port_type_from_str_def split: if_splits)

lemma mount_point_type_from_str_Inr:
  "mount_point_type_from_str s = Inr t \<longleftrightarrow> s = show_mount_point_type t"
  by (cases t) (auto simp: mount_point_type_from_str_def split: if_splits)

section \<open>Structs\<close>

record list_containers_options =
  lco_all :: bool
  lco_limit :: "int option"
  lco_size :: bool
  lco_filters :: "(string \<times> string list) list"

record port =
  port_ip :: "string option"
  port_private_port :: u16
  port_public_port :: "u16 option"
  port_typ :: "port_type_enum option"

record endpoint_ipam_config =
  eic_ipv4_address :: "string option"
  eic_ipv6_address :: "string option"
  eic_link_local_i_ps :: "string list option"

record endpoint_settings =
  es_ipam_config :: "endpoint_ipam_config option"
  es_links :: "string list option"
  es_mac_address :: "string option"
  es_aliases :: "string list option"
  es_network_id :: "string option"
  es_endpoint_id :: "string option"
  es_gateway :: "string option"
  es_ip_address :: "string option"
  es_ip_prefix_len :: "int option"
  es_ipv6_gateway :: "string option"
  es_global_ipv6_address :: "string option"
  es_global_ipv6_prefix_len :: "int option"
  es_driver_opts :: "(string \<times> string) list option"
  es_dns_names :: "string list option"

record container_summary_host_config =
  cshc_network_mode :: "string option"

record network_settings =
  ns_networks :: "(string \<times> endpoint_settings) list option"

record mount_point =
  mp_typ :: "mount_point_type_enum option"
  mp_name :: "string option"
  mp_source :: "string option"
  mp_destination :: "string option"
  mp_driver :: "string option"
  mp_mode :: "string option"
  mp_rw :: "bool option"
  mp_propagation :: "string option"

record container_summary =
  cs_id :: "string option"
  cs_names :: "string list option"
  cs_image :: "string option"
  cs_image_id :: "string option"
  cs_command :: "string option"
  cs_created :: "int option"
  cs_ports :: "port list option"
  cs_size_rw :: "int option"
  cs_size_root_fs :: "int option"
  cs_labels :: "(string \<times> string) list option"
  cs_state :: "string option"
  cs_status :: "string option"
  cs_host_config :: "container_summary_host_config option"
  cs_network_settings :: "network_settings option"
  cs_mounts :: "mount_point list option"

section \<open>Default values\<close>

definition list_containers_options_default :: list_containers_options where
  "list_containers_options_default =
     \<lparr>lco_all = False, lco_limit = None, lco_size = False, lco_filters = []\<rparr>"

definition endpoint_settings_default :: endpoint_settings where
  "endpoint_settings_default =
     \<lparr>es_ipam_config = None, es_links = None, es_mac_address = None, es_aliases = None,
      es_network_id = None, es_endpoint_id = None, es_gateway = None, es_ip_address = None,
      es_ip_prefix_len = None, es_ipv6_gateway = None, es_global_ipv6_address = None,
      es_global_ipv6_prefix_len = None, es_driver_opts = None, es_dns_names = None\<rparr>"

definition container_summary_default :: container_summary where
  "container_summary_default =
     \<lparr>cs_id = None, cs_names = None, cs_image = None, cs_image_id = None, cs_command = None,
      cs_created = None, cs_ports = None, cs_size_rw = None, cs_size_root_fs = None,
      cs_labels = None, cs_state = None, cs_status = None, cs_host_config = None,
      cs_network_settings = None, cs_mounts = None\<rparr>"

end
