(* ===== verification/Docker.thy ===== *)
theory Docker
  imports Dns Docker_Model
begin

text \<open>
  \<^verbatim>\<open>docker/src/client.rs\<close> (the client with its single connection) and
  \<^verbatim>\<open>pingoo/service_discovery/docker.rs\<close>: containers labelled \<open>pingoo.service\<close> become
  upstreams. Opening the socket, the HTTP exchange and JSON are arguments.
\<close>

section \<open>The client\<close>

text \<open>
  The client keeps at most one connection. The network and the serialisers are an environment:
  \<open>de_dial\<close> is the result of connecting to a socket and shaking hands, \<open>de_send\<close> the
  exchange on a connection (an error, or a status and a body that may fail to arrive).
\<close>

datatype docker_error = Connecting | DockerUnspecified string

record 'conn docker_client =
  dc_socket_path :: string
  dc_socket :: "'conn option"

record 'conn docker_env =
  de_dial :: "string \<Rightarrow> unit + 'conn"
  de_send :: "'conn \<Rightarrow> string \<Rightarrow> unit + nat \<times> (unit + string)"
  de_to_query :: "list_containers_options \<Rightarrow> unit + string"
  de_from_json :: "string \<Rightarrow> unit + container_summary list"

definition default_docker_socket :: string where
  "default_docker_socket = ''/var/run/docker.sock''"

definition client_new :: "string option \<Rightarrow> 'conn docker_client" where
  "client_new socket_path =
     \<lparr>dc_socket_path = (case socket_path of Some p \<Rightarrow> p | None \<Rightarrow> default_docker_socket), dc_socket = None\<rparr>"

definition connect :: "'conn docker_env \<Rightarrow> 'conn docker_client \<Rightarrow> (docker_error + unit) \<times> 'conn docker_client" where
  "connect env c =
     (if dc_socket c \<noteq> None then (Inr (), c)
      else case de_dial env (dc_socket_path c) of
             Inl _ \<Rightarrow> (Inl Connecting, c)
           | Inr conn \<Rightarrow> (Inr (), c\<lparr>dc_socket := Some conn\<rparr>))"

text \<open>Of \<open>send_request\<close> only the call of \<open>list_containers\<close> is made: no body is sent.\<close>

definition exchange ::
  "'conn docker_env \<Rightarrow> 'conn \<Rightarrow> string \<Rightarrow> docker_error + container_summary list" where
  "exchange env conn path_and_query =
     (case de_send env conn path_and_query of
        Inl _ \<Rightarrow> Inl (DockerUnspecified ''sending request'')
      | Inr (status, body) \<Rightarrow>
          if status \<noteq> 200 then Inl (DockerUnspecified ''received not OK status code'')
          else case body of
                 Inl _ \<Rightarrow> Inl (DockerUnspecified ''reading response'')
               | Inr response_body \<Rightarrow>
                   (case de_from_json env response_body of
                      Inl _ \<Rightarrow> Inl (DockerUnspecified ''parsing response'')
                    | Inr r \<Rightarrow> Inr r))"

definition send_request ::
  "'conn docker_env \<Rightarrow> string \<Rightarrow> list_containers_options option \<Rightarrow> 'conn docker_client \<Rightarrow>
     (docker_error + container_summary list) \<times> 'conn docker_client" where
  "send_request env path query c =
     (let (opened, c) = (if dc_socket c = None then connect env c else (Inr (), c))
      in case opened of
           Inl e \<Rightarrow> (Inl e, c)
         | Inr _ \<Rightarrow>
             (case (case query of
                      Some query_params \<Rightarrow>
                        (case de_to_query env query_params of
                           Inl _ \<Rightarrow> Inl (DockerUnspecified ''encoding request's query parameters'')
                         | Inr query_string \<Rightarrow> Inr (path @ ''?'' @ query_string))
                    | None \<Rightarrow> Inr path) of
                Inl e \<Rightarrow> (Inl e, c)
              | Inr path_and_query \<Rightarrow>
                  (case dc_socket c of
                     Some conn \<Rightarrow> (exchange env conn path_and_query, c)
                   | None \<Rightarrow> (Inl Connecting, c) \<comment> \<open>the unwrap, see \<open>send_request_opens\<close>\<close>)))"

definition list_containers ::
  "'conn docker_env \<Rightarrow> list_containers_options option \<Rightarrow> 'conn docker_client \<Rightarrow>
     (docker_error + container_summary list) \<times> 'conn docker_client" where
  "list_containers env options c = send_request env ''/containers/json'' options c"

lemma send_request_opens:
  "connect env c = (Inr u, c') \<Longrightarrow> dc_socket c' \<noteq> None"
  by (auto simp: connect_def split: if_splits sum.splits)

section \<open>Discovery\<close>

text \<open>
  \<open>warned\<close> is the cache of containers a warning was logged for. One container either gives
  an upstream for a service or is skipped; both may change the cache.
\<close>

definition warn_once :: "string \<Rightarrow> string list \<Rightarrow> string list" where
  "warn_once container_id warned = (if container_id \<in> set warned then warned else container_id # warned)"

definition container_port :: "container_summary \<Rightarrow> (string \<times> string) list \<Rightarrow> u16 option" where
  "container_port container labels =
     (case map_of labels ''pingoo.port'' of
        Some port_str \<Rightarrow> parse_u16 port_str
      | None \<Rightarrow>
          (case cs_ports container of
             Some (p # _) \<Rightarrow> Some (port_private_port p)
           | _ \<Rightarrow> None))"

definition container_ip :: "container_summary \<Rightarrow> string option" where
  "container_ip container =
     map_option (\<lambda>es. case es_ip_address es of Some ip \<Rightarrow> ip | None \<Rightarrow> '''')
       (map_of (case cs_network_settings container of
                  Some ns \<Rightarrow> (case ns_networks ns of Some nets \<Rightarrow> nets | None \<Rightarrow> [])
                | None \<Rightarrow> []) ''bridge'')"

definition container_upstream :: "container_summary \<Rightarrow> string list \<Rightarrow> (string \<times> upstream) option \<times> string list" where
  "container_upstream container warned =
     (let container_id = (case cs_id container of Some i \<Rightarrow> i | None \<Rightarrow> '''');
          labels = (case cs_labels container of Some ls \<Rightarrow> ls | None \<Rightarrow> [])
      in case map_of labels ''pingoo.service'' of
           None \<Rightarrow> (None, warned)
         | Some pingoo_service_name \<Rightarrow>
             (case container_port container labels of
                None \<Rightarrow> (None, warn_once container_id warned)
              | Some port \<Rightarrow>
                  (case container_ip container of
                     None \<Rightarrow> (None, warn_once container_id warned)
                   | Some container_ip_str \<Rightarrow>
                       (case parse_ip_addr container_ip_str of
                          None \<Rightarrow> (None, warn_once container_id warned)
                        | Some ip \<Rightarrow>
                            (Some (pingoo_service_name,
                               \<lparr>up_socket_address = SocketAddr ip port,
                                up_hostname = container_id, up_tls = False\<rparr>),
                             removeAll container_id warned)))))"

definition push_upstream :: "string \<times> upstream \<Rightarrow> upstream_map \<Rightarrow> upstream_map" where
  "push_upstream = (\<lambda>(service, up) m.
     AList.update service ((case map_of m service of Some us \<Rightarrow> us | None \<Rightarrow> []) @ [up]) m)"

fun discover_containers ::
  "container_summary list \<Rightarrow> upstream_map \<Rightarrow> string list \<Rightarrow> upstream_map \<times> string list" where
  "discover_containers [] new_upstreams warned = (new_upstreams, warned)"
| "discover_containers (c # cs) new_upstreams warned =
     (case container_upstream c warned of
        (None, warned') \<Rightarrow> discover_containers cs new_upstreams warned'
      | (Some su, warned') \<Rightarrow> discover_containers cs (push_upstream su new_upstreams) warned')"

text \<open>The discoverer: no client when the socket does not exist.\<close>

record 'conn docker_discoverer =
  dd_docker_client :: "'conn docker_client option"
  dd_warned_containers :: "string list"

definition docker_discoverer_new :: "string \<Rightarrow> (io_error_kind + unit) \<Rightarrow> error + 'conn docker_discoverer" where
  "docker_discoverer_new socket metadata =
     (case metadata of
        Inr _ \<Rightarrow> Inr \<lparr>dd_docker_client = Some (client_new (Some socket)), dd_warned_containers = []\<rparr>
      | Inl NotFound \<Rightarrow> Inr \<lparr>dd_docker_client = None, dd_warned_containers = []\<rparr>
      | Inl OtherIoError \<Rightarrow> Inl (Config ''error reading docker socket''))"

definition docker_filters :: list_containers_options where
  "docker_filters = list_containers_options_default\<lparr>lco_filters := [(''label'', [''pingoo.service''])]\<rparr>"

definition docker_discover ::
  "'conn docker_env \<Rightarrow> 'conn docker_discoverer \<Rightarrow> (error + upstream_map) \<times> 'conn docker_discoverer" where
  "docker_discover env dd =
     (case dd_docker_client dd of
        None \<Rightarrow> (Inr [], dd)
      | Some client \<Rightarrow>
          (let (listed, client) = list_containers env (Some docker_filters) client;
               dd = dd\<lparr>dd_docker_client := Some client\<rparr>
           in case listed of
                Inl _ \<Rightarrow> (Inl (Unspecified ''discovering Docker services''), dd)
              | Inr containers \<Rightarrow>
                  (let (new_upstreams, warned) = discover_containers containers [] (dd_warned_containers dd)
                   in (Inr new_upstreams, dd\<lparr>dd_warned_containers := warned\<rparr>))))"

section \<open>Which containers become upstreams\<close>

text \<open>The specification: the endpoint of a container for one service, if it has one.\<close>

definition labels_of :: "container_summary \<Rightarrow> (string \<times> string) list" where
  "labels_of c = (case cs_labels c of Some ls \<Rightarrow> ls | None \<Rightarrow> [])"

definition id_of :: "container_summary \<Rightarrow> string" where
  "id_of c = (case cs_id c of Some i \<Rightarrow> i | None \<Rightarrow> '''')"

definition container_address :: "container_summary \<Rightarrow> socket_addr option" where
  "container_address c =
     Option.bind (container_port c (labels_of c)) (\<lambda>port.
     Option.bind (container_ip c) (\<lambda>ip_str.
     map_option (\<lambda>ip. SocketAddr ip port) (parse_ip_addr ip_str)))"

definition container_endpoint :: "string \<Rightarrow> container_summary \<Rightarrow> upstream option" where
  "container_endpoint s c =
     (if map_of (labels_of c) ''pingoo.service'' = Some s
      then map_option (\<lambda>a. \<lparr>up_socket_address = a, up_hostname = id_of c, up_tls = False\<rparr>)
             (container_address c)
      else None)"

lemma container_upstream_eq:
  "container_upstream c warned =
     (case map_of (labels_of c) ''pingoo.service'' of
        None \<Rightarrow> (None, warned)
      | Some s \<Rightarrow>
          (case container_endpoint s c of
             None \<Rightarrow> (None, warn_once (id_of c) warned)
           | Some up \<Rightarrow> (Some (s, up), removeAll (id_of c) warned)))"
  by (simp add: container_upstream_def container_endpoint_def container_address_def
      labels_of_def [symmetric] id_of_def [symmetric] Let_def split: option.splits)

lemma lookup_push:
  "lookup_list (push_upstream (s, up) m) s' = lookup_list m s' @ (if s' = s then [up] else [])"
  by (auto simp: push_upstream_def lookup_list_def update_conv' split: option.splits)

lemma discover_containers_lookup:
  "lookup_list (fst (discover_containers cs m warned)) s
     = lookup_list m s @ List.map_filter (container_endpoint s) cs"
proof (induction cs arbitrary: m warned)
  case (Cons c cs)
  show ?case
    using Cons
    by (auto simp: container_upstream_eq lookup_push List.map_filter_simps container_endpoint_def
        split: option.splits)
qed (simp add: List.map_filter_def)

lemma warn_once_set [simp]: "set (warn_once i w) = insert i (set w)"
  by (auto simp: warn_once_def)

definition faulty :: "container_summary \<Rightarrow> bool" where
  "faulty c \<longleftrightarrow> map_of (labels_of c) ''pingoo.service'' \<noteq> None \<and> container_address c = None"

lemma container_upstream_warned:
  "i \<in> set (snd (container_upstream c warned)) \<longleftrightarrow>
     (if i = id_of c \<and> map_of (labels_of c) ''pingoo.service'' \<noteq> None then faulty c else i \<in> set warned)"
  by (auto simp: container_upstream_eq container_endpoint_def faulty_def split: option.splits)

lemma discover_containers_snd:
  "snd (discover_containers cs m warned) = fold (\<lambda>c. snd \<circ> container_upstream c) cs warned"
proof (induction cs arbitrary: m warned)
  case (Cons c cs)
  obtain r w where cu: "container_upstream c warned = (r, w)" by fastforce
  show ?case by (cases r) (simp_all add: cu Cons)
qed simp

lemma discover_containers_warned:
  assumes "distinct (map id_of cs)"
  shows "i \<in> set (snd (discover_containers cs m warned)) \<longleftrightarrow>
    (\<exists>c \<in> set cs. id_of c = i \<and> faulty c)
    \<or> i \<in> set warned \<and> (\<forall>c \<in> set cs. id_of c = i \<longrightarrow> map_of (labels_of c) ''pingoo.service'' = None)"
  using assms
proof (induction cs arbitrary: m warned)
  case (Cons c cs)
  have ne: "\<forall>c' \<in> set cs. id_of c' \<noteq> id_of c"
    using Cons.prems by (metis distinct.simps(2) list.simps(9) image_eqI list.set_map)
  have IH: "i \<in> set (snd (discover_containers (c # cs) m warned)) \<longleftrightarrow>
    (\<exists>c \<in> set cs. id_of c = i \<and> faulty c)
    \<or> i \<in> set (snd (container_upstream c warned))
        \<and> (\<forall>c \<in> set cs. id_of c = i \<longrightarrow> map_of (labels_of c) ''pingoo.service'' = None)"
    using Cons.IH [of m "snd (container_upstream c warned)"] Cons.prems
    by (simp add: discover_containers_snd del: discover_containers.simps)
  show ?case
  proof (cases "i = id_of c")
    case True
    then show ?thesis
      unfolding IH container_upstream_warned using ne by (auto simp: faulty_def)
  next
    case False
    then show ?thesis
      unfolding IH container_upstream_warned by auto
  qed
qed simp

section \<open>What the discovery offers\<close>

definition docker_listing :: "'conn docker_env \<Rightarrow> 'conn docker_discoverer \<Rightarrow> container_summary list" where
  "docker_listing env dd =
     (case dd_docker_client dd of
        None \<Rightarrow> []
      | Some client \<Rightarrow> (case fst (list_containers env (Some docker_filters) client) of Inl _ \<Rightarrow> [] | Inr cs \<Rightarrow> cs))"

lemma in_docker_listing:
  "c \<in> set (docker_listing env dd) \<longleftrightarrow>
     (\<exists>client containers client'. dd_docker_client dd = Some client
        \<and> list_containers env (Some docker_filters) client = (Inr containers, client') \<and> c \<in> set containers)"
proof (cases "dd_docker_client dd")
  case (Some client)
  then show ?thesis
    by (cases "list_containers env (Some docker_filters) client") (auto simp: docker_listing_def split: sum.split)
qed (simp add: docker_listing_def)

lemma docker_offers:
  "(case fst (docker_discover env dd) of Inl _ \<Rightarrow> [] | Inr found \<Rightarrow> lookup_list found s)
     = List.map_filter (container_endpoint s) (docker_listing env dd)"
  using discover_containers_lookup [of _ "[]" _ s]
  by (auto simp: docker_discover_def docker_listing_def lookup_list_def [of "[]"] Let_def List.map_filter_simps
      case_prod_beta split: option.split sum.split)

lemma discover_containers_distinct:
  "distinct (map fst m) \<Longrightarrow> distinct (map fst (fst (discover_containers cs m warned)))"
proof (induction cs arbitrary: m warned)
  case (Cons c cs)
  have "distinct (map fst (push_upstream su m))" for su
    using Cons.prems by (cases su) (simp add: push_upstream_def distinct_update)
  with Cons show ?case by (auto split: prod.split option.split)
qed simp

lemma docker_discover_distinct: "fst (docker_discover env dd) = Inr found \<Longrightarrow> distinct (map fst found)"
  using discover_containers_distinct [of "[]"]
  by (auto simp: docker_discover_def Let_def case_prod_beta split: option.splits sum.splits)

section \<open>A lost connection\<close>

text \<open>Successive refreshes, each in the environment of its time.\<close>

fun run_discoveries ::
  "'conn docker_env list \<Rightarrow> 'conn docker_discoverer \<Rightarrow> (error + upstream_map) list \<times> 'conn docker_discoverer" where
  "run_discoveries [] dd = ([], dd)"
| "run_discoveries (env # envs) dd =
     (let (r, dd') = docker_discover env dd; (out, dd'') = run_discoveries envs dd' in (r # out, dd''))"

lemma send_request_connected:
  assumes "dc_socket c = Some conn"
  shows "snd (send_request env path query c) = c"
    and "(\<forall>p. \<exists>e. de_send env conn p = Inl e) \<Longrightarrow> \<exists>e. fst (send_request env path query c) = Inl e"
proof -
  show "snd (send_request env path query c) = c"
    using assms by (auto simp: send_request_def split: sum.splits option.splits)
  assume "\<forall>p. \<exists>e. de_send env conn p = Inl e"
  then have "\<exists>e. exchange env conn p = Inl e" for p
    by (metis exchange_def sum.case(1))
  with assms show "\<exists>e. fst (send_request env path query c) = Inl e"
    by (auto simp: send_request_def split: sum.splits option.splits)
qed

lemma docker_discover_broken:
  assumes "dd_docker_client dd = Some c" and "dc_socket c = Some conn"
    and "\<forall>p. \<exists>e. de_send env conn p = Inl e"
  shows "docker_discover env dd = (Inl (Unspecified ''discovering Docker services''), dd)"
proof -
  obtain e where "list_containers env (Some docker_filters) c = (Inl e, c)"
    using send_request_connected [OF assms(2)] assms(3)
    by (metis list_containers_def prod.collapse)
  with assms(1) show ?thesis
    by (cases dd) (simp add: docker_discover_def)
qed

section \<open>Properties\<close>

text \<open>C39: Docker discovery offers a service exactly the address of each container labelled for it,
  in the order of the listing, with the port of the label or else the first exposed one and the
  address of the bridge network; a container without a usable port or address is left out and no
  other is affected; the cache of warnings decides nothing.\<close>

theorem docker_offers_labelled_containers:
  assumes "dd_docker_client dd = Some c" and "list_containers env (Some docker_filters) c = (Inr cs, c')"
  shows "\<exists>found. fst (docker_discover env dd) = Inr found
     \<and> lookup_list found s = List.map_filter (container_endpoint s) cs"
  using assms discover_containers_lookup [of cs "[]" _ s]
  by (auto simp: docker_discover_def lookup_list_def [of "[]"] split: prod.splits)
    (metis fst_conv)

text \<open>C38: the first refresh of a registry, by the resolver and Docker as the code joins them, gives a service
  exactly its upstreams given as addresses, every address its host names resolve to (the IPv6 loopback
  replaced by 127.0.0.1) with the configured port, TLS flag and host name, and the endpoint of each
  container that is labelled for it; nothing from Docker without a socket or when the listing fails.\<close>

theorem configured_upstreams_offered:
  assumes order: "hash_order order" and names: "distinct (map sc_name services)" and sc: "sc \<in> set services"
  shows "up \<in> set (get_upstreams
        (discover [dns_discover lookup_ip order (get_upstream_hosts services), fst (docker_discover env dd)]
          (service_registry_new services)) (sc_name sc)) \<longleftrightarrow>
    IPAddress up \<in> set (proxy_upstreams sc)
    \<or> (\<exists>port ips ip. Domain (up_hostname up) (up_tls up) port \<in> set (proxy_upstreams sc)
         \<and> lookup_ip (up_hostname up) = Inr ips \<and> ip \<in> set ips
         \<and> up_socket_address up = resolved_address port ip)
    \<or> (\<exists>client containers client' c. dd_docker_client dd = Some client
         \<and> list_containers env (Some docker_filters) client = (Inr containers, client')
         \<and> c \<in> set containers \<and> container_endpoint (sc_name sc) c = Some up)"
proof -
  have "up \<in> set (List.map_filter (container_endpoint (sc_name sc)) (docker_listing env dd))
      \<longleftrightarrow> (\<exists>c \<in> set (docker_listing env dd). container_endpoint (sc_name sc) c = Some up)"
    by (force simp: List.map_filter_def image_iff)
  also have "\<dots> \<longleftrightarrow> (\<exists>client containers client' c. dd_docker_client dd = Some client
         \<and> list_containers env (Some docker_filters) client = (Inr containers, client')
         \<and> c \<in> set containers \<and> container_endpoint (sc_name sc) c = Some up)"
    unfolding Bex_def in_docker_listing by blast
  finally have docker: "up \<in> set (List.map_filter (container_endpoint (sc_name sc)) (docker_listing env dd)) \<longleftrightarrow> \<dots>" .
  have "offered_upstreams [dns_discover lookup_ip order (get_upstream_hosts services), fst (docker_discover env dd)]
      (service_registry_new services) (sc_name sc)
    = ip_upstreams (proxy_upstreams sc)
      @ concat (map (host_upstreams lookup_ip order) (domain_hosts (proxy_upstreams sc)))
      @ List.map_filter (container_endpoint (sc_name sc)) (docker_listing env dd)"
    using joined_upstreams [OF names sc, of "fst (docker_discover env dd)" lookup_ip order] docker_discover_distinct
    unfolding docker_offers by blast
  with docker show ?thesis
    unfolding first_refresh using resolved_upstreams [OF order, of "proxy_upstreams sc" up lookup_ip] by (simp add: in_ip_upstreams)
qed

text \<open>The cache of warnings holds, after a listing, exactly the labelled containers that could
  not be used, and those not listed now for which a warning was issued before.\<close>

lemma docker_warns_faulty_containers:
  assumes "dd_docker_client dd = Some c" and "list_containers env (Some docker_filters) c = (Inr cs, c')"
    and "distinct (map id_of cs)"
  shows "i \<in> set (dd_warned_containers (snd (docker_discover env dd))) \<longleftrightarrow>
    (\<exists>c \<in> set cs. id_of c = i \<and> faulty c)
    \<or> i \<in> set (dd_warned_containers dd)
        \<and> (\<forall>c \<in> set cs. id_of c = i \<longrightarrow> map_of (labels_of c) ''pingoo.service'' = None)"
proof -
  have "dd_warned_containers (snd (docker_discover env dd))
      = snd (discover_containers cs [] (dd_warned_containers dd))"
    using assms(1,2) by (simp add: docker_discover_def split_beta)
  then show ?thesis
    using discover_containers_warned [OF assms(3)] by simp
qed

definition demo_container :: "string \<Rightarrow> string \<Rightarrow> container_summary" where
  "demo_container i ip =
     container_summary_default\<lparr>
       cs_id := Some i,
       cs_ports := Some [\<lparr>port_ip = None, port_private_port = 8080, port_public_port = None, port_typ = Some TCP\<rparr>],
       cs_labels := Some [(''pingoo.service'', ''api'')],
       cs_network_settings := Some \<lparr>ns_networks =
         Some [(''bridge'', endpoint_settings_default\<lparr>es_ip_address := Some ip\<rparr>)]\<rparr>\<rparr>"

definition demo_containers :: "container_summary list" where
  "demo_containers = [demo_container ''a'' ''172.17.0.2'', demo_container ''b'' '''']"

text \<open>Connection 1 is broken, every other answers with the two containers.\<close>

definition demo_docker_env :: "nat docker_env" where
  "demo_docker_env =
     \<lparr>de_dial = \<lambda>_. Inr 2,
      de_send = \<lambda>conn _. if conn = 1 then Inl () else Inr (200, Inr ''[]''),
      de_to_query = \<lambda>_. Inr ''filters'',
      de_from_json = \<lambda>_. Inr demo_containers\<rparr>"

definition demo_discoverer :: "nat option \<Rightarrow> nat docker_discoverer" where
  "demo_discoverer conn =
     \<lparr>dd_docker_client = Some ((client_new None)\<lparr>dc_socket := conn\<rparr>), dd_warned_containers = [''a'']\<rparr>"

lemma demo_listed:
  "dd_docker_client (demo_discoverer None) = Some (client_new None)"
  "list_containers demo_docker_env (Some docker_filters) (client_new None)
     = (Inr demo_containers, (client_new None)\<lparr>dc_socket := Some 2\<rparr>)"
  by (simp_all add: demo_discoverer_def demo_docker_env_def list_containers_def send_request_def
      connect_def exchange_def client_new_def)

theorem docker_offers_labelled_containers_witness:
  "\<exists>found. fst (docker_discover demo_docker_env (demo_discoverer None)) = Inr found
     \<and> map up_hostname (lookup_list found ''api'') = [''a'']"
proof -
  have "map up_hostname (List.map_filter (container_endpoint ''api'') demo_containers) = [''a'']"
    by code_simp
  with docker_offers_labelled_containers [OF demo_listed, of "''api''"] show ?thesis
    by auto
qed

theorem configured_upstreams_offered_witness:
  "let ups = get_upstreams
        (discover [dns_discover (\<lambda>_. Inr [V6 1] :: unit + ip_addr list) remdups (get_upstream_hosts [demo_service]),
           fst (docker_discover demo_docker_env (demo_discoverer None))]
          (service_registry_new [demo_service])) (sc_name demo_service)
   in demo_upstream 1 \<in> set ups
      \<and> \<lparr>up_socket_address = SocketAddr ipv4_localhost 5, up_hostname = ''db'', up_tls = False\<rparr> \<in> set ups
      \<and> the (container_endpoint ''api'' (demo_container ''a'' ''172.17.0.2'')) \<in> set ups"
proof -
  have "distinct (map sc_name [demo_service])" and "demo_service \<in> set [demo_service]" by simp_all
  note offered = configured_upstreams_offered [OF hash_order_remdups this, of _ "\<lambda>_. Inr [V6 1] :: unit + ip_addr list"
      demo_docker_env "demo_discoverer None"]
  have "container_endpoint ''api'' (demo_container ''a'' ''172.17.0.2'') \<noteq> None" by code_simp
  then have c: "container_endpoint (sc_name demo_service) (demo_container ''a'' ''172.17.0.2'')
      = Some (the (container_endpoint ''api'' (demo_container ''a'' ''172.17.0.2'')))"
    by (auto simp: demo_service_def)
  have "demo_container ''a'' ''172.17.0.2'' \<in> set demo_containers" by (simp add: demo_containers_def)
  then show ?thesis
    unfolding Let_def offered using demo_listed c
    by (intro conjI) (force simp: demo_service_def proxy_upstreams_def resolved_address_def)+
qed

lemma docker_warns_faulty_containers_witness:
  "''b'' \<in> set (dd_warned_containers (snd (docker_discover demo_docker_env (demo_discoverer None))))"
proof -
  have d: "distinct (map id_of demo_containers)"
    by (simp add: demo_containers_def demo_container_def id_of_def)
  have "container_address (demo_container ''b'' '''') = None"
    by code_simp
  then have "faulty (demo_container ''b'' '''')"
    by (simp add: faulty_def labels_of_def demo_container_def)
  then show ?thesis
    unfolding docker_warns_faulty_containers [OF demo_listed d]
    by (simp add: demo_containers_def demo_container_def id_of_def)
qed

text \<open>The client never reconnects: once a connection is open no refresh replaces it, so when it
  breaks every later refresh fails, whatever a new dial would answer (a Docker daemon that
  restarts is lost until the program restarts).\<close>

lemma docker_client_never_reconnects:
  assumes "dd_docker_client dd = Some c" and "dc_socket c = Some conn"
    and "\<forall>env \<in> set envs. \<forall>p. \<exists>e. de_send env conn p = Inl e"
  shows "run_discoveries envs dd
    = (replicate (length envs) (Inl (Unspecified ''discovering Docker services'')), dd)"
  using assms(3)
proof (induction envs)
  case (Cons env envs)
  then have "docker_discover env dd = (Inl (Unspecified ''discovering Docker services''), dd)"
    using docker_discover_broken [OF assms(1,2)] by simp
  with Cons show ?case by simp
qed simp

lemma docker_client_never_reconnects_witness:
  "run_discoveries [demo_docker_env] (demo_discoverer (Some 1))
     = ([Inl (Unspecified ''discovering Docker services'')], demo_discoverer (Some 1))"
proof -
  have "dd_docker_client (demo_discoverer (Some 1)) = Some ((client_new None)\<lparr>dc_socket := Some 1\<rparr>)"
    and "dc_socket ((client_new None)\<lparr>dc_socket := Some (1::nat)\<rparr>) = Some 1"
    by (simp_all add: demo_discoverer_def)
  from docker_client_never_reconnects [OF this, of "[demo_docker_env]"] show ?thesis
    by (simp add: demo_docker_env_def)
qed

end
