(* ===== verification/Signer.thy ===== *)
theory Signer
  imports Strings
begin

text \<open>
  What a token format relies on when it signs: a signature made by a key verifies with it, and
  neither operation panics on a good key. \<open>None\<close> is a panic. The provider is the key of
  \<^verbatim>\<open>jwt/key.rs\<close>, the client the compact tokens of \<^verbatim>\<open>jwt/jwt.rs\<close>.
\<close>

type_synonym bytes = string

lemma split_char_dots:
  assumes "CHR ''.'' \<notin> set a" and "CHR ''.'' \<notin> set b" and "CHR ''.'' \<notin> set c"
  shows "split_char CHR ''.'' (a @ ''.'' @ b @ ''.'' @ c) = [a, b, c]"
proof -
  have one: "CHR ''.'' \<notin> set x \<Longrightarrow> split_char CHR ''.'' (x @ CHR ''.'' # r) = x # split_char CHR ''.'' r" for x r
    by (induction x) auto
  have last: "CHR ''.'' \<notin> set x \<Longrightarrow> split_char CHR ''.'' x = [x]" for x
    by (induction x) auto
  show ?thesis using assms by (simp add: one last)
qed

lemma split_char_three:
  assumes "split_char CHR ''.'' t = [a, b, c]"
  shows "t = a @ ''.'' @ b @ ''.'' @ c"
  using join_split_char [of "CHR ''.''" t] by (simp add: assms)

locale signer =
  fixes ok :: "'k \<Rightarrow> bool"
    and sign :: "'k \<Rightarrow> bytes \<Rightarrow> ('e + bytes) option"
    and verify :: "'k \<Rightarrow> bytes \<Rightarrow> bytes \<Rightarrow> ('e + unit) option"
  assumes verify_sign: "ok k \<Longrightarrow> sign k m = Some (Inr s) \<Longrightarrow> verify k m s = Some (Inr ())"
    and sign_total: "ok k \<Longrightarrow> sign k m \<noteq> None"
    and verify_total: "ok k \<Longrightarrow> verify k m s \<noteq> None"
begin

text \<open>A token of three encoded parts is taken apart again, and its signature verifies.\<close>

lemma compact_token:
  assumes ok: "ok k" and dot: "\<And>b. CHR ''.'' \<notin> set (encode b)"
    and signed: "sign k (encode h @ ''.'' @ encode c) = Some (Inr s)"
    and token: "t = encode h @ ''.'' @ encode c @ ''.'' @ encode s"
  shows "split_char CHR ''.'' t = [encode h, encode c, encode s]"
    and "take (length (encode h) + 1 + length (encode c)) t = encode h @ ''.'' @ encode c"
    and "verify k (encode h @ ''.'' @ encode c) s = Some (Inr ())"
  using split_char_dots [OF dot dot dot] verify_sign [OF ok signed] by (simp_all add: token)

lemma verify_cases:
  assumes "ok k"
  obtains "verify k m s = Some (Inr ())" | e where "verify k m s = Some (Inl e)"
  using verify_total [OF assms, of m s] by (cases "verify k m s"; cases "the (verify k m s)") auto

end

end
