(* ===== verification/Jwt_Key.thy ===== *)
theory Jwt_Key
  imports Signer
begin

text \<open>
  \<^verbatim>\<open>jwt/jwk.rs\<close> and \<^verbatim>\<open>jwt/key.rs\<close>: JSON Web Keys, the keys used to sign and
  verify, and the conversions between them. The cryptographic library is an environment whose
  documented behaviour is \<open>crypto_ok\<close>. A call that would panic is \<open>None\<close>.
\<close>

section \<open>Data\<close>

datatype algorithm = HS512 | EdDSA | ES256 | ES512

datatype key_use = Sign | Encrypt

datatype okp_curve = Ed25519

datatype ec_curve = P256 | P521

datatype hmac_algorithm = Sha256 | Sha512

datatype jwk_crypto =
  Okp okp_curve (okp_x: bytes) (okp_d: "bytes option")
| Ec ec_curve (ec_x: bytes) (ec_y: bytes) (ec_d: "bytes option")
| Oct (oct_key: bytes)

record jwk =
  jwk_kid :: string
  jwk_use :: key_use
  jwk_algorithm :: algorithm
  jwk_crypto :: jwk_crypto

record jwks =
  jwks_keys :: "jwk list"

datatype ('ed, 'ec) key_crypto =
  Eddsa okp_curve 'ed
| Ecdsa ec_curve 'ec
| Hmac hmac_algorithm bytes

record ('ed, 'ec) key =
  key_id :: string
  key_algorithm :: algorithm
  key_crypto :: "('ed, 'ec) key_crypto"

datatype jwt_error =
  InvalidAlgorithm string
| InvalidTokenType string
| Json
| InvalidToken
| InvalidSignature
| InvalidEllipticCurve string
| InvalidJwk string string
| JwtUnspecified string

text \<open>A signature is a fixed buffer and the length used.\<close>

definition signature_max_size :: nat where
  "signature_max_size = 132"

record signature =
  sig_value :: bytes
  sig_length :: nat

definition signature_as_ref :: "signature \<Rightarrow> bytes" where
  "signature_as_ref s = take (sig_length s) (sig_value s)"

definition signature_from :: "bytes \<Rightarrow> signature option" where
  "signature_from raw =
     (if length raw \<le> signature_max_size
      then Some \<lparr>sig_value = raw @ replicate (signature_max_size - length raw) (CHR 0x00),
                 sig_length = length raw\<rparr>
      else None)"

section \<open>The cryptographic library\<close>

text \<open>
  \<open>ce_ed_verify\<close> and \<open>ce_ec_verify\<close> parse a public key and check a signature: \<open>None\<close>
  when the key does not parse. Signing with ECDSA draws from the system's randomness.
\<close>

record ('ed, 'ec) crypto_env =
  ce_ed_sign :: "'ed \<Rightarrow> bytes \<Rightarrow> bytes"
  ce_ed_public_key :: "'ed \<Rightarrow> bytes"
  ce_ed_seed :: "'ed \<Rightarrow> bytes"
  ce_ed_from_seed :: "bytes \<Rightarrow> bytes \<Rightarrow> unit + 'ed"
  ce_ed_verify :: "bytes \<Rightarrow> bytes \<Rightarrow> bytes \<Rightarrow> bool option"
  ce_ec_sign :: "'ec \<Rightarrow> bytes \<Rightarrow> unit + bytes"
  ce_ec_curve :: "'ec \<Rightarrow> ec_curve"
  ce_ec_public_key :: "'ec \<Rightarrow> bytes"
  ce_ec_private_key :: "'ec \<Rightarrow> bytes"
  ce_ec_from_keys :: "ec_curve \<Rightarrow> bytes \<Rightarrow> bytes \<Rightarrow> unit + 'ec"
  ce_ec_verify :: "ec_curve \<Rightarrow> bytes \<Rightarrow> bytes \<Rightarrow> bytes \<Rightarrow> bool option"
  ce_hmac :: "hmac_algorithm \<Rightarrow> bytes \<Rightarrow> bytes \<Rightarrow> bytes"

definition field_bytes :: "ec_curve \<Rightarrow> nat" where
  "field_bytes c = (case c of P256 \<Rightarrow> 32 | P521 \<Rightarrow> 66)"

text \<open>
  The documented behaviour: a key pair's public key parses, its signatures verify and have the
  fixed sizes, its parts rebuild it, and a key pair is built only from the public key that
  belongs to the private one. An ECDSA public key is the byte 4 and two coordinates.
\<close>

definition crypto_ok :: "('ed, 'ec) crypto_env \<Rightarrow> bool" where
  "crypto_ok env \<longleftrightarrow>
     (\<forall>k m s. ce_ed_verify env (ce_ed_public_key env k) m s \<noteq> None)
     \<and> (\<forall>k m. ce_ed_verify env (ce_ed_public_key env k) m (ce_ed_sign env k m) = Some True
          \<and> length (ce_ed_sign env k m) = 64)
     \<and> (\<forall>k. ce_ed_from_seed env (ce_ed_seed env k) (ce_ed_public_key env k) = Inr k)
     \<and> (\<forall>k m s. ce_ec_verify env (ce_ec_curve env k) (ce_ec_public_key env k) m s \<noteq> None)
     \<and> (\<forall>k m s. ce_ec_sign env k m = Inr s \<longrightarrow>
          ce_ec_verify env (ce_ec_curve env k) (ce_ec_public_key env k) m s = Some True
          \<and> length s = 2 * field_bytes (ce_ec_curve env k))
     \<and> (\<forall>k. \<exists>xy. ce_ec_public_key env k = CHR 0x04 # xy \<and> length xy = 2 * field_bytes (ce_ec_curve env k))
     \<and> (\<forall>k. ce_ec_from_keys env (ce_ec_curve env k) (ce_ec_private_key env k) (ce_ec_public_key env k) = Inr k)
     \<and> (\<forall>c d q k. ce_ec_from_keys env c d q = Inr k \<longrightarrow>
          ce_ec_curve env k = c \<and> ce_ec_public_key env k = q \<and> ce_ec_private_key env k = d)
     \<and> (\<forall>k k'. ce_ec_curve env k = ce_ec_curve env k' \<longrightarrow> ce_ec_private_key env k = ce_ec_private_key env k'
          \<longrightarrow> ce_ec_public_key env k = ce_ec_public_key env k')
     \<and> (\<forall>a k m. length (ce_hmac env a k m) = (case a of Sha256 \<Rightarrow> 32 | Sha512 \<Rightarrow> 64))"

section \<open>Keys\<close>

definition generate_ed25519 :: "(unit + 'ed) \<Rightarrow> string \<Rightarrow> jwt_error + ('ed, 'ec) key" where
  "generate_ed25519 generated i =
     (case generated of
        Inl _ \<Rightarrow> Inl (JwtUnspecified ''error generating Ed25519 signing key'')
      | Inr keypair \<Rightarrow> Inr \<lparr>key_id = i, key_algorithm = EdDSA, key_crypto = Eddsa Ed25519 keypair\<rparr>)"

definition key_sign ::
  "('ed, 'ec) crypto_env \<Rightarrow> ('ed, 'ec) key \<Rightarrow> bytes \<Rightarrow> (jwt_error + signature) option" where
  "key_sign env key message =
     (case key_crypto key of
        Eddsa _ keypair \<Rightarrow> map_option Inr (signature_from (ce_ed_sign env keypair message))
      | Ecdsa _ keypair \<Rightarrow>
          (case ce_ec_sign env keypair message of
             Inl _ \<Rightarrow> Some (Inl (JwtUnspecified ''error signing token''))
           | Inr s \<Rightarrow> map_option Inr (signature_from s))
      | Hmac algorithm k \<Rightarrow> map_option Inr (signature_from (ce_hmac env algorithm k message)))"

definition verified :: "bool \<Rightarrow> jwt_error + unit" where
  "verified ok = (if ok then Inr () else Inl InvalidSignature)"

definition key_verify ::
  "('ed, 'ec) crypto_env \<Rightarrow> ('ed, 'ec) key \<Rightarrow> bytes \<Rightarrow> bytes \<Rightarrow> (jwt_error + unit) option" where
  "key_verify env key message sig =
     (case key_crypto key of
        Eddsa curve keypair \<Rightarrow>
          (case curve of
             Ed25519 \<Rightarrow> map_option verified (ce_ed_verify env (ce_ed_public_key env keypair) message sig))
      | Ecdsa curve keypair \<Rightarrow>
          (case curve of
             P256 \<Rightarrow> map_option verified (ce_ec_verify env P256 (ce_ec_public_key env keypair) message sig)
           | P521 \<Rightarrow> map_option verified (ce_ec_verify env P521 (ce_ec_public_key env keypair) message sig))
      | Hmac algorithm k \<Rightarrow> Some (verified (ce_hmac env algorithm k message = sig)))"

section \<open>Conversions\<close>

definition public_key_prefix :: bytes where
  "public_key_prefix = [CHR 0x04]"

definition key_try_from :: "('ed, 'ec) crypto_env \<Rightarrow> jwk \<Rightarrow> jwt_error + ('ed, 'ec) key" where
  "key_try_from env j =
     (case (jwk_algorithm j, jwk_crypto j) of
        (HS512, Oct k) \<Rightarrow>
          Inr \<lparr>key_id = jwk_kid j, key_algorithm = jwk_algorithm j, key_crypto = Hmac Sha512 k\<rparr>
      | (EdDSA, Okp curve x d) \<Rightarrow>
          (case d of
             None \<Rightarrow> Inl (InvalidJwk (jwk_kid j) ''private key is missing'')
           | Some raw_seed \<Rightarrow>
               (case ce_ed_from_seed env raw_seed x of
                  Inl _ \<Rightarrow> Inl (InvalidJwk (jwk_kid j) '''')
                | Inr keypair \<Rightarrow>
                    Inr \<lparr>key_id = jwk_kid j, key_algorithm = EdDSA, key_crypto = Eddsa Ed25519 keypair\<rparr>))
      | (alg, Ec curve x y d) \<Rightarrow>
          if alg = ES256 \<or> alg = ES512 then
            (case d of
               None \<Rightarrow> Inl (InvalidJwk (jwk_kid j) ''private key is missing'')
             | Some private_key \<Rightarrow>
                 (let public_key = public_key_prefix @ y @ x
                  in case ce_ec_from_keys env curve private_key public_key of
                       Inl _ \<Rightarrow> Inl (InvalidJwk (jwk_kid j) '''')
                     | Inr keypair \<Rightarrow>
                         Inr \<lparr>key_id = jwk_kid j, key_algorithm = jwk_algorithm j,
                              key_crypto = Ecdsa curve keypair\<rparr>))
          else Inl (InvalidJwk (jwk_kid j) ''JWK is not valid'')
      | _ \<Rightarrow> Inl (InvalidJwk (jwk_kid j) ''JWK is not valid''))"

definition jwk_from :: "('ed, 'ec) crypto_env \<Rightarrow> ('ed, 'ec) key \<Rightarrow> jwk" where
  "jwk_from env key =
     \<lparr>jwk_kid = key_id key, jwk_use = Sign, jwk_algorithm = key_algorithm key,
      jwk_crypto =
        (case key_crypto key of
           Eddsa curve keypair \<Rightarrow>
             Okp curve (ce_ed_public_key env keypair) (Some (ce_ed_seed env keypair))
         | Ecdsa curve keypair \<Rightarrow>
             (let public_key = ce_ec_public_key env keypair;
                  public_key =
                    (if (curve = P256 \<and> length public_key = 65) \<or> (curve = P521 \<and> length public_key = 133)
                     then drop 1 public_key else public_key);
                  (x, y) = (case curve of
                              P256 \<Rightarrow> (take 32 public_key, drop 32 public_key)
                            | P521 \<Rightarrow> (take 66 public_key, drop 66 public_key))
              in Ec curve x y (Some (ce_ec_private_key env keypair)))
         | Hmac _ k \<Rightarrow> Oct k)\<rparr>"

section \<open>Signatures\<close>

definition key_ok :: "('ed, 'ec) crypto_env \<Rightarrow> ('ed, 'ec) key \<Rightarrow> bool" where
  "key_ok env key \<longleftrightarrow> crypto_ok env \<and>
     (case key_crypto key of Ecdsa curve keypair \<Rightarrow> ce_ec_curve env keypair = curve | _ \<Rightarrow> True)"

definition key_sign_bytes ::
  "('ed, 'ec) crypto_env \<Rightarrow> ('ed, 'ec) key \<Rightarrow> bytes \<Rightarrow> (jwt_error + bytes) option" where
  "key_sign_bytes env key message = map_option (map_sum id signature_as_ref) (key_sign env key message)"

lemma signature_from_as_ref:
  "length raw \<le> 132 \<Longrightarrow> \<exists>s. signature_from raw = Some s \<and> signature_as_ref s = raw"
  by (simp add: signature_from_def signature_as_ref_def signature_max_size_def)

lemma signature_from_length: "signature_from raw = Some s \<Longrightarrow> length (signature_as_ref s) \<le> signature_max_size"
  by (auto simp: signature_from_def signature_as_ref_def split: if_splits)

lemma key_sign_length:
  "key_sign env key m = Some (Inr s) \<Longrightarrow> length (signature_as_ref s) \<le> signature_max_size"
  by (auto simp: key_sign_def signature_from_length split: key_crypto.splits sum.splits)

lemma crypto_okD:
  assumes "crypto_ok env"
  shows "ce_ed_verify env (ce_ed_public_key env k) m s \<noteq> None"
    and "ce_ed_verify env (ce_ed_public_key env k) m (ce_ed_sign env k m) = Some True"
    and "length (ce_ed_sign env k m) = 64"
    and "ce_ed_from_seed env (ce_ed_seed env k) (ce_ed_public_key env k) = Inr k"
    and "ce_ec_verify env (ce_ec_curve env q) (ce_ec_public_key env q) m s \<noteq> None"
    and "ce_ec_sign env q m = Inr s \<Longrightarrow>
           ce_ec_verify env (ce_ec_curve env q) (ce_ec_public_key env q) m s = Some True"
    and "ce_ec_sign env q m = Inr s \<Longrightarrow> length s = 2 * field_bytes (ce_ec_curve env q)"
    and "\<exists>xy. ce_ec_public_key env q = CHR 0x04 # xy \<and> length xy = 2 * field_bytes (ce_ec_curve env q)"
    and "ce_ec_from_keys env (ce_ec_curve env q) (ce_ec_private_key env q) (ce_ec_public_key env q) = Inr q"
    and "ce_ec_from_keys env c d p = Inr q \<Longrightarrow>
           ce_ec_curve env q = c \<and> ce_ec_public_key env q = p \<and> ce_ec_private_key env q = d"
    and "ce_ec_curve env q = ce_ec_curve env q' \<Longrightarrow> ce_ec_private_key env q = ce_ec_private_key env q' \<Longrightarrow>
           ce_ec_public_key env q = ce_ec_public_key env q'"
    and "length (ce_hmac env a hk m) = (case a of Sha256 \<Rightarrow> 32 | Sha512 \<Rightarrow> 64)"
proof -
  note c0 = assms [unfolded crypto_ok_def]
  note c1 = c0 [THEN conjunct2]
  note c2 = c1 [THEN conjunct2]
  note c3 = c2 [THEN conjunct2]
  note c4 = c3 [THEN conjunct2]
  note c5 = c4 [THEN conjunct2]
  note c6 = c5 [THEN conjunct2]
  note c7 = c6 [THEN conjunct2]
  note c8 = c7 [THEN conjunct2]
  note c9 = c8 [THEN conjunct2]
  show "ce_ed_verify env (ce_ed_public_key env k) m s \<noteq> None"
    by (rule c0 [THEN conjunct1, rule_format])
  show "ce_ed_verify env (ce_ed_public_key env k) m (ce_ed_sign env k m) = Some True"
    by (rule c1 [THEN conjunct1, rule_format, THEN conjunct1])
  show "length (ce_ed_sign env k m) = 64"
    by (rule c1 [THEN conjunct1, rule_format, THEN conjunct2])
  show "ce_ed_from_seed env (ce_ed_seed env k) (ce_ed_public_key env k) = Inr k"
    by (rule c2 [THEN conjunct1, rule_format])
  show "ce_ec_verify env (ce_ec_curve env q) (ce_ec_public_key env q) m s \<noteq> None"
    by (rule c3 [THEN conjunct1, rule_format])
  show "ce_ec_sign env q m = Inr s \<Longrightarrow> ce_ec_verify env (ce_ec_curve env q) (ce_ec_public_key env q) m s = Some True"
    by (rule c4 [THEN conjunct1, rule_format, THEN conjunct1])
  show "ce_ec_sign env q m = Inr s \<Longrightarrow> length s = 2 * field_bytes (ce_ec_curve env q)"
    by (rule c4 [THEN conjunct1, rule_format, THEN conjunct2])
  show "\<exists>xy. ce_ec_public_key env q = CHR 0x04 # xy \<and> length xy = 2 * field_bytes (ce_ec_curve env q)"
    by (rule c5 [THEN conjunct1, rule_format])
  show "ce_ec_from_keys env (ce_ec_curve env q) (ce_ec_private_key env q) (ce_ec_public_key env q) = Inr q"
    by (rule c6 [THEN conjunct1, rule_format])
  show "ce_ec_from_keys env c d p = Inr q \<Longrightarrow> ce_ec_curve env q = c \<and> ce_ec_public_key env q = p \<and> ce_ec_private_key env q = d"
    by (rule c7 [THEN conjunct1, rule_format])
  show "ce_ec_curve env q = ce_ec_curve env q' \<Longrightarrow> ce_ec_private_key env q = ce_ec_private_key env q' \<Longrightarrow> ce_ec_public_key env q = ce_ec_public_key env q'"
    by (rule c8 [THEN conjunct1, rule_format])
  show "length (ce_hmac env a hk m) = (case a of Sha256 \<Rightarrow> 32 | Sha512 \<Rightarrow> 64)"
    by (rule c9 [rule_format])
qed

lemma field_bytes_le [simp]: "2 * field_bytes c \<le> 132"
  by (cases c) (simp_all add: field_bytes_def)

lemma key_sign_raw:
  assumes "key_ok env key" and "key_sign_bytes env key m = Some (Inr s)"
  shows "key_verify env key m s = Some (Inr ())"
proof -
  have ok: "crypto_ok env" using assms(1) by (simp add: key_ok_def)
  show ?thesis
  proof (cases "key_crypto key")
    case (Eddsa curve kp)
    then have "s = ce_ed_sign env kp m"
      using assms(2) signature_from_as_ref [of "ce_ed_sign env kp m"]
      by (auto simp: key_sign_bytes_def key_sign_def crypto_okD [OF ok])
    then show ?thesis
      by (cases curve) (simp add: Eddsa key_verify_def crypto_okD [OF ok] verified_def)
  next
    case (Ecdsa curve kp)
    then have curve: "ce_ec_curve env kp = curve" using assms(1) by (simp add: key_ok_def)
    obtain raw where raw: "ce_ec_sign env kp m = Inr raw"
      using assms(2) Ecdsa by (cases "ce_ec_sign env kp m") (auto simp: key_sign_bytes_def key_sign_def)
    have "length raw \<le> 132" using crypto_okD(7) [OF ok raw] by simp
    then have "s = raw"
      using assms(2) Ecdsa raw signature_from_as_ref [of raw]
      by (auto simp: key_sign_bytes_def key_sign_def)
    then show ?thesis
      using crypto_okD(6) [OF ok raw] curve
      by (cases curve) (simp_all add: Ecdsa key_verify_def verified_def)
  next
    case (Hmac a hk)
    have "length (ce_hmac env a hk m) \<le> 132" by (cases a) (simp_all add: crypto_okD [OF ok])
    then have "s = ce_hmac env a hk m"
      using assms(2) Hmac signature_from_as_ref [of "ce_hmac env a hk m"]
      by (auto simp: key_sign_bytes_def key_sign_def)
    then show ?thesis by (simp add: Hmac key_verify_def verified_def)
  qed
qed

lemma key_verify_total:
  assumes "key_ok env key"
  shows "key_verify env key m s \<noteq> None"
proof -
  have ok: "crypto_ok env" using assms by (simp add: key_ok_def)
  show ?thesis
  proof (cases "key_crypto key")
    case (Eddsa c kp)
    with crypto_okD(1) [OF ok, of kp m s] show ?thesis
      by (cases c) (simp add: key_verify_def)
  next
    case (Ecdsa c kp)
    with assms have "ce_ec_curve env kp = c" by (simp add: key_ok_def)
    with Ecdsa crypto_okD(5) [OF ok, of kp m s] show ?thesis
      by (cases c) (simp_all add: key_verify_def)
  qed (simp add: key_verify_def)
qed

lemma key_sign_total: "key_ok env key \<Longrightarrow> key_sign_bytes env key m \<noteq> None"
proof -
  assume *: "key_ok env key"
  then have ok: "crypto_ok env" by (simp add: key_ok_def)
  have le: "length raw \<le> 132 \<Longrightarrow> signature_from raw \<noteq> None" for raw
    using signature_from_as_ref by blast
  show ?thesis
  proof (cases "key_crypto key")
    case (Eddsa c kp)
    with le [of "ce_ed_sign env kp m"] show ?thesis
      by (auto simp: key_sign_bytes_def key_sign_def crypto_okD [OF ok])
  next
    case (Ecdsa c kp)
    with le crypto_okD(7) [OF ok, of kp m] show ?thesis
      by (auto simp: key_sign_bytes_def key_sign_def split: sum.splits)
  next
    case (Hmac a hk)
    with le [of "ce_hmac env a hk m"] show ?thesis
      by (cases a) (auto simp: key_sign_bytes_def key_sign_def crypto_okD [OF ok])
  qed
qed

interpretation jwt_signer: signer "key_ok env" "key_sign_bytes env" "key_verify env"
  for env :: "('ed, 'ec) crypto_env"
  by unfold_locales (fact key_sign_raw, fact key_sign_total, fact key_verify_total)

section \<open>Conversions, specified\<close>

text \<open>The algorithm of a key fits its kind.\<close>

definition alg_fits :: "('ed, 'ec) key \<Rightarrow> bool" where
  "alg_fits key \<longleftrightarrow>
     (case key_crypto key of
        Eddsa _ _ \<Rightarrow> key_algorithm key = EdDSA
      | Ecdsa _ _ \<Rightarrow> key_algorithm key \<in> {ES256, ES512}
      | Hmac a _ \<Rightarrow> key_algorithm key = HS512 \<and> a = Sha512)"

definition ec_coordinates :: "('ed, 'ec) crypto_env \<Rightarrow> ec_curve \<Rightarrow> 'ec \<Rightarrow> bytes \<times> bytes" where
  "ec_coordinates env curve kp =
     (let xy = tl (ce_ec_public_key env kp) in (take (field_bytes curve) xy, drop (field_bytes curve) xy))"

lemma jwk_from_ec:
  assumes "key_ok env key" and "key_crypto key = Ecdsa curve kp" and "ec_coordinates env curve kp = (x, y)"
  shows "jwk_crypto (jwk_from env key) = Ec curve x y (Some (ce_ec_private_key env kp))"
    and "ce_ec_public_key env kp = CHR 0x04 # x @ y"
    and "length x = length y"
proof -
  have ok: "crypto_ok env" and c: "ce_ec_curve env kp = curve" using assms by (simp_all add: key_ok_def)
  obtain xy where xy: "ce_ec_public_key env kp = CHR 0x04 # xy" "length xy = 2 * field_bytes curve"
    using crypto_okD(8) [OF ok, of kp] c by auto
  with assms(3) have xy_def: "x = take (field_bytes curve) xy" "y = drop (field_bytes curve) xy"
    by (simp_all add: ec_coordinates_def)
  then show "ce_ec_public_key env kp = CHR 0x04 # x @ y" "length x = length y"
    using xy by simp_all
  show "jwk_crypto (jwk_from env key) = Ec curve x y (Some (ce_ec_private_key env kp))"
    using xy by (cases curve) (simp_all add: jwk_from_def assms(2) xy_def field_bytes_def)
qed

lemma jwk_from_fields [simp]:
  "jwk_kid (jwk_from env key) = key_id key"
  "jwk_algorithm (jwk_from env key) = key_algorithm key"
  by (simp_all add: jwk_from_def)

lemma key_try_from_Ec:
  "jwk_crypto j = Ec curve x y d \<Longrightarrow>
   key_try_from env j =
     (if jwk_algorithm j = ES256 \<or> jwk_algorithm j = ES512 then
        (case d of
           None \<Rightarrow> Inl (InvalidJwk (jwk_kid j) ''private key is missing'')
         | Some private_key \<Rightarrow>
             (case ce_ec_from_keys env curve private_key (public_key_prefix @ y @ x) of
                Inl _ \<Rightarrow> Inl (InvalidJwk (jwk_kid j) '''')
              | Inr keypair \<Rightarrow>
                  Inr \<lparr>key_id = jwk_kid j, key_algorithm = jwk_algorithm j, key_crypto = Ecdsa curve keypair\<rparr>))
      else Inl (InvalidJwk (jwk_kid j) ''JWK is not valid''))"
  by (cases "jwk_algorithm j") (simp_all add: key_try_from_def Let_def)

lemma key_try_from_Inr:
  assumes "crypto_ok env" and "key_try_from env j = Inr key"
  shows "key_id key = jwk_kid j" and "key_algorithm key = jwk_algorithm j" and "alg_fits key" and "key_ok env key"
proof -
  have "key_id key = jwk_kid j \<and> key_algorithm key = jwk_algorithm j \<and> alg_fits key \<and> key_ok env key"
  proof (cases "jwk_crypto j")
    case (Okp c x d)
    with assms show ?thesis
      by (cases "jwk_algorithm j") (auto simp: key_try_from_def alg_fits_def key_ok_def split: option.splits sum.splits)
  next
    case (Ec c x y d)
    with assms show ?thesis
      by (auto simp: key_try_from_Ec alg_fits_def key_ok_def split: if_splits option.splits sum.splits
          dest: crypto_okD(10))
  next
    case (Oct k)
    with assms show ?thesis
      by (cases "jwk_algorithm j") (auto simp: key_try_from_def alg_fits_def key_ok_def)
  qed
  then show "key_id key = jwk_kid j" "key_algorithm key = jwk_algorithm j" "alg_fits key" "key_ok env key"
    by blast+
qed

section \<open>A small instance of the cryptographic library\<close>

definition demo_crypto :: "(bytes, ec_curve \<times> bytes) crypto_env" where
  "demo_crypto =
     (let pad = \<lambda>n b. take n (b @ replicate n (CHR 0x00));
          pub = \<lambda>(c, d). CHR 0x04 # pad (2 * field_bytes c) d
      in \<lparr>ce_ed_sign = \<lambda>k m. pad 64 (k @ m), ce_ed_public_key = \<lambda>k. k, ce_ed_seed = \<lambda>k. k,
          ce_ed_from_seed = \<lambda>d x. if d = x then Inr d else Inl (),
          ce_ed_verify = \<lambda>q m s. Some (s = pad 64 (q @ m)),
          ce_ec_sign = \<lambda>(c, d) m. Inr (pad (2 * field_bytes c) m),
          ce_ec_curve = fst, ce_ec_public_key = pub, ce_ec_private_key = snd,
          ce_ec_from_keys = \<lambda>c d q. if q = pub (c, d) then Inr (c, d) else Inl (),
          ce_ec_verify = \<lambda>c q m s. Some (s = pad (2 * field_bytes c) m),
          ce_hmac = \<lambda>a k m. pad (case a of Sha256 \<Rightarrow> 32 | Sha512 \<Rightarrow> 64) (k @ m)\<rparr>)"

lemma demo_crypto_ok: "crypto_ok demo_crypto"
  by (auto simp: crypto_ok_def demo_crypto_def Let_def split: if_splits hmac_algorithm.splits prod.splits)

definition demo_ed_key :: "(bytes, ec_curve \<times> bytes) key" where
  "demo_ed_key = \<lparr>key_id = ''k1'', key_algorithm = EdDSA, key_crypto = Eddsa Ed25519 ''seed''\<rparr>"

definition demo_ec_key :: "(bytes, ec_curve \<times> bytes) key" where
  "demo_ec_key = \<lparr>key_id = ''k2'', key_algorithm = ES256, key_crypto = Ecdsa P256 (P256, ''d'')\<rparr>"

lemma demo_keys_ok: "key_ok demo_crypto demo_ed_key" "key_ok demo_crypto demo_ec_key"
  by (simp_all add: key_ok_def demo_crypto_ok demo_ed_key_def demo_ec_key_def)
    (simp add: demo_crypto_def Let_def)

section \<open>Properties\<close>

text \<open>A key made from a JWK keeps its identifier and algorithm, its algorithm fits the kind of
  the key (a token can never choose between a public key and a shared secret), it signs and
  verifies without panicking, and every signature it makes verifies.\<close>

lemma jwk_key_sound:
  assumes "crypto_ok env" and "key_try_from env j = Inr key"
  shows "key_id key = jwk_kid j \<and> key_algorithm key = jwk_algorithm j \<and> alg_fits key
    \<and> key_sign env key m \<noteq> None \<and> key_verify env key m s \<noteq> None
    \<and> (\<forall>sig. key_sign env key m = Some (Inr sig) \<longrightarrow> key_verify env key m (signature_as_ref sig) = Some (Inr ()))"
proof -
  note k = key_try_from_Inr [OF assms]
  have "key_sign_bytes env key m = Some (Inr (signature_as_ref sig))" if "key_sign env key m = Some (Inr sig)" for sig
    using that by (simp add: key_sign_bytes_def)
  with jwt_signer.verify_sign [OF k(4)] jwt_signer.sign_total [OF k(4), of m] jwt_signer.verify_total [OF k(4)] k
  show ?thesis by (auto simp: key_sign_bytes_def)
qed

lemma jwk_key_sound_witness:
  "\<exists>key. key_try_from demo_crypto (jwk_from demo_crypto demo_ed_key) = Inr key \<and> key_id key = ''k1''
     \<and> key_verify demo_crypto key ''m'' ''s'' \<noteq> None"
proof -
  have "key_try_from demo_crypto (jwk_from demo_crypto demo_ed_key) = Inr demo_ed_key"
    by (simp add: key_try_from_def jwk_from_def demo_ed_key_def demo_crypto_def Let_def)
  from jwk_key_sound [OF demo_crypto_ok this, of "''m''" "''s''"] this show ?thesis
    by (auto simp: jwk_from_def demo_ed_key_def)
qed

text \<open>Writing an Ed25519 or HMAC key as a JWK and reading it back gives the same key.\<close>

lemma jwk_roundtrip:
  assumes "key_ok env key" and "alg_fits key" and "\<forall>c kp. key_crypto key \<noteq> Ecdsa c kp"
  shows "key_try_from env (jwk_from env key) = Inr key"
proof (cases "key_crypto key")
  case (Eddsa c kp)
  with assms show ?thesis
    by (cases key; cases c) (auto simp: key_try_from_def jwk_from_def alg_fits_def key_ok_def crypto_okD(4))
next
  case (Hmac a k)
  with assms show ?thesis
    by (cases key) (auto simp: key_try_from_def jwk_from_def alg_fits_def)
qed (use assms in simp)

lemma jwk_roundtrip_witness:
  "key_try_from demo_crypto (jwk_from demo_crypto demo_ed_key) = Inr demo_ed_key"
  by (rule jwk_roundtrip [OF demo_keys_ok(1)]) (simp_all add: demo_ed_key_def alg_fits_def)

text \<open>An ECDSA key does not survive the same round trip: reading puts the coordinates in the
  wrong order (y before x), so the JWK is rejected unless the two coordinates are equal.\<close>

lemma ec_jwk_roundtrip_broken:
  assumes "key_ok env key" and "alg_fits key" and "key_crypto key = Ecdsa curve kp"
    and "ec_coordinates env curve kp = (x, y)"
  shows "key_try_from env (jwk_from env key)
    = (if x = y then Inr key else Inl (InvalidJwk (key_id key) ''''))"
proof -
  note ec = jwk_from_ec [OF assms(1,3,4)]
  have ok: "crypto_ok env" and c: "ce_ec_curve env kp = curve" using assms by (simp_all add: key_ok_def)
  have alg: "key_algorithm key = ES256 \<or> key_algorithm key = ES512"
    using assms(2,3) by (simp add: alg_fits_def)
  show ?thesis
  proof (cases "x = y")
    case True
    then have "ce_ec_from_keys env curve (ce_ec_private_key env kp) (public_key_prefix @ y @ x) = Inr kp"
      using crypto_okD(9) [OF ok, of kp] ec(2) c by (simp add: public_key_prefix_def)
    then show ?thesis
      unfolding key_try_from_Ec [OF ec(1)] using True alg assms(3) by (cases key) auto
  next
    case False
    have "ce_ec_from_keys env curve (ce_ec_private_key env kp) (public_key_prefix @ y @ x) \<noteq> Inr q" for q
    proof
      assume q: "ce_ec_from_keys env curve (ce_ec_private_key env kp) (public_key_prefix @ y @ x) = Inr q"
      with crypto_okD(11) [OF ok, of q kp] crypto_okD(10) [OF ok q] c
      have "public_key_prefix @ y @ x = ce_ec_public_key env kp" by simp
      with ec(2,3) False show False by (simp add: public_key_prefix_def append_eq_append_conv)
    qed
    then obtain e where "ce_ec_from_keys env curve (ce_ec_private_key env kp) (public_key_prefix @ y @ x) = Inl e"
      by (meson sumE)
    then show ?thesis
      using False alg by (auto simp: key_try_from_Ec [OF ec(1)])
  qed
qed

lemma ec_jwk_roundtrip_broken_witness:
  "key_try_from demo_crypto (jwk_from demo_crypto demo_ec_key) = Inl (InvalidJwk ''k2'' '''')"
proof -
  have "ec_coordinates demo_crypto P256 (P256, ''d'') = (''d'' @ replicate 31 (CHR 0x00), replicate 32 (CHR 0x00))"
    by code_simp
  then show ?thesis
    by (subst ec_jwk_roundtrip_broken [OF demo_keys_ok(2)])
      (simp_all add: demo_ec_key_def alg_fits_def, code_simp)
qed

end
