(* ===== verification/Jwt.thy ===== *)
theory Jwt
  imports Jwt_Key Instances
begin

text \<open>
  \<^verbatim>\<open>jwt/jwt.rs\<close>: signing, parsing and verifying JSON Web Tokens in the compact form.
  Base64 and JSON are fields of an environment whose documented behaviour is \<open>jwt_env_ok\<close>.
  The two readings of the clock in a verification are arguments (nanoseconds since the epoch).
\<close>

section \<open>Data\<close>

datatype token_type = JWT

record header =
  hd_typ :: token_type
  hd_alg :: algorithm
  hd_cty :: "string option"
  hd_jku :: "string option"
  hd_kid :: "string option"
  hd_x5u :: "string option"
  hd_x5c :: "string list option"
  hd_x5t :: "string option"
  hd_x5t_s256 :: "string option"

record registered_claims =
  rc_iss :: "string option"
  rc_sub :: "string option"
  rc_aud :: "string option"
  rc_exp :: "int option"
  rc_nbf :: "int option"
  rc_iat :: "int option"
  rc_jti :: "string option"

record validate_options =
  vo_allowed_time_drift :: duration
  vo_nbf :: bool
  vo_exp :: bool
  vo_aud :: "string list"
  vo_iss :: "string list"

record 'c parsed_jwt =
  pj_header :: header
  pj_claims :: 'c

fun signature_size :: "algorithm \<Rightarrow> nat" where
  "signature_size HS512 = 64"
| "signature_size EdDSA = 64"
| "signature_size ES256 = 64"
| "signature_size ES512 = 132"

definition timestamp :: "int \<Rightarrow> int" where
  "timestamp t = t div 1000000000"

section \<open>The libraries\<close>

record ('ed, 'ec) jwt_env =
  je_crypto :: "('ed, 'ec) crypto_env"
  je_b64_encode :: "bytes \<Rightarrow> string"
  je_b64_decode :: "string \<Rightarrow> bytes option"
  je_b64_decode_slice :: "nat \<Rightarrow> string \<Rightarrow> bytes option"
  je_parse_value :: "string \<Rightarrow> json option"
  je_header :: "header codec"

text \<open>Base64 decodes what it encodes, also into a buffer of the largest signature's size, and has no dot.\<close>

definition jwt_env_ok :: "('ed, 'ec) jwt_env \<Rightarrow> bool" where
  "jwt_env_ok env \<longleftrightarrow>
     crypto_ok (je_crypto env)
     \<and> (\<forall>b. je_b64_decode env (je_b64_encode env b) = Some b)
     \<and> (\<forall>b. length b \<le> signature_max_size \<longrightarrow>
          je_b64_decode_slice env signature_max_size (je_b64_encode env b) = Some b)
     \<and> (\<forall>b. CHR ''.'' \<notin> set (je_b64_encode env b))
     \<and> codec_ok (je_parse_value env) (je_header env)"

section \<open>Signing\<close>

definition jwt_sign ::
  "('ed, 'ec) jwt_env \<Rightarrow> 'c codec \<Rightarrow> ('ed, 'ec) key \<Rightarrow> header \<Rightarrow> 'c \<Rightarrow> (jwt_error + string) option" where
  "jwt_sign env cd key header claims =
     (case cd_to_string (je_header env) header of
        Inl _ \<Rightarrow> Some (Inl Json)
      | Inr header_json \<Rightarrow>
          (case cd_to_string cd claims of
             Inl _ \<Rightarrow> Some (Inl Json)
           | Inr claims_json \<Rightarrow>
               (let jwt = je_b64_encode env header_json @ ''.'' @ je_b64_encode env claims_json
                in case key_sign (je_crypto env) key jwt of
                     None \<Rightarrow> None
                   | Some (Inl e) \<Rightarrow> Some (Inl e)
                   | Some (Inr signature) \<Rightarrow>
                       Some (Inr (jwt @ ''.'' @ je_b64_encode env (signature_as_ref signature))))))"

section \<open>Parsing\<close>

definition parse_header :: "('ed, 'ec) jwt_env \<Rightarrow> string \<Rightarrow> jwt_error + header" where
  "parse_header env token =
     (case split_char CHR ''.'' token of
        [] \<Rightarrow> Inl InvalidToken
      | header_base64 # parts \<Rightarrow>
          if length parts \<noteq> 2 then Inl InvalidToken
          else and_then (ok_or (je_b64_decode env header_base64) InvalidToken) (\<lambda>header_json.
               ok_or (cd_from_slice (je_header env) header_json) InvalidToken))"

definition check_exp :: "validate_options \<Rightarrow> int \<Rightarrow> (string \<times> json) list \<Rightarrow> bool" where
  "check_exp opts now claims_object =
     (if vo_exp opts then
        (case map_of claims_object ''exp'' of
           None \<Rightarrow> False
         | Some exp_value \<Rightarrow>
             (case as_i64 exp_value of
                Some e \<Rightarrow> \<not> (e < timestamp (now - int (vo_allowed_time_drift opts)))
              | None \<Rightarrow> False))
      else True)"

definition check_nbf :: "validate_options \<Rightarrow> int \<Rightarrow> (string \<times> json) list \<Rightarrow> bool" where
  "check_nbf opts now claims_object =
     (if vo_nbf opts then
        (case map_of claims_object ''nbf'' of
           None \<Rightarrow> False
         | Some nbf_value \<Rightarrow>
             (case as_i64 nbf_value of
                Some n \<Rightarrow> \<not> (n > timestamp (now + int (vo_allowed_time_drift opts)))
              | None \<Rightarrow> False))
      else True)"

definition check_member :: "string list \<Rightarrow> string \<Rightarrow> (string \<times> json) list \<Rightarrow> bool" where
  "check_member allowed name claims_object =
     (if allowed \<noteq> [] then
        (case map_of claims_object name of
           None \<Rightarrow> False
         | Some v \<Rightarrow> (case as_str v of Some s \<Rightarrow> s \<in> set allowed | None \<Rightarrow> False))
      else True)"

definition validate_claims :: "validate_options \<Rightarrow> int \<Rightarrow> int \<Rightarrow> json \<Rightarrow> jwt_error + unit" where
  "validate_claims opts now1 now2 value =
     (case value of
        JObject claims_object \<Rightarrow>
          if \<not> check_exp opts now1 claims_object then Inl InvalidToken
          else if \<not> check_nbf opts now2 claims_object then Inl InvalidToken
          else if \<not> check_member (vo_aud opts) ''aud'' claims_object then Inl InvalidToken
          else if \<not> check_member (vo_iss opts) ''iss'' claims_object then Inl InvalidToken
          else Inr ()
      | _ \<Rightarrow> Inl InvalidToken)"

definition parse_claims ::
  "('ed, 'ec) jwt_env \<Rightarrow> 'c codec \<Rightarrow> validate_options \<Rightarrow> int \<Rightarrow> int \<Rightarrow> bytes \<Rightarrow> jwt_error + 'c" where
  "parse_claims env cd opts now1 now2 claims_json =
     (if vo_exp opts \<or> vo_nbf opts \<or> length (vo_aud opts) \<noteq> 0 \<or> length (vo_iss opts) \<noteq> 0 then
        and_then (ok_or (je_parse_value env claims_json) InvalidToken) (\<lambda>value.
        and_then (validate_claims opts now1 now2 value) (\<lambda>_.
          ok_or (cd_from_value cd value) InvalidToken))
      else ok_or (cd_from_slice cd claims_json) InvalidToken)"

definition parse_verified ::
  "('ed, 'ec) jwt_env \<Rightarrow> 'c codec \<Rightarrow> ('ed, 'ec) key \<Rightarrow> validate_options \<Rightarrow> int \<Rightarrow> int \<Rightarrow> string \<Rightarrow> string \<Rightarrow>
     jwt_error + 'c parsed_jwt" where
  "parse_verified env cd key opts now1 now2 header_base64 claims_base64 =
     and_then (ok_or (je_b64_decode env header_base64) InvalidToken) (\<lambda>header_json.
     and_then (ok_or (cd_from_slice (je_header env) header_json) InvalidToken) (\<lambda>header.
     if hd_alg header \<noteq> key_algorithm key then Inl InvalidToken
     else
       and_then (ok_or (je_b64_decode env claims_base64) InvalidToken) (\<lambda>claims_json.
       and_then (parse_claims env cd opts now1 now2 claims_json) (\<lambda>claims.
         Inr \<lparr>pj_header = header, pj_claims = claims\<rparr>))))"

definition parse_and_verify ::
  "('ed, 'ec) jwt_env \<Rightarrow> 'c codec \<Rightarrow> ('ed, 'ec) key \<Rightarrow> string \<Rightarrow> validate_options \<Rightarrow> int \<Rightarrow> int \<Rightarrow>
     (jwt_error + 'c parsed_jwt) option" where
  "parse_and_verify env cd key token opts now1 now2 =
     (case split_char CHR ''.'' token of
        [header_base64, claims_base64, signature_base64] \<Rightarrow>
          (case je_b64_decode_slice env signature_max_size signature_base64 of
             None \<Rightarrow> Some (Inl InvalidSignature)
           | Some raw_signature \<Rightarrow>
               (let signed_message = take (length header_base64 + 1 + length claims_base64) token
                in case key_verify (je_crypto env) key signed_message raw_signature of
                     None \<Rightarrow> None
                   | Some (Inl e) \<Rightarrow> Some (Inl e)
                   | Some (Inr _) \<Rightarrow>
                       Some (parse_verified env cd key opts now1 now2 header_base64 claims_base64)))
      | _ \<Rightarrow> Some (Inl InvalidToken))"

section \<open>Accepted tokens, specified\<close>

definition claim_i64 :: "(string \<times> json) list \<Rightarrow> string \<Rightarrow> int option" where
  "claim_i64 fs n = Option.bind (map_of fs n) as_i64"

definition claim_str :: "(string \<times> json) list \<Rightarrow> string \<Rightarrow> string option" where
  "claim_str fs n = Option.bind (map_of fs n) as_str"

definition validating :: "validate_options \<Rightarrow> bool" where
  "validating opts \<longleftrightarrow> vo_exp opts \<or> vo_nbf opts \<or> vo_aud opts \<noteq> [] \<or> vo_iss opts \<noteq> []"

text \<open>The conditions on the registered claims, in nanoseconds.\<close>

definition claims_fresh :: "validate_options \<Rightarrow> int \<Rightarrow> int \<Rightarrow> (string \<times> json) list \<Rightarrow> bool" where
  "claims_fresh opts now1 now2 fs \<longleftrightarrow>
     (vo_exp opts \<longrightarrow> (\<exists>e. claim_i64 fs ''exp'' = Some e
        \<and> now1 - int (vo_allowed_time_drift opts) < (e + 1) * 1000000000))
     \<and> (vo_nbf opts \<longrightarrow> (\<exists>n. claim_i64 fs ''nbf'' = Some n
        \<and> n * 1000000000 \<le> now2 + int (vo_allowed_time_drift opts)))
     \<and> (vo_aud opts \<noteq> [] \<longrightarrow> (\<exists>a \<in> set (vo_aud opts). claim_str fs ''aud'' = Some a))
     \<and> (vo_iss opts \<noteq> [] \<longrightarrow> (\<exists>i \<in> set (vo_iss opts). claim_str fs ''iss'' = Some i))"

lemma timestamp_bounds: "timestamp t * 1000000000 \<le> t" "t < (timestamp t + 1) * 1000000000"
proof -
  have "t = 1000000000 * timestamp t + t mod 1000000000" by (simp add: timestamp_def)
  moreover have "0 \<le> t mod 1000000000" "t mod 1000000000 < 1000000000" by simp_all
  ultimately show "timestamp t * 1000000000 \<le> t" "t < (timestamp t + 1) * 1000000000"
    unfolding distrib_right by linarith+
qed

lemma check_exp_iff:
  "check_exp opts now fs \<longleftrightarrow> (vo_exp opts \<longrightarrow> (\<exists>e. claim_i64 fs ''exp'' = Some e
     \<and> now - int (vo_allowed_time_drift opts) < (e + 1) * 1000000000))"
proof -
  have "e < timestamp t \<Longrightarrow> \<not> t < (e + 1) * 1000000000" and "\<not> e < timestamp t \<Longrightarrow> t < (e + 1) * 1000000000" for e t
    using timestamp_bounds [of t] unfolding distrib_right by linarith+
  then have "\<not> (e < timestamp t) \<longleftrightarrow> t < (e + 1) * 1000000000" for e t
    by blast
  then show ?thesis
    by (auto simp: check_exp_def claim_i64_def split: option.splits)
qed

lemma check_nbf_iff:
  "check_nbf opts now fs \<longleftrightarrow> (vo_nbf opts \<longrightarrow> (\<exists>n. claim_i64 fs ''nbf'' = Some n
     \<and> n * 1000000000 \<le> now + int (vo_allowed_time_drift opts)))"
proof -
  have "timestamp t < e \<Longrightarrow> \<not> e * 1000000000 \<le> t" and "\<not> timestamp t < e \<Longrightarrow> e * 1000000000 \<le> t" for e t
    using timestamp_bounds [of t] unfolding distrib_right by linarith+
  then have "\<not> (e > timestamp t) \<longleftrightarrow> e * 1000000000 \<le> t" for e t
    by blast
  then show ?thesis
    by (auto simp: check_nbf_def claim_i64_def split: option.splits)
qed

lemma check_member_iff:
  "check_member allowed n fs \<longleftrightarrow> (allowed \<noteq> [] \<longrightarrow> (\<exists>a \<in> set allowed. claim_str fs n = Some a))"
  by (auto simp: check_member_def claim_str_def split: option.splits)

lemma validate_claims_Inr:
  "validate_claims opts now1 now2 v = Inr u \<longleftrightarrow> (\<exists>fs. v = JObject fs \<and> claims_fresh opts now1 now2 fs)"
  by (cases v) (auto simp: validate_claims_def claims_fresh_def check_exp_iff check_nbf_iff check_member_iff
      simp del: not_less split: if_splits)

definition claims_of ::
  "('ed, 'ec) jwt_env \<Rightarrow> 'c codec \<Rightarrow> validate_options \<Rightarrow> int \<Rightarrow> int \<Rightarrow> bytes \<Rightarrow> 'c \<Rightarrow> bool" where
  "claims_of env cd opts now1 now2 claims_json claims \<longleftrightarrow>
     (if validating opts then
        (\<exists>fs. je_parse_value env claims_json = Some (JObject fs)
           \<and> cd_from_value cd (JObject fs) = Some claims \<and> claims_fresh opts now1 now2 fs)
      else cd_from_slice cd claims_json = Some claims)"

lemma parse_claims_Inr:
  "parse_claims env cd opts now1 now2 cj = Inr c \<longleftrightarrow> claims_of env cd opts now1 now2 cj c"
  by (auto simp: parse_claims_def claims_of_def validating_def result_simps validate_claims_Inr)

lemma parse_verified_Inr:
  "parse_verified env cd key opts now1 now2 h c = Inr p \<longleftrightarrow>
     (\<exists>hj cj. je_b64_decode env h = Some hj \<and> cd_from_slice (je_header env) hj = Some (pj_header p)
        \<and> hd_alg (pj_header p) = key_algorithm key
        \<and> je_b64_decode env c = Some cj \<and> claims_of env cd opts now1 now2 cj (pj_claims p))"
  by (cases p) (auto simp: parse_verified_def result_simps parse_claims_Inr)

lemma split_char_three_iff:
  "split_char CHR ''.'' t = [a, b, c] \<longleftrightarrow>
     t = a @ ''.'' @ b @ ''.'' @ c \<and> CHR ''.'' \<notin> set a \<and> CHR ''.'' \<notin> set b \<and> CHR ''.'' \<notin> set c"
proof
  assume *: "split_char CHR ''.'' t = [a, b, c]"
  have "CHR ''.'' \<notin> set p" if "p \<in> {a, b, c}" for p
    by (rule split_char_no_sep [of _ _ t]) (use that in \<open>auto simp: *\<close>)
  with split_char_three [OF *]
  show "t = a @ ''.'' @ b @ ''.'' @ c \<and> CHR ''.'' \<notin> set a \<and> CHR ''.'' \<notin> set b \<and> CHR ''.'' \<notin> set c"
    by blast
qed (metis split_char_dots)

lemma parse_and_verify_cases:
  "(\<exists>a b c. split_char CHR ''.'' t = [a, b, c]) \<or>
   parse_and_verify env cd key t opts now1 now2 = Some (Inl InvalidToken)"
proof (cases "split_char CHR ''.'' t")
  case (Cons a ps)
  then show ?thesis
    by (cases ps; cases "tl ps"; cases "tl (tl ps)") (auto simp: parse_and_verify_def)
qed (simp add: parse_and_verify_def)

lemma parse_and_verify_three:
  "split_char CHR ''.'' t = [a, b, c] \<Longrightarrow>
   parse_and_verify env cd key t opts now1 now2 =
     (case je_b64_decode_slice env signature_max_size c of
        None \<Rightarrow> Some (Inl InvalidSignature)
      | Some raw \<Rightarrow>
          (case key_verify (je_crypto env) key (a @ ''.'' @ b) raw of
             None \<Rightarrow> None
           | Some (Inl e) \<Rightarrow> Some (Inl e)
           | Some (Inr _) \<Rightarrow> Some (parse_verified env cd key opts now1 now2 a b)))"
  using split_char_three [of t a b c]
  by (cases "je_b64_decode_slice env signature_max_size c") (simp_all add: parse_and_verify_def)

lemma parse_and_verify_Inr:
  "parse_and_verify env cd key t opts now1 now2 = Some (Inr p) \<longleftrightarrow>
     (\<exists>h c s raw. split_char CHR ''.'' t = [h, c, s]
        \<and> je_b64_decode_slice env signature_max_size s = Some raw
        \<and> key_verify (je_crypto env) key (h @ ''.'' @ c) raw = Some (Inr ())
        \<and> parse_verified env cd key opts now1 now2 h c = Inr p)"
  using parse_and_verify_cases [of t env cd key opts now1 now2]
  by (auto simp: parse_and_verify_three split: option.splits sum.splits)

lemma jwt_accepts_signed:
  assumes env: "jwt_env_ok env" and key: "key_ok (je_crypto env) key" and alg: "hd_alg header = key_algorithm key"
    and signed: "jwt_sign env cd key header claims = Some (Inr t)"
    and json: "cd_to_string cd claims = Inr cj" and valid: "claims_of env cd opts now1 now2 cj claims"
  shows "parse_and_verify env cd key t opts now1 now2 = Some (Inr \<lparr>pj_header = header, pj_claims = claims\<rparr>)"
proof -
  let ?e = "je_b64_encode env"
  from signed json obtain hj sig where hj: "cd_to_string (je_header env) header = Inr hj"
    and sig: "key_sign (je_crypto env) key (?e hj @ ''.'' @ ?e cj) = Some (Inr sig)"
    and t: "t = ?e hj @ ''.'' @ ?e cj @ ''.'' @ ?e (signature_as_ref sig)"
    by (auto simp: jwt_sign_def Let_def split: sum.splits option.splits)
  have sig': "key_sign_bytes (je_crypto env) key (?e hj @ ''.'' @ ?e cj) = Some (Inr (signature_as_ref sig))"
    using sig by (simp add: key_sign_bytes_def)
  have dot: "CHR ''.'' \<notin> set (?e b)" and dec: "je_b64_decode env (?e b) = Some b" for b
    using env by (simp_all add: jwt_env_ok_def)
  have hd: "cd_from_slice (je_header env) hj = Some header"
    using env hj by (simp add: jwt_env_ok_def codec_ok_def)
  have raw: "je_b64_decode_slice env signature_max_size (?e (signature_as_ref sig)) = Some (signature_as_ref sig)"
    using env key_sign_length [OF sig] by (simp add: jwt_env_ok_def)
  note tok = jwt_signer.compact_token [where encode = ?e, OF key dot sig' t]
  have "parse_verified env cd key opts now1 now2 (?e hj) (?e cj) = Inr \<lparr>pj_header = header, pj_claims = claims\<rparr>"
    using dec hd alg valid by (simp add: parse_verified_Inr)
  with tok raw show ?thesis
    unfolding parse_and_verify_Inr by blast
qed


lemma accepted_header:
  assumes "parse_and_verify env cd key t opts now1 now2 = Some (Inr p)"
  shows "parse_header env t = Inr (pj_header p)" and "hd_alg (pj_header p) = key_algorithm key"
    and "validating opts \<Longrightarrow> \<exists>fs. cd_from_value cd (JObject fs) = Some (pj_claims p) \<and> claims_fresh opts now1 now2 fs"
proof -
  from assms obtain h c s raw where t: "split_char CHR ''.'' t = [h, c, s]"
    and p: "parse_verified env cd key opts now1 now2 h c = Inr p"
    by (auto simp: parse_and_verify_Inr)
  from p show "parse_header env t = Inr (pj_header p)" "hd_alg (pj_header p) = key_algorithm key"
    "validating opts \<Longrightarrow> \<exists>fs. cd_from_value cd (JObject fs) = Some (pj_claims p) \<and> claims_fresh opts now1 now2 fs"
    by (auto simp: parse_header_def t parse_verified_Inr claims_of_def)
qed

lemma jwt_total:
  assumes ok: "key_ok (je_crypto env) key"
  shows "jwt_sign env cd key header claims \<noteq> None" and "parse_and_verify env cd key t opts now1 now2 \<noteq> None"
proof -
  have "key_sign (je_crypto env) key m \<noteq> None" for m
    using jwt_signer.sign_total [OF ok, of m] by (simp add: key_sign_bytes_def)
  then show "jwt_sign env cd key header claims \<noteq> None"
    by (cases "cd_to_string (je_header env) header"; cases "cd_to_string cd claims")
      (simp_all add: jwt_sign_def Let_def split: option.split sum.split)
  show "parse_and_verify env cd key t opts now1 now2 \<noteq> None"
    using parse_and_verify_cases [of t env cd key opts now1 now2]
  proof (elim disjE exE)
    fix a b c
    assume "split_char CHR ''.'' t = [a, b, c]"
    note eq = parse_and_verify_three [OF this, of env cd key opts now1 now2]
    show ?thesis
    proof (cases "je_b64_decode_slice env signature_max_size c")
      case (Some raw)
      show ?thesis
        by (rule jwt_signer.verify_cases [OF ok, of "a @ ''.'' @ b" raw]) (simp_all add: eq Some)
    qed (simp add: eq)
  qed simp
qed

text \<open>The claims of a token that was signed here are the ones that were signed.\<close>

lemma signed_claims:
  assumes env: "jwt_env_ok env" and signed: "jwt_sign env cd key header claims = Some (Inr t)"
    and json: "cd_to_string cd claims = Inr cj"
    and ok: "parse_and_verify env cd' key' t opts now1 now2 = Some (Inr p)"
  shows "claims_of env cd' opts now1 now2 cj (pj_claims p)"
proof -
  let ?e = "je_b64_encode env"
  from signed json obtain hj sig where t: "t = ?e hj @ ''.'' @ ?e cj @ ''.'' @ ?e (signature_as_ref sig)"
    by (auto simp: jwt_sign_def Let_def split: sum.splits option.splits)
  have dot: "CHR ''.'' \<notin> set (?e b)" and dec: "je_b64_decode env (?e b) = Some b" for b
    using env by (simp_all add: jwt_env_ok_def)
  have "split_char CHR ''.'' t = [?e hj, ?e cj, ?e (signature_as_ref sig)]"
    unfolding t by (rule split_char_dots [OF dot dot dot])
  with ok show ?thesis by (auto simp: parse_and_verify_Inr parse_verified_Inr dec)
qed

section \<open>A small instance of the libraries\<close>

definition demo_header :: header where
  "demo_header =
     \<lparr>hd_typ = JWT, hd_alg = EdDSA, hd_cty = None, hd_jku = None, hd_kid = Some ''k1'', hd_x5u = None,
      hd_x5c = None, hd_x5t = None, hd_x5t_s256 = None\<rparr>"

text \<open>Codecs that write one value only: the header above, and claims with an expiry of 100 s.\<close>

definition demo_claims_value :: json where
  "demo_claims_value = JObject [(''exp'', JInt 100)]"

definition demo_claims :: "int codec" where
  "demo_claims =
     \<lparr>cd_to_string = \<lambda>a. if a = 100 then Inr (demo_print demo_claims_value) else Inl (),
      cd_from_slice = \<lambda>s. if s = demo_print demo_claims_value then Some 100 else None,
      cd_from_value = \<lambda>v. if v = demo_claims_value then Some 100 else None\<rparr>"

definition demo_jwt_env :: "(bytes, ec_curve \<times> bytes) jwt_env" where
  "demo_jwt_env =
     \<lparr>je_crypto = demo_crypto, je_b64_encode = demo_encode, je_b64_decode = demo_decode,
      je_b64_decode_slice = \<lambda>n s. case demo_decode s of Some b \<Rightarrow> if length b \<le> n then Some b else None | None \<Rightarrow> None,
      je_parse_value = demo_parse,
      je_header =
        \<lparr>cd_to_string = \<lambda>h. if h = demo_header then Inr (demo_print JNull) else Inl (),
         cd_from_slice = \<lambda>s. if s = demo_print JNull then Some demo_header else None,
         cd_from_value = \<lambda>v. if v = JNull then Some demo_header else None\<rparr>\<rparr>"

definition demo_options :: validate_options where
  "demo_options = \<lparr>vo_allowed_time_drift = from_secs 5, vo_nbf = False, vo_exp = True, vo_aud = [], vo_iss = []\<rparr>"

lemma demo_jwt_env_ok: "jwt_env_ok demo_jwt_env"
  by (simp add: jwt_env_ok_def demo_jwt_env_def demo_crypto_ok demo_decode_encode demo_encode_no_dot
      codec_ok_def)

lemma demo_claims_ok: "codec_ok demo_parse demo_claims"
  by (simp add: codec_ok_def demo_claims_def)

lemma demo_claims_of: "claims_of demo_jwt_env demo_claims demo_options 50000000000 0 (demo_print demo_claims_value) 100"
  by (simp add: claims_of_def validating_def demo_options_def demo_jwt_env_def demo_claims_def demo_claims_value_def
      claims_fresh_def claim_i64_def from_secs_def)

section \<open>Properties\<close>

text \<open>C11: exactly which tokens are accepted: three parts without dots; a signature of the first two
  that verifies with the key; a header that names the key's algorithm; claims that decode and, when
  asked, are not expired, already valid and made by and for an allowed party.\<close>

theorem accepted_token_exact:
  "parse_and_verify env cd key t opts now1 now2 = Some (Inr p) \<longleftrightarrow>
     (\<exists>h c s raw hj cj. t = h @ ''.'' @ c @ ''.'' @ s
        \<and> CHR ''.'' \<notin> set h \<and> CHR ''.'' \<notin> set c \<and> CHR ''.'' \<notin> set s
        \<and> je_b64_decode_slice env signature_max_size s = Some raw
        \<and> key_verify (je_crypto env) key (h @ ''.'' @ c) raw = Some (Inr ())
        \<and> je_b64_decode env h = Some hj \<and> cd_from_slice (je_header env) hj = Some (pj_header p)
        \<and> hd_alg (pj_header p) = key_algorithm key
        \<and> je_b64_decode env c = Some cj \<and> claims_of env cd opts now1 now2 cj (pj_claims p))"
  by (simp only: parse_and_verify_Inr parse_verified_Inr split_char_three_iff) blast

text \<open>An accepted token is fresh, whatever its claims type: with the expiry check on, the time
  less the allowed drift is before the end of the expiry second; with the nbf check on, the time
  plus the drift has reached it; audience and issuer are allowed ones. Its header is the one
  parse_header reads without verifying, so a key picked by that header is the key that verified.\<close>

lemma accepted_token_fresh:
  assumes "parse_and_verify env cd key t opts now1 now2 = Some (Inr p)"
  shows "parse_header env t = Inr (pj_header p) \<and> hd_alg (pj_header p) = key_algorithm key
    \<and> (validating opts \<longrightarrow> (\<exists>fs. cd_from_value cd (JObject fs) = Some (pj_claims p)
         \<and> claims_fresh opts now1 now2 fs))"
  using accepted_header [OF assms] by blast

text \<open>C30: a token signed by a key is accepted by it with the same header and claims, as long as the
  claims are valid at the time of verification.\<close>

theorem sign_then_verify:
  assumes env: "jwt_env_ok env" and key: "key_ok (je_crypto env) key" and alg: "hd_alg header = key_algorithm key"
    and signed: "jwt_sign env cd key header claims = Some (Inr t)"
    and json: "cd_to_string cd claims = Inr cj" and valid: "claims_of env cd opts now1 now2 cj claims"
  shows "parse_and_verify env cd key t opts now1 now2 = Some (Inr \<lparr>pj_header = header, pj_claims = claims\<rparr>)"
  using assms by (rule jwt_accepts_signed)

lemma demo_signed:
  "\<exists>t. jwt_sign demo_jwt_env demo_claims demo_ed_key demo_header 100 = Some (Inr t)"
proof -
  have "key_sign_bytes demo_crypto demo_ed_key m \<noteq> None" for m
    using jwt_signer.sign_total [OF demo_keys_ok(1)] .
  moreover have "key_sign demo_crypto demo_ed_key m \<noteq> Some (Inl e)" for m e
    by (simp add: key_sign_def demo_ed_key_def)
  ultimately have "\<exists>s. key_sign demo_crypto demo_ed_key m = Some (Inr s)" for m
    by (metis key_sign_bytes_def map_option_is_None not_None_eq sumE)
  from this [of "demo_encode (demo_print JNull) @ ''.'' @ demo_encode (demo_print demo_claims_value)"] show ?thesis
    by (auto simp: jwt_sign_def demo_jwt_env_def demo_claims_def Let_def)
qed

theorem sign_then_verify_witness:
  "\<exists>t. parse_and_verify demo_jwt_env demo_claims demo_ed_key t demo_options 50000000000 0
     = Some (Inr \<lparr>pj_header = demo_header, pj_claims = 100\<rparr>)"
proof -
  obtain t where t: "jwt_sign demo_jwt_env demo_claims demo_ed_key demo_header 100 = Some (Inr t)"
    using demo_signed by blast
  have "key_ok (je_crypto demo_jwt_env) demo_ed_key" "hd_alg demo_header = key_algorithm demo_ed_key"
    "cd_to_string demo_claims 100 = Inr (demo_print demo_claims_value)"
    using demo_keys_ok(1) by (simp_all add: demo_jwt_env_def demo_header_def demo_ed_key_def demo_claims_def)
  from sign_then_verify [OF demo_jwt_env_ok this(1,2) t this(3) demo_claims_of] show ?thesis by blast
qed

lemma accepted_token_fresh_witness:
  "\<exists>t p. parse_and_verify demo_jwt_env demo_claims demo_ed_key t demo_options 50000000000 0 = Some (Inr p)
     \<and> parse_header demo_jwt_env t = Inr (pj_header p)"
proof -
  obtain t where t: "jwt_sign demo_jwt_env demo_claims demo_ed_key demo_header 100 = Some (Inr t)"
    using demo_signed by blast
  have "parse_and_verify demo_jwt_env demo_claims demo_ed_key t demo_options 50000000000 0 \<noteq> None
    \<and> (\<exists>p. parse_and_verify demo_jwt_env demo_claims demo_ed_key t demo_options 50000000000 0 = Some (Inr p))"
  proof -
    have "key_ok (je_crypto demo_jwt_env) demo_ed_key" "hd_alg demo_header = key_algorithm demo_ed_key"
      "cd_to_string demo_claims 100 = Inr (demo_print demo_claims_value)"
      using demo_keys_ok(1) by (simp_all add: demo_jwt_env_def demo_header_def demo_ed_key_def demo_claims_def)
    from jwt_accepts_signed [OF demo_jwt_env_ok this(1,2) t this(3) demo_claims_of] show ?thesis by simp
  qed
  then obtain p where "parse_and_verify demo_jwt_env demo_claims demo_ed_key t demo_options 50000000000 0 = Some (Inr p)"
    by blast
  with accepted_token_fresh [OF this] show ?thesis by blast
qed

text \<open>With a key made from a JWK neither signing nor verifying panics, on any input.\<close>

lemma jwt_never_panics:
  assumes "crypto_ok (je_crypto env)" and "key_try_from (je_crypto env) j = Inr key"
  shows "jwt_sign env cd key header claims \<noteq> None
    \<and> parse_and_verify env cd key t opts now1 now2 \<noteq> None"
  by (rule conjI [OF jwt_total [OF key_try_from_Inr(4) [OF assms]]])

lemma jwt_never_panics_witness:
  "parse_and_verify demo_jwt_env demo_claims demo_ed_key ''..'' demo_options 0 0 \<noteq> None"
proof -
  have "crypto_ok (je_crypto demo_jwt_env)"
    "key_try_from (je_crypto demo_jwt_env) (jwk_from demo_crypto demo_ed_key) = Inr demo_ed_key"
    by (simp_all add: demo_jwt_env_def demo_crypto_ok)
      (simp add: key_try_from_def jwk_from_def demo_ed_key_def demo_crypto_def Let_def)
  then show ?thesis
    by (rule jwt_never_panics [THEN conjunct2])
qed

end
