(* ===== verification/Captcha.thy ===== *)
theory Captcha
  imports Jwt Http
begin

text \<open>
  \<^verbatim>\<open>pingoo/captcha.rs\<close>: the proof-of-work captcha. Its state lives in two cookies, both
  signed tokens: the challenge and, once solved, the proof of having solved it. Cryptography,
  JSON text, cookies' text and the embedded assets are an environment. \<open>None\<close> is a panic.
\<close>

section \<open>Constants and data\<close>

definition captcha_cookie_name :: string where
  "captcha_cookie_name = ''__pingoo_captcha''"

definition captcha_verified_cookie_name :: string where
  "captcha_verified_cookie_name = ''__pingoo_captcha_verified''"

definition captcha_jwt_issuer :: string where
  "captcha_jwt_issuer = ''pingoo''"

definition captcha_verified_jwt_expiration :: duration where
  "captcha_verified_jwt_expiration = from_secs (60 * 60 * 24)"

definition captcha_jwt_expiration :: duration where
  "captcha_jwt_expiration = from_secs (60 * 10)"

definition proof_of_work_difficulty :: u8 where
  "proof_of_work_difficulty = 1"

definition jwt_validation_options :: validate_options where
  "jwt_validation_options =
     \<lparr>vo_allowed_time_drift = from_secs 5, vo_nbf = True, vo_exp = True,
      vo_aud = [captcha_jwt_issuer], vo_iss = [captcha_jwt_issuer]\<rparr>"

record ('ed, 'ec) captcha_manager =
  cm_signing_key :: "('ed, 'ec) key"
  cm_verifying_keys :: "(string \<times> ('ed, 'ec) key) list"

record captcha_verify_request_body =
  cvr_hash :: bytes
  cvr_nonce :: string

record captcha_cookie_jwt_claims =
  cc_challenge :: string
  cc_difficulty :: u8
  cc_registered :: registered_claims

record captcha_verified_cookie_jwt_claims =
  cv_challenge_passed :: bool
  cv_registered :: registered_claims

record cookie =
  ck_name :: string
  ck_value :: string
  ck_secure :: bool
  ck_http_only :: bool
  ck_same_site_lax :: bool
  ck_path :: "string option"
  ck_expires :: "int option"

section \<open>Claims as JSON\<close>

text \<open>What the derived serialisers write and read; the registered claims are flattened.\<close>

definition registered_fields :: "registered_claims \<Rightarrow> (string \<times> json) list" where
  "registered_fields rc =
     opt_field ''iss'' JString (rc_iss rc) @ opt_field ''sub'' JString (rc_sub rc)
     @ opt_field ''aud'' JString (rc_aud rc) @ opt_field ''exp'' JInt (rc_exp rc)
     @ opt_field ''nbf'' JInt (rc_nbf rc) @ opt_field ''iat'' JInt (rc_iat rc)
     @ opt_field ''jti'' JString (rc_jti rc) @ []"

definition registered_of_fields :: "(string \<times> json) list \<Rightarrow> registered_claims option" where
  "registered_of_fields fs =
     Option.bind (get_opt_field fs ''iss'' as_str) (\<lambda>iss.
     Option.bind (get_opt_field fs ''sub'' as_str) (\<lambda>sub.
     Option.bind (get_opt_field fs ''aud'' as_str) (\<lambda>aud.
     Option.bind (get_opt_field fs ''exp'' as_i64) (\<lambda>exp.
     Option.bind (get_opt_field fs ''nbf'' as_i64) (\<lambda>nbf.
     Option.bind (get_opt_field fs ''iat'' as_i64) (\<lambda>iat.
     Option.bind (get_opt_field fs ''jti'' as_str) (\<lambda>jti.
       Some \<lparr>rc_iss = iss, rc_sub = sub, rc_aud = aud, rc_exp = exp, rc_nbf = nbf, rc_iat = iat,
             rc_jti = jti\<rparr>)))))))"

fun as_u8 :: "json \<Rightarrow> u8 option" where
  "as_u8 (JInt i) = (if 0 \<le> i \<and> i < 256 then Some (of_int i) else None)"
| "as_u8 _ = None"

definition cookie_claims_to_value :: "captcha_cookie_jwt_claims \<Rightarrow> json" where
  "cookie_claims_to_value c =
     JObject ((''challenge'', JString (cc_challenge c)) # (''difficulty'', JInt (uint (cc_difficulty c)))
              # registered_fields (cc_registered c))"

definition cookie_claims_of_value :: "json \<Rightarrow> captcha_cookie_jwt_claims option" where
  "cookie_claims_of_value v =
     Option.bind (as_object v) (\<lambda>fs.
     Option.bind (get_field fs ''challenge'' as_str) (\<lambda>challenge.
     Option.bind (get_field fs ''difficulty'' as_u8) (\<lambda>difficulty.
     Option.bind (registered_of_fields fs) (\<lambda>registered.
       Some \<lparr>cc_challenge = challenge, cc_difficulty = difficulty, cc_registered = registered\<rparr>))))"

definition verified_claims_to_value :: "captcha_verified_cookie_jwt_claims \<Rightarrow> json" where
  "verified_claims_to_value c =
     JObject ((''challenge_passed'', JBool (cv_challenge_passed c)) # registered_fields (cv_registered c))"

definition verified_claims_of_value :: "json \<Rightarrow> captcha_verified_cookie_jwt_claims option" where
  "verified_claims_of_value v =
     Option.bind (as_object v) (\<lambda>fs.
     Option.bind (get_field fs ''challenge_passed'' as_bool) (\<lambda>challenge_passed.
     Option.bind (registered_of_fields fs) (\<lambda>registered.
       Some \<lparr>cv_challenge_passed = challenge_passed, cv_registered = registered\<rparr>)))"

section \<open>The libraries\<close>

record ('ed, 'ec) captcha_env =
  cpe_jwt :: "('ed, 'ec) jwt_env"
  cpe_print :: "json \<Rightarrow> string"
  cpe_sha256 :: "bytes \<Rightarrow> bytes"
  cpe_headers :: header_env
  cpe_cookie_string :: "cookie \<Rightarrow> string"
  cpe_parse_verify_body :: "string \<Rightarrow> captcha_verify_request_body option"
  cpe_asset :: "string \<Rightarrow> string option"
  cpe_mime_from_path :: "string \<Rightarrow> string"

definition captcha_env_ok :: "('ed, 'ec) captcha_env \<Rightarrow> bool" where
  "captcha_env_ok env \<longleftrightarrow>
     jwt_env_ok (cpe_jwt env)
     \<and> (\<forall>v. je_parse_value (cpe_jwt env) (cpe_print env v) = Some v)
     \<and> (\<forall>b. length (cpe_sha256 env b) = 32)
     \<and> (\<forall>b. length (je_b64_encode (cpe_jwt env) b) \<le> (4 * length b + 2) div 3)
     \<and> (\<exists>page. cpe_asset env ''index.html'' = Some page)"

definition cookie_claims_codec :: "('ed, 'ec) captcha_env \<Rightarrow> captcha_cookie_jwt_claims codec" where
  "cookie_claims_codec env =
     value_codec (cpe_print env) (je_parse_value (cpe_jwt env)) cookie_claims_to_value cookie_claims_of_value"

definition verified_claims_codec :: "('ed, 'ec) captcha_env \<Rightarrow> captcha_verified_cookie_jwt_claims codec" where
  "verified_claims_codec env =
     value_codec (cpe_print env) (je_parse_value (cpe_jwt env)) verified_claims_to_value verified_claims_of_value"

section \<open>Small functions\<close>

definition constant_time_compare :: "bytes \<Rightarrow> bytes \<Rightarrow> bool" where
  "constant_time_compare a b = (a = b)"

text \<open>
  The buffer has \<open>n\<close> zero bytes, the encoder writes its output at the front (and panics when it
  does not fit), and the whole buffer becomes the string.
\<close>

definition encode_to_base64_heapless :: "nat \<Rightarrow> ('ed, 'ec) captcha_env \<Rightarrow> bytes \<Rightarrow> string option" where
  "encode_to_base64_heapless n env data =
     (let encoded = je_b64_encode (cpe_jwt env) data
      in if length encoded \<le> n then Some (encoded @ replicate (n - length encoded) (CHR 0x00)) else None)"

fun octets :: "ip_addr \<Rightarrow> bytes" where
  "octets (V4 a) = map (\<lambda>i. char_of (unat a div 256 ^ (3 - i) mod 256)) [0..<4]"
| "octets (V6 a) = map (\<lambda>i. char_of (unat a div 256 ^ (15 - i) mod 256)) [0..<16]"

text \<open>The identifier of a client: a hash of its address, user agent and the host it asks for.\<close>

definition generate_captcha_client_id ::
  "('ed, 'ec) captcha_env \<Rightarrow> ip_addr \<Rightarrow> string \<Rightarrow> string \<Rightarrow> string option" where
  "generate_captcha_client_id env ip user_agent hostname =
     encode_to_base64_heapless 44 env (cpe_sha256 env (octets ip @ user_agent @ hostname))"

fun hex_encode :: "bytes \<Rightarrow> string" where
  "hex_encode [] = []"
| "hex_encode (b # bs) = hex_char (byte b div 16) # hex_char (byte b mod 16) # hex_encode bs"

definition leading_zeroes :: "bytes \<Rightarrow> nat" where
  "leading_zeroes hash = length (takeWhile (\<lambda>character. character = CHR ''0'') (hex_encode hash))"

section \<open>Cookies\<close>

definition new_cookie :: "string \<Rightarrow> string \<Rightarrow> int \<Rightarrow> cookie" where
  "new_cookie name value expires =
     \<lparr>ck_name = name, ck_value = value, ck_secure = True, ck_http_only = True, ck_same_site_lax = True,
      ck_path = Some ''/'', ck_expires = Some expires\<rparr>"

definition captcha_header :: "('ed, 'ec) key \<Rightarrow> header" where
  "captcha_header key =
     \<lparr>hd_typ = JWT, hd_alg = EdDSA, hd_cty = None, hd_jku = None, hd_kid = Some (key_id key), hd_x5u = None,
      hd_x5c = None, hd_x5t = None, hd_x5t_s256 = None\<rparr>"

definition captcha_registered_claims :: "string \<Rightarrow> int \<Rightarrow> duration \<Rightarrow> string \<Rightarrow> registered_claims" where
  "captcha_registered_claims client_id now lifetime jti =
     \<lparr>rc_iss = Some captcha_jwt_issuer, rc_sub = Some client_id, rc_aud = Some captcha_jwt_issuer,
      rc_exp = Some (timestamp (now + int lifetime)), rc_nbf = Some (timestamp now),
      rc_iat = Some (timestamp now), rc_jti = Some jti\<rparr>"

text \<open>The clock reading and the random identifier of the token are arguments.\<close>

definition generate_captcha_cookie ::
  "('ed, 'ec) captcha_env \<Rightarrow> ('ed, 'ec) key \<Rightarrow> string \<Rightarrow> string \<Rightarrow> u8 \<Rightarrow> int \<Rightarrow> string \<Rightarrow> (jwt_error + cookie) option" where
  "generate_captcha_cookie env key client_id challenge difficulty now jti =
     (let jwt_expires_at = now + int captcha_jwt_expiration;
          claims = \<lparr>cc_challenge = challenge, cc_difficulty = difficulty,
                    cc_registered = captcha_registered_claims client_id now captcha_jwt_expiration jti\<rparr>
      in case jwt_sign (cpe_jwt env) (cookie_claims_codec env) key (captcha_header key) claims of
           None \<Rightarrow> None
         | Some (Inl e) \<Rightarrow> Some (Inl e)
         | Some (Inr token) \<Rightarrow>
             Some (Inr (new_cookie captcha_cookie_name token (timestamp jwt_expires_at - 60))))"

definition generate_captcha_verified_cookies ::
  "('ed, 'ec) captcha_env \<Rightarrow> ('ed, 'ec) key \<Rightarrow> string \<Rightarrow> int \<Rightarrow> string \<Rightarrow> (jwt_error + cookie list) option" where
  "generate_captcha_verified_cookies env key client_id now jti =
     (let jwt_expires_at = now + int captcha_verified_jwt_expiration;
          claims = \<lparr>cv_challenge_passed = True,
                    cv_registered = captcha_registered_claims client_id now captcha_verified_jwt_expiration jti\<rparr>
      in case jwt_sign (cpe_jwt env) (verified_claims_codec env) key (captcha_header key) claims of
           None \<Rightarrow> None
         | Some (Inl e) \<Rightarrow> Some (Inl e)
         | Some (Inr token) \<Rightarrow>
             Some (Inr [new_cookie captcha_verified_cookie_name token (timestamp jwt_expires_at - 60),
                        new_cookie captcha_cookie_name '''' 0]))"

section \<open>The verified cookie\<close>

definition lookup_key :: "('ed, 'ec) captcha_manager \<Rightarrow> header \<Rightarrow> ('ed, 'ec) key option" where
  "lookup_key cm h = map_of (cm_verifying_keys cm) (or_default (hd_kid h))"

definition validate_captcha_verified_cookie ::
  "('ed, 'ec) captcha_env \<Rightarrow> ('ed, 'ec) captcha_manager \<Rightarrow> string \<Rightarrow> string \<Rightarrow> int \<Rightarrow> int \<Rightarrow> (error + unit) option" where
  "validate_captcha_verified_cookie env cm cookie_str client_id now1 now2 =
     (case parse_header (cpe_jwt env) cookie_str of
        Inl _ \<Rightarrow> Some (Inl (Unspecified ''JWT is not valid''))
      | Inr jwt_header \<Rightarrow>
          (case lookup_key cm jwt_header of
             None \<Rightarrow> Some (Inl (Unspecified ''JWT is not valid''))
           | Some jwt_key \<Rightarrow>
               (case parse_and_verify (cpe_jwt env) (verified_claims_codec env) jwt_key cookie_str
                       jwt_validation_options now1 now2 of
                  None \<Rightarrow> None
                | Some (Inl _) \<Rightarrow> Some (Inl (Unspecified ''JWT is not valid''))
                | Some (Inr token) \<Rightarrow>
                    if \<not> constant_time_compare client_id (or_default (rc_sub (cv_registered (pj_claims token))))
                       \<or> cv_challenge_passed (pj_claims token) \<noteq> True
                    then Some (Inl (Unspecified ''JWT is not valid''))
                    else Some (Inr ()))))"

section \<open>Serving\<close>

definition serve_captcha :: "('ed, 'ec) captcha_env \<Rightarrow> response option" where
  "serve_captcha env =
     (case cpe_asset env ''index.html'' of
        None \<Rightarrow> None
      | Some page \<Rightarrow>
          Some \<lparr>res_status = 403,
            res_headers = [(''content-type'', ''text/html''), (''cache-control'', cache_control_dynamic)],
            res_body = Full page\<rparr>)"

definition serve_asset :: "('ed, 'ec) captcha_env \<Rightarrow> string \<Rightarrow> response" where
  "serve_asset env path =
     (case cpe_asset env (trim_start_matches CHR ''/'' path) of
        Some asset \<Rightarrow>
          \<lparr>res_status = 200,
           res_headers = [(''content-type'', cpe_mime_from_path env path), (''cache-control'', cache_control_dynamic)],
           res_body = Full asset\<rparr>
      | None \<Rightarrow> new_not_found_error)"

definition api_headers :: headers where
  "api_headers = [(''content-type'', ''application/json''), (''cache-control'', cache_control_dynamic)]"

text \<open>\<open>challenge_raw\<close> are the random bytes of the challenge.\<close>

definition api_init ::
  "('ed, 'ec) captcha_env \<Rightarrow> ('ed, 'ec) captcha_manager \<Rightarrow> string \<Rightarrow> bytes \<Rightarrow> int \<Rightarrow> string \<Rightarrow> response option" where
  "api_init env cm client_id challenge_raw now jti =
     (case encode_to_base64_heapless 44 env challenge_raw of
        None \<Rightarrow> None
      | Some challenge \<Rightarrow>
          (case generate_captcha_cookie env (cm_signing_key cm) client_id challenge proof_of_work_difficulty now jti of
             None \<Rightarrow> None
           | Some (Inl _) \<Rightarrow> Some new_internal_error_response_500
           | Some (Inr captcha_cookie) \<Rightarrow>
               (let response_body = cpe_print env (JObject
                      [(''challenge'', JString challenge), (''difficulty'', JInt (uint proof_of_work_difficulty))])
                in case value_from_str (cpe_headers env) (cpe_cookie_string env captcha_cookie) of
                     None \<Rightarrow> Some new_internal_error_response_500
                   | Some set_cookie_header \<Rightarrow>
                       Some \<lparr>res_status = 200,
                         res_headers = api_headers @ [(''set-cookie'', set_cookie_header)],
                         res_body = Full response_body\<rparr>)))"

definition proof_of_work_ok :: "('ed, 'ec) captcha_env \<Rightarrow> captcha_cookie_jwt_claims \<Rightarrow> captcha_verify_request_body \<Rightarrow> bool" where
  "proof_of_work_ok env claims input =
     (if leading_zeroes (cvr_hash input) < unat (cc_difficulty claims) then False
      else constant_time_compare (cpe_sha256 env (cc_challenge claims @ cvr_nonce input)) (cvr_hash input))"

fun append_cookies :: "('ed, 'ec) captcha_env \<Rightarrow> cookie list \<Rightarrow> headers \<Rightarrow> headers option" where
  "append_cookies env [] hs = Some hs"
| "append_cookies env (c # cs) hs =
     (case value_from_str (cpe_headers env) (cpe_cookie_string env c) of
        None \<Rightarrow> None
      | Some v \<Rightarrow> append_cookies env cs (header_append ''set-cookie'' v hs))"

text \<open>
  The verification: the first failing check answers with the error page. \<open>now1\<close> and
  \<open>now2\<close> are the readings of the token's validation, \<open>now3\<close> that of the new token.
\<close>

definition issue_verified ::
  "('ed, 'ec) captcha_env \<Rightarrow> ('ed, 'ec) captcha_manager \<Rightarrow> string \<Rightarrow> int \<Rightarrow> string \<Rightarrow> response option" where
  "issue_verified env cm client_id now3 jti =
     (case generate_captcha_verified_cookies env (cm_signing_key cm) client_id now3 jti of
        None \<Rightarrow> None
      | Some (Inl _) \<Rightarrow> Some new_internal_error_response_500
      | Some (Inr response_new_cookies) \<Rightarrow>
          (case append_cookies env response_new_cookies api_headers of
             None \<Rightarrow> Some new_internal_error_response_500
           | Some hs \<Rightarrow>
               Some \<lparr>res_status = 200, res_headers = hs, res_body = Full (cpe_print env (JObject []))\<rparr>))"

definition api_verify ::
  "('ed, 'ec) captcha_env \<Rightarrow> ('ed, 'ec) captcha_manager \<Rightarrow> request \<Rightarrow> cookie list \<Rightarrow> string \<Rightarrow>
     int \<Rightarrow> int \<Rightarrow> int \<Rightarrow> string \<Rightarrow> response option" where
  "api_verify env cm req cookies client_id now1 now2 now3 jti =
     (case List.find (\<lambda>c. ck_name c = captcha_cookie_name) cookies of
        None \<Rightarrow> Some new_internal_error_response_500
      | Some cookie \<Rightarrow>
          (case parse_header (cpe_jwt env) (ck_value cookie) of
             Inl _ \<Rightarrow> Some new_internal_error_response_500
           | Inr jwt_header \<Rightarrow>
               (case lookup_key cm jwt_header of
                  None \<Rightarrow> Some new_internal_error_response_500
                | Some jwt_key \<Rightarrow>
                    (case parse_and_verify (cpe_jwt env) (cookie_claims_codec env) jwt_key (ck_value cookie)
                            jwt_validation_options now1 now2 of
                       None \<Rightarrow> None
                     | Some (Inl _) \<Rightarrow> Some new_internal_error_response_500
                     | Some (Inr token) \<Rightarrow>
                         (case rq_body req of
                            Inl _ \<Rightarrow> Some new_internal_error_response_500
                          | Inr body \<Rightarrow>
                              (case cpe_parse_verify_body env body of
                                 None \<Rightarrow> Some new_internal_error_response_500
                               | Some input \<Rightarrow>
                                   if \<not> constant_time_compare client_id
                                          (or_default (rc_sub (cc_registered (pj_claims token))))
                                   then Some new_internal_error_response_500
                                   else if \<not> proof_of_work_ok env (pj_claims token) input
                                   then Some new_internal_error_response_500
                                   else issue_verified env cm client_id now3 jti))))))"

definition serve_captcha_request ::
  "('ed, 'ec) captcha_env \<Rightarrow> ('ed, 'ec) captcha_manager \<Rightarrow> request \<Rightarrow> cookie list \<Rightarrow> string \<Rightarrow>
     bytes \<Rightarrow> int \<Rightarrow> int \<Rightarrow> int \<Rightarrow> string \<Rightarrow> response option" where
  "serve_captcha_request env cm req cookies client_id challenge_raw now1 now2 now3 jti =
     (let path = get_path req
      in if starts_with path ''/__pingoo/captcha/assets'' then Some (serve_asset env path)
         else if path = ''/__pingoo/captcha/api/init'' then api_init env cm client_id challenge_raw now3 jti
         else if path = ''/__pingoo/captcha/api/verify''
         then api_verify env cm req cookies client_id now1 now2 now3 jti
         else Some new_not_found_error)"

section \<open>The keys\<close>

definition validate_jwk :: "jwk \<Rightarrow> error + unit" where
  "validate_jwk j =
     (if trim (jwk_kid j) = [] then Inl (Unspecified ''JWK key ID is empty'')
      else if jwk_algorithm j \<noteq> EdDSA then Inl (Unspecified ''captcha: JWT algorithm not suported'')
      else case jwk_crypto j of
             Okp _ _ d \<Rightarrow> if d = None then Inl (Unspecified ''captcha: Private key is missing'') else Inr ()
           | Ec _ _ _ d \<Rightarrow> if d = None then Inl (Unspecified ''captcha: Private key is missing'') else Inr ()
           | Oct k \<Rightarrow> if length k < 32 then Inl (Unspecified ''captcha: key is too short'') else Inr ())"

text \<open>
  The file system: whether the key file exists, its content, its JSON, and the result of writing
  a new one.
\<close>

record 'ed keys_env =
  ke_exists :: "unit + bool"
  ke_read :: "unit + string"
  ke_parse_jwks :: "string \<Rightarrow> unit + jwks"
  ke_uuid :: string
  ke_generated :: "unit + 'ed"
  ke_print_jwks :: "jwks \<Rightarrow> unit + string"
  ke_write :: "string \<Rightarrow> unit + unit"

definition save_jwt_keys ::
  "('ed, 'ec) crypto_env \<Rightarrow> 'ed keys_env \<Rightarrow> ('ed, 'ec) key list \<Rightarrow> error + unit" where
  "save_jwt_keys crypto ke keys =
     (case ke_print_jwks ke \<lparr>jwks_keys = map (jwk_from crypto) keys\<rparr> of
        Inl _ \<Rightarrow> Inl (Unspecified ''error converting JWKS to JSON'')
      | Inr jwks_json \<Rightarrow>
          (case ke_write ke jwks_json of
             Inl _ \<Rightarrow> Inl (Config ''error writing JWKS file'')
           | Inr _ \<Rightarrow> Inr ()))"

definition load_key :: "('ed, 'ec) crypto_env \<Rightarrow> jwk \<Rightarrow> error + ('ed, 'ec) key" where
  "load_key crypto j =
     and_then (validate_jwk j) (\<lambda>_.
       case key_try_from crypto j of
         Inl _ \<Rightarrow> Inl (Unspecified ''is not a valid JWK'')
       | Inr key \<Rightarrow> Inr key)"

definition captcha_manager_new ::
  "('ed, 'ec) crypto_env \<Rightarrow> 'ed keys_env \<Rightarrow> error + ('ed, 'ec) captcha_manager" where
  "captcha_manager_new crypto ke =
     (case ke_exists ke of
        Inl _ \<Rightarrow> Inl (Config ''error reading captcha JWKS file'')
      | Inr True \<Rightarrow>
          (case ke_read ke of
             Inl _ \<Rightarrow> Inl (Config ''error reading captcha JWKS file'')
           | Inr jwks_file_content \<Rightarrow>
               (case ke_parse_jwks ke jwks_file_content of
                  Inl _ \<Rightarrow> Inl (Config ''error parsing captcha JWKS file'')
                | Inr jwks \<Rightarrow>
                    and_then (try_map (load_key crypto) (jwks_keys jwks)) (\<lambda>keys.
                      case keys of
                        [] \<Rightarrow> Inl (Config ''captcha JWKS file is empty'')
                      | k # _ \<Rightarrow>
                          Inr \<lparr>cm_signing_key = k,
                               cm_verifying_keys = collect_map (map (\<lambda>key. (key_id key, key)) keys)\<rparr>)))
      | Inr False \<Rightarrow>
          (case generate_ed25519 (ke_generated ke) (ke_uuid ke) of
             Inl _ \<Rightarrow> Inl (Unspecified ''captcha: error generating captcha JWT signing key'')
           | Inr signing_key \<Rightarrow>
               and_then (save_jwt_keys crypto ke [signing_key]) (\<lambda>_.
                 Inr \<lparr>cm_signing_key = signing_key, cm_verifying_keys = [(key_id signing_key, signing_key)]\<rparr>)))"

section \<open>Claims survive JSON\<close>

definition i64_range :: "int option \<Rightarrow> bool" where
  "i64_range x \<longleftrightarrow> (case x of None \<Rightarrow> True | Some i \<Rightarrow> - (2 ^ 63) \<le> i \<and> i < 2 ^ 63)"

lemma get_opt_field_str:
  "get_opt_field fs n as_str = Some x" if "map_of fs n = map_option JString x"
  using that by (cases x) (simp_all add: get_opt_field_def)

lemma get_opt_field_i64:
  "get_opt_field fs n as_i64 = Some x" if "map_of fs n = map_option JInt x" "i64_range x"
  using that by (cases x) (simp_all add: get_opt_field_def i64_range_def)

lemma registered_lookup:
  "map_of (registered_fields rc) ''iss'' = map_option JString (rc_iss rc)"
  "map_of (registered_fields rc) ''sub'' = map_option JString (rc_sub rc)"
  "map_of (registered_fields rc) ''aud'' = map_option JString (rc_aud rc)"
  "map_of (registered_fields rc) ''exp'' = map_option JInt (rc_exp rc)"
  "map_of (registered_fields rc) ''nbf'' = map_option JInt (rc_nbf rc)"
  "map_of (registered_fields rc) ''iat'' = map_option JInt (rc_iat rc)"
  "map_of (registered_fields rc) ''jti'' = map_option JString (rc_jti rc)"
  "map_of (registered_fields rc) ''challenge_passed'' = None"
  by (simp_all add: registered_fields_def map_add_def del: case_map_option cong: option.case_cong)

lemma registered_roundtrip:
  assumes "i64_range (rc_exp rc)" and "i64_range (rc_nbf rc)" and "i64_range (rc_iat rc)"
    and "\<forall>n \<in> {''iss'', ''sub'', ''aud'', ''exp'', ''nbf'', ''iat'', ''jti''}. map_of pre n = None"
  shows "registered_of_fields (pre @ registered_fields rc) = Some rc"
proof -
  let ?fs = "pre @ registered_fields rc"
  have *: "map_of ?fs n = map_of (registered_fields rc) n" if "map_of pre n = None" for n
    using that by (simp add: map_add_def split: option.split)
  have "map_of ?fs ''iss'' = map_option JString (rc_iss rc)" "map_of ?fs ''sub'' = map_option JString (rc_sub rc)"
    "map_of ?fs ''aud'' = map_option JString (rc_aud rc)" "map_of ?fs ''exp'' = map_option JInt (rc_exp rc)"
    "map_of ?fs ''nbf'' = map_option JInt (rc_nbf rc)" "map_of ?fs ''iat'' = map_option JInt (rc_iat rc)"
    "map_of ?fs ''jti'' = map_option JString (rc_jti rc)"
    using assms(4) by (subst *, simp, simp only: registered_lookup)+
  then show ?thesis
    using assms(1-3) unfolding registered_of_fields_def
    by (simp only: get_opt_field_str get_opt_field_i64 Option.bind.simps registered_claims.surjective)
      (cases rc, simp)
qed

text \<open>The clock of the library covers about 262,000 years on either side of the epoch.\<close>

definition clock_ok :: "int \<Rightarrow> bool" where
  "clock_ok t \<longleftrightarrow> - 8300000000000000000000 < t \<and> t < 8300000000000000000000"

lemma captcha_claims_range:
  assumes "clock_ok now" and "lifetime \<le> captcha_verified_jwt_expiration"
  shows "i64_range (rc_exp (captcha_registered_claims cid now lifetime jti))"
    and "i64_range (rc_nbf (captcha_registered_claims cid now lifetime jti))"
    and "i64_range (rc_iat (captcha_registered_claims cid now lifetime jti))"
proof -
  have *: "- (2 ^ 63) \<le> timestamp t \<and> timestamp t < 2 ^ 63"
    if "- 8300000000000000000000 < t" "t < 8300086400000000000000" for t
    using timestamp_bounds [of t] that by simp
  have "int lifetime \<le> 86400000000000"
    using assms(2) by (simp add: captcha_verified_jwt_expiration_def from_secs_def)
  then show "i64_range (rc_exp (captcha_registered_claims cid now lifetime jti))"
    "i64_range (rc_nbf (captcha_registered_claims cid now lifetime jti))"
    "i64_range (rc_iat (captcha_registered_claims cid now lifetime jti))"
    using * [of "now + int lifetime"] * [of now] assms(1)
    by (simp_all add: i64_range_def captcha_registered_claims_def clock_ok_def)
qed

lemma verified_claims_roundtrip:
  assumes "i64_range (rc_exp (cv_registered c))" "i64_range (rc_nbf (cv_registered c))" "i64_range (rc_iat (cv_registered c))"
  shows "verified_claims_of_value (verified_claims_to_value c) = Some c"
  using registered_roundtrip [OF assms, of "[(''challenge_passed'', JBool (cv_challenge_passed c))]"]
  by (cases c) (simp add: verified_claims_of_value_def verified_claims_to_value_def get_field_def)

lemma cookie_claims_roundtrip:
  assumes "i64_range (rc_exp (cc_registered c))" "i64_range (rc_nbf (cc_registered c))" "i64_range (rc_iat (cc_registered c))"
  shows "cookie_claims_of_value (cookie_claims_to_value c) = Some c"
proof -
  have "uint (cc_difficulty c) < 256"
    using unsigned_less [of "cc_difficulty c", where ?'a = int] by simp
  then have "as_u8 (JInt (uint (cc_difficulty c))) = Some (cc_difficulty c)" by simp
  then show ?thesis
    using registered_roundtrip [OF assms,
        of "[(''challenge'', JString (cc_challenge c)), (''difficulty'', JInt (uint (cc_difficulty c)))]"]
    by (cases c) (simp add: cookie_claims_of_value_def cookie_claims_to_value_def get_field_def)
qed

text \<open>A challenge has no field \<open>challenge_passed\<close>, so it never reads as a verified claim.\<close>

lemma cookie_claims_not_verified: "verified_claims_of_value (cookie_claims_to_value c) = None"
  by (simp add: verified_claims_of_value_def cookie_claims_to_value_def get_field_def registered_lookup)

section \<open>Tokens made here are accepted here\<close>

definition window :: "int \<Rightarrow> duration \<Rightarrow> int \<Rightarrow> int \<Rightarrow> bool" where
  "window now lifetime now1 now2 \<longleftrightarrow>
     now1 \<le> now + int lifetime + 5000000000 \<and> now \<le> now2 + 5000000000"

lemma captcha_claims_fresh:
  assumes "window now lifetime now1 now2" and "clock_ok now" and "lifetime \<le> captcha_verified_jwt_expiration"
    and "map_of pre ''exp'' = None" "map_of pre ''nbf'' = None" "map_of pre ''aud'' = None" "map_of pre ''iss'' = None"
  shows "claims_fresh jwt_validation_options now1 now2
    (pre @ registered_fields (captcha_registered_claims cid now lifetime jti))"
proof -
  let ?rc = "captcha_registered_claims cid now lifetime jti"
  have m: "map_of (pre @ registered_fields rc) n = map_of (registered_fields rc) n" if "map_of pre n = None" for n rc
    using that by (simp add: map_add_def split: option.split)
  note r = captcha_claims_range [OF assms(2,3), of cid jti]
  have "claim_i64 (pre @ registered_fields ?rc) ''exp'' = rc_exp ?rc" "claim_i64 (pre @ registered_fields ?rc) ''nbf'' = rc_nbf ?rc"
    using r assms(4,5) by (simp_all add: claim_i64_def m registered_lookup captcha_registered_claims_def i64_range_def del: map_of_append)
  moreover have "claim_str (pre @ registered_fields ?rc) ''aud'' = Some captcha_jwt_issuer"
    "claim_str (pre @ registered_fields ?rc) ''iss'' = Some captcha_jwt_issuer"
    using assms(6,7) by (simp_all add: claim_str_def m registered_lookup captcha_registered_claims_def del: map_of_append)
  ultimately show ?thesis
    using assms(1) timestamp_bounds [of "now + int lifetime"] timestamp_bounds [of now]
    by (simp add: claims_fresh_def jwt_validation_options_def window_def from_secs_def captcha_registered_claims_def)
qed

lemma captcha_header_alg [simp]: "hd_alg (captcha_header key) = EdDSA" "hd_kid (captcha_header key) = Some (key_id key)"
  by (simp_all add: captcha_header_def)

lemma validating_captcha [simp]: "validating jwt_validation_options"
  by (simp add: validating_def jwt_validation_options_def)

lemma lifetime_le [simp]:
  "captcha_jwt_expiration \<le> captcha_verified_jwt_expiration"
  by (simp add: captcha_jwt_expiration_def captcha_verified_jwt_expiration_def from_secs_def)

text \<open>The keys of a manager, as \<open>captcha_manager_new\<close> makes them.\<close>

definition good_key :: "('ed, 'ec) captcha_env \<Rightarrow> ('ed, 'ec) key \<Rightarrow> bool" where
  "good_key env k \<longleftrightarrow> key_ok (je_crypto (cpe_jwt env)) k \<and> key_algorithm k = EdDSA"

definition manager_ok :: "('ed, 'ec) captcha_env \<Rightarrow> ('ed, 'ec) captcha_manager \<Rightarrow> bool" where
  "manager_ok env cm \<longleftrightarrow>
     captcha_env_ok env \<and> good_key env (cm_signing_key cm)
     \<and> (\<forall>(i, k) \<in> set (cm_verifying_keys cm). good_key env k \<and> key_id k = i)
     \<and> map_of (cm_verifying_keys cm) (key_id (cm_signing_key cm)) = Some (cm_signing_key cm)"

lemma manager_okD:
  assumes "manager_ok env cm"
  shows "captcha_env_ok env" "jwt_env_ok (cpe_jwt env)" "good_key env (cm_signing_key cm)"
    "map_of (cm_verifying_keys cm) (key_id (cm_signing_key cm)) = Some (cm_signing_key cm)"
    "map_of (cm_verifying_keys cm) i = Some k \<Longrightarrow> good_key env k \<and> key_id k = i"
  using assms by (auto simp: manager_ok_def captcha_env_ok_def dest!: map_of_SomeD)

lemma own_token:
  assumes cm: "manager_ok env cm" and codec: "cd = value_codec (cpe_print env) (je_parse_value (cpe_jwt env)) to_value of_value"
    and signed: "jwt_sign (cpe_jwt env) cd (cm_signing_key cm) (captcha_header (cm_signing_key cm)) c = Some (Inr t)"
    and v: "to_value c = JObject fs" "of_value (JObject fs) = Some c"
    and fresh: "claims_fresh jwt_validation_options now1 now2 fs"
  shows "parse_and_verify (cpe_jwt env) cd (cm_signing_key cm) t jwt_validation_options now1 now2
      = Some (Inr \<lparr>pj_header = captcha_header (cm_signing_key cm), pj_claims = c\<rparr>)"
    and "parse_header (cpe_jwt env) t = Inr (captcha_header (cm_signing_key cm))"
    and "lookup_key cm (captcha_header (cm_signing_key cm)) = Some (cm_signing_key cm)"
proof -
  note m = manager_okD [OF cm]
  have parse: "je_parse_value (cpe_jwt env) (cpe_print env w) = Some w" for w
    using m(1) by (simp add: captcha_env_ok_def)
  have json: "cd_to_string cd c = Inr (cpe_print env (JObject fs))"
    by (simp add: codec value_codec_def v)
  have "claims_of (cpe_jwt env) cd jwt_validation_options now1 now2 (cpe_print env (JObject fs)) c"
    using fresh v(2) by (simp add: claims_of_def parse codec value_codec_def)
  with m(3) show ok: "parse_and_verify (cpe_jwt env) cd (cm_signing_key cm) t jwt_validation_options now1 now2
      = Some (Inr \<lparr>pj_header = captcha_header (cm_signing_key cm), pj_claims = c\<rparr>)"
    by (intro jwt_accepts_signed [OF m(2) _ _ signed json]) (simp_all add: good_key_def)
  show "parse_header (cpe_jwt env) t = Inr (captcha_header (cm_signing_key cm))"
    using accepted_header(1) [OF ok] by simp
  show "lookup_key cm (captcha_header (cm_signing_key cm)) = Some (cm_signing_key cm)"
    using m(4) by (simp add: lookup_key_def or_default_def)
qed

lemma captcha_total:
  assumes "manager_ok env cm"
  shows "lookup_key cm h = Some k \<Longrightarrow> parse_and_verify (cpe_jwt env) cd k t opts now1 now2 \<noteq> None"
    and "jwt_sign (cpe_jwt env) cd (cm_signing_key cm) hdr claims \<noteq> None"
    and "length b = 32 \<Longrightarrow> encode_to_base64_heapless 44 env b \<noteq> None"
    and "\<exists>page. cpe_asset env ''index.html'' = Some page"
proof -
  note m = manager_okD [OF assms]
  show "lookup_key cm h = Some k \<Longrightarrow> parse_and_verify (cpe_jwt env) cd k t opts now1 now2 \<noteq> None"
    using jwt_total(2) m(5) unfolding lookup_key_def good_key_def by blast
  show "jwt_sign (cpe_jwt env) cd (cm_signing_key cm) hdr claims \<noteq> None"
    using m(3) jwt_total(1) by (auto simp: good_key_def)
  have "length (je_b64_encode (cpe_jwt env) b) \<le> (4 * length b + 2) div 3"
    using m(1) by (simp add: captcha_env_ok_def)
  then show "length b = 32 \<Longrightarrow> encode_to_base64_heapless 44 env b \<noteq> None"
    by (simp add: encode_to_base64_heapless_def Let_def)
  show "\<exists>page. cpe_asset env ''index.html'' = Some page"
    using m(1) by (simp add: captcha_env_ok_def)
qed

lemma validate_Inr:
  assumes "validate_captcha_verified_cookie env cm t cid now1 now2 = Some (Inr ())"
  obtains k p where "lookup_key cm (pj_header p) = Some k"
    and "parse_and_verify (cpe_jwt env) (verified_claims_codec env) k t jwt_validation_options now1 now2 = Some (Inr p)"
    and "cv_challenge_passed (pj_claims p)" and "cid = or_default (rc_sub (cv_registered (pj_claims p)))"
proof -
  from assms obtain h k p where *: "parse_header (cpe_jwt env) t = Inr h" "lookup_key cm h = Some k"
    "parse_and_verify (cpe_jwt env) (verified_claims_codec env) k t jwt_validation_options now1 now2 = Some (Inr p)"
    "cv_challenge_passed (pj_claims p)" "cid = or_default (rc_sub (cv_registered (pj_claims p)))"
    by (auto simp: validate_captcha_verified_cookie_def constant_time_compare_def
        split: sum.splits option.splits if_splits)
  with accepted_header(1) [OF *(3)] have "h = pj_header p" by simp
  with * that show thesis by blast
qed

lemma api_verify_200:
  assumes "api_verify env cm req cookies cid now1 now2 now3 jti = Some r" and "res_status r = 200"
  obtains c k p body input where "List.find (\<lambda>c. ck_name c = captcha_cookie_name) cookies = Some c"
    and "lookup_key cm (pj_header p) = Some k"
    and "parse_and_verify (cpe_jwt env) (cookie_claims_codec env) k (ck_value c) jwt_validation_options now1 now2 = Some (Inr p)"
    and "rq_body req = Inr body" and "cpe_parse_verify_body env body = Some input"
    and "cid = or_default (rc_sub (cc_registered (pj_claims p)))" and "proof_of_work_ok env (pj_claims p) input"
    and "issue_verified env cm cid now3 jti = Some r"
proof -
  have "res_status new_internal_error_response_500 \<noteq> 200" by (simp add: fixed_responses)
  with assms obtain c h k p body input
    where *: "List.find (\<lambda>c. ck_name c = captcha_cookie_name) cookies = Some c"
      "parse_header (cpe_jwt env) (ck_value c) = Inr h" "lookup_key cm h = Some k"
      "parse_and_verify (cpe_jwt env) (cookie_claims_codec env) k (ck_value c) jwt_validation_options now1 now2 = Some (Inr p)"
      "rq_body req = Inr body" "cpe_parse_verify_body env body = Some input"
      "cid = or_default (rc_sub (cc_registered (pj_claims p)))" "proof_of_work_ok env (pj_claims p) input"
      "issue_verified env cm cid now3 jti = Some r"
    unfolding api_verify_def constant_time_compare_def
    by (auto split: sum.splits option.splits if_splits)
  with accepted_header(1) [OF *(4)] have "h = pj_header p" by simp
  with * that show thesis by blast
qed

lemma verified_token:
  assumes cm: "manager_ok env cm" and now: "clock_ok now" "window now captcha_verified_jwt_expiration now1 now2"
    and made: "generate_captcha_verified_cookies env (cm_signing_key cm) cid now jti = Some (Inr cs)"
  obtains t where "cs = [new_cookie captcha_verified_cookie_name t (timestamp (now + int captcha_verified_jwt_expiration) - 60),
                         new_cookie captcha_cookie_name '''' 0]"
    and "validate_captcha_verified_cookie env cm t cid' now1 now2
           = Some (if cid' = cid then Inr () else Inl (Unspecified ''JWT is not valid''))"
proof -
  define c where "c = \<lparr>cv_challenge_passed = True,
    cv_registered = captcha_registered_claims cid now captcha_verified_jwt_expiration jti\<rparr>"
  from made obtain t where signed: "jwt_sign (cpe_jwt env) (verified_claims_codec env) (cm_signing_key cm)
        (captcha_header (cm_signing_key cm)) c = Some (Inr t)"
    and cs: "cs = [new_cookie captcha_verified_cookie_name t (timestamp (now + int captcha_verified_jwt_expiration) - 60),
                   new_cookie captcha_cookie_name '''' 0]"
    by (auto simp: generate_captcha_verified_cookies_def c_def Let_def split: option.splits sum.splits)
  let ?fs = "[(''challenge_passed'', JBool True)]
    @ registered_fields (captcha_registered_claims cid now captcha_verified_jwt_expiration jti)"
  have v: "verified_claims_to_value c = JObject ?fs"
    by (simp add: verified_claims_to_value_def c_def)
  note range = captcha_claims_range [OF now(1) order_refl, of cid jti]
  have v': "verified_claims_of_value (JObject ?fs) = Some c"
    unfolding v [symmetric] by (rule verified_claims_roundtrip) (simp_all add: c_def range)
  have fresh: "claims_fresh jwt_validation_options now1 now2 ?fs"
    by (rule captcha_claims_fresh [OF now(2,1) order_refl]) simp_all
  note own = own_token [OF cm verified_claims_codec_def signed v v' fresh]
  have "validate_captcha_verified_cookie env cm t cid' now1 now2
      = Some (if cid' = cid then Inr () else Inl (Unspecified ''JWT is not valid''))"
    by (simp add: validate_captcha_verified_cookie_def own c_def captcha_registered_claims_def or_default_def
        constant_time_compare_def)
  with cs that show thesis by blast
qed

lemma challenge_token:
  assumes cm: "manager_ok env cm" and now: "clock_ok now" "window now captcha_jwt_expiration now1 now2"
    and made: "generate_captcha_cookie env (cm_signing_key cm) cid ch d now jti = Some (Inr ck)"
  obtains claims where "cc_challenge claims = ch" "cc_difficulty claims = d" "rc_sub (cc_registered claims) = Some cid"
    and "ck_name ck = captcha_cookie_name" and "parse_header (cpe_jwt env) (ck_value ck) = Inr (captcha_header (cm_signing_key cm))"
    and "lookup_key cm (captcha_header (cm_signing_key cm)) = Some (cm_signing_key cm)"
    and "parse_and_verify (cpe_jwt env) (cookie_claims_codec env) (cm_signing_key cm) (ck_value ck) jwt_validation_options now1 now2
      = Some (Inr \<lparr>pj_header = captcha_header (cm_signing_key cm), pj_claims = claims\<rparr>)"
proof -
  define c where "c = \<lparr>cc_challenge = ch, cc_difficulty = d,
    cc_registered = captcha_registered_claims cid now captcha_jwt_expiration jti\<rparr>"
  from made obtain t where signed: "jwt_sign (cpe_jwt env) (cookie_claims_codec env) (cm_signing_key cm)
        (captcha_header (cm_signing_key cm)) c = Some (Inr t)"
    and ck: "ck_value ck = t" "ck_name ck = captcha_cookie_name"
    by (auto simp: generate_captcha_cookie_def c_def Let_def new_cookie_def split: option.splits sum.splits)
  let ?fs = "[(''challenge'', JString ch), (''difficulty'', JInt (uint d))]
    @ registered_fields (captcha_registered_claims cid now captcha_jwt_expiration jti)"
  have v: "cookie_claims_to_value c = JObject ?fs"
    by (simp add: cookie_claims_to_value_def c_def)
  note range = captcha_claims_range [OF now(1) lifetime_le, of cid jti]
  have v': "cookie_claims_of_value (JObject ?fs) = Some c"
    unfolding v [symmetric] by (rule cookie_claims_roundtrip) (simp_all add: c_def range)
  have fresh: "claims_fresh jwt_validation_options now1 now2 ?fs"
    by (rule captcha_claims_fresh [OF now(2,1) lifetime_le]) simp_all
  note own = own_token [OF cm cookie_claims_codec_def signed v v' fresh]
  show thesis
    by (rule that [of c]) (simp_all add: own ck c_def captcha_registered_claims_def)
qed

lemma challenge_not_verified:
  assumes cm: "captcha_env_ok env" and made: "generate_captcha_cookie env key cid ch d now jti = Some (Inr ck)"
  shows "validate_captcha_verified_cookie env cm (ck_value ck) cid' now1 now2 \<noteq> Some (Inr ())"
proof
  define c where "c = \<lparr>cc_challenge = ch, cc_difficulty = d,
    cc_registered = captcha_registered_claims cid now captcha_jwt_expiration jti\<rparr>"
  from made have signed: "jwt_sign (cpe_jwt env) (cookie_claims_codec env) key (captcha_header key) c = Some (Inr (ck_value ck))"
    by (auto simp: generate_captcha_cookie_def c_def Let_def new_cookie_def split: option.splits sum.splits)
  have env: "jwt_env_ok (cpe_jwt env)" and parse: "je_parse_value (cpe_jwt env) (cpe_print env w) = Some w" for w
    using cm by (simp_all add: captcha_env_ok_def)
  have json: "cd_to_string (cookie_claims_codec env) c = Inr (cpe_print env (cookie_claims_to_value c))"
    by (simp add: cookie_claims_codec_def value_codec_def)
  assume "validate_captcha_verified_cookie env cm (ck_value ck) cid' now1 now2 = Some (Inr ())"
  then obtain k p where "parse_and_verify (cpe_jwt env) (verified_claims_codec env) k (ck_value ck)
      jwt_validation_options now1 now2 = Some (Inr p)"
    by (rule validate_Inr)
  from signed_claims [OF env signed json this] show False
    using cookie_claims_not_verified [of c]
    by (auto simp: claims_of_def parse verified_claims_codec_def value_codec_def)
qed

end
