(* ===== verification/Captcha_Spec.thy ===== *)
theory Captcha_Spec
  imports Captcha
begin

text \<open>
  What the captcha guarantees: who may skip it, that only solving a challenge gives the proof, that
  an honest client passes, that no request panics, and what the loaded keys satisfy. With a small
  instance of the libraries for concrete inputs.
\<close>

section \<open>A small instance of the libraries\<close>

definition demo_captcha_env :: "(bytes, ec_curve \<times> bytes) captcha_env" where
  "demo_captcha_env =
     \<lparr>cpe_jwt = demo_jwt_env, cpe_print = demo_print,
      cpe_sha256 = \<lambda>b. take 32 (CHR 0x00 # b @ replicate 31 (CHR 0x00)),
      cpe_headers = \<lparr>he_to_str = \<lambda>_. True, he_from_str = \<lambda>_. True\<rparr>,
      cpe_cookie_string = ck_value,
      cpe_parse_verify_body = \<lambda>s. Some \<lparr>cvr_hash = take 32 (CHR 0x00 # s @ replicate 31 (CHR 0x00)), cvr_nonce = ''''\<rparr>,
      cpe_asset = \<lambda>p. if p = ''index.html'' then Some ''page'' else None,
      cpe_mime_from_path = \<lambda>_. ''text/html''\<rparr>"

definition demo_manager :: "(bytes, ec_curve \<times> bytes) captcha_manager" where
  "demo_manager = \<lparr>cm_signing_key = demo_ed_key, cm_verifying_keys = [(''k1'', demo_ed_key)]\<rparr>"

lemma demo_captcha_env_ok: "captcha_env_ok demo_captcha_env"
proof -
  have "min (length b) 31 + (31 - length b) = 31" for b :: bytes by simp
  then show ?thesis
    using demo_jwt_env_ok demo_encode_length
    by (simp add: captcha_env_ok_def demo_captcha_env_def) (simp add: demo_jwt_env_def)
qed

lemma demo_manager_ok: "manager_ok demo_captcha_env demo_manager"
  using demo_captcha_env_ok demo_keys_ok(1)
  by (simp add: manager_ok_def demo_manager_def good_key_def demo_ed_key_def demo_captcha_env_def demo_jwt_env_def)

lemma demo_captcha_header: "captcha_header demo_ed_key = demo_header"
  by (simp add: captcha_header_def demo_ed_key_def demo_header_def)

lemma demo_sign_total:
  assumes "cd_to_string cd c = Inr s"
  shows "\<exists>t. jwt_sign demo_jwt_env cd demo_ed_key demo_header c = Some (Inr t)"
proof -
  have "key_sign demo_crypto demo_ed_key m \<noteq> Some (Inl e)" "key_sign demo_crypto demo_ed_key m \<noteq> None" for m e
    using jwt_signer.sign_total [OF demo_keys_ok(1), of m]
    by (simp_all add: key_sign_bytes_def) (simp add: key_sign_def demo_ed_key_def)
  then have "\<exists>sig. key_sign demo_crypto demo_ed_key m = Some (Inr sig)" for m
    by (metis not_None_eq sumE)
  from this [of "demo_encode (demo_print JNull) @ ''.'' @ demo_encode s"] show ?thesis
    using assms by (auto simp: jwt_sign_def demo_jwt_env_def Let_def)
qed

lemma demo_verified_cookies:
  "\<exists>cs. generate_captcha_verified_cookies demo_captcha_env (cm_signing_key demo_manager) ''me'' 0 ''j'' = Some (Inr cs)"
  using demo_sign_total [of "verified_claims_codec demo_captcha_env"
      "\<lparr>cv_challenge_passed = True, cv_registered = captcha_registered_claims ''me'' 0 captcha_verified_jwt_expiration ''j''\<rparr>"]
  by (auto simp: generate_captcha_verified_cookies_def demo_captcha_env_def demo_manager_def demo_captcha_header
      verified_claims_codec_def value_codec_def Let_def)

lemma demo_challenge_cookie:
  "\<exists>ck. generate_captcha_cookie demo_captcha_env (cm_signing_key demo_manager) ''me'' ''ch'' 1 0 ''j'' = Some (Inr ck)"
  using demo_sign_total [of "cookie_claims_codec demo_captcha_env"
      "\<lparr>cc_challenge = ''ch'', cc_difficulty = 1, cc_registered = captcha_registered_claims ''me'' 0 captcha_jwt_expiration ''j''\<rparr>"]
  by (auto simp: generate_captcha_cookie_def demo_captcha_env_def demo_manager_def demo_captcha_header
      cookie_claims_codec_def value_codec_def Let_def)

lemma demo_clock: "clock_ok 0" "window 0 l 0 0"
  by (simp_all add: clock_ok_def window_def)

section \<open>Properties\<close>

text \<open>C8: a request skips the captcha only with a token one of the manager's keys has signed, picked by
  the token's own key identifier, that says the challenge was passed, is bound to this client,
  made by and for pingoo, valid already and not expired, five seconds of drift allowed.\<close>

theorem verified_cookie_sound:
  assumes "manager_ok env cm"
    and "validate_captcha_verified_cookie env cm t cid now1 now2 = Some (Inr ())"
  shows "\<exists>k p fs. map_of (cm_verifying_keys cm) (key_id k) = Some k \<and> hd_alg (pj_header p) = EdDSA
    \<and> parse_and_verify (cpe_jwt env) (verified_claims_codec env) k t jwt_validation_options now1 now2 = Some (Inr p)
    \<and> cv_challenge_passed (pj_claims p) \<and> or_default (rc_sub (cv_registered (pj_claims p))) = cid
    \<and> verified_claims_of_value (JObject fs) = Some (pj_claims p)
    \<and> claims_fresh jwt_validation_options now1 now2 fs"
  using assms(2)
proof (rule validate_Inr)
  fix k p
  assume k: "lookup_key cm (pj_header p) = Some k"
    and p: "parse_and_verify (cpe_jwt env) (verified_claims_codec env) k t jwt_validation_options now1 now2 = Some (Inr p)"
    and c: "cv_challenge_passed (pj_claims p)" "cid = or_default (rc_sub (cv_registered (pj_claims p)))"
  have good: "good_key env k" "key_id k = or_default (hd_kid (pj_header p))"
    using manager_okD(5) [OF assms(1)] k by (auto simp: lookup_key_def)
  from accepted_header(3) [OF p] obtain fs where fs: "verified_claims_of_value (JObject fs) = Some (pj_claims p)"
    "claims_fresh jwt_validation_options now1 now2 fs"
    by (auto simp: verified_claims_codec_def value_codec_def)
  show ?thesis
    by (rule exI [of _ k], rule exI [of _ p], rule exI [of _ fs])
      (use k p c fs good accepted_header(2) [OF p] in \<open>simp add: lookup_key_def good_key_def\<close>)
qed

text \<open>A solved challenge is remembered for exactly its client: the cookie that is issued is valid
  from five seconds before it was made until five seconds after its 24 hours, for the client it was
  issued to and for no other.\<close>

lemma verified_cookie_accepted:
  assumes "manager_ok env cm" and "clock_ok now" and "window now captcha_verified_jwt_expiration now1 now2"
    and "generate_captcha_verified_cookies env (cm_signing_key cm) cid now jti = Some (Inr cs)"
  shows "\<exists>c removed. cs = [c, removed] \<and> ck_name c = captcha_verified_cookie_name
    \<and> ck_name removed = captcha_cookie_name \<and> ck_expires removed = Some 0
    \<and> ck_expires c = Some (timestamp (now + int captcha_verified_jwt_expiration) - 60)
    \<and> validate_captcha_verified_cookie env cm (ck_value c) cid' now1 now2
        = Some (if cid' = cid then Inr () else Inl (Unspecified ''JWT is not valid''))"
  by (rule verified_token [OF assms, of cid']) (auto simp: new_cookie_def)

lemma verified_cookie_accepted_witness:
  "\<exists>c :: cookie. validate_captcha_verified_cookie demo_captcha_env demo_manager (ck_value c) ''you'' 0 0
     = Some (Inl (Unspecified ''JWT is not valid''))"
proof -
  obtain cs where "generate_captcha_verified_cookies demo_captcha_env (cm_signing_key demo_manager) ''me'' 0 ''j'' = Some (Inr cs)"
    using demo_verified_cookies by blast
  from verified_cookie_accepted [OF demo_manager_ok demo_clock this, of "''you''"] show ?thesis by auto
qed

theorem verified_cookie_sound_witness:
  "\<exists>t k p. parse_and_verify (cpe_jwt demo_captcha_env) (verified_claims_codec demo_captcha_env) k t jwt_validation_options 0 0
     = Some (Inr p) \<and> cv_challenge_passed (pj_claims p)"
proof -
  obtain cs where "generate_captcha_verified_cookies demo_captcha_env (cm_signing_key demo_manager) ''me'' 0 ''j'' = Some (Inr cs)"
    using demo_verified_cookies by blast
  then obtain t where "validate_captcha_verified_cookie demo_captcha_env demo_manager t ''me'' 0 0 = Some (Inr ())"
    by (rule verified_token [OF demo_manager_ok demo_clock, where cid' = "''me''"]) simp
  from verified_cookie_sound [OF demo_manager_ok this] show ?thesis by blast
qed

text \<open>C10: the challenge is not its own proof: the cookie of a challenge, however it is renamed, never
  passes for the cookie of a solved one, for any client, time or set of keys.\<close>

theorem challenge_is_no_proof:
  assumes "captcha_env_ok env" and "generate_captcha_cookie env key cid ch d now jti = Some (Inr ck)"
  shows "validate_captcha_verified_cookie env cm (ck_value ck) cid' now1 now2 \<noteq> Some (Inr ())"
  by (rule challenge_not_verified [OF assms])

theorem challenge_is_no_proof_witness:
  "\<exists>ck :: cookie. validate_captcha_verified_cookie demo_captcha_env demo_manager (ck_value ck) ''me'' 0 0 \<noteq> Some (Inr ())"
proof -
  obtain ck where "generate_captcha_cookie demo_captcha_env (cm_signing_key demo_manager) ''me'' ''ch'' 1 0 ''j'' = Some (Inr ck)"
    using demo_challenge_cookie by blast
  from challenge_is_no_proof [OF demo_captcha_env_ok this] show ?thesis by blast
qed

text \<open>C9: the proof is only issued for work: when the verification answers 200, the request carried a
  challenge a manager's key signed for this very client and that is still fresh, and the hash it
  sent is SHA-256 of challenge and nonce, with at least as many leading zero digits as the
  challenge asks for; the cookies in the answer are those of a solved challenge.\<close>

theorem verification_needs_work:
  assumes "api_verify env cm req cookies cid now1 now2 now3 jti = Some r" and "res_status r = 200"
  shows "\<exists>c k p body input. c \<in> set cookies \<and> ck_name c = captcha_cookie_name
    \<and> lookup_key cm (pj_header p) = Some k
    \<and> parse_and_verify (cpe_jwt env) (cookie_claims_codec env) k (ck_value c) jwt_validation_options now1 now2 = Some (Inr p)
    \<and> or_default (rc_sub (cc_registered (pj_claims p))) = cid
    \<and> rq_body req = Inr body \<and> cpe_parse_verify_body env body = Some input
    \<and> cpe_sha256 env (cc_challenge (pj_claims p) @ cvr_nonce input) = cvr_hash input
    \<and> unat (cc_difficulty (pj_claims p)) \<le> leading_zeroes (cvr_hash input)
    \<and> issue_verified env cm cid now3 jti = Some r"
  using assms
proof (rule api_verify_200)
  fix c k p body input
  assume *: "List.find (\<lambda>c. ck_name c = captcha_cookie_name) cookies = Some c"
    "lookup_key cm (pj_header p) = Some k"
    "parse_and_verify (cpe_jwt env) (cookie_claims_codec env) k (ck_value c) jwt_validation_options now1 now2 = Some (Inr p)"
    "rq_body req = Inr body" "cpe_parse_verify_body env body = Some input"
    "cid = or_default (rc_sub (cc_registered (pj_claims p)))" "proof_of_work_ok env (pj_claims p) input"
    "issue_verified env cm cid now3 jti = Some r"
  have "c \<in> set cookies \<and> ck_name c = captcha_cookie_name"
    using *(1) by (auto simp: find_Some_iff)
  moreover have "cpe_sha256 env (cc_challenge (pj_claims p) @ cvr_nonce input) = cvr_hash input
      \<and> unat (cc_difficulty (pj_claims p)) \<le> leading_zeroes (cvr_hash input)"
    using *(7) by (simp add: proof_of_work_ok_def constant_time_compare_def split: if_splits)
  ultimately show ?thesis using * by blast
qed

section \<open>An honest client passes\<close>

text \<open>
  The documented texts of the libraries: base64 text is visible, and a cookie that \<open>new_cookie\<close>
  makes of visible text is written as visible text.
\<close>

definition cookie_texts_ok :: "('ed, 'ec) captcha_env \<Rightarrow> bool" where
  "cookie_texts_ok env \<longleftrightarrow>
     (\<forall>b. visible (je_b64_encode (cpe_jwt env) b))
     \<and> (\<forall>n v e. visible n \<longrightarrow> visible v \<longrightarrow> visible (cpe_cookie_string env (new_cookie n v e)))"

text \<open>An Ed25519 key signs everything, and its tokens are visible text.\<close>

lemma captcha_signs:
  assumes "manager_ok env cm" and "alg_fits (cm_signing_key cm)" and "cookie_texts_ok env"
    and "cd_to_string (je_header (cpe_jwt env)) header = Inr hj" and "cd_to_string cd c = Inr cj"
  shows "\<exists>t. jwt_sign (cpe_jwt env) cd (cm_signing_key cm) header c = Some (Inr t) \<and> visible t"
proof -
  note good = manager_okD(3) [OF assms(1)]
  obtain curve kp where k: "key_crypto (cm_signing_key cm) = Eddsa curve kp"
    using good assms(2) by (auto simp: good_key_def alg_fits_def split: key_crypto.splits)
  have "key_sign (je_crypto (cpe_jwt env)) (cm_signing_key cm) m \<noteq> None" for m
    using good jwt_signer.sign_total [of "je_crypto (cpe_jwt env)" "cm_signing_key cm" m]
    by (simp add: good_key_def key_sign_bytes_def)
  then have "\<exists>sig. key_sign (je_crypto (cpe_jwt env)) (cm_signing_key cm) m = Some (Inr sig)" for m
    by (fastforce simp: key_sign_def k)
  from this [of "je_b64_encode (cpe_jwt env) hj @ ''.'' @ je_b64_encode (cpe_jwt env) cj"] show ?thesis
    using assms(3) by (auto simp: jwt_sign_def assms(4,5) Let_def cookie_texts_ok_def byte_def)
qed

text \<open>The instants whose expiry a cookie can have as its date: until a day before the year 10000.\<close>

definition cookie_date_ok :: "int \<Rightarrow> bool" where
  "cookie_date_ok now \<longleftrightarrow> 0 \<le> now \<and> now < 253402214400000000000"

lemma cookie_date_clock: "cookie_date_ok now \<Longrightarrow> clock_ok now"
  by (simp add: cookie_date_ok_def clock_ok_def)

text \<open>The verified cookies are issued: with status 200, both of them in the headers.\<close>

lemma verified_issued:
  assumes "manager_ok env cm" and "alg_fits (cm_signing_key cm)" and "cookie_texts_ok env" and "header_env_ok (cpe_headers env)"
    and "cd_to_string (je_header (cpe_jwt env)) (captcha_header (cm_signing_key cm)) = Inr hj"
  shows "\<exists>c removed. generate_captcha_verified_cookies env (cm_signing_key cm) cid now jti = Some (Inr [c, removed])
    \<and> issue_verified env cm cid now jti
        = Some \<lparr>res_status = 200,
            res_headers = api_headers @ [(''set-cookie'', cpe_cookie_string env c), (''set-cookie'', cpe_cookie_string env removed)],
            res_body = Full (cpe_print env (JObject []))\<rparr>"
proof -
  let ?claims = "\<lparr>cv_challenge_passed = True, cv_registered = captcha_registered_claims cid now captcha_verified_jwt_expiration jti\<rparr>"
  have "cd_to_string (verified_claims_codec env) ?claims = Inr (cpe_print env (verified_claims_to_value ?claims))"
    by (simp add: verified_claims_codec_def value_codec_def)
  from captcha_signs [OF assms(1-3,5) this] obtain t where
    t: "jwt_sign (cpe_jwt env) (verified_claims_codec env) (cm_signing_key cm) (captcha_header (cm_signing_key cm)) ?claims = Some (Inr t)"
      "visible t" by blast
  let ?c = "new_cookie captcha_verified_cookie_name t (timestamp (now + int captcha_verified_jwt_expiration) - 60)"
  let ?removed = "new_cookie captcha_cookie_name '''' 0"
  have made: "generate_captcha_verified_cookies env (cm_signing_key cm) cid now jti = Some (Inr [?c, ?removed])"
    by (simp add: generate_captcha_verified_cookies_def Let_def t(1))
  have names: "visible captcha_verified_cookie_name" "visible captcha_cookie_name" by code_simp+
  have "he_from_str (cpe_headers env) (cpe_cookie_string env (new_cookie n v e))" if "visible n" "visible v" for n v e
    using assms(3,4) that by (simp add: cookie_texts_ok_def header_env_ok_def)
  then have "append_cookies env [?c, ?removed] hs
      = Some (hs @ [(''set-cookie'', cpe_cookie_string env ?c), (''set-cookie'', cpe_cookie_string env ?removed)])" for hs
    using t(2) names by (simp add: value_from_str_def header_append_def)
  then show ?thesis using made by (simp add: issue_verified_def)
qed

text \<open>Every loaded or generated manager signs with an Ed25519 key.\<close>

lemma manager_signs_ed25519:
  assumes "crypto_ok c" and "captcha_manager_new c ke = Inr cm"
  shows "alg_fits (cm_signing_key cm)"
proof (cases "ke_exists ke = Inr True")
  case True
  with assms(2) obtain s jwks keys where "ke_parse_jwks ke s = Inr jwks"
    and load: "try_map (load_key c) (jwks_keys jwks) = Inr keys"
    and new: "(case keys of [] \<Rightarrow> Inl (Config ''captcha JWKS file is empty'') | k # _ \<Rightarrow>
        Inr \<lparr>cm_signing_key = k, cm_verifying_keys = collect_map (map (\<lambda>key. (key_id key, key)) keys)\<rparr>) = Inr cm"
    unfolding captcha_manager_new_def
    by (auto simp: and_then_Inr_iff simp del: list.case split: sum.splits bool.splits)
  from new load obtain k ks where keys: "try_map (load_key c) (jwks_keys jwks) = Inr (k # ks)" "cm_signing_key cm = k"
    by (cases keys) auto
  have "load_key c j = Inr key \<Longrightarrow> alg_fits key" for j key
    using key_try_from_Inr(3) [OF assms(1)] by (auto simp: load_key_def and_then_Inr_iff split: sum.splits)
  then show ?thesis using try_map_all [OF keys(1), of alg_fits] keys(2) by simp
next
  case False
  with assms(2) show ?thesis
    unfolding captcha_manager_new_def
    by (auto simp: and_then_Inr_iff generate_ed25519_def alg_fits_def split: sum.splits bool.splits)
qed

text \<open>C28: an honest client passes: within ten minutes, give or take five seconds, of the challenge made
  for it, a request that carries the challenge's cookie and a nonce that solves it is answered with
  status 200 and two cookies; the first is the proof, which validates for this client and no other until
  five seconds after its 24 hours, and the second removes the challenge. The manager signs with an
  Ed25519 key, as every loaded one does (\<open>manager_signs_ed25519\<close>), base64 and cookies made of
  visible text are visible text, which header values can hold, and it is before the year 10000.\<close>

theorem honest_client_passes:
  assumes "manager_ok env cm" and "clock_ok now" and "window now captcha_jwt_expiration now1 now2"
    and "generate_captcha_cookie env (cm_signing_key cm) cid ch d now jti = Some (Inr ck)"
    and "rq_body req = Inr body" and "cpe_parse_verify_body env body = Some input"
    and "cpe_sha256 env (ch @ cvr_nonce input) = cvr_hash input" and "unat d \<le> leading_zeroes (cvr_hash input)"
    and "alg_fits (cm_signing_key cm)" and "cookie_texts_ok env" and "header_env_ok (cpe_headers env)" and "cookie_date_ok now3"
  shows "\<exists>c removed. api_verify env cm req (ck # others) cid now1 now2 now3 jti'
        = Some \<lparr>res_status = 200,
            res_headers = api_headers @ [(''set-cookie'', cpe_cookie_string env c), (''set-cookie'', cpe_cookie_string env removed)],
            res_body = Full (cpe_print env (JObject []))\<rparr>
    \<and> ck_name c = captcha_verified_cookie_name
    \<and> (\<forall>cid' now4 now5. window now3 captcha_verified_jwt_expiration now4 now5 \<longrightarrow>
         validate_captcha_verified_cookie env cm (ck_value c) cid' now4 now5
           = Some (if cid' = cid then Inr () else Inl (Unspecified ''JWT is not valid'')))
    \<and> ck_name removed = captcha_cookie_name \<and> ck_expires removed = Some 0"
proof -
  have api: "api_verify env cm req (ck # others) cid now1 now2 now3 jti' = issue_verified env cm cid now3 jti'"
  proof (rule challenge_token [OF assms(1-4)])
    fix claims
    assume *: "cc_challenge claims = ch" "cc_difficulty claims = d" "rc_sub (cc_registered claims) = Some cid"
      "ck_name ck = captcha_cookie_name" "parse_header (cpe_jwt env) (ck_value ck) = Inr (captcha_header (cm_signing_key cm))"
      "lookup_key cm (captcha_header (cm_signing_key cm)) = Some (cm_signing_key cm)"
      "parse_and_verify (cpe_jwt env) (cookie_claims_codec env) (cm_signing_key cm) (ck_value ck) jwt_validation_options now1 now2
        = Some (Inr \<lparr>pj_header = captcha_header (cm_signing_key cm), pj_claims = claims\<rparr>)"
    have "proof_of_work_ok env claims input"
      using assms(7,8) * by (simp add: proof_of_work_ok_def constant_time_compare_def)
    then show ?thesis
      by (simp add: api_verify_def * assms(5,6) constant_time_compare_def or_default_def)
  qed
  obtain hj where "cd_to_string (je_header (cpe_jwt env)) (captcha_header (cm_signing_key cm)) = Inr hj"
    using assms(4) by (auto simp: generate_captcha_cookie_def jwt_sign_def Let_def split: sum.splits option.splits)
  from verified_issued [OF assms(1,9-11) this] obtain c removed where
    made: "generate_captcha_verified_cookies env (cm_signing_key cm) cid now3 jti' = Some (Inr [c, removed])"
    and issued: "issue_verified env cm cid now3 jti' = Some \<lparr>res_status = 200,
        res_headers = api_headers @ [(''set-cookie'', cpe_cookie_string env c), (''set-cookie'', cpe_cookie_string env removed)],
        res_body = Full (cpe_print env (JObject []))\<rparr>"
    by blast
  have "window now3 captcha_verified_jwt_expiration now3 now3" by (simp add: window_def)
  from verified_cookie_accepted [OF assms(1) cookie_date_clock [OF assms(12)] this made]
  have names: "ck_name c = captcha_verified_cookie_name" "ck_name removed = captcha_cookie_name" "ck_expires removed = Some 0"
    by auto
  have "validate_captcha_verified_cookie env cm (ck_value c) cid' now4 now5
      = Some (if cid' = cid then Inr () else Inl (Unspecified ''JWT is not valid''))"
    if "window now3 captcha_verified_jwt_expiration now4 now5" for cid' now4 now5
    using verified_cookie_accepted [OF assms(1) cookie_date_clock [OF assms(12)] that made, of cid'] by auto
  with api issued names show ?thesis by (intro exI [of _ c] exI [of _ removed]) simp
qed

definition demo_request :: "string \<Rightarrow> request" where
  "demo_request body =
     \<lparr>rq_method = ''POST'', rq_uri_host = None, rq_path = ''/__pingoo/captcha/api/verify'',
      rq_path_and_query = None, rq_uri = '''', rq_version = HTTP_11, rq_headers = [], rq_body = Inr body, rq_context = None\<rparr>"

lemma char_of_48: "char_of (48 :: nat) = CHR ''0''"
  by code_simp

lemma demo_work:
  "rq_body (demo_request ''ch'') = Inr ''ch''"
  "cpe_parse_verify_body demo_captcha_env ''ch''
     = Some \<lparr>cvr_hash = take 32 (CHR 0x00 # ''ch'' @ replicate 31 (CHR 0x00)), cvr_nonce = ''''\<rparr>"
  "cpe_sha256 demo_captcha_env (''ch'' @ cvr_nonce \<lparr>cvr_hash = take 32 (CHR 0x00 # ''ch'' @ replicate 31 (CHR 0x00)), cvr_nonce = ''''\<rparr>)
     = cvr_hash \<lparr>cvr_hash = take 32 (CHR 0x00 # ''ch'' @ replicate 31 (CHR 0x00)), cvr_nonce = ''''\<rparr>"
  "unat (1 :: u8) \<le> leading_zeroes (cvr_hash \<lparr>cvr_hash = take 32 (CHR 0x00 # ''ch'' @ replicate 31 (CHR 0x00)), cvr_nonce = ''''\<rparr>)"
  by (simp_all add: demo_request_def demo_captcha_env_def leading_zeroes_def hex_char_def byte_def char_of_48)

lemma demo_cookie_texts: "cookie_texts_ok demo_captcha_env" "header_env_ok (cpe_headers demo_captcha_env)"
proof -
  have "visible (demo_encode b)" for b
    using demo_encode_digits [of b] by (fastforce simp: visible_def demo_digits_def)
  then show "cookie_texts_ok demo_captcha_env" "header_env_ok (cpe_headers demo_captcha_env)"
    by (simp_all add: cookie_texts_ok_def header_env_ok_def demo_captcha_env_def demo_jwt_env_def new_cookie_def)
qed

theorem honest_client_passes_witness:
  "\<exists>(ck :: cookie) (c :: cookie) r. api_verify demo_captcha_env demo_manager (demo_request ''ch'') [ck] ''me'' 0 0 0 ''j'' = Some r
     \<and> res_status r = 200 \<and> header_get (res_headers r) ''set-cookie'' = Some (ck_value c)
     \<and> ck_name c = captcha_verified_cookie_name
     \<and> validate_captcha_verified_cookie demo_captcha_env demo_manager (ck_value c) ''me'' 0 0 = Some (Inr ())"
proof -
  obtain ck where ck: "generate_captcha_cookie demo_captcha_env (cm_signing_key demo_manager) ''me'' ''ch'' 1 0 ''j'' = Some (Inr ck)"
    using demo_challenge_cookie by blast
  have date: "cookie_date_ok 0" by (simp add: cookie_date_ok_def)
  have "alg_fits (cm_signing_key demo_manager)" by (simp add: demo_manager_def demo_ed_key_def alg_fits_def)
  from honest_client_passes [OF demo_manager_ok demo_clock ck demo_work this demo_cookie_texts date, of "[]" "''j''"]
  obtain c removed where api: "api_verify demo_captcha_env demo_manager (demo_request ''ch'') [ck] ''me'' 0 0 0 ''j''
        = Some \<lparr>res_status = 200,
            res_headers = api_headers @ [(''set-cookie'', cpe_cookie_string demo_captcha_env c),
              (''set-cookie'', cpe_cookie_string demo_captcha_env removed)],
            res_body = Full (cpe_print demo_captcha_env (JObject []))\<rparr>"
    and c: "ck_name c = captcha_verified_cookie_name"
    and valid: "\<forall>cid' now4 now5. window 0 captcha_verified_jwt_expiration now4 now5 \<longrightarrow>
         validate_captcha_verified_cookie demo_captcha_env demo_manager (ck_value c) cid' now4 now5
           = Some (if cid' = ''me'' then Inr () else Inl (Unspecified ''JWT is not valid''))"
    by blast
  from api obtain r where r: "api_verify demo_captcha_env demo_manager (demo_request ''ch'') [ck] ''me'' 0 0 0 ''j'' = Some r"
    "res_status r = 200" "res_headers r = api_headers @ [(''set-cookie'', cpe_cookie_string demo_captcha_env c),
              (''set-cookie'', cpe_cookie_string demo_captcha_env removed)]"
    by simp
  have "cpe_cookie_string demo_captcha_env c = ck_value c" by (simp add: demo_captcha_env_def)
  then have "header_get (res_headers r) ''set-cookie'' = Some (ck_value c)" by (simp add: r(3) header_get_def api_headers_def)
  moreover have "validate_captcha_verified_cookie demo_captcha_env demo_manager (ck_value c) ''me'' 0 0 = Some (Inr ())"
    using valid demo_clock(2) by presburger
  ultimately show ?thesis using r(1,2) c by blast
qed

lemma demo_issued:
  "\<exists>r. issue_verified demo_captcha_env demo_manager ''me'' 0 ''j'' = Some r \<and> res_status r = 200"
proof -
  obtain cs where cs: "generate_captcha_verified_cookies demo_captcha_env (cm_signing_key demo_manager) ''me'' 0 ''j'' = Some (Inr cs)"
    using demo_verified_cookies by blast
  have "\<exists>hs'. append_cookies demo_captcha_env cs hs = Some hs'" for hs
    by (induction cs arbitrary: hs) (auto simp: value_from_str_def demo_captcha_env_def)
  then obtain hs' where "append_cookies demo_captcha_env cs api_headers = Some hs'" by blast
  then show ?thesis by (simp add: issue_verified_def cs)
qed

theorem verification_needs_work_witness:
  "\<exists>(c :: cookie) k p (input :: captcha_verify_request_body).
     parse_and_verify (cpe_jwt demo_captcha_env) (cookie_claims_codec demo_captcha_env) k (ck_value c)
       jwt_validation_options 0 0 = Some (Inr p)
     \<and> cpe_sha256 demo_captcha_env (cc_challenge (pj_claims p) @ cvr_nonce input) = cvr_hash input"
proof -
  obtain r where r: "issue_verified demo_captcha_env demo_manager ''me'' 0 ''j'' = Some r" "res_status r = 200"
    using demo_issued by blast
  obtain ck where ck: "generate_captcha_cookie demo_captcha_env (cm_signing_key demo_manager) ''me'' ''ch'' 1 0 ''j'' = Some (Inr ck)"
    using demo_challenge_cookie by blast
  then have "api_verify demo_captcha_env demo_manager (demo_request ''ch'') [ck] ''me'' 0 0 0 ''j'' = Some r"
  proof (rule challenge_token [OF demo_manager_ok demo_clock])
    fix claims
    assume *: "cc_challenge claims = ''ch''" "cc_difficulty claims = 1" "rc_sub (cc_registered claims) = Some ''me''"
      "ck_name ck = captcha_cookie_name" "parse_header (cpe_jwt demo_captcha_env) (ck_value ck) = Inr (captcha_header (cm_signing_key demo_manager))"
      "lookup_key demo_manager (captcha_header (cm_signing_key demo_manager)) = Some (cm_signing_key demo_manager)"
      "parse_and_verify (cpe_jwt demo_captcha_env) (cookie_claims_codec demo_captcha_env) (cm_signing_key demo_manager) (ck_value ck) jwt_validation_options 0 0
        = Some (Inr \<lparr>pj_header = captcha_header (cm_signing_key demo_manager), pj_claims = claims\<rparr>)"
    have "proof_of_work_ok demo_captcha_env claims \<lparr>cvr_hash = take 32 (CHR 0x00 # ''ch'' @ replicate 31 (CHR 0x00)), cvr_nonce = ''''\<rparr>"
      using demo_work(3,4) * by (simp add: proof_of_work_ok_def constant_time_compare_def)
    then show ?thesis
      by (simp add: api_verify_def * demo_work(1,2) constant_time_compare_def or_default_def r)
  qed
  from verification_needs_work [OF this r(2)] show ?thesis by blast
qed

text \<open>No captcha request panics: with the keys of a manager, every path, cookie, body and client is
  answered, and so is the captcha page itself.\<close>

lemma captcha_never_panics:
  assumes "manager_ok env cm" and "length challenge_raw = 32"
  shows "serve_captcha_request env cm req cookies cid challenge_raw now1 now2 now3 jti \<noteq> None
    \<and> serve_captcha env \<noteq> None \<and> validate_captcha_verified_cookie env cm t cid now1 now2 \<noteq> None
    \<and> generate_captcha_client_id env ip ua host \<noteq> None"
proof -
  note total = captcha_total [OF assms(1)]
  have "generate_captcha_cookie env (cm_signing_key cm) cid ch d now3 jti \<noteq> None" for ch d
    using total(2) [of "cookie_claims_codec env"]
    by (auto simp: generate_captcha_cookie_def Let_def split: option.split sum.split)
  then have gen: "generate_captcha_cookie env (cm_signing_key cm) cid ch d now3 jti = None \<longleftrightarrow> False" for ch d
    by simp
  obtain ch where "encode_to_base64_heapless 44 env challenge_raw = Some ch"
    using total(3) [OF assms(2)] by blast
  then have init: "api_init env cm cid challenge_raw now3 jti \<noteq> None"
    using gen [of ch proof_of_work_difficulty]
    by (cases "generate_captcha_cookie env (cm_signing_key cm) cid ch proof_of_work_difficulty now3 jti")
      (auto simp: api_init_def Let_def split: option.split sum.split)
  have "generate_captcha_verified_cookies env (cm_signing_key cm) cid now3 jti \<noteq> None"
    using total(2) [of "verified_claims_codec env"]
    by (auto simp: generate_captcha_verified_cookies_def Let_def split: option.split sum.split)
  then have issue: "issue_verified env cm cid now3 jti \<noteq> None"
    by (auto simp: issue_verified_def split: option.split sum.split)
  have verify: "api_verify env cm req cookies cid now1 now2 now3 jti \<noteq> None"
    unfolding api_verify_def using issue total(1) [where cd = "cookie_claims_codec env"]
    by (simp split: option.split sum.split) (metis not_None_eq)
  have "serve_captcha_request env cm req cookies cid challenge_raw now1 now2 now3 jti \<noteq> None"
    using init verify by (simp add: serve_captcha_request_def Let_def)
  moreover have "serve_captcha env \<noteq> None"
    using total(4) by (auto simp: serve_captcha_def)
  moreover have "validate_captcha_verified_cookie env cm t cid now1 now2 \<noteq> None"
    unfolding validate_captcha_verified_cookie_def using total(1) [where cd = "verified_claims_codec env"]
    by (simp split: option.split sum.split) (metis not_None_eq)
  moreover have "generate_captcha_client_id env ip ua host \<noteq> None"
    using total(3) manager_okD(1) [OF assms(1)]
    by (simp add: generate_captcha_client_id_def captcha_env_ok_def)
  ultimately show ?thesis by blast
qed

lemma captcha_demo_answers:
  "serve_captcha_request demo_captcha_env demo_manager (demo_request ''ch'') [] ''me'' (replicate 32 CHR ''a'') 0 0 0 ''j'' \<noteq> None"
proof -
  have "length (replicate 32 CHR ''a'') = 32" by simp
  from captcha_never_panics [OF demo_manager_ok this] show ?thesis by blast
qed

text \<open>The keys that load: each is an Ed25519 key with its own private part and algorithm; with
  distinct identifiers in the file the manager can verify what it signs. A generated key too.\<close>

lemma manager_keys_good:
  assumes "captcha_env_ok env" and "captcha_manager_new (je_crypto (cpe_jwt env)) ke = Inr cm"
    and "\<forall>s jwks. ke_parse_jwks ke s = Inr jwks \<longrightarrow> distinct (map jwk_kid (jwks_keys jwks))"
  shows "manager_ok env cm"
proof -
  let ?c = "je_crypto (cpe_jwt env)"
  have crypto: "crypto_ok ?c" using assms(1) by (simp add: captcha_env_ok_def jwt_env_ok_def)
  show ?thesis
  proof (cases "ke_exists ke = Inr True")
    case True
    with assms(2) obtain s jwks keys where s: "ke_parse_jwks ke s = Inr jwks"
      and keys: "try_map (load_key ?c) (jwks_keys jwks) = Inr keys"
      and new: "(case keys of [] \<Rightarrow> Inl (Config ''captcha JWKS file is empty'') | k # _ \<Rightarrow>
          Inr \<lparr>cm_signing_key = k, cm_verifying_keys = collect_map (map (\<lambda>key. (key_id key, key)) keys)\<rparr>) = Inr cm"
      unfolding captcha_manager_new_def
      by (auto simp: and_then_Inr_iff simp del: list.case split: sum.splits bool.splits)
    then obtain k ks where load: "try_map (load_key ?c) (jwks_keys jwks) = Inr (k # ks)"
      and cm: "cm = \<lparr>cm_signing_key = k, cm_verifying_keys = collect_map (map (\<lambda>key. (key_id key, key)) (k # ks))\<rparr>"
      by (cases keys) auto
    have one: "load_key ?c j = Inr key \<Longrightarrow> good_key env key \<and> key_id key = jwk_kid j" for j key
    proof -
      assume "load_key ?c j = Inr key"
      then have j: "validate_jwk j = Inr ()" "key_try_from ?c j = Inr key"
        by (auto simp: load_key_def and_then_Inr_iff split: sum.splits)
      then have "jwk_algorithm j = EdDSA" by (simp add: validate_jwk_def split: if_splits)
      with key_try_from_Inr [OF crypto j(2)] show ?thesis by (simp add: good_key_def)
    qed
    have all: "list_all2 (\<lambda>j key. load_key ?c j = Inr key) (jwks_keys jwks) (k # ks)"
      using load by (simp add: try_map_Inr_iff)
    then have "map key_id (k # ks) = map jwk_kid (jwks_keys jwks)"
      by (induction rule: list_all2_induct) (auto dest: one)
    then have dist: "distinct (map fst (map (\<lambda>key. (key_id key, key)) (k # ks)))"
      using assms(3) s by (simp add: o_def)
    have good: "\<forall>key \<in> set (k # ks). good_key env key"
      using try_map_all [OF load, of "good_key env"] one by blast
    have "set (collect_map (map (\<lambda>key. (key_id key, key)) (k # ks))) \<subseteq> set (map (\<lambda>key. (key_id key, key)) (k # ks))"
      by (rule collect_map_subset)
    then have "\<forall>(i, key) \<in> set (cm_verifying_keys cm). good_key env key \<and> key_id key = i"
      using good by (auto simp: cm)
    moreover have "map_of (cm_verifying_keys cm) (key_id (cm_signing_key cm)) = Some (cm_signing_key cm)"
      using map_of_collect_map_distinct [OF dist] by (simp add: cm)
    ultimately show ?thesis
      using assms(1) good by (simp add: manager_ok_def cm)
  next
    case False
    with assms(2) obtain kp where "cm = \<lparr>cm_signing_key = \<lparr>key_id = ke_uuid ke, key_algorithm = EdDSA, key_crypto = Eddsa Ed25519 kp\<rparr>,
        cm_verifying_keys = [(ke_uuid ke, \<lparr>key_id = ke_uuid ke, key_algorithm = EdDSA, key_crypto = Eddsa Ed25519 kp\<rparr>)]\<rparr>"
      unfolding captcha_manager_new_def
      by (auto simp: and_then_Inr_iff generate_ed25519_def split: sum.splits bool.splits)
    with crypto assms(1) show ?thesis by (simp add: manager_ok_def good_key_def key_ok_def)
  qed
qed

definition demo_keys_env :: "bytes keys_env" where
  "demo_keys_env =
     \<lparr>ke_exists = Inr True, ke_read = Inr ''jwks'',
      ke_parse_jwks = \<lambda>_. Inr \<lparr>jwks_keys = [jwk_from demo_crypto demo_ed_key]\<rparr>,
      ke_uuid = ''u'', ke_generated = Inr ''seed'', ke_print_jwks = \<lambda>_. Inr '''', ke_write = \<lambda>_. Inr ()\<rparr>"

lemma manager_keys_good_witness:
  "\<exists>cm. captcha_manager_new demo_crypto demo_keys_env = Inr cm \<and> manager_ok demo_captcha_env cm"
proof -
  have "trim ''k1'' \<noteq> []" by code_simp
  then have "load_key demo_crypto (jwk_from demo_crypto demo_ed_key) = Inr demo_ed_key"
    by (simp add: load_key_def validate_jwk_def key_try_from_def jwk_from_def demo_ed_key_def demo_crypto_def Let_def)
  then have "\<exists>cm. captcha_manager_new demo_crypto demo_keys_env = Inr cm"
    by (simp add: captcha_manager_new_def demo_keys_env_def)
  then obtain cm where cm: "captcha_manager_new (je_crypto (cpe_jwt demo_captcha_env)) demo_keys_env = Inr cm"
    by (auto simp: demo_captcha_env_def demo_jwt_env_def)
  have "\<forall>s jwks. ke_parse_jwks demo_keys_env s = Inr jwks \<longrightarrow> distinct (map jwk_kid (jwks_keys jwks))"
    by (simp add: demo_keys_env_def)
  from manager_keys_good [OF demo_captcha_env_ok cm this] cm show ?thesis
    by (auto simp: demo_captcha_env_def demo_jwt_env_def)
qed

text \<open>The identifier of a client does not separate its parts: moving the end of the user agent to the
  front of the host gives the same identifier, so one proof serves several pairs of user agent and
  host; and it always ends with a NUL byte when base64 needs 43 characters for a hash.\<close>

lemma client_id_ambiguous:
  "generate_captcha_client_id env ip (ua @ x) host = generate_captcha_client_id env ip ua (x @ host)
   \<and> (length (je_b64_encode (cpe_jwt env) (cpe_sha256 env (octets ip @ ua @ host))) = 43 \<longrightarrow>
        (\<exists>s. generate_captcha_client_id env ip ua host = Some (s @ [CHR 0x00])))"
  by (simp add: generate_captcha_client_id_def encode_to_base64_heapless_def Let_def)

lemma client_id_ambiguous_witness:
  "\<exists>s. generate_captcha_client_id demo_captcha_env ipv4_localhost ''curl'' ''a.com'' = Some (s @ [CHR 0x00])"
proof -
  have "length (je_b64_encode (cpe_jwt demo_captcha_env)
      (cpe_sha256 demo_captcha_env (octets ipv4_localhost @ ''curl'' @ ''a.com''))) = 43"
    unfolding demo_captcha_env_def demo_jwt_env_def captcha_env.simps jwt_env.simps by code_simp
  with client_id_ambiguous [of demo_captcha_env ipv4_localhost "''curl''" "''''" "''a.com''"] show ?thesis
    by blast
qed

end
