(* ===== verification/Jwk_Json.thy ===== *)
theory Jwk_Json
  imports Jwt_Key Json
begin

text \<open>
  The JSON form of JSON Web Keys: the serde attributes of \<^verbatim>\<open>jwt/jwk.rs\<close> and
  \<^verbatim>\<open>jwt/jwt.rs\<close> and the adapters of \<^verbatim>\<open>jwt/base64_utils.rs\<close>. \<open>enc\<close>
  and \<open>dec\<close> are the base64 library's URL-safe encoding without padding. Objects have distinct
  keys; variants are their names (serde's other forms of a variant, its index or an object of one
  field, are left out).
\<close>

section \<open>Base64 in JSON\<close>

definition b64_serialize :: "(bytes \<Rightarrow> string) \<Rightarrow> bytes \<Rightarrow> json" where
  "b64_serialize enc b = JString (enc b)"

definition b64_deserialize :: "(string \<Rightarrow> bytes option) \<Rightarrow> json \<Rightarrow> bytes option" where
  "b64_deserialize dec v = Option.bind (as_str v) dec"

definition b64_serialize_option :: "(bytes \<Rightarrow> string) \<Rightarrow> bytes option \<Rightarrow> json" where
  "b64_serialize_option enc x = (case x of Some b \<Rightarrow> b64_serialize enc b | None \<Rightarrow> JNull)"

definition b64_deserialize_option :: "(string \<Rightarrow> bytes option) \<Rightarrow> json \<Rightarrow> bytes option option" where
  "b64_deserialize_option dec v =
     (case v of
        JNull \<Rightarrow> Some None
      | _ \<Rightarrow> map_option Some (b64_deserialize dec v))"

lemma b64_roundtrip:
  assumes "\<And>b. dec (enc b) = Some b"
  shows "b64_deserialize dec (b64_serialize enc b) = Some b"
    and "b64_deserialize_option dec (b64_serialize_option enc x) = Some x"
  using assms
  by (simp_all add: b64_deserialize_def b64_serialize_def b64_deserialize_option_def b64_serialize_option_def
      split: option.split)

section \<open>Names of variants\<close>

fun algorithm_name :: "algorithm \<Rightarrow> string" where
  "algorithm_name HS512 = ''HS512''"
| "algorithm_name EdDSA = ''EdDSA''"
| "algorithm_name ES256 = ''ES256''"
| "algorithm_name ES512 = ''ES512''"

fun key_use_name :: "key_use \<Rightarrow> string" where
  "key_use_name Sign = ''sig''"
| "key_use_name Encrypt = ''enc''"

fun okp_curve_name :: "okp_curve \<Rightarrow> string" where
  "okp_curve_name Ed25519 = ''Ed25519''"

fun ec_curve_name :: "ec_curve \<Rightarrow> string" where
  "ec_curve_name P256 = ''P-256''"
| "ec_curve_name P521 = ''P-521''"

text \<open>A variant is read by its name.\<close>

definition variant_of :: "('a \<Rightarrow> string) \<Rightarrow> 'a list \<Rightarrow> json \<Rightarrow> 'a option" where
  "variant_of name variants v = Option.bind (as_str v) (map_of (map (\<lambda>x. (name x, x)) variants))"

definition algorithm_of_value :: "json \<Rightarrow> algorithm option" where
  "algorithm_of_value = variant_of algorithm_name [HS512, EdDSA, ES256, ES512]"

definition key_use_of_value :: "json \<Rightarrow> key_use option" where
  "key_use_of_value = variant_of key_use_name [Sign, Encrypt]"

definition okp_curve_of_value :: "json \<Rightarrow> okp_curve option" where
  "okp_curve_of_value = variant_of okp_curve_name [Ed25519]"

definition ec_curve_of_value :: "json \<Rightarrow> ec_curve option" where
  "ec_curve_of_value = variant_of ec_curve_name [P256, P521]"

lemma variant_roundtrip [simp]:
  "algorithm_of_value (JString (algorithm_name a)) = Some a"
  "key_use_of_value (JString (key_use_name u)) = Some u"
  "okp_curve_of_value (JString (okp_curve_name c)) = Some c"
  "ec_curve_of_value (JString (ec_curve_name e)) = Some e"
  by (cases a; cases u; cases c; cases e;
      simp add: algorithm_of_value_def key_use_of_value_def okp_curve_of_value_def ec_curve_of_value_def variant_of_def)+

section \<open>Keys\<close>

text \<open>
  The enumeration of kinds is tagged by \<open>kty\<close> inside the object of the key. An optional private
  part is written as null when it is missing, but the field must be there to be read.
\<close>

definition jwk_crypto_fields :: "(bytes \<Rightarrow> string) \<Rightarrow> jwk_crypto \<Rightarrow> (string \<times> json) list" where
  "jwk_crypto_fields enc c =
     (case c of
        Okp curve x d \<Rightarrow>
          [(''kty'', JString ''OKP''), (''crv'', JString (okp_curve_name curve)), (''x'', b64_serialize enc x),
           (''d'', b64_serialize_option enc d)]
      | Ec curve x y d \<Rightarrow>
          [(''kty'', JString ''EC''), (''crv'', JString (ec_curve_name curve)), (''x'', b64_serialize enc x),
           (''y'', b64_serialize enc y), (''d'', b64_serialize_option enc d)]
      | Oct k \<Rightarrow> [(''kty'', JString ''oct''), (''key'', b64_serialize enc k)])"

definition jwk_crypto_of_fields :: "(string \<Rightarrow> bytes option) \<Rightarrow> (string \<times> json) list \<Rightarrow> jwk_crypto option" where
  "jwk_crypto_of_fields dec fs =
     (case get_field fs ''kty'' as_str of
        None \<Rightarrow> None
      | Some kty \<Rightarrow>
          if kty = ''OKP'' then
            Option.bind (get_field fs ''crv'' okp_curve_of_value) (\<lambda>curve.
              Option.bind (get_field fs ''x'' (b64_deserialize dec)) (\<lambda>x.
                map_option (Okp curve x) (get_field fs ''d'' (b64_deserialize_option dec))))
          else if kty = ''EC'' then
            Option.bind (get_field fs ''crv'' ec_curve_of_value) (\<lambda>curve.
              Option.bind (get_field fs ''x'' (b64_deserialize dec)) (\<lambda>x.
                Option.bind (get_field fs ''y'' (b64_deserialize dec)) (\<lambda>y.
                  map_option (Ec curve x y) (get_field fs ''d'' (b64_deserialize_option dec)))))
          else if kty = ''oct'' then map_option Oct (get_field fs ''key'' (b64_deserialize dec))
          else None)"

definition jwk_to_value :: "(bytes \<Rightarrow> string) \<Rightarrow> jwk \<Rightarrow> json" where
  "jwk_to_value enc j =
     JObject ([(''kid'', JString (jwk_kid j)), (''use'', JString (key_use_name (jwk_use j))),
               (''alg'', JString (algorithm_name (jwk_algorithm j)))] @ jwk_crypto_fields enc (jwk_crypto j))"

definition jwk_of_value :: "(string \<Rightarrow> bytes option) \<Rightarrow> json \<Rightarrow> jwk option" where
  "jwk_of_value dec v =
     Option.bind (as_object v) (\<lambda>fs.
       Option.bind (get_field fs ''kid'' as_str) (\<lambda>kid.
         Option.bind (get_field fs ''use'' key_use_of_value) (\<lambda>use.
           Option.bind (get_field fs ''alg'' algorithm_of_value) (\<lambda>alg.
             map_option (\<lambda>crypto. \<lparr>jwk_kid = kid, jwk_use = use, jwk_algorithm = alg, jwk_crypto = crypto\<rparr>)
               (jwk_crypto_of_fields dec fs)))))"

definition jwks_to_value :: "(bytes \<Rightarrow> string) \<Rightarrow> jwks \<Rightarrow> json" where
  "jwks_to_value enc ks = JObject [(''keys'', JArray (map (jwk_to_value enc) (jwks_keys ks)))]"

definition jwks_of_value :: "(string \<Rightarrow> bytes option) \<Rightarrow> json \<Rightarrow> jwks option" where
  "jwks_of_value dec v =
     Option.bind (as_object v) (\<lambda>fs.
       map_option (\<lambda>keys. \<lparr>jwks_keys = keys\<rparr>) (get_field fs ''keys'' (array_of (jwk_of_value dec))))"

section \<open>Round trips\<close>

lemma jwk_crypto_roundtrip:
  assumes "\<And>b. dec (enc b) = Some b"
    and "\<And>n v. map_of (jwk_crypto_fields enc c) n = Some v \<Longrightarrow> map_of fs n = Some v"
  shows "jwk_crypto_of_fields dec fs = Some c"
  using assms(2) b64_roundtrip [of dec enc, OF assms(1)]
  by (cases c) (auto simp: jwk_crypto_fields_def jwk_crypto_of_fields_def get_field_def)

lemma jwk_value_roundtrip:
  assumes "\<And>b. dec (enc b) = Some b"
  shows "jwk_of_value dec (jwk_to_value enc j) = Some j"
proof -
  have "jwk_crypto_of_fields dec ([(''kid'', JString (jwk_kid j)), (''use'', JString (key_use_name (jwk_use j))),
               (''alg'', JString (algorithm_name (jwk_algorithm j)))] @ jwk_crypto_fields enc (jwk_crypto j))
      = Some (jwk_crypto j)"
    by (rule jwk_crypto_roundtrip [where enc = enc, OF assms])
      (auto simp: jwk_crypto_fields_def split: jwk_crypto.splits if_splits)
  then show ?thesis by (simp add: jwk_of_value_def jwk_to_value_def get_field_def)
qed

lemma jwks_value_roundtrip:
  assumes "\<And>b. dec (enc b) = Some b"
  shows "jwks_of_value dec (jwks_to_value enc ks) = Some ks"
  by (simp add: jwks_of_value_def jwks_to_value_def get_field_def array_of_map jwk_value_roundtrip [where enc = enc, OF assms] del: array_of.simps)

section \<open>What is refused\<close>

text \<open>
  A public key as RFC 8037 writes it, without \<open>d\<close>, is not read, although the private part is
  optional; nor is a symmetric key as RFC 7518 writes it, under \<open>k\<close>.
\<close>

lemma public_jwk_refused: "map_of fs ''kty'' \<noteq> Some (JString ''oct'') \<Longrightarrow> map_of fs ''d'' = None \<Longrightarrow> jwk_of_value dec (JObject fs) = None"
  by (cases "map_of fs ''kty''")
    (auto simp: jwk_of_value_def jwk_crypto_of_fields_def get_field_def bind_eq_None_conv as_str_Some split: option.split)

lemma rfc_oct_refused:
  "map_of fs ''kty'' = Some (JString ''oct'') \<Longrightarrow> map_of fs ''key'' = None \<Longrightarrow> jwk_of_value dec (JObject fs) = None"
  by (auto simp: jwk_of_value_def jwk_crypto_of_fields_def get_field_def bind_eq_None_conv)

end
