(* ===== verification/Captcha_Keys.thy ===== *)
theory Captcha_Keys
  imports Captcha_Spec Jwk_Json
begin

text \<open>
  The keys of the captcha across starts of the program: \<open>CaptchaManager::new\<close> and
  \<open>save_jwt_keys\<close> of \<^verbatim>\<open>pingoo/captcha.rs\<close> over the JSON form of the keys.
\<close>

text \<open>
  The JSON library as the code uses it on key files: text is printed and parsed as values, and a
  file is the text of its value.
\<close>

definition keys_json :: "(json \<Rightarrow> string) \<Rightarrow> (string \<Rightarrow> json option) \<Rightarrow> (bytes \<Rightarrow> string) \<Rightarrow> (string \<Rightarrow> bytes option) \<Rightarrow> 'ed keys_env \<Rightarrow> bool" where
  "keys_json print parse enc dec ke \<longleftrightarrow>
     ke_print_jwks ke = (\<lambda>ks. Inr (print (jwks_to_value enc ks)))
     \<and> ke_parse_jwks ke = (\<lambda>s. case Option.bind (parse s) (jwks_of_value dec) of None \<Rightarrow> Inl () | Some ks \<Rightarrow> Inr ks)"

lemma load_generated_key:
  assumes "crypto_ok crypto" and "generate_ed25519 (ke_generated ke) (ke_uuid ke) = Inr key" and "trim (ke_uuid ke) \<noteq> []"
  shows "load_key crypto (jwk_from crypto key) = Inr key"
  using assms
  by (auto simp: generate_ed25519_def load_key_def validate_jwk_def key_try_from_def jwk_from_def crypto_okD(4) and_then_def
      split: sum.splits)

text \<open>C29: the captcha's keys survive a restart: when a start finds no key file, generates a key and saves it,
  the next start, which reads the file, has the same signing key and accepts what it signed.\<close>

theorem captcha_keys_survive:
  assumes "captcha_manager_new crypto ke = Inr cm" and "ke_exists ke = Inr False"
    and "crypto_ok crypto" and "trim (ke_uuid ke) \<noteq> []"
    and "keys_json print parse enc dec ke" and "\<forall>v. parse (print v) = Some v" and "\<forall>b. dec (enc b) = Some b"
  shows "\<exists>written. ke_write ke written = Inr ()
    \<and> captcha_manager_new crypto (ke\<lparr>ke_exists := Inr True, ke_read := Inr written\<rparr>) = Inr cm"
proof -
  obtain key where key: "generate_ed25519 (ke_generated ke) (ke_uuid ke) = Inr key"
    and saved: "save_jwt_keys crypto ke [key] = Inr ()"
    and cm: "cm = \<lparr>cm_signing_key = key, cm_verifying_keys = [(key_id key, key)]\<rparr>"
    using assms(1,2) by (auto simp: captcha_manager_new_def and_then_Inr_iff split: sum.splits)
  let ?jwks = "\<lparr>jwks_keys = [jwk_from crypto key]\<rparr>"
  let ?written = "print (jwks_to_value enc ?jwks)"
  have "ke_write ke ?written = Inr ()"
    using saved assms(5) by (auto simp: save_jwt_keys_def keys_json_def split: sum.splits)
  moreover have "ke_parse_jwks ke ?written = Inr ?jwks"
    using assms(5-7) by (simp add: keys_json_def jwks_value_roundtrip)
  ultimately show ?thesis
    using load_generated_key [OF assms(3) key assms(4)]
    by (intro exI [of _ ?written]) (simp add: captcha_manager_new_def cm and_then_def collect_map_def)
qed

text \<open>The first start of a server on a new host.\<close>

definition demo_fresh_keys_env :: "bytes keys_env" where
  "demo_fresh_keys_env =
     \<lparr>ke_exists = Inr False, ke_read = Inl (),
      ke_parse_jwks = (\<lambda>s. case Option.bind (demo_parse s) (jwks_of_value demo_decode) of None \<Rightarrow> Inl () | Some ks \<Rightarrow> Inr ks),
      ke_uuid = ''k1'', ke_generated = Inr ''seed'',
      ke_print_jwks = (\<lambda>ks. Inr (demo_print (jwks_to_value demo_encode ks))), ke_write = \<lambda>_. Inr ()\<rparr>"

theorem captcha_keys_survive_witness:
  "\<exists>cm written. captcha_manager_new demo_crypto demo_fresh_keys_env = Inr cm
     \<and> captcha_manager_new demo_crypto (demo_fresh_keys_env\<lparr>ke_exists := Inr True, ke_read := Inr written\<rparr>) = Inr cm"
proof -
  obtain cm where cm: "captcha_manager_new demo_crypto demo_fresh_keys_env = Inr cm"
    by (auto simp: captcha_manager_new_def demo_fresh_keys_env_def generate_ed25519_def save_jwt_keys_def and_then_def)
  have "trim (ke_uuid demo_fresh_keys_env) \<noteq> []" by code_simp
  moreover have "keys_json demo_print demo_parse demo_encode demo_decode demo_fresh_keys_env" "ke_exists demo_fresh_keys_env = Inr False"
    by (simp_all add: keys_json_def demo_fresh_keys_env_def)
  ultimately show ?thesis
    using captcha_keys_survive [OF cm _ demo_crypto_ok, of demo_print demo_parse demo_encode demo_decode] cm
    by (auto simp: demo_decode_encode)
qed

end
