(* ===== verification/Cached.thy ===== *)
theory Cached
  imports Prelude
begin

text \<open>
  The contract of a server with a cache: as long as its state is sound, every answer is one the
  server without a cache may give, and the state stays sound. That whole runs are then answered
  so is proved here once. The providers are the GeoIP database and the static site service.
\<close>

text \<open>A run: every query is answered in the state the previous one left.\<close>

fun run_steps :: "('q \<Rightarrow> 's \<Rightarrow> 'a \<times> 's) \<Rightarrow> 'q list \<Rightarrow> 's \<Rightarrow> 'a list" where
  "run_steps step [] s = []"
| "run_steps step (q # qs) s = (let (a, s) = step q s in a # run_steps step qs s)"

locale cached_server =
  fixes sound :: "'s \<Rightarrow> bool"
    and ok :: "'q \<Rightarrow> bool"
    and step :: "'q \<Rightarrow> 's \<Rightarrow> 'a \<times> 's"
    and answers :: "'q \<Rightarrow> 'a \<Rightarrow> bool"
  assumes sound_step: "sound s \<Longrightarrow> ok q \<Longrightarrow> sound (snd (step q s))"
    and answers_step: "sound s \<Longrightarrow> ok q \<Longrightarrow> answers q (fst (step q s))"
begin

lemma run_answers: "sound s \<Longrightarrow> \<forall>q \<in> set qs. ok q \<Longrightarrow> list_all2 answers qs (run_steps step qs s)"
proof (induction qs arbitrary: s)
  case (Cons q qs)
  have "list_all2 answers qs (run_steps step qs (snd (step q s)))"
    using Cons.prems by (intro Cons.IH sound_step) auto
  then show ?case
    using answers_step [of s q] Cons.prems by (simp add: case_prod_beta)
qed simp

end

text \<open>When the answers are determined, so is the run.\<close>

locale exact_cached_server = cached_server sound ok step "\<lambda>q a. a = answer q"
  for sound :: "'s \<Rightarrow> bool" and ok :: "'q \<Rightarrow> bool" and step :: "'q \<Rightarrow> 's \<Rightarrow> 'a \<times> 's" and answer :: "'q \<Rightarrow> 'a"
begin

lemma run_exact: "sound s \<Longrightarrow> \<forall>q \<in> set qs. ok q \<Longrightarrow> run_steps step qs s = map answer qs"
  by (drule (1) run_answers) (simp add: list_all2_conv_all_nth list_eq_iff_nth_eq)

end

end
