(* ===== verification/Geoip.thy ===== *)
theory Geoip
  imports Http Cached Json
begin

text \<open>
  \<^verbatim>\<open>pingoo/geoip.rs\<close> and the AS-number reader of \<^verbatim>\<open>pingoo/serde_utils.rs\<close>:
  country codes, records, the database files tried in order, and the lookup with its cache. The
  database reader, the decompressor and the file system are arguments; the cache library may drop
  entries at any time, which is the argument \<open>evict\<close> of a lookup.
\<close>

section \<open>Country codes\<close>

datatype geoip_error =
  AddressNotFound ip_addr
| GeoipUnspecified string
| InvalidMmdbFile
| InvalidCountryCode string

definition country_from_str :: "string \<Rightarrow> geoip_error + country_code" where
  "country_from_str s =
     (if length s \<noteq> 2 \<or> \<not> list_all (\<lambda>b. 65 \<le> byte b \<and> byte b \<le> 90) s then Inl (InvalidCountryCode s)
      else Inr (CountryCode (s ! 0) (s ! 1)))"

lemma country_from_str_Inr:
  "country_from_str s = Inr c \<longleftrightarrow> s = country_str c \<and> (\<forall>b \<in> set s. 65 \<le> byte b \<and> byte b \<le> 90)"
proof (cases c)
  case (CountryCode a b)
  then show ?thesis
    by (auto simp: country_from_str_def list_all_iff length_Suc_conv numeral_2_eq_2)
qed

section \<open>Records\<close>

text \<open>An AS number is read from a text such as AS13335; what is no number is 0.\<close>

definition asn_deserialize :: "string \<Rightarrow> u32" where
  "asn_deserialize s =
     (case parse_u32 (trim_start_matches_str ''AS'' s) of Some n \<Rightarrow> n | None \<Rightarrow> 0)"

record geoip_record =
  gr_asn :: u32
  gr_country :: country_code

definition geoip_record_default :: geoip_record where
  "geoip_record_default = \<lparr>gr_asn = 0, gr_country = CountryCode CHR ''X'' CHR ''X''\<rparr>"

section \<open>Reading records\<close>

text \<open>Country codes are written and read as strings; what is read is checked.\<close>

definition country_to_value :: "country_code \<Rightarrow> json" where
  "country_to_value c = JString (country_str c)"

definition country_of_value :: "json \<Rightarrow> country_code option" where
  "country_of_value v =
     Option.bind (as_str v) (\<lambda>s. case country_from_str s of Inl _ \<Rightarrow> None | Inr c \<Rightarrow> Some c)"

definition geoip_record_of_value :: "json \<Rightarrow> geoip_record option" where
  "geoip_record_of_value v =
     Option.bind (as_object v) (\<lambda>fs.
       Option.bind (get_field fs ''asn'' (\<lambda>v. map_option asn_deserialize (as_str v))) (\<lambda>asn.
         Option.bind (get_field fs ''country'' country_of_value) (\<lambda>country.
           Some \<lparr>gr_asn = asn, gr_country = country\<rparr>)))"

text \<open>A country code as the program relies on it: two upper-case ASCII letters.\<close>

definition country_ok :: "country_code \<Rightarrow> bool" where
  "country_ok c \<longleftrightarrow> (\<forall>b \<in> set (country_str c). 65 \<le> byte b \<and> byte b \<le> 90)"

lemma country_of_value_iff: "country_of_value v = Some c \<longleftrightarrow> v = country_to_value c \<and> country_ok c"
proof -
  have "country_of_value v = Some c \<longleftrightarrow> (\<exists>s. v = JString s \<and> country_from_str s = Inr c)"
    by (cases v) (auto simp: country_of_value_def split: sum.splits)
  then show ?thesis by (auto simp: country_from_str_Inr country_to_value_def country_ok_def)
qed

lemma country_roundtrip: "country_ok c \<Longrightarrow> country_of_value (country_to_value c) = Some c"
  by (simp add: country_of_value_iff)

lemma geoip_record_of_value_ok: "geoip_record_of_value v = Some r \<Longrightarrow> country_ok (gr_country r)"
  by (auto simp: geoip_record_of_value_def get_field_def country_of_value_iff bind_eq_Some_conv)

lemma geoip_record_default_ok: "country_ok (gr_country geoip_record_default)"
  by (simp add: geoip_record_default_def country_ok_def byte_def)

section \<open>Loading\<close>

definition geoip_database_paths :: "string list" where
  "geoip_database_paths =
     [''/etc/pingoo/geoip.mmdb'', ''/etc/pingoo/geoip.mmdb.zst'',
      ''/usr/share/pingoo/geoip.mmdb'', ''/usr/share/pingoo/geoip.mmdb.zst'']"

fun read_geoip_db ::
  "(string \<Rightarrow> unit + bool) \<Rightarrow> (string \<Rightarrow> unit + string) \<Rightarrow> string list \<Rightarrow> geoip_error + (string \<times> string) option" where
  "read_geoip_db try_exists read [] = Inr None"
| "read_geoip_db try_exists read (path # paths) =
     (case try_exists path of
        Inl _ \<Rightarrow> Inl (GeoipUnspecified ''error reading geoip database'')
      | Inr True \<Rightarrow>
          (case read path of
             Inl _ \<Rightarrow> Inl (GeoipUnspecified ''error reading geoip database'')
           | Inr content \<Rightarrow> Inr (Some (path, content)))
      | Inr False \<Rightarrow> read_geoip_db try_exists read paths)"

record 'mmdb geoip_db =
  gd_mmdb :: 'mmdb
  gd_cache :: "(ip_addr \<times> geoip_record) list"

definition geoip_load ::
  "(string \<Rightarrow> unit + bool) \<Rightarrow> (string \<Rightarrow> unit + string) \<Rightarrow> (string \<Rightarrow> unit + string) \<Rightarrow>
     (string \<Rightarrow> unit + 'mmdb) \<Rightarrow> geoip_error + 'mmdb geoip_db option" where
  "geoip_load try_exists read zstd_decode from_source =
     (case read_geoip_db try_exists read geoip_database_paths of
        Inl e \<Rightarrow> Inl e
      | Inr None \<Rightarrow> Inr None
      | Inr (Some (geoip_db_path, mmdb_content)) \<Rightarrow>
          (case (if ends_with geoip_db_path ''.zst'' then zstd_decode mmdb_content else Inr mmdb_content) of
             Inl _ \<Rightarrow> Inl (GeoipUnspecified ''error decompressing geoip database'')
           | Inr content \<Rightarrow>
               (case from_source content of
                  Inl _ \<Rightarrow> Inl InvalidMmdbFile
                | Inr mmdb \<Rightarrow> Inr (Some \<lparr>gd_mmdb = mmdb, gd_cache = []\<rparr>))))"

section \<open>Looking up\<close>

datatype mmdb_error = AddressNotFoundError | OtherMmdbError

text \<open>The reader's lookup at the type of records: a value that is no record is an error of it.\<close>

definition lookup_record ::
  "('mmdb \<Rightarrow> ip_addr \<Rightarrow> mmdb_error + json) \<Rightarrow> 'mmdb \<Rightarrow> ip_addr \<Rightarrow> mmdb_error + geoip_record" where
  "lookup_record reader mmdb ip =
     (case reader mmdb ip of
        Inl e \<Rightarrow> Inl e
      | Inr v \<Rightarrow>
          (case geoip_record_of_value v of
             None \<Rightarrow> Inl OtherMmdbError
           | Some r \<Rightarrow> Inr r))"

lemma lookup_record_ok: "lookup_record reader mmdb ip = Inr r \<Longrightarrow> country_ok (gr_country r)"
  by (auto simp: lookup_record_def geoip_record_of_value_ok split: sum.splits option.splits)

text \<open>
  \<open>mmdb_lookup\<close> is the reader's lookup. \<open>evict\<close> removes what the cache has dropped by the
  time of the call: it keeps a part of the entries.
\<close>

definition geoip_lookup ::
  "('mmdb \<Rightarrow> ip_addr \<Rightarrow> mmdb_error + geoip_record) \<Rightarrow>
     ((ip_addr \<times> geoip_record) list \<Rightarrow> (ip_addr \<times> geoip_record) list) \<Rightarrow>
     ip_addr \<Rightarrow> 'mmdb geoip_db \<Rightarrow> (geoip_error + geoip_record) \<times> 'mmdb geoip_db" where
  "geoip_lookup mmdb_lookup evict ip db =
     (if is_loopback ip \<or> is_multicast ip then (Inl (AddressNotFound ip), db)
      else
        (let db = db\<lparr>gd_cache := evict (gd_cache db)\<rparr>
         in case map_of (gd_cache db) ip of
              Some record \<Rightarrow> (Inr record, db)
            | None \<Rightarrow>
                (case mmdb_lookup (gd_mmdb db) ip of
                   Inr record \<Rightarrow> (Inr record, db\<lparr>gd_cache := AList.update ip record (gd_cache db)\<rparr>)
                 | Inl AddressNotFoundError \<Rightarrow> (Inl (AddressNotFound ip), db)
                 | Inl OtherMmdbError \<Rightarrow> (Inl (GeoipUnspecified ''geoip: error looking up GeoIP''), db))))"

section \<open>The cache is transparent\<close>

definition evicts :: "((ip_addr \<times> geoip_record) list \<Rightarrow> (ip_addr \<times> geoip_record) list) \<Rightarrow> bool" where
  "evicts evict \<longleftrightarrow> (\<forall>m. map_of (evict m) \<subseteq>\<^sub>m map_of m)"

definition cache_ok :: "('mmdb \<Rightarrow> ip_addr \<Rightarrow> mmdb_error + geoip_record) \<Rightarrow> 'mmdb geoip_db \<Rightarrow> bool" where
  "cache_ok mmdb_lookup db \<longleftrightarrow>
     (\<forall>ip r. map_of (gd_cache db) ip = Some r \<longrightarrow> mmdb_lookup (gd_mmdb db) ip = Inr r)"

text \<open>A lookup without any cache.\<close>

definition lookup_uncached ::
  "('mmdb \<Rightarrow> ip_addr \<Rightarrow> mmdb_error + geoip_record) \<Rightarrow> 'mmdb \<Rightarrow> ip_addr \<Rightarrow> geoip_error + geoip_record" where
  "lookup_uncached mmdb_lookup mmdb ip =
     (if is_loopback ip \<or> is_multicast ip then Inl (AddressNotFound ip)
      else case mmdb_lookup mmdb ip of
             Inr record \<Rightarrow> Inr record
           | Inl AddressNotFoundError \<Rightarrow> Inl (AddressNotFound ip)
           | Inl OtherMmdbError \<Rightarrow> Inl (GeoipUnspecified ''geoip: error looking up GeoIP''))"

lemma geoip_lookup_step:
  assumes "cache_ok f db" and "evicts evict"
  shows "fst (geoip_lookup f evict ip db) = lookup_uncached f (gd_mmdb db) ip"
    and "cache_ok f (snd (geoip_lookup f evict ip db))"
    and "gd_mmdb (snd (geoip_lookup f evict ip db)) = gd_mmdb db"
proof -
  have ev: "map_of (evict m) a = Some r \<Longrightarrow> map_of m a = Some r" for m a r
    using assms(2) unfolding evicts_def map_le_def by (metis domI)
  have hit: "map_of (evict (gd_cache db)) a = Some r \<Longrightarrow> f (gd_mmdb db) a = Inr r" for a r
    by (rule assms(1) [unfolded cache_ok_def, rule_format, OF ev])
  have all: "fst (geoip_lookup f evict ip db) = lookup_uncached f (gd_mmdb db) ip \<and>
    cache_ok f (snd (geoip_lookup f evict ip db)) \<and> gd_mmdb (snd (geoip_lookup f evict ip db)) = gd_mmdb db"
  proof (cases "is_loopback ip \<or> is_multicast ip")
    case True
    then show ?thesis using assms(1) by (simp add: geoip_lookup_def lookup_uncached_def)
  next
    case False
    have kept: "cache_ok f (db\<lparr>gd_cache := evict (gd_cache db)\<rparr>)"
      unfolding cache_ok_def using hit by fastforce
    show ?thesis
    proof (cases "map_of (evict (gd_cache db)) ip")
      case (Some r)
      have "f (gd_mmdb db) ip = Inr r" by (rule hit [OF Some])
      then show ?thesis using False Some kept by (simp add: geoip_lookup_def lookup_uncached_def Let_def)
    next
      case None
      show ?thesis
      proof (cases "f (gd_mmdb db) ip")
        case (Inl e)
        then show ?thesis
          using False None kept by (cases e) (simp_all add: geoip_lookup_def lookup_uncached_def Let_def)
      next
        case (Inr r)
        have "cache_ok f (db\<lparr>gd_cache := AList.update ip r (evict (gd_cache db))\<rparr>)"
          using kept Inr by (simp add: cache_ok_def update_conv')
        then show ?thesis
          using False None Inr by (simp add: geoip_lookup_def lookup_uncached_def Let_def)
      qed
    qed
  qed
  show "fst (geoip_lookup f evict ip db) = lookup_uncached f (gd_mmdb db) ip" using all by blast
  show "cache_ok f (snd (geoip_lookup f evict ip db))" using all by blast
  show "gd_mmdb (snd (geoip_lookup f evict ip db)) = gd_mmdb db" using all by blast
qed

text \<open>Successive lookups, each after the evictions of its time.\<close>

definition run_lookups ::
  "('mmdb \<Rightarrow> ip_addr \<Rightarrow> mmdb_error + geoip_record) \<Rightarrow>
     (ip_addr \<times> ((ip_addr \<times> geoip_record) list \<Rightarrow> (ip_addr \<times> geoip_record) list)) list \<Rightarrow>
     'mmdb geoip_db \<Rightarrow> (geoip_error + geoip_record) list" where
  "run_lookups f = run_steps (\<lambda>(ip, evict). geoip_lookup f evict ip)"

interpretation lookups: exact_cached_server "\<lambda>db. cache_ok f db \<and> gd_mmdb db = mmdb" "\<lambda>q. evicts (snd q)"
  "\<lambda>(ip, evict). geoip_lookup f evict ip" "\<lambda>q. lookup_uncached f mmdb (fst q)"
  for f :: "'mmdb \<Rightarrow> ip_addr \<Rightarrow> mmdb_error + geoip_record" and mmdb
  by unfold_locales (auto simp: geoip_lookup_step split: prod.split)

section \<open>Properties\<close>

text \<open>The cache of the GeoIP database is transparent: whatever it drops between calls, every lookup
  of a loaded database answers as the database itself, and a loopback or multicast address is never
  looked up.\<close>

lemma geoip_cache_transparent:
  assumes "geoip_load try_exists read zstd_decode from_source = Inr (Some db)" and "\<forall>q \<in> set qs. evicts (snd q)"
  shows "run_lookups f qs db = map (\<lambda>q. lookup_uncached f (gd_mmdb db) (fst q)) qs"
proof -
  have "gd_cache db = []"
    using assms(1) by (auto simp: geoip_load_def split: sum.splits option.splits prod.splits)
  then have "cache_ok f db" by (simp add: cache_ok_def)
  then show ?thesis
    unfolding run_lookups_def by (intro lookups.run_exact assms(2)) simp
qed

lemma geoip_cache_transparent_witness:
  "run_lookups (\<lambda>_ _. Inr geoip_record_default) [(V4 1, \<lambda>m. m), (V4 1, \<lambda>_. []), (ipv4_localhost, \<lambda>m. m)]
     \<lparr>gd_mmdb = (), gd_cache = []\<rparr>
   = [Inr geoip_record_default, Inr geoip_record_default, Inl (AddressNotFound ipv4_localhost)]"
proof -
  have "geoip_load (\<lambda>_. Inr True) (\<lambda>_. Inr '''') Inr (\<lambda>_. Inr ()) = Inr (Some \<lparr>gd_mmdb = (), gd_cache = []\<rparr>)"
    by code_simp
  moreover have "\<forall>q \<in> set [(V4 1, \<lambda>m. m), (V4 1, \<lambda>_. []), (ipv4_localhost, \<lambda>m. m)]. evicts (snd q)"
    by (simp add: evicts_def)
  ultimately have "run_lookups (\<lambda>_ _. Inr geoip_record_default) [(V4 1, \<lambda>m. m), (V4 1, \<lambda>_. []), (ipv4_localhost, \<lambda>m. m)]
     \<lparr>gd_mmdb = (), gd_cache = []\<rparr>
   = map (\<lambda>q. lookup_uncached (\<lambda>_ _. Inr geoip_record_default) () (fst q)) [(V4 1, \<lambda>m. m), (V4 1, \<lambda>_. []), (ipv4_localhost, \<lambda>m. m)]"
    using geoip_cache_transparent [where db = "\<lparr>gd_mmdb = (), gd_cache = []\<rparr>"] by fastforce
  moreover have "\<not> is_loopback (V4 1)" "\<not> is_multicast (V4 1)" "is_loopback ipv4_localhost"
    by code_simp+
  ultimately show ?thesis by (simp add: lookup_uncached_def)
qed

end
