(* ===== verification/Lists.thy ===== *)
theory Lists
  imports Config_Types Strings
begin

text \<open>
  \<^verbatim>\<open>pingoo/lists.rs\<close>: the lists an operator makes available to the rules, read from
  CSV files. The file system, the CSV reader and the parser of IP networks are arguments; a
  network is a value of their type \<open>'net\<close>.
\<close>

section \<open>List types\<close>

definition list_type_from_str :: "string \<Rightarrow> error + list_type" where
  "list_type_from_str value =
     (if value = ''Int'' then Inr IntList
      else if value = ''Ip'' then Inr IpList
      else if value = ''String'' then Inr StringList
      else Inl (Unspecified ''is not a valid ListType''))"

fun show_list_type :: "list_type \<Rightarrow> string" where
  "show_list_type IntList = ''Int''"
| "show_list_type IpList = ''Ip''"
| "show_list_type StringList = ''String''"

lemma list_type_from_str_Inr: "list_type_from_str s = Inr t \<longleftrightarrow> s = show_list_type t"
  by (cases t) (auto simp: list_type_from_str_def split: if_splits)

section \<open>Loading\<close>

datatype 'net items = StringItems "string list" | IntItems "int list" | IpItems "'net list"

record 'net list_env =
  le_read_list :: "string \<Rightarrow> unit + string"
  le_csv_records :: "string \<Rightarrow> (unit + string list) list"
  le_parse_network :: "string \<Rightarrow> 'net option"

fun empty_items :: "list_type \<Rightarrow> 'net items" where
  "empty_items StringList = StringItems []"
| "empty_items IntList = IntItems []"
| "empty_items IpList = IpItems []"

fun push_item :: "'net list_env \<Rightarrow> string \<Rightarrow> 'net items \<Rightarrow> error + 'net items" where
  "push_item env item (StringItems xs) = Inr (StringItems (xs @ [item]))"
| "push_item env item (IntItems xs) =
     (case parse_i64 item of
        None \<Rightarrow> Inl (Unspecified ''error parsing list: error parsing int'')
      | Some i \<Rightarrow> Inr (IntItems (xs @ [i])))"
| "push_item env item (IpItems xs) =
     (case le_parse_network env item of
        None \<Rightarrow> Inl (Unspecified ''error parsing list: error parsing IP network'')
      | Some n \<Rightarrow> Inr (IpItems (xs @ [n])))"

text \<open>The loop over the records: an error of the reader or of a record ends it.\<close>

fun load_records :: "'net list_env \<Rightarrow> (unit + string list) list \<Rightarrow> 'net items \<Rightarrow> error + 'net items" where
  "load_records env [] items = Inr items"
| "load_records env (Inl _ # rs) items = Inl (Unspecified ''error parsing list'')"
| "load_records env (Inr record # rs) items =
     (if length record > 2 \<or> length record < 1
      then Inl (Unspecified ''error parsing list: invalid number of columns. Min: 1, Max: 2'')
      else and_then (push_item env (trim (record ! 0)) items) (load_records env rs))"

definition load_list :: "'net list_env \<Rightarrow> string \<Rightarrow> list_type \<Rightarrow> error + 'net items" where
  "load_list env path type =
     (case le_read_list env path of
        Inl _ \<Rightarrow> Inl (Config ''error reading list'')
      | Inr file_content \<Rightarrow> load_records env (le_csv_records env file_content) (empty_items type))"

definition load_lists :: "'net list_env \<Rightarrow> (string \<times> list_config) list \<Rightarrow> error + (string \<times> 'net items) list" where
  "load_lists env lists_config =
     and_then (try_map (\<lambda>(list_name, list_config).
         and_then (load_list env (list_file list_config) (list_type list_config)) (\<lambda>items. Inr (list_name, items)))
       lists_config)
     (\<lambda>lists. Inr (collect_map lists))"

section \<open>What a loaded list holds\<close>

text \<open>
  The first column of a record, when the record is well formed, and the list a type makes of a
  sequence of columns.
\<close>

definition first_column :: "unit + string list \<Rightarrow> string option" where
  "first_column r =
     (case r of
        Inr [a] \<Rightarrow> Some (trim a)
      | Inr [a, b] \<Rightarrow> Some (trim a)
      | _ \<Rightarrow> None)"

fun all_some :: "'a option list \<Rightarrow> 'a list option" where
  "all_some [] = Some []"
| "all_some (x # xs) = Option.bind x (\<lambda>y. map_option ((#) y) (all_some xs))"

fun items_of_columns :: "'net list_env \<Rightarrow> list_type \<Rightarrow> string list \<Rightarrow> 'net items option" where
  "items_of_columns env StringList cs = Some (StringItems cs)"
| "items_of_columns env IntList cs = map_option IntItems (all_some (map parse_i64 cs))"
| "items_of_columns env IpList cs = map_option IpItems (all_some (map (le_parse_network env) cs))"

fun append_items :: "'net items \<Rightarrow> 'net items \<Rightarrow> 'net items" where
  "append_items (StringItems xs) (StringItems ys) = StringItems (xs @ ys)"
| "append_items (IntItems xs) (IntItems ys) = IntItems (xs @ ys)"
| "append_items (IpItems xs) (IpItems ys) = IpItems (xs @ ys)"
| "append_items a b = a"

fun type_of_items :: "'net items \<Rightarrow> list_type" where
  "type_of_items (StringItems _) = StringList"
| "type_of_items (IntItems _) = IntList"
| "type_of_items (IpItems _) = IpList"

lemma push_item_Inr:
  "push_item env c items = Inr items' \<longleftrightarrow>
     (\<exists>one. items_of_columns env (type_of_items items) [c] = Some one \<and> items' = append_items items one)"
  by (cases items) (auto split: option.split)

lemma type_of_append [simp]: "type_of_items (append_items a b) = type_of_items a"
  by (cases a; cases b) simp_all

lemma type_of_columns: "items_of_columns env t cs = Some is \<Longrightarrow> type_of_items is = t"
  by (cases t) auto

lemma items_of_columns_Cons:
  "items_of_columns env t (c # cs) =
     Option.bind (items_of_columns env t [c]) (\<lambda>one. map_option (append_items one) (items_of_columns env t cs))"
  by (cases t; cases "parse_i64 c"; cases "le_parse_network env c";
      cases "all_some (map parse_i64 cs)"; cases "all_some (map (le_parse_network env) cs)") simp_all

lemma append_items_assoc:
  "type_of_items a = type_of_items b \<Longrightarrow> type_of_items b = type_of_items c \<Longrightarrow>
     append_items (append_items a b) c = append_items a (append_items b c)"
  by (cases a; cases b; cases c) simp_all

lemma load_records_Inr:
  "load_records env rs items = Inr items' \<longleftrightarrow>
     (\<exists>cs rest. all_some (map first_column rs) = Some cs
        \<and> items_of_columns env (type_of_items items) cs = Some rest \<and> items' = append_items items rest)"
proof (induction rs arbitrary: items)
  case Nil
  have "items_of_columns env (type_of_items items) [] = Some (empty_items (type_of_items items))"
    by (cases items) simp_all
  moreover have "append_items items (empty_items (type_of_items items)) = items"
    by (cases items) simp_all
  ultimately show ?case by auto
next
  case (Cons r rs)
  show ?case
  proof (cases "first_column r")
    case None
    then have "\<not> is_ok (load_records env (r # rs) items)"
      by (cases r) (auto simp: first_column_def split: list.splits)
    with None show ?thesis by (auto simp: is_ok_iff)
  next
    case (Some c)
    then have step: "load_records env (r # rs) items = and_then (push_item env c items) (load_records env rs)"
      by (cases r) (auto simp: first_column_def split: list.splits)
    let ?t = "type_of_items items"
    have cols: "(\<exists>cs rest. all_some (map first_column (r # rs)) = Some cs \<and> items_of_columns env ?t cs = Some rest
        \<and> items' = append_items items rest) \<longleftrightarrow>
      (\<exists>cs rest. all_some (map first_column rs) = Some cs \<and> items_of_columns env ?t (c # cs) = Some rest
        \<and> items' = append_items items rest)"
      by (cases "all_some (map first_column rs)") (simp_all add: Some del: items_of_columns.simps)
    show ?thesis
    proof (cases "items_of_columns env ?t [c]")
      case None
      then have "items_of_columns env ?t (c # cs) = None" for cs
        unfolding items_of_columns_Cons [of env ?t c cs] by simp
      moreover have "push_item env c items \<noteq> Inr x" for x
        unfolding push_item_Inr None by simp
      ultimately show ?thesis
        unfolding step cols by (simp add: and_then_Inr_iff del: items_of_columns.simps)
    next
      case one: (Some one)
      have push: "push_item env c items = Inr (append_items items one)"
        using one by (simp add: push_item_Inr)
      have assoc: "append_items (append_items items one) rest = append_items items (append_items one rest)"
        if "items_of_columns env ?t cs = Some rest" for cs rest
        using type_of_columns [OF that] type_of_columns [OF one] by (simp add: append_items_assoc)
      have "(\<exists>rest. items_of_columns env ?t cs = Some rest \<and> items' = append_items (append_items items one) rest)
        \<longleftrightarrow> (\<exists>rest. items_of_columns env ?t (c # cs) = Some rest \<and> items' = append_items items rest)" for cs
        unfolding items_of_columns_Cons [of env ?t c cs] one
        by (cases "items_of_columns env ?t cs") (simp_all add: assoc)
      then show ?thesis
        unfolding step push and_then_simps Cons.IH type_of_append cols by blast
    qed
  qed
qed

lemma append_empty_items: "type_of_items is = t \<Longrightarrow> append_items (empty_items t) is = is"
  by (cases "is"; cases t) simp_all

lemma load_list_Inr:
  "load_list env path t = Inr items \<longleftrightarrow>
     (\<exists>content cs. le_read_list env path = Inr content
        \<and> all_some (map first_column (le_csv_records env content)) = Some cs
        \<and> items_of_columns env t cs = Some items)"
proof (cases "le_read_list env path")
  case (Inr content)
  have t: "type_of_items (empty_items t) = t" for t by (cases t) simp_all
  have e: "append_items (empty_items t) is = is" if "items_of_columns env t cs = Some is" for cs "is"
    by (rule append_empty_items [OF type_of_columns [OF that]])
  show ?thesis
    by (auto simp: load_list_def Inr load_records_Inr t e)
qed (simp add: load_list_def)

text \<open>Loading succeeds exactly when every configured list is readable, has one or two columns in
  every record and first columns of the list's type; every loaded list then holds one item per
  record, in the order of the file, of the configured type.\<close>

lemma lists_as_configured:
  assumes "distinct (map fst lists_config)"
  shows "load_lists env lists_config = Inr loaded \<longleftrightarrow>
    list_all2 (\<lambda>(n, c) (m, items). m = n \<and>
      (\<exists>content cs. le_read_list env (list_file c) = Inr content
        \<and> all_some (map first_column (le_csv_records env content)) = Some cs
        \<and> items_of_columns env (list_type c) cs = Some items)) lists_config loaded"
proof -
  let ?load = "\<lambda>(n, c). and_then (load_list env (list_file c) (list_type c)) (\<lambda>items. Inr (n, items))"
  have collect: "collect_map xs = xs" if "distinct (map fst xs)" for xs :: "(string \<times> 'a items) list"
  proof -
    have "fold (\<lambda>(k, v). AList.update k v) xs m = m @ xs"
      if "distinct (map fst xs)" "fst ` set m \<inter> fst ` set xs = {}" for m
      using that
    proof (induction xs arbitrary: m)
      case (Cons x xs)
      obtain k v where x: "x = (k, v)" by fastforce
      have "AList.update k v m = m @ [(k, v)]" if "k \<notin> fst ` set m"
        using that by (induction m) auto
      with Cons show ?case by (auto simp: x)
    qed simp
    from this [OF that, of "[]"] show ?thesis by (simp add: collect_map_def)
  qed
  have pair: "?load p = Inr q \<longleftrightarrow> (\<lambda>(n, c) (m, items).
      m = n \<and> load_list env (list_file c) (list_type c) = Inr items) p q" for p q
    by (auto simp: and_then_Inr_iff split: prod.splits)
  have keys: "map fst ls = map fst lists_config" if "try_map ?load lists_config = Inr ls" for ls
  proof -
    have "list_all2 (\<lambda>p q. fst p = fst q) lists_config ls"
      using that unfolding try_map_Inr_iff pair by (rule list_all2_mono) (auto split: prod.splits)
    then have "list_all2 (=) (map fst lists_config) (map fst ls)" by (simp add: list.rel_map)
    then show ?thesis by (simp add: list.rel_eq)
  qed
  have "load_lists env lists_config = Inr loaded \<longleftrightarrow> try_map ?load lists_config = Inr loaded"
  proof
    assume "load_lists env lists_config = Inr loaded"
    then obtain ls where ls: "try_map ?load lists_config = Inr ls" "loaded = collect_map ls"
      by (auto simp: load_lists_def and_then_Inr_iff)
    then show "try_map ?load lists_config = Inr loaded"
      using collect [of ls] keys [OF ls(1)] assms by simp
  next
    assume l: "try_map ?load lists_config = Inr loaded"
    then show "load_lists env lists_config = Inr loaded"
      using collect [of loaded] keys [OF l] assms by (simp add: load_lists_def)
  qed
  then show ?thesis
    unfolding try_map_Inr_iff pair load_list_Inr .
qed

definition demo_list_env :: "nat list_env" where
  "demo_list_env =
     \<lparr>le_read_list = Inr, le_csv_records = \<lambda>_. [Inr [''7'', ''seven''], Inr ['' -8'']],
      le_parse_network = \<lambda>_. None\<rparr>"

lemma lists_as_configured_witness:
  "load_lists demo_list_env [(''a'', \<lparr>list_type = IntList, list_file = ''a.csv''\<rparr>)] = Inr [(''a'', IntItems [7, -8])]"
proof -
  have d: "distinct (map fst [(''a'', \<lparr>list_type = IntList, list_file = ''a.csv''\<rparr>)])" by simp
  have "all_some (map first_column (le_csv_records demo_list_env ''a.csv'')) = Some [''7'', ''-8'']"
    by code_simp
  moreover have "items_of_columns demo_list_env IntList [''7'', ''-8''] = Some (IntItems [7, -8])"
    by code_simp
  moreover have "le_read_list demo_list_env ''a.csv'' = Inr ''a.csv''"
    by (simp add: demo_list_env_def)
  ultimately show ?thesis
    unfolding lists_as_configured [OF d] by simp
qed

end
