(* ===== verification/Rules.thy ===== *)
theory Rules
  imports Http
begin

text \<open>
  \<^verbatim>\<open>rules/rules.rs\<close> and \<^verbatim>\<open>pingoo/rules.rs\<close>: compiling, validating and matching of
  expressions. The expression language is a library: its compiler, the function names a program
  refers to and its interpreter are arguments, and so are the lists, whose type is \<open>'lists\<close>.
\<close>

section \<open>Compiling\<close>

text \<open>The compiler may panic; the program catches that.\<close>

datatype 'prog compile_outcome = Compiled 'prog | CompileError string | CompilePanic

datatype rules_error = RulesUnspecified string | ExpressionIsNotValid string

definition compile_expression :: "(string \<Rightarrow> 'prog compile_outcome) \<Rightarrow> string \<Rightarrow> rules_error + 'prog" where
  "compile_expression compile expression =
     (case compile expression of
        Compiled program \<Rightarrow> Inr program
      | CompileError err \<Rightarrow> Inl (ExpressionIsNotValid err)
      | CompilePanic \<Rightarrow> Inl (ExpressionIsNotValid ''invalid input''))"

definition validate_expression ::
  "(string \<Rightarrow> 'prog compile_outcome) \<Rightarrow> ('prog \<Rightarrow> string list) \<Rightarrow> string \<Rightarrow> rules_error + unit" where
  "validate_expression compile functions expression =
     (if expression = [] then Inl (ExpressionIsNotValid ''expression is empty'')
      else case compile expression of
             CompileError err \<Rightarrow> Inl (ExpressionIsNotValid err)
           | CompilePanic \<Rightarrow> Inl (ExpressionIsNotValid ''invalid input'')
           | Compiled program \<Rightarrow>
               if ''@in'' \<in> set (functions program)
               then Inl (ExpressionIsNotValid ''unknown operator: in'') else Inr ())"

section \<open>The context of a request\<close>

record request_data =
  rd_host :: string
  rd_url :: string
  rd_path :: string
  rd_method :: string
  rd_user_agent :: string

record client_data =
  cd_ip :: ip_addr
  cd_remote_port :: "32 word"
  cd_asn :: "64 word"
  cd_country :: country_code

text \<open>
  The variables of an evaluation. Adding a variable fails when the library cannot convert it;
  the handler then goes on without it.
\<close>

record 'lists rules_context =
  rc_http_request :: "request_data option"
  rc_client :: "client_data option"
  rc_lists :: 'lists

text \<open>An expression gives the Boolean value, another value or an error.\<close>

datatype outcome = IsBool bool | OtherValue | ExecutionError string

type_synonym ('prog, 'lists) executor = "'prog \<Rightarrow> 'lists rules_context \<Rightarrow> outcome"

fun is_true :: "outcome \<Rightarrow> bool" where
  "is_true (IsBool b) = b"
| "is_true OtherValue = False"
| "is_true (ExecutionError _) = False"

definition match_rule :: "('prog, 'lists) executor \<Rightarrow> 'prog rule \<Rightarrow> 'lists rules_context \<Rightarrow> bool" where
  "match_rule execute rule ctx =
     (case rule_expression rule of
        Some expression \<Rightarrow> is_true (execute expression ctx)
      | None \<Rightarrow> True)"

text \<open>Services decide in the same way with their route.\<close>

definition match_route :: "('prog, 'lists) executor \<Rightarrow> 'prog option \<Rightarrow> 'lists rules_context \<Rightarrow> bool" where
  "match_route execute route ctx =
     (case route of
        None \<Rightarrow> True
      | Some r \<Rightarrow> is_true (execute r ctx))"

lemma is_true_iff: "is_true r \<longleftrightarrow> r = IsBool True"
  by (cases r) auto

lemma match_rule_iff:
  "match_rule execute rule ctx \<longleftrightarrow> (\<forall>e. rule_expression rule = Some e \<longrightarrow> execute e ctx = IsBool True)"
  by (simp add: match_rule_def is_true_iff split: option.split)

lemma match_route_iff:
  "match_route execute route ctx \<longleftrightarrow> (\<forall>e. route = Some e \<longrightarrow> execute e ctx = IsBool True)"
  by (simp add: match_route_def is_true_iff split: option.split)

lemma validate_compiles:
  "is_ok (validate_expression compile functions e) \<Longrightarrow>
     \<exists>p. compile_expression compile e = Inr p \<and> ''@in'' \<notin> set (functions p) \<and> e \<noteq> []"
  by (auto simp: validate_expression_def compile_expression_def split: compile_outcome.splits if_splits)

end
