(* ===== verification/Static_Site.thy ===== *)
theory Static_Site
  imports Rules Paths
begin

text \<open>
  \<^verbatim>\<open>pingoo/services/http_static_site_service.rs\<close>: serving files below a root folder, with
  entity tags and a cache of small files. The file system, SHA-256, the table of media types and
  the header library are an environment; the two \<open>metadata\<close> calls of a request are separate
  fields, as the file system may change between them. The cache library may drop entries at any
  time: what is left at a lookup is the result of \<open>se_evict\<close>.
\<close>

section \<open>Data\<close>

definition caching_file_size_limit :: u64 where
  "caching_file_size_limit = 500000"

record metadata =
  md_is_dir :: bool
  md_size :: u64
  md_modified :: "128 word option"

record cached_file =
  cf_modified_at :: "128 word"
  cf_size :: u64
  cf_data :: string

type_synonym file_cache = "(string \<times> cached_file) list"

record 'prog static_site_service =
  sss_name :: string
  sss_route :: "'prog option"
  sss_config :: static_site_config

text \<open>\<open>None\<close> is the panic of a missing configuration.\<close>

definition static_site_new :: "'prog service_config \<Rightarrow> 'prog static_site_service option" where
  "static_site_new config =
     (case sc_static config of
        None \<Rightarrow> None
      | Some c \<Rightarrow> Some \<lparr>sss_name = sc_name config, sss_route = sc_route config, sss_config = c\<rparr>)"

definition static_match_request ::
  "('prog, 'lists) executor \<Rightarrow> 'prog static_site_service \<Rightarrow> 'lists rules_context \<Rightarrow> bool" where
  "static_match_request execute s ctx = match_route execute (sss_route s) ctx"

record static_env =
  se_metadata :: "string \<Rightarrow> io_error_kind + metadata"
  se_metadata_again :: "string \<Rightarrow> io_error_kind + metadata"
  se_read :: "string \<Rightarrow> unit + string"
  se_open :: "string \<Rightarrow> unit + unit"
  se_sha256 :: "string \<Rightarrow> string"
  se_mime_from_ext :: "string \<Rightarrow> string"
  se_utf8 :: "string \<Rightarrow> bool"
  se_headers :: header_env
  se_evict :: "file_cache \<Rightarrow> file_cache"

section \<open>Finding the file\<close>

definition static_url_path :: "request \<Rightarrow> string" where
  "static_url_path req = trim (trim_end_matches CHR ''/'' (trim_start_matches CHR ''/'' (rq_path req)))"

definition bad_url_path :: "string \<Rightarrow> bool" where
  "bad_url_path p = (contains_str p ''/..'' \<or> contains_str p ''../'' \<or> contains_str p ''//'')"

definition try_metadata :: "static_env \<Rightarrow> string \<Rightarrow> response + metadata" where
  "try_metadata env path =
     (case se_metadata_again env path of
        Inr md \<Rightarrow> if md_is_dir md then Inl new_not_found_error else Inr md
      | Inl NotFound \<Rightarrow> Inl new_not_found_error
      | Inl OtherIoError \<Rightarrow> Inl new_internal_error_response_500)"

definition static_resolve :: "static_env \<Rightarrow> string \<Rightarrow> string \<Rightarrow> response + string \<times> metadata" where
  "static_resolve env root url_path =
     (let file_path = path_push root url_path
      in case se_metadata env file_path of
           Inr md \<Rightarrow>
             if md_is_dir md
             then (let file_path = path_push file_path ''index.html''
                   in and_then (try_metadata env file_path) (\<lambda>md. Inr (file_path, md)))
             else Inr (file_path, md)
         | Inl NotFound \<Rightarrow>
             if path_extension file_path \<noteq> None then Inl new_not_found_error
             else (let file_path = set_extension file_path ''html''
                   in and_then (try_metadata env file_path) (\<lambda>md. Inr (file_path, md)))
         | Inl OtherIoError \<Rightarrow> Inl new_internal_error_response_500)"

section \<open>Answering\<close>

text \<open>Little-endian bytes; the hexadecimal text of a hash.\<close>

fun le_bytes :: "nat \<Rightarrow> nat \<Rightarrow> string" where
  "le_bytes 0 n = []"
| "le_bytes (Suc k) n = char_of (n mod 256) # le_bytes k (n div 256)"

definition hex_text :: "string \<Rightarrow> string" where
  "hex_text bs = concat (map (\<lambda>b. [hex_char (byte b div 16), hex_char (byte b mod 16)]) bs)"

definition etag_of :: "static_env \<Rightarrow> string \<Rightarrow> u64 \<Rightarrow> 128 word \<Rightarrow> string" where
  "etag_of env path file_size modified =
     [CHR 0x22] @ hex_text (se_sha256 env (path @ le_bytes 8 (unat file_size) @ le_bytes 16 (unat modified))) @ [CHR 0x22]"

definition trim_quotes :: "string \<Rightarrow> string" where
  "trim_quotes s = trim_end_matches (CHR 0x22) (trim_start_matches (CHR 0x22) s)"

definition if_none_match :: "static_env \<Rightarrow> request \<Rightarrow> string option" where
  "if_none_match env req =
     map_option (\<lambda>h. trim_quotes (trim_start_matches_str ''W/'' (trim (or_default (to_str (se_headers env) h)))))
       (header_get (rq_headers req) ''if-none-match'')"

text \<open>The builder reports a header value that is not valid when the body is set.\<close>

definition build_response :: "static_env \<Rightarrow> nat \<Rightarrow> headers \<Rightarrow> body \<Rightarrow> response" where
  "build_response env status hs body =
     (if list_all (\<lambda>(n, v). he_from_str (se_headers env) v) hs
      then \<lparr>res_status = status, res_headers = hs, res_body = body\<rparr>
      else new_internal_error_response_500)"

definition static_headers :: "static_env \<Rightarrow> string \<Rightarrow> metadata \<Rightarrow> headers" where
  "static_headers env path md =
     (let file_extension = or_default (Option.bind (path_extension path)
            (\<lambda>e. if se_utf8 env e then Some e else None))
      in [(''content-length'', show_nat (unat (md_size md))),
          (''content-type'', se_mime_from_ext env file_extension),
          (''cache-control'', cache_control_dynamic)])"

text \<open>A file that is not eligible for the cache is streamed.\<close>

definition static_stream :: "static_env \<Rightarrow> headers \<Rightarrow> string \<Rightarrow> response" where
  "static_stream env hs path =
     (case se_open env path of
        Inl _ \<Rightarrow> new_internal_error_response_500
      | Inr _ \<Rightarrow> build_response env 200 hs (FileStream path))"

definition static_cached ::
  "static_env \<Rightarrow> headers \<Rightarrow> string \<Rightarrow> metadata \<Rightarrow> 128 word \<Rightarrow> file_cache \<Rightarrow> response \<times> file_cache" where
  "static_cached env hs path md modified cache =
     (let cache = se_evict env cache;
          read_and_cache = (\<lambda>cache.
            case se_read env path of
              Inl _ \<Rightarrow> (new_internal_error_response_500, cache)
            | Inr content \<Rightarrow>
                (build_response env 200 hs (Full content),
                 AList.update path \<lparr>cf_modified_at = modified, cf_size = md_size md, cf_data = content\<rparr> cache))
      in case map_of cache path of
           Some f \<Rightarrow>
             if cf_modified_at f = modified \<and> cf_size f = md_size md
             then (build_response env 200 hs (Full (cf_data f)), cache)
             else read_and_cache (AList.delete path cache)
         | None \<Rightarrow> read_and_cache cache)"

definition static_serve_file ::
  "static_env \<Rightarrow> request \<Rightarrow> string \<Rightarrow> metadata \<Rightarrow> file_cache \<Rightarrow> response \<times> file_cache" where
  "static_serve_file env req path md cache =
     (let hs = static_headers env path md
      in case md_modified md of
           None \<Rightarrow> (static_stream env hs path, cache)
         | Some modified \<Rightarrow>
             (let etag = etag_of env path (md_size md) modified;
                  hs = hs @ [(''etag'', etag)]
              in if if_none_match env req = Some (trim_quotes etag)
                    \<and> (rq_method req = ''GET'' \<or> rq_method req = ''HEAD'')
                 then (build_response env 304 hs (Full ''''), cache)
                 else if md_size md \<le> caching_file_size_limit
                 then static_cached env hs path md modified cache
                 else (static_stream env hs path, cache)))"

definition static_handle_http_request ::
  "static_env \<Rightarrow> 'prog static_site_service \<Rightarrow> request \<Rightarrow> file_cache \<Rightarrow> response \<times> file_cache" where
  "static_handle_http_request env s req cache =
     (let url_path = static_url_path req
      in if rq_method req \<noteq> ''GET'' \<and> rq_method req \<noteq> ''HEAD'' then (new_method_not_allowed_error, cache)
         else if bad_url_path url_path then (new_not_found_error, cache)
         else case static_resolve env (ssc_root (sss_config s)) url_path of
                Inl res \<Rightarrow> (res, cache)
              | Inr (path, md) \<Rightarrow> static_serve_file env req path md cache)"

end
