(* ===== verification/Static_Site_Spec.thy ===== *)
theory Static_Site_Spec
  imports Static_Site Cached
begin

text \<open>
  What the static site promises: no request consults a path outside the root folder (with the
  three kinds of request that break this named), and the cache never changes an answer.
\<close>

section \<open>Paths below the root\<close>

text \<open>A relative path without parent components; a path is inside the root when it is one of these below it.\<close>

definition relative_path :: "string \<Rightarrow> bool" where
  "relative_path rel \<longleftrightarrow> \<not> starts_with rel ''/'' \<and> ''..'' \<notin> set (split_char CHR ''/'' rel)"

definition inside :: "string \<Rightarrow> string \<Rightarrow> bool" where
  "inside root p \<longleftrightarrow> (\<exists>rel. relative_path rel \<and> p = path_push root rel)"

definition path_base :: "string \<Rightarrow> string" where
  "path_base root = (if root = [] \<or> last root = CHR ''/'' then root else root @ ''/'')"

lemma path_push_base: "\<not> starts_with rel ''/'' \<Longrightarrow> path_push root rel = path_base root @ rel"
  by (simp add: path_push_def path_base_def)

lemma insideI: "relative_path rel \<Longrightarrow> inside root (path_base root @ rel)"
  unfolding inside_def by (rule exI [of _ rel]) (simp add: relative_path_def path_push_base)

lemma slash_start: "starts_with s ''/'' \<longleftrightarrow> (\<exists>t. s = CHR ''/'' # t)"
  by (auto simp: starts_with_iff prefix_def)

text \<open>The only accepted URL path with a parent component is the parent itself.\<close>

lemma accepted_relative:
  assumes "\<not> bad_url_path p" and "p \<noteq> ''..''" and "\<not> starts_with p ''/''"
  shows "relative_path p"
proof -
  have "''..'' \<notin> set (split_char CHR ''/'' p)"
  proof
    assume "''..'' \<in> set (split_char CHR ''/'' p)"
    then obtain xs ys where s: "split_char CHR ''/'' p = xs @ ''..'' # ys"
      by (meson split_list)
    have p: "p = join ''/'' (xs @ ''..'' # ys)"
      using join_split_char [of "CHR ''/''" p] s by simp
    show False
    proof (cases "xs = []")
      case False
      then have "p = join ''/'' xs @ ''/'' @ join ''/'' (''..'' # ys)"
        using p by (simp add: join_append)
      moreover have "\<exists>r. join ''/'' (''..'' # ys) = ''..'' @ r"
        by (cases ys) auto
      ultimately have "\<exists>a b. p = a @ ''/..'' @ b" by auto
      then show False using assms(1) by (simp add: bad_url_path_def contains_str_iff)
    next
      case True
      show False
      proof (cases ys)
        case Nil
        then show False using True p assms(2) by simp
      next
        case (Cons y ys')
        then have "p = [] @ ''../'' @ join ''/'' (y # ys')" using True p by simp
        then have "\<exists>a b. p = a @ ''../'' @ b" by blast
        then show False using assms(1) by (simp add: bad_url_path_def contains_str_iff)
      qed
    qed
  qed
  with assms(3) show ?thesis by (simp add: relative_path_def)
qed

section \<open>The three candidates of a request\<close>

lemma index_inside:
  assumes "relative_path url"
  shows "inside root (path_push (path_push root url) ''index.html'')"
proof -
  have push: "path_push root url = path_base root @ url"
    using assms by (simp add: relative_path_def path_push_base)
  have idx: "\<not> starts_with ''index.html'' ''/''" "''index.html'' \<noteq> ''..''" by (simp_all add: slash_start)
  have split_idx: "split_char CHR ''/'' ''index.html'' = [''index.html'']"
    by (rule split_char_single) simp
  show ?thesis
  proof (cases "url = []")
    case True
    have "relative_path ''index.html''"
      using idx by (simp add: relative_path_def split_idx)
    moreover have "path_push (path_push root url) ''index.html'' = path_base root @ ''index.html''"
      unfolding push by (simp add: True path_push_def slash_start path_base_def)
    ultimately show ?thesis by (simp add: insideI)
  next
    case False
    have "path_push (path_base root @ url) ''index.html'' = path_base root @ path_base url @ ''index.html''"
      using False by (simp add: path_push_def slash_start path_base_def)
    moreover have "relative_path (path_base url @ ''index.html'')"
    proof -
      have "\<not> starts_with (path_base url @ ''index.html'') ''/''"
        using assms False by (cases url) (simp_all add: relative_path_def slash_start path_base_def)
      moreover have "set (split_char CHR ''/'' (path_base url @ ''index.html''))
          \<subseteq> set (split_char CHR ''/'' url) \<union> {''index.html''}"
      proof (cases "last url = CHR ''/''")
        case True
        then obtain u where u: "url = u @ ''/''"
          using False by (metis append_butlast_last_id)
        have "split_char CHR ''/'' (u @ CHR ''/'' # ''index.html'') = split_char CHR ''/'' u @ [''index.html'']"
          by (simp only: split_char_append split_idx)
        moreover have "split_char CHR ''/'' (u @ CHR ''/'' # []) = split_char CHR ''/'' u @ [[]]"
          by (simp only: split_char_append split_char.simps)
        ultimately show ?thesis using True u by (auto simp: path_base_def)
      next
        case last: False
        have "split_char CHR ''/'' (url @ CHR ''/'' # ''index.html'') = split_char CHR ''/'' url @ [''index.html'']"
          by (simp only: split_char_append split_idx)
        then show ?thesis using last False by (simp add: path_base_def)
      qed
      ultimately show ?thesis using assms by (auto simp: relative_path_def)
    qed
    ultimately show ?thesis unfolding push by (simp add: insideI)
  qed
qed

lemma last_parts_base: "last_parts url \<noteq> [] \<Longrightarrow>
  \<exists>bs. last_parts (path_base root @ url) = last_parts url @ bs
    \<and> (\<forall>xs. xs \<noteq> [] \<longrightarrow> join ''/'' (rev bs @ xs) = path_base root @ join ''/'' xs)"
proof (cases "path_base root = []")
  case True
  then show ?thesis by (intro exI [of _ "[]"]) simp
next
  case False
  assume url: "last_parts url \<noteq> []"
  obtain b where b: "path_base root = b @ ''/''"
    using False by (metis append_butlast_last_id path_base_def snoc_eq_iff_butlast)
  let ?skip = "\<lambda>s. s = '''' \<or> s = ''.''"
  obtain s where s: "s \<in> set (rev (split_char CHR ''/'' url))" "\<not> ?skip s"
    using url unfolding last_parts_def dropWhile_eq_Nil_conv by blast
  have "split_char CHR ''/'' (path_base root @ url) = split_char CHR ''/'' b @ split_char CHR ''/'' url"
    using split_char_append [of "CHR ''/''" b url] by (simp add: b)
  then have parts: "last_parts (path_base root @ url) = last_parts url @ rev (split_char CHR ''/'' b)"
    unfolding last_parts_def by (simp only: rev_append dropWhile_append1 [of s _ ?skip, OF s])
  have "join ''/'' (rev (rev (split_char CHR ''/'' b)) @ xs) = path_base root @ join ''/'' xs" if "xs \<noteq> []" for xs
    unfolding rev_rev_ident join_append [OF split_char_not_Nil that] join_split_char b by simp
  with parts show ?thesis by blast
qed

text \<open>Appending the extension to the last named component keeps a path relative.\<close>

lemma file_stem_part: "set (file_stem s) \<subseteq> set s"
proof (cases "split_last_dot s")
  case (Some p)
  obtain stem ext where p: "p = (stem, ext)" by fastforce
  obtain b bs where rev: "rev (split_char CHR ''.'' s) = ext # b # bs" and stem: "stem = join ''.'' (rev (b # bs))"
    using Some p by (auto simp: split_last_dot_def split: list.splits)
  have "split_char CHR ''.'' s = rev (b # bs) @ [ext]" using rev by (metis rev.simps(2) rev_rev_ident)
  then have "s = join ''.'' (rev (b # bs) @ [ext])" by (metis join_split_char)
  also have "\<dots> = stem @ ''.'' @ ext" by (subst join_append) (simp_all add: stem)
  finally show ?thesis using Some p by (auto simp: file_stem_def)
qed (simp add: file_stem_def)

lemma file_stem_not_Nil: "s \<noteq> [] \<Longrightarrow> file_stem s \<noteq> []"
  by (auto simp: file_stem_def split: option.split)

lemma html_inside:
  assumes url: "relative_path url" and named: "last_parts url \<noteq> []"
  shows "inside root (set_extension (path_push root url) ''html'')"
proof -
  let ?skip = "\<lambda>s. s = '''' \<or> s = ''.''"
  obtain s rest where parts: "last_parts url = s # rest" using named by (cases "last_parts url") auto
  obtain dropped where "rev (split_char CHR ''/'' url) = dropped @ s # rest"
    using parts unfolding last_parts_def by (metis takeWhile_dropWhile_id)
  then have split: "split_char CHR ''/'' url = rev rest @ s # rev dropped"
    by (metis append_Cons append_Nil append_assoc rev.simps(2) rev_append rev_rev_ident)
  then have in_url: "set rest \<subseteq> set (split_char CHR ''/'' url)" "s \<in> set (split_char CHR ''/'' url)"
    by auto
  have s_ne: "s \<noteq> []"
    using parts hd_dropWhile [of ?skip "rev (split_char CHR ''/'' url)"] by (auto simp: last_parts_def)
  have s_up: "s \<noteq> ''..''" using in_url url by (auto simp: relative_path_def)
  let ?name = "file_stem s @ ''.html''"
  let ?rel = "join ''/'' (rev rest @ [?name])"
  have no_sep: "\<forall>x \<in> set (rev rest @ [?name]). CHR ''/'' \<notin> set x"
    using in_url file_stem_part [of s] split_char_no_sep [of _ "CHR ''/''" url] by auto
  have split_rel: "split_char CHR ''/'' ?rel = rev rest @ [?name]"
    by (rule split_char_join [OF _ no_sep]) simp
  have "relative_path ?rel"
    unfolding relative_path_def
  proof
    show "''..'' \<notin> set (split_char CHR ''/'' ?rel)"
      using in_url url by (auto simp: split_rel relative_path_def dest: arg_cong [where f = length])
    show "\<not> starts_with ?rel ''/''"
    proof
      assume "starts_with ?rel ''/''"
      then obtain t where "?rel = CHR ''/'' # t" by (auto simp: slash_start)
      then have "hd (rev rest @ [?name]) = []" using split_rel by (metis list.sel(1) split_char.simps(2))
      then obtain r where r: "rev rest = [] # r"
        by (cases "rev rest") auto
      have "url = join ''/'' ([] # r @ s # rev dropped)"
        using split join_split_char [of "CHR ''/''" url] by (simp add: r)
      then have "starts_with url ''/''"
        by (cases r) (simp_all add: slash_start)
      then show False using url by (simp add: relative_path_def)
    qed
  qed
  moreover have "set_extension (path_push root url) ''html'' = path_base root @ ?rel"
  proof -
    obtain bs where bs: "last_parts (path_base root @ url) = s # rest @ bs"
      and join: "\<forall>xs. xs \<noteq> [] \<longrightarrow> join ''/'' (rev bs @ xs) = path_base root @ join ''/'' xs"
      using last_parts_base [OF named, of root] by (auto simp: parts)
    have push: "path_push root url = path_base root @ url"
      using url by (simp add: relative_path_def path_push_base)
    have "set_extension (path_base root @ url) ''html'' = join ''/'' (rev bs @ rev rest @ [file_stem s]) @ ''.html''"
      by (simp add: set_extension_def bs s_up)
    also have "\<dots> = path_base root @ join ''/'' (rev rest @ [file_stem s]) @ ''.html''"
      using join by simp
    also have "join ''/'' (rev rest @ [file_stem s]) @ ''.html'' = ?rel"
      by (cases "rest = []") (simp_all add: join_append)
    finally show ?thesis unfolding push .
  qed
  ultimately show ?thesis by (simp add: insideI)
qed

section \<open>Files outside the root are never consulted\<close>

text \<open>
  The accepted paths for which this holds: not the parent folder, not absolute after trimming, and
  naming an entry unless the root exists.
\<close>

definition proper_path :: "static_env \<Rightarrow> string \<Rightarrow> string \<Rightarrow> bool" where
  "proper_path env root url \<longleftrightarrow>
     url \<noteq> ''..'' \<and> \<not> starts_with url ''/''
     \<and> (last_parts url = [] \<longrightarrow> se_metadata env (path_push root url) \<noteq> Inl NotFound)"

definition same_inside :: "string \<Rightarrow> static_env \<Rightarrow> static_env \<Rightarrow> bool" where
  "same_inside root env env' \<longleftrightarrow>
     (\<forall>p. inside root p \<longrightarrow>
        se_metadata env p = se_metadata env' p \<and> se_metadata_again env p = se_metadata_again env' p
        \<and> se_read env p = se_read env' p \<and> se_open env p = se_open env' p)
     \<and> se_sha256 env = se_sha256 env' \<and> se_mime_from_ext env = se_mime_from_ext env'
     \<and> se_utf8 env = se_utf8 env' \<and> se_headers env = se_headers env' \<and> se_evict env = se_evict env'"

lemma same_insideD:
  assumes "same_inside root env env'"
  shows "se_sha256 env = se_sha256 env'" "se_mime_from_ext env = se_mime_from_ext env'"
    and "se_utf8 env = se_utf8 env'" "se_headers env = se_headers env'" "se_evict env = se_evict env'"
    and "inside root p \<Longrightarrow> se_metadata env p = se_metadata env' p"
    and "inside root p \<Longrightarrow> se_metadata_again env p = se_metadata_again env' p"
    and "inside root p \<Longrightarrow> se_read env p = se_read env' p"
    and "inside root p \<Longrightarrow> se_open env p = se_open env' p"
  using assms unfolding same_inside_def by blast+

lemma try_metadata_Inr: "try_metadata env p = Inr md \<Longrightarrow> se_metadata_again env p = Inr md"
  by (auto simp: try_metadata_def split: sum.splits io_error_kind.splits if_splits)

lemma resolve_inside:
  assumes "\<not> bad_url_path url" and "proper_path env root url"
  shows "inside root (path_push root url)"
    and "inside root (path_push (path_push root url) ''index.html'')"
    and "se_metadata env (path_push root url) = Inl NotFound \<Longrightarrow>
           inside root (set_extension (path_push root url) ''html'')"
proof -
  have rel: "relative_path url"
    using assms accepted_relative by (auto simp: proper_path_def)
  then show "inside root (path_push root url)"
    by (auto simp: inside_def)
  show "inside root (path_push (path_push root url) ''index.html'')"
    by (rule index_inside [OF rel])
  show "inside root (set_extension (path_push root url) ''html'')"
    if "se_metadata env (path_push root url) = Inl NotFound"
    using that assms(2) html_inside [OF rel] by (auto simp: proper_path_def)
qed

lemma resolve_Inr_inside:
  assumes "\<not> bad_url_path url" and "proper_path env root url"
    and "static_resolve env root url = Inr (p, md)"
  shows "inside root p"
  using assms(3) resolve_inside [OF assms(1,2)]
  by (auto simp: static_resolve_def Let_def and_then_Inr_iff split: sum.splits io_error_kind.splits if_splits)

lemma same_resolve:
  assumes same: "same_inside root env env'" and ok: "\<not> bad_url_path url" "proper_path env root url"
  shows "static_resolve env root url = static_resolve env' root url"
proof -
  note in_root = resolve_inside [OF ok]
  have first: "se_metadata env (path_push root url) = se_metadata env' (path_push root url)"
    by (rule same_insideD(6) [OF same in_root(1)])
  have again: "try_metadata env p = try_metadata env' p" if "inside root p" for p
    using same_insideD(7) [OF same that] by (simp add: try_metadata_def)
  show ?thesis
  proof (cases "se_metadata env (path_push root url)")
    case (Inl e)
    then show ?thesis
      using again [OF in_root(3)] first by (cases e) (simp_all add: static_resolve_def Let_def)
  next
    case (Inr md)
    then show ?thesis
      using again [OF in_root(2)] first by (simp add: static_resolve_def Let_def)
  qed
qed

lemma same_serve:
  assumes same: "same_inside root env env'" and p: "inside root p"
  shows "static_serve_file env req p md cache = static_serve_file env' req p md cache"
proof -
  note s = same_insideD(1-5) [OF same] same_insideD(8,9) [OF same p]
  have b: "build_response env = build_response env'" "etag_of env = etag_of env'"
    "static_headers env = static_headers env'" "if_none_match env = if_none_match env'"
    by (intro ext; simp add: build_response_def etag_of_def static_headers_def if_none_match_def s)+
  have stream: "static_stream env hs p = static_stream env' hs p" for hs
    unfolding static_stream_def b s ..
  have cached: "static_cached env hs p md m cache = static_cached env' hs p md m cache" for hs m
    unfolding static_cached_def b s ..
  show ?thesis unfolding static_serve_file_def b stream cached ..
qed

text \<open>C12: the answer to a request, and what it leaves in the cache, depend only on files inside the root
  folder: two file systems that agree there give the same, for every accepted path with three exceptions:
  the parent folder, paths that become absolute by the second trimming, and, while the root folder does
  not exist, paths that name no entry, such as that of the start page.\<close>

theorem static_confined:
  assumes "same_inside (ssc_root (sss_config s)) env env'"
    and "proper_path env (ssc_root (sss_config s)) (static_url_path req)"
  shows "static_handle_http_request env s req cache = static_handle_http_request env' s req cache"
proof (cases "bad_url_path (static_url_path req)")
  case False
  note resolve = same_resolve [OF assms(1) False assms(2)]
  show ?thesis
  proof (cases "static_resolve env (ssc_root (sss_config s)) (static_url_path req)")
    case (Inl r)
    then show ?thesis using resolve by (simp add: static_handle_http_request_def Let_def)
  next
    case (Inr pm)
    obtain p md where pm: "pm = (p, md)" by fastforce
    have "inside (ssc_root (sss_config s)) p"
      using resolve_Inr_inside [OF False assms(2)] Inr pm by simp
    from same_serve [OF assms(1) this, of req md cache] show ?thesis
      using Inr resolve by (simp add: static_handle_http_request_def Let_def pm)
  qed
qed (simp add: static_handle_http_request_def Let_def)

text \<open>A small site: \<open>/site\<close> holds two pages, its parent has an index and \<open>/etc\<close> a secret.\<close>

definition demo_metadata :: "string \<Rightarrow> io_error_kind + metadata" where
  "demo_metadata p =
     (if p \<in> {''/site/'', ''/site/..'', ''/site''} then Inr \<lparr>md_is_dir = True, md_size = 0, md_modified = None\<rparr>
      else if p \<in> {''/site/index.html'', ''/site/page.html'', ''/site/../index.html'', ''/etc/secret''}
      then Inr \<lparr>md_is_dir = False, md_size = 5, md_modified = Some 7\<rparr>
      else Inl NotFound)"

definition demo_static_env :: "string \<Rightarrow> static_env" where
  "demo_static_env secret =
     \<lparr>se_metadata = demo_metadata, se_metadata_again = demo_metadata,
      se_read = (\<lambda>p. if p = ''/etc/secret'' then Inr secret else Inr p),
      se_open = (\<lambda>p. Inr ()), se_sha256 = (\<lambda>b. b), se_mime_from_ext = (\<lambda>e. ''text/'' @ e), se_utf8 = (\<lambda>_. True),
      se_headers = \<lparr>he_to_str = (\<lambda>_. True), he_from_str = (\<lambda>_. True)\<rparr>, se_evict = (\<lambda>c. c)\<rparr>"

definition demo_site :: "unit static_site_service" where
  "demo_site =
     \<lparr>sss_name = ''site'', sss_route = None,
      sss_config = \<lparr>ssc_root = ''/site'', ssc_not_found = \<lparr>snf_file = None, snf_status_code = 404\<rparr>\<rparr>\<rparr>"

definition demo_get :: "string \<Rightarrow> request" where
  "demo_get path =
     \<lparr>rq_method = ''GET'', rq_uri_host = None, rq_path = path, rq_path_and_query = Some path, rq_uri = path,
      rq_version = HTTP_11, rq_headers = [], rq_body = Inr '''', rq_context = None\<rparr>"

theorem static_confined_witness:
  "static_handle_http_request (demo_static_env ''a'') demo_site (demo_get ''/page'') []
   = static_handle_http_request (demo_static_env ''b'') demo_site (demo_get ''/page'') []"
proof (rule static_confined)
  have out: "\<not> inside ''/site'' ''/etc/secret''"
    by (simp add: inside_def path_push_def relative_path_def)
  show "same_inside (ssc_root (sss_config demo_site)) (demo_static_env ''a'') (demo_static_env ''b'')"
    using out by (auto simp: same_inside_def demo_site_def demo_static_env_def)
  have "static_url_path (demo_get ''/page'') = ''page''" by code_simp
  moreover have "last_parts ''page'' \<noteq> []" by code_simp
  ultimately show "proper_path (demo_static_env ''a'') (ssc_root (sss_config demo_site)) (static_url_path (demo_get ''/page''))"
    by (simp add: proper_path_def slash_start)
qed

text \<open>
  The three exceptions are real: a request for the parent folder serves the index of the root's
  parent, a path that begins with a Unicode blank is absolute after the second trimming, and when the
  root folder is missing the start page is the file beside it with the extension \<open>html\<close>.
\<close>

lemma parent_index_served:
  "static_resolve (demo_static_env ''s'') ''/site'' (static_url_path (demo_get ''/..''))
   = Inr (''/site/../index.html'', \<lparr>md_is_dir = False, md_size = 5, md_modified = Some 7\<rparr>)"
  "\<not> bad_url_path (static_url_path (demo_get ''/..''))"
  by code_simp+

lemma absolute_path_served:
  "static_resolve (demo_static_env ''s'') ''/site''
     (static_url_path (demo_get (''/'' @ [CHR 0xE3, CHR 0x80, CHR 0x80] @ ''/etc/secret'')))
   = Inr (''/etc/secret'', \<lparr>md_is_dir = False, md_size = 5, md_modified = Some 7\<rparr>)"
  "\<not> bad_url_path (static_url_path (demo_get (''/'' @ [CHR 0xE3, CHR 0x80, CHR 0x80] @ ''/etc/secret'')))"
  by code_simp+

definition demo_rootless_env :: static_env where
  "demo_rootless_env =
     (let metadata = (\<lambda>p. if p = ''/site.html'' then Inr \<lparr>md_is_dir = False, md_size = 5, md_modified = Some 7\<rparr> else Inl NotFound)
      in (demo_static_env ''s'')\<lparr>se_metadata := metadata, se_metadata_again := metadata\<rparr>)"

lemma rootless_html_served:
  "static_resolve demo_rootless_env ''/site'' (static_url_path (demo_get ''/''))
   = Inr (''/site.html'', \<lparr>md_is_dir = False, md_size = 5, md_modified = Some 7\<rparr>)"
  "\<not> bad_url_path (static_url_path (demo_get ''/''))"
  by code_simp+

lemma rootless_html_outside: "\<not> inside ''/site'' ''/site.html''"
  by (simp add: inside_def path_push_def relative_path_def)

section \<open>The cache\<close>

text \<open>
  The service without a cache, over what reading a file gives for its path, modification time and
  size.
\<close>

definition static_uncached ::
  "(string \<Rightarrow> 128 word \<Rightarrow> u64 \<Rightarrow> unit + string) \<Rightarrow> static_env \<Rightarrow> 'prog static_site_service \<Rightarrow> request \<Rightarrow> response" where
  "static_uncached read env s req =
     (if rq_method req \<noteq> ''GET'' \<and> rq_method req \<noteq> ''HEAD'' then new_method_not_allowed_error
      else if bad_url_path (static_url_path req) then new_not_found_error
      else case static_resolve env (ssc_root (sss_config s)) (static_url_path req) of
             Inl res \<Rightarrow> res
           | Inr (path, md) \<Rightarrow>
               (case md_modified md of
                  None \<Rightarrow> static_stream env (static_headers env path md) path
                | Some modified \<Rightarrow>
                    (let etag = etag_of env path (md_size md) modified;
                         hs = static_headers env path md @ [(''etag'', etag)]
                     in if if_none_match env req = Some (trim_quotes etag) then build_response env 304 hs (Full '''')
                        else if md_size md \<le> caching_file_size_limit
                        then (case read path modified (md_size md) of
                                Inl _ \<Rightarrow> new_internal_error_response_500
                              | Inr d \<Rightarrow> build_response env 200 hs (Full d))
                        else static_stream env hs path)))"

text \<open>
  The file system keeps the promise the entity tags rest on: the modification time and size of a
  file determine its content; and the cache library only drops entries.
\<close>

definition content_stable :: "(string \<Rightarrow> 128 word \<Rightarrow> u64 \<Rightarrow> string) \<Rightarrow> static_env \<Rightarrow> bool" where
  "content_stable content env \<longleftrightarrow>
     (\<forall>p md m d. (se_metadata env p = Inr md \<or> se_metadata_again env p = Inr md) \<longrightarrow>
        md_modified md = Some m \<longrightarrow> se_read env p = Inr d \<longrightarrow> d = content p m (md_size md))
     \<and> (\<forall>c. map_of (se_evict env c) \<subseteq>\<^sub>m map_of c)"

definition cache_current :: "(string \<Rightarrow> 128 word \<Rightarrow> u64 \<Rightarrow> string) \<Rightarrow> file_cache \<Rightarrow> bool" where
  "cache_current content c \<longleftrightarrow>
     (\<forall>p f. map_of c p = Some f \<longrightarrow> cf_data f = content p (cf_modified_at f) (cf_size f))"

text \<open>
  A right answer: the one of the service that reads the file now; only when that fails to read
  it, also the answer with the content the file had.
\<close>

definition answers_like :: "response \<Rightarrow> response \<Rightarrow> response \<Rightarrow> bool" where
  "answers_like now kept res \<longleftrightarrow> res = now \<or> (now = new_internal_error_response_500 \<and> res = kept)"

definition right_answer ::
  "(string \<Rightarrow> 128 word \<Rightarrow> u64 \<Rightarrow> string) \<Rightarrow> 'prog static_site_service \<Rightarrow> static_env \<times> request \<Rightarrow> response \<Rightarrow> bool" where
  "right_answer content s = (\<lambda>(env, req).
     answers_like (static_uncached (\<lambda>p m n. se_read env p) env s req)
       (static_uncached (\<lambda>p m n. Inr (content p m n)) env s req))"

lemma cache_current_evict:
  "content_stable content env \<Longrightarrow> cache_current content c \<Longrightarrow> cache_current content (se_evict env c)"
  unfolding content_stable_def cache_current_def map_le_def by (metis domI)

lemma cache_current_delete: "cache_current content c \<Longrightarrow> cache_current content (AList.delete p c)"
  by (simp add: cache_current_def delete_conv')

lemma cache_current_update:
  "cache_current content c \<Longrightarrow> cf_data f = content p (cf_modified_at f) (cf_size f) \<Longrightarrow>
     cache_current content (AList.update p f c)"
  by (simp add: cache_current_def update_conv')

lemma static_cached_step:
  assumes stable: "content_stable content env" and cur: "cache_current content c"
    and md: "se_metadata env p = Inr md \<or> se_metadata_again env p = Inr md" and m: "md_modified md = Some m"
  shows "answers_like
      (case se_read env p of Inl _ \<Rightarrow> new_internal_error_response_500 | Inr d \<Rightarrow> build_response env 200 hs (Full d))
      (build_response env 200 hs (Full (content p m (md_size md)))) (fst (static_cached env hs p md m c))
    \<and> cache_current content (snd (static_cached env hs p md m c))"
proof -
  let ?c = "se_evict env c"
  have cur': "cache_current content ?c" by (rule cache_current_evict [OF stable cur])
  have read: "d = content p m (md_size md)" if "se_read env p = Inr d" for d
    using stable md m that unfolding content_stable_def by blast
  show ?thesis
  proof (cases "map_of ?c p")
    case None
    show ?thesis
    proof (cases "se_read env p")
      case (Inr d)
      then show ?thesis
        using read [OF Inr] cur' None
        by (simp add: static_cached_def Let_def answers_like_def cache_current_update)
    qed (use None cur' in \<open>simp add: static_cached_def Let_def answers_like_def\<close>)
  next
    case (Some f)
    show ?thesis
    proof (cases "cf_modified_at f = m \<and> cf_size f = md_size md")
      case True
      moreover have "cf_data f = content p m (md_size md)"
        using cur' Some True unfolding cache_current_def by fastforce
      ultimately show ?thesis
        using Some cur' read by (cases "se_read env p") (simp_all add: static_cached_def Let_def answers_like_def)
    next
      case False
      show ?thesis
      proof (cases "se_read env p")
        case (Inr d)
        have "static_cached env hs p md m c = (build_response env 200 hs (Full d),
            AList.update p \<lparr>cf_modified_at = m, cf_size = md_size md, cf_data = d\<rparr> (AList.delete p ?c))"
          using Some False Inr by (auto simp: static_cached_def Let_def)
        then show ?thesis
          using read [OF Inr] cur' Inr by (simp add: answers_like_def cache_current_update cache_current_delete)
      next
        case (Inl e)
        have "static_cached env hs p md m c = (new_internal_error_response_500, AList.delete p ?c)"
          using Some False Inl by (auto simp: static_cached_def Let_def)
        then show ?thesis using cur' Inl by (simp add: answers_like_def cache_current_delete)
      qed
    qed
  qed
qed

lemma static_serve_step:
  assumes stable: "content_stable content env" and cur: "cache_current content c"
    and md: "se_metadata env p = Inr md \<or> se_metadata_again env p = Inr md"
    and resolve: "static_resolve env (ssc_root (sss_config s)) (static_url_path req) = Inr (p, md)"
    and ok: "\<not> bad_url_path (static_url_path req)" "rq_method req = ''GET'' \<or> rq_method req = ''HEAD''"
  shows "right_answer content s (env, req) (fst (static_serve_file env req p md c))
    \<and> cache_current content (snd (static_serve_file env req p md c))"
proof (cases "md_modified md")
  case None
  then show ?thesis
    using cur ok by (auto simp: static_uncached_def static_serve_file_def resolve right_answer_def answers_like_def Let_def)
next
  case (Some m)
  let ?etag = "etag_of env p (md_size md) m"
  let ?hs = "static_headers env p md @ [(''etag'', ?etag)]"
  consider "if_none_match env req = Some (trim_quotes ?etag)"
    | "if_none_match env req \<noteq> Some (trim_quotes ?etag)" "md_size md \<le> caching_file_size_limit"
    | "if_none_match env req \<noteq> Some (trim_quotes ?etag)" "\<not> md_size md \<le> caching_file_size_limit"
    by blast
  then show ?thesis
  proof cases
    case 2
    have "static_uncached read env s req = (case read p m (md_size md) of
        Inl _ \<Rightarrow> new_internal_error_response_500 | Inr d \<Rightarrow> build_response env 200 ?hs (Full d))" for read
      using 2 ok by (auto simp: static_uncached_def resolve Some Let_def)
    moreover have "static_serve_file env req p md c = static_cached env ?hs p md m c"
      using 2 by (simp add: static_serve_file_def Some Let_def)
    ultimately show ?thesis
      using static_cached_step [OF stable cur md Some, of ?hs] by (simp add: right_answer_def)
  qed (use cur ok Some in \<open>auto simp: static_uncached_def static_serve_file_def resolve right_answer_def answers_like_def Let_def\<close>)
qed

lemma resolve_metadata:
  "static_resolve env root url = Inr (p, md) \<Longrightarrow> se_metadata env p = Inr md \<or> se_metadata_again env p = Inr md"
  by (auto simp: static_resolve_def Let_def and_then_Inr_iff dest!: try_metadata_Inr
      split: sum.splits io_error_kind.splits if_splits)

lemma static_step:
  assumes "content_stable content env" and "cache_current content c"
  shows "right_answer content s (env, req) (fst (static_handle_http_request env s req c))
    \<and> cache_current content (snd (static_handle_http_request env s req c))"
proof -
  consider "rq_method req \<noteq> ''GET'' \<and> rq_method req \<noteq> ''HEAD''"
    | "rq_method req = ''GET'' \<or> rq_method req = ''HEAD''" "bad_url_path (static_url_path req)"
    | "rq_method req = ''GET'' \<or> rq_method req = ''HEAD''" "\<not> bad_url_path (static_url_path req)"
    by blast
  then show ?thesis
  proof cases
    case 3
    show ?thesis
    proof (cases "static_resolve env (ssc_root (sss_config s)) (static_url_path req)")
      case (Inl r)
      then show ?thesis
        using 3 assms(2)
        by (auto simp: static_uncached_def static_handle_http_request_def right_answer_def answers_like_def Let_def)
    next
      case (Inr pm)
      obtain p md where pm: "pm = (p, md)" by fastforce
      have "static_handle_http_request env s req c = static_serve_file env req p md c"
        using 3 Inr pm by (auto simp: static_handle_http_request_def Let_def)
      then show ?thesis
        using static_serve_step [OF assms _ _ 3(2,1)] resolve_metadata Inr pm by metis
    qed
  qed (use assms(2) in \<open>auto simp: static_uncached_def static_handle_http_request_def right_answer_def answers_like_def Let_def\<close>)
qed

text \<open>Successive requests, each with the file system and the evictions of its time.\<close>

definition static_run :: "'prog static_site_service \<Rightarrow> (static_env \<times> request) list \<Rightarrow> file_cache \<Rightarrow> response list" where
  "static_run s = run_steps (\<lambda>(env, req). static_handle_http_request env s req)"

interpretation site: cached_server "cache_current content" "\<lambda>q. content_stable content (fst q)"
  "\<lambda>(env, req). static_handle_http_request env s req" "right_answer content s"
  for content :: "string \<Rightarrow> 128 word \<Rightarrow> u64 \<Rightarrow> string" and s :: "'prog static_site_service"
  by unfold_locales (auto simp: static_step split: prod.split)

text \<open>C26: over any sequence of requests, whatever the cache drops in between, a new service answers every
  request as a service without a cache would, which reads the file now; only when the file cannot be
  read now may the answer also be the one with the content it had.\<close>

theorem static_cache_invisible:
  assumes "\<forall>q \<in> set rs. content_stable content (fst q)"
  shows "list_all2 (right_answer content s) rs (static_run s rs [])"
  unfolding static_run_def by (rule site.run_answers [OF _ assms]) (simp add: cache_current_def)

definition demo_content :: "string \<Rightarrow> 128 word \<Rightarrow> u64 \<Rightarrow> string" where
  "demo_content p m n = (if p = ''/etc/secret'' then ''s'' else p)"

theorem static_cache_invisible_witness:
  "static_run demo_site [(demo_static_env ''s'', demo_get ''/page''), (demo_static_env ''s'', demo_get ''/page'')] [] \<noteq> []
   \<and> list_all2 (right_answer demo_content demo_site)
       [(demo_static_env ''s'', demo_get ''/page''), (demo_static_env ''s'', demo_get ''/page'')]
       (static_run demo_site [(demo_static_env ''s'', demo_get ''/page''), (demo_static_env ''s'', demo_get ''/page'')] [])"
proof
  let ?rs = "[(demo_static_env ''s'', demo_get ''/page''), (demo_static_env ''s'', demo_get ''/page'')]"
  have "content_stable demo_content (demo_static_env ''s'')"
    by (simp add: content_stable_def demo_static_env_def demo_content_def)
  then show "list_all2 (right_answer demo_content demo_site) ?rs (static_run demo_site ?rs [])"
    by (intro static_cache_invisible) simp
  show "static_run demo_site ?rs [] \<noteq> []"
    by (simp add: static_run_def split: prod.split)
qed

end
