(* ===== verification/Http_Proxy.thy ===== *)
theory Http_Proxy
  imports Rules Service_Registry
begin

text \<open>
  \<^verbatim>\<open>pingoo/services/http_proxy_service.rs\<close>: forwarding a request to an upstream of the
  service: the headers that are removed and set, the upstream's URI, and the response. The HTTP
  client, the random choice, the URI parser and the header library are an environment. \<open>None\<close>
  is a panic.
\<close>

section \<open>Constants and data\<close>

definition hop_headers :: "string list" where
  "hop_headers =
     [''connection'', ''proxy-connection'', ''keep-alive'', ''proxy-authenticate'', ''proxy-authorization'',
      ''te'', ''trailer'', ''transfer-encoding'', ''upgrade'']"

definition response_headers_to_remove :: "string list" where
  "response_headers_to_remove =
     [''x-accel-buffering'', ''x-accel-charset'', ''x-accel-limit-rate'', ''x-accel-redirect'', ''alt-svc'']"

record 'prog http_proxy_service =
  hps_name :: string
  hps_route :: "'prog option"

definition http_proxy_new :: "'prog service_config \<Rightarrow> 'prog http_proxy_service" where
  "http_proxy_new config = \<lparr>hps_name = sc_name config, hps_route = sc_route config\<rparr>"

definition proxy_match_request ::
  "('prog, 'lists) executor \<Rightarrow> 'prog http_proxy_service \<Rightarrow> 'lists rules_context \<Rightarrow> bool" where
  "proxy_match_request execute s ctx = match_route execute (hps_route s) ctx"

text \<open>What is sent to the upstream.\<close>

record upstream_request =
  ur_method :: string
  ur_uri :: string
  ur_version :: http_version
  ur_headers :: headers
  ur_body :: "unit + string"

record proxy_env =
  xe_choose :: "nat \<Rightarrow> nat"
  xe_uri_ok :: "string \<Rightarrow> bool"
  xe_headers :: header_env
  xe_request :: "upstream_request \<Rightarrow> unit + response"

section \<open>The forwarded request\<close>

definition insert_if_valid :: "header_env \<Rightarrow> string \<Rightarrow> string \<Rightarrow> headers \<Rightarrow> headers" where
  "insert_if_valid he n v hs =
     (case value_from_str he v of Some x \<Rightarrow> header_insert n x hs | None \<Rightarrow> hs)"

definition host_headers :: "header_env \<Rightarrow> request_context \<Rightarrow> headers \<Rightarrow> headers" where
  "host_headers he ctx hs =
     (case value_from_str he (ctx_host ctx) of
        Some host_header \<Rightarrow> header_insert ''x-forwarded-host'' host_header (header_insert ''host'' host_header hs)
      | None \<Rightarrow> hs)"

definition forwarded_for_to_upstream :: "header_env \<Rightarrow> string \<Rightarrow> headers \<Rightarrow> string" where
  "forwarded_for_to_upstream he client_ip hs =
     (let forwarded_for_from_client = map (\<lambda>v. or_default (to_str he v)) (header_get_all hs ''x-forwarded-for'')
      in if forwarded_for_from_client = [] then client_ip
         else join '', '' forwarded_for_from_client @ '', '' @ client_ip)"

definition geoip_headers :: "header_env \<Rightarrow> request_context \<Rightarrow> headers \<Rightarrow> headers" where
  "geoip_headers he ctx hs =
     (if ctx_geoip_enabled ctx
      then insert_if_valid he ''pingoo-client-asn'' (show_nat (unat (ctx_asn ctx)))
             (insert_if_valid he ''pingoo-client-country'' (country_str (ctx_country ctx)) hs)
      else hs)"

definition proxy_headers :: "header_env \<Rightarrow> request_context \<Rightarrow> headers \<Rightarrow> headers" where
  "proxy_headers he ctx hs =
     (let hs = fold header_remove hop_headers hs;
          hs = host_headers he ctx hs;
          client_ip_str = show_ip (sa_ip (ctx_client_address ctx));
          hs = insert_if_valid he ''x-forwarded-for'' (forwarded_for_to_upstream he client_ip_str hs) hs;
          hs = header_insert ''x-forwarded-proto'' (if ctx_tls ctx then ''https'' else ''http'') hs;
          hs = insert_if_valid he ''pingoo-client-ip'' client_ip_str hs
      in geoip_headers he ctx hs)"

definition upstream_uri :: "upstream \<Rightarrow> string \<Rightarrow> string" where
  "upstream_uri upstream path_and_query =
     (if up_tls upstream then ''https://'' @ up_hostname upstream @ path_and_query
      else ''http://'' @ show_socket_addr (up_socket_address upstream) @ path_and_query)"

definition proxy_response :: "response \<Rightarrow> response" where
  "proxy_response res =
     res\<lparr>res_headers := header_insert ''server'' ''pingoo''
          (fold header_remove response_headers_to_remove (res_headers res))\<rparr>"

definition proxy_handle_http_request ::
  "proxy_env \<Rightarrow> service_registry \<Rightarrow> 'prog http_proxy_service \<Rightarrow> request \<Rightarrow> response option" where
  "proxy_handle_http_request env reg s req =
     (let upstreams = get_upstreams reg (hps_name s)
      in if upstreams = [] then Some new_bad_gateway_error
         else case rq_context req of
                None \<Rightarrow> None
              | Some request_context \<Rightarrow>
                  (let upstream = upstreams ! xe_choose env (length upstreams);
                       path_and_query = (case rq_path_and_query req of Some x \<Rightarrow> x | None \<Rightarrow> ''/'');
                       uri_str = upstream_uri upstream path_and_query
                   in if \<not> xe_uri_ok env uri_str then None
                      else case xe_request env
                             \<lparr>ur_method = rq_method req, ur_uri = uri_str,
                              ur_version = (if up_tls upstream then HTTP_2 else HTTP_11),
                              ur_headers = proxy_headers (xe_headers env) request_context (rq_headers req),
                              ur_body = rq_body req\<rparr> of
                             Inl _ \<Rightarrow> Some new_bad_gateway_error
                           | Inr res \<Rightarrow> Some (proxy_response res)))"

section \<open>Visible text\<close>

lemma visible_join: "visible sep \<Longrightarrow> \<forall>x \<in> set xs. visible x \<Longrightarrow> visible (join sep xs)"
  by (induction sep xs rule: join.induct) auto

lemma visible_show_nat: "visible (show_nat n)"
proof (induction n rule: show_nat.induct)
  case (1 n)
  have "visible [char_of (48 + n mod 10)]"
    by (simp add: byte_char_of)
  with 1 show ?case
    by (subst show_nat.simps) (auto simp: byte_char_of)
qed

lemma visible_show_hex: "visible (show_hex n)"
proof (induction n rule: show_hex.induct)
  case (1 n)
  have hex: "visible [hex_char d]" if "d < 16" for d
    using that by (simp add: hex_char_def byte_char_of)
  show ?case
    using 1 hex [of n] hex [of "n mod 16"] by (subst show_hex.simps) auto
qed

lemma visible_show_ip: "visible (show_ip ip)"
proof (cases ip)
  case (V4 a)
  then show ?thesis
    by (auto simp: show_ipv4_def visible_show_nat byte_def intro!: visible_join)
next
  case (V6 a)
  have colon: "visible '':''" "visible ''::''" "visible ''::ffff:''" by (simp_all add: byte_def)
  have "visible (show_ipv4 b)" for b
    by (auto simp: show_ipv4_def visible_show_nat byte_def intro!: visible_join)
  then show ?thesis
    using colon by (auto simp: V6 show_ipv6_def Let_def visible_show_hex intro!: visible_join split: prod.split)
qed

end
