(* ===== verification/Http_Proxy_Spec.thy ===== *)
theory Http_Proxy_Spec
  imports Http_Proxy
begin

text \<open>
  What the HTTP proxy promises: the header map of the forwarded request as an exact function of
  the client's, only upstreams on offer are contacted, and every answer is the proxy's own; the one panic
  of the proxy, and that a client can reach it.
\<close>

section \<open>The forwarded headers\<close>

text \<open>
  The values of every header name, given the client's headers: the reference the chain of
  removals and insertions is compared with.
\<close>

definition forwarded_values :: "header_env \<Rightarrow> request_context \<Rightarrow> headers \<Rightarrow> string \<Rightarrow> string list" where
  "forwarded_values he ctx hs n =
     (let ip = show_ip (sa_ip (ctx_client_address ctx))
      in if n \<in> set hop_headers then []
         else if n = ''host'' \<or> n = ''x-forwarded-host'' then [ctx_host ctx]
         else if n = ''x-forwarded-for''
         then [join '', '' (map (\<lambda>v. or_default (to_str he v)) (header_get_all hs n) @ [ip])]
         else if n = ''x-forwarded-proto'' then [if ctx_tls ctx then ''https'' else ''http'']
         else if n = ''pingoo-client-ip'' then [ip]
         else if n = ''pingoo-client-country'' \<and> ctx_geoip_enabled ctx then [country_str (ctx_country ctx)]
         else if n = ''pingoo-client-asn'' \<and> ctx_geoip_enabled ctx then [show_nat (unat (ctx_asn ctx))]
         else header_get_all hs n)"

lemma header_get_all_fold_remove:
  "header_get_all (fold header_remove ns hs) m = (if m \<in> set ns then [] else header_get_all hs m)"
  by (induction ns arbitrary: hs) auto

lemma value_from_str_visible [simp]: "header_env_ok he \<Longrightarrow> visible v \<Longrightarrow> value_from_str he v = Some v"
  by (simp add: header_env_ok_def value_from_str_def)

lemma insert_if_valid_visible: "header_env_ok he \<Longrightarrow> visible v \<Longrightarrow> insert_if_valid he n v hs = header_insert n v hs"
  by (simp add: insert_if_valid_def)

lemma from_str_join:
  assumes "header_env_ok he" and "\<forall>x \<in> set xs. he_from_str he x"
  shows "he_from_str he (join '', '' xs)"
proof -
  have sep: "he_from_str he '', ''" "he_from_str he ''''"
    using assms(1) by (auto simp: header_env_ok_def byte_def)
  have app: "he_from_str he a \<Longrightarrow> he_from_str he b \<Longrightarrow> he_from_str he (a @ b)" for a b
    using assms(1) by (auto simp: header_env_ok_def)
  show ?thesis
    using assms(2)
  proof (induction "'', ''" xs rule: join.induct)
    case (3 x y zs)
    have "he_from_str he ('', '' @ join '', '' (y # zs))"
      by (rule app [OF sep(1)]) (use 3 in simp_all)
    then have "he_from_str he (x @ '', '' @ join '', '' (y # zs))"
      by (rule app [rotated]) (use 3 in simp_all)
    then show ?case by simp
  qed (use sep in simp_all)
qed

lemma forwarded_for_join:
  "forwarded_for_to_upstream he ip hs =
     join '', '' (map (\<lambda>v. or_default (to_str he v)) (header_get_all hs ''x-forwarded-for'') @ [ip])"
proof (cases "header_get_all hs ''x-forwarded-for'' = []")
  case False
  then have "map (\<lambda>v. or_default (to_str he v)) (header_get_all hs ''x-forwarded-for'') \<noteq> []" by simp
  then show ?thesis
    by (simp only: forwarded_for_to_upstream_def Let_def if_False join_append [OF _ not_Cons_self2] join.simps simp_thms)
qed (simp add: forwarded_for_to_upstream_def)

lemma value_from_str_forwarded_for [simp]:
  assumes "header_env_ok he"
  shows "value_from_str he (forwarded_for_to_upstream he (show_ip ip) hs)
    = Some (forwarded_for_to_upstream he (show_ip ip) hs)"
proof -
  have "he_from_str he (or_default (to_str he v))" for v
    using assms by (auto simp: or_default_def to_str_def header_env_ok_def)
  moreover have "he_from_str he (show_ip ip)"
    using assms visible_show_ip by (auto simp: header_env_ok_def)
  ultimately have "he_from_str he (forwarded_for_to_upstream he (show_ip ip) hs)"
    unfolding forwarded_for_join by (intro from_str_join [OF assms]) auto
  then show ?thesis by (simp add: value_from_str_def)
qed

text \<open>C13: every header of a forwarded request is exactly determined: hop-by-hop headers are gone, the
  host, protocol and client address are the connection's, the address is appended to the forwarding
  chain, with GeoIP the country and AS number are the looked-up ones, all others are the client's.\<close>

theorem proxy_headers_exact:
  assumes "header_env_ok he" and "visible (ctx_host ctx)" and "visible (country_str (ctx_country ctx))"
  shows "header_get_all (proxy_headers he ctx hs) n = forwarded_values he ctx hs n"
proof -
  let ?ip = "show_ip (sa_ip (ctx_client_address ctx))"
  define hs1 where "hs1 = host_headers he ctx (fold header_remove hop_headers hs)"
  have hs1: "header_get_all hs1 m = (if m = ''host'' \<or> m = ''x-forwarded-host'' then [ctx_host ctx]
      else if m \<in> set hop_headers then [] else header_get_all hs m)" for m
    using assms(1,2) by (simp add: hs1_def host_headers_def header_get_all_fold_remove)
  have ff: "''x-forwarded-for'' \<notin> set hop_headers" by (simp add: hop_headers_def)
  have chain: "forwarded_for_to_upstream he ?ip hs1
      = join '', '' (map (\<lambda>v. or_default (to_str he v)) (header_get_all hs ''x-forwarded-for'') @ [?ip])"
    using ff by (simp add: forwarded_for_join hs1)
  define hs2 where "hs2 = header_insert ''pingoo-client-ip'' ?ip
      (header_insert ''x-forwarded-proto'' (if ctx_tls ctx then ''https'' else ''http'')
        (header_insert ''x-forwarded-for'' (forwarded_for_to_upstream he ?ip hs1) hs1))"
  have "insert_if_valid he ''x-forwarded-for'' (forwarded_for_to_upstream he ?ip hs1) hs1
      = header_insert ''x-forwarded-for'' (forwarded_for_to_upstream he ?ip hs1) hs1"
    using assms(1) by (simp add: insert_if_valid_def)
  then have all: "proxy_headers he ctx hs = geoip_headers he ctx hs2"
    using insert_if_valid_visible [OF assms(1) visible_show_ip]
    by (simp add: proxy_headers_def Let_def hs1_def hs2_def)
  have hs2: "header_get_all hs2 m = (if m = ''pingoo-client-ip'' then [?ip]
      else if m = ''x-forwarded-proto'' then [if ctx_tls ctx then ''https'' else ''http'']
      else if m = ''x-forwarded-for'' then [forwarded_for_to_upstream he ?ip hs1]
      else header_get_all hs1 m)" for m
    by (simp add: hs2_def)
  have geo: "header_get_all (geoip_headers he ctx hs2) n =
      (if ctx_geoip_enabled ctx \<and> n = ''pingoo-client-asn'' then [show_nat (unat (ctx_asn ctx))]
       else if ctx_geoip_enabled ctx \<and> n = ''pingoo-client-country'' then [country_str (ctx_country ctx)]
       else header_get_all hs2 n)"
    using insert_if_valid_visible [OF assms(1,3)] insert_if_valid_visible [OF assms(1) visible_show_nat]
    by (simp add: geoip_headers_def)
  show ?thesis
    unfolding all geo hs2 hs1 chain forwarded_values_def Let_def
    by (cases "n \<in> set hop_headers") (auto simp: hop_headers_def)
qed

definition demo_header_env :: header_env where
  "demo_header_env = \<lparr>he_to_str = list_all (\<lambda>c. 32 \<le> byte c \<and> byte c < 127), he_from_str = list_all (\<lambda>c. 32 \<le> byte c \<and> byte c < 127)\<rparr>"

lemma demo_header_env_ok: "header_env_ok demo_header_env"
  by (auto simp: header_env_ok_def demo_header_env_def visible_def list_all_iff)

definition demo_context :: "bool \<Rightarrow> request_context" where
  "demo_context geoip =
     \<lparr>ctx_client_address = SocketAddr ipv4_localhost 4000, ctx_server_address = SocketAddr ipv4_localhost 443,
      ctx_asn = 7, ctx_country = CountryCode CHR ''F'' CHR ''R'', ctx_geoip_enabled = geoip, ctx_tls = True,
      ctx_host = ''a.example''\<rparr>"

lemma demo_context_visible: "visible (ctx_host (demo_context g))" "visible (country_str (ctx_country (demo_context g)))"
  by (simp_all add: demo_context_def byte_def)

theorem proxy_headers_exact_witness:
  "header_get_all (proxy_headers demo_header_env (demo_context True)
     [(''x-forwarded-for'', ''9.9.9.9''), (''te'', ''trailers''), (''pingoo-client-asn'', ''1'')]) ''x-forwarded-for''
   = [''9.9.9.9, 127.0.0.1'']"
  unfolding proxy_headers_exact [OF demo_header_env_ok demo_context_visible] by code_simp

text \<open>Without GeoIP the client's own country and AS number reach the upstream.\<close>

lemma geoip_headers_spoofable:
  "header_get_all (proxy_headers demo_header_env (demo_context False) [(''pingoo-client-country'', ''US'')])
     ''pingoo-client-country'' = [''US'']"
  by code_simp

text \<open>The configured port of a TLS upstream is not used.\<close>

lemma tls_upstream_port_dropped:
  "upstream_uri \<lparr>up_socket_address = SocketAddr a p, up_hostname = h, up_tls = True\<rparr> q = ''https://'' @ h @ q"
  by (simp add: upstream_uri_def)

section \<open>The exchange\<close>

text \<open>
  The environment as the program relies on it: the choice is a position of the list and what
  comes back from the upstream is any response. \<open>upstream_contacts\<close> are the requests that
  may go to the upstreams of a list.
\<close>

definition proxy_env_ok :: "proxy_env \<Rightarrow> bool" where
  "proxy_env_ok env \<longleftrightarrow> (\<forall>n. 0 < n \<longrightarrow> xe_choose env n < n)"

definition path_and_query_of :: "request \<Rightarrow> string" where
  "path_and_query_of req = (case rq_path_and_query req of Some x \<Rightarrow> x | None \<Rightarrow> ''/'')"

definition contacts :: "upstream set \<Rightarrow> request \<Rightarrow> upstream_request \<Rightarrow> bool" where
  "contacts us req r \<longleftrightarrow> (\<exists>u \<in> us. ur_uri r = upstream_uri u (path_and_query_of req))"

definition same_answers_at :: "(upstream_request \<Rightarrow> bool) \<Rightarrow> proxy_env \<Rightarrow> proxy_env \<Rightarrow> bool" where
  "same_answers_at P env env' \<longleftrightarrow>
     xe_choose env = xe_choose env' \<and> xe_uri_ok env = xe_uri_ok env' \<and> xe_headers env = xe_headers env'
     \<and> (\<forall>r. P r \<longrightarrow> xe_request env r = xe_request env' r)"

lemma chosen_in_set: "proxy_env_ok env \<Longrightarrow> us \<noteq> [] \<Longrightarrow> us ! xe_choose env (length us) \<in> set us"
  by (simp add: proxy_env_ok_def)

lemma proxy_contacts:
  assumes "proxy_env_ok env" and "set (get_upstreams reg (hps_name s)) \<subseteq> us" and "same_answers_at (contacts us req) env env'"
  shows "proxy_handle_http_request env reg s req = proxy_handle_http_request env' reg s req"
proof (cases "get_upstreams reg (hps_name s) = [] \<or> rq_context req = None")
  case True
  then show ?thesis by (auto simp: proxy_handle_http_request_def Let_def)
next
  case False
  let ?us = "get_upstreams reg (hps_name s)"
  let ?u = "?us ! xe_choose env (length ?us)"
  have u: "?u \<in> us" using chosen_in_set [OF assms(1)] False assms(2) by blast
  have same: "xe_choose env' = xe_choose env" "xe_uri_ok env' = xe_uri_ok env" "xe_headers env' = xe_headers env"
    using assms(3) by (simp_all add: same_answers_at_def)
  have req: "xe_request env r = xe_request env' r" if "ur_uri r = upstream_uri ?u (path_and_query_of req)" for r
    using assms(3) u that unfolding same_answers_at_def contacts_def by blast
  show ?thesis
    using False by (auto simp: proxy_handle_http_request_def Let_def same req path_and_query_of_def)
qed

text \<open>C18: after any refreshes of the registry, the proxy contacts no upstream but those the last refresh
  offers for its service: two networks that agree on these give every request the same answer.\<close>

theorem proxy_contacts_offered:
  assumes "registry_ok reg" and "proxy_env_ok env"
    and "same_answers_at (contacts (set (offered_upstreams view reg (hps_name s))) req) env env'"
  shows "proxy_handle_http_request env (fold discover (views @ [view]) reg) s req
    = proxy_handle_http_request env' (fold discover (views @ [view]) reg) s req"
  by (rule proxy_contacts [OF assms(2) registry.run_sound [OF assms(1)] assms(3)])

definition demo_proxy_env :: "(upstream_request \<Rightarrow> unit + response) \<Rightarrow> proxy_env" where
  "demo_proxy_env f =
     \<lparr>xe_choose = (\<lambda>_. 0), xe_uri_ok = (\<lambda>_. True), xe_headers = demo_header_env, xe_request = f\<rparr>"

definition demo_proxy :: "unit http_proxy_service" where
  "demo_proxy = \<lparr>hps_name = ''api'', hps_route = None\<rparr>"

definition demo_proxied :: request where
  "demo_proxied =
     \<lparr>rq_method = ''GET'', rq_uri_host = None, rq_path = ''/'', rq_path_and_query = Some ''/'', rq_uri = ''/'',
      rq_version = HTTP_11, rq_headers = [], rq_body = Inr '''', rq_context = Some (demo_context True)\<rparr>"

definition demo_upstream_answer :: "string \<Rightarrow> upstream_request \<Rightarrow> unit + response" where
  "demo_upstream_answer other r =
     (if ur_uri r = ''http://127.0.0.1:2/'' then Inr \<lparr>res_status = 200, res_headers = [(''server'', ''x'')], res_body = UpstreamBody ''b''\<rparr>
      else Inr \<lparr>res_status = 200, res_headers = [], res_body = UpstreamBody other\<rparr>)"

lemma demo_proxy_env_ok: "proxy_env_ok (demo_proxy_env f)"
  by (simp add: proxy_env_ok_def demo_proxy_env_def)

theorem proxy_contacts_offered_witness:
  "proxy_handle_http_request (demo_proxy_env (demo_upstream_answer ''a''))
      (fold discover ([] @ [[Inr [(''api'', [demo_upstream 2])]]]) demo_registry) demo_proxy demo_proxied
   = proxy_handle_http_request (demo_proxy_env (demo_upstream_answer ''b''))
      (fold discover ([] @ [[Inr [(''api'', [demo_upstream 2])]]]) demo_registry) demo_proxy demo_proxied"
proof (rule proxy_contacts_offered [OF demo_registry_ok demo_proxy_env_ok])
  have "offered_upstreams [Inr [(''api'', [demo_upstream 2])]] demo_registry (hps_name demo_proxy) = [demo_upstream 2]"
    by code_simp
  moreover have "upstream_uri (demo_upstream 2) (path_and_query_of demo_proxied) = ''http://127.0.0.1:2/''"
    by code_simp
  ultimately show "same_answers_at
      (contacts (set (offered_upstreams [Inr [(''api'', [demo_upstream 2])]] demo_registry (hps_name demo_proxy))) demo_proxied)
      (demo_proxy_env (demo_upstream_answer ''a'')) (demo_proxy_env (demo_upstream_answer ''b''))"
    by (simp add: same_answers_at_def contacts_def demo_proxy_env_def demo_upstream_answer_def)
qed

definition proxy_answer :: "response \<Rightarrow> bool" where
  "proxy_answer res \<longleftrightarrow>
     res = new_bad_gateway_error
     \<or> (header_get_all (res_headers res) ''server'' = [''pingoo'']
        \<and> (\<forall>n \<in> set response_headers_to_remove. header_get_all (res_headers res) n = []))"

lemma proxy_response_answer: "proxy_answer (proxy_response res)"
  by (simp add: proxy_answer_def proxy_response_def header_get_all_fold_remove response_headers_to_remove_def)

text \<open>
  The one panic of the proxy: the URI it has made for the upstream it has picked is parsed with
  \<open>unwrap\<close>, and the library refuses it.
\<close>

definition uri_refused :: "proxy_env \<Rightarrow> service_registry \<Rightarrow> string \<Rightarrow> request \<Rightarrow> bool" where
  "uri_refused env reg name req \<longleftrightarrow>
     (let upstreams = get_upstreams reg name
      in upstreams \<noteq> []
         \<and> \<not> xe_uri_ok env (upstream_uri (upstreams ! xe_choose env (length upstreams)) (path_and_query_of req)))"

text \<open>A request that carries its context is answered, with 502 or with the upstream's response under the
  proxy's own server header, exactly when that URI is not refused.\<close>

lemma proxy_answers:
  assumes "rq_context req \<noteq> None"
  shows "case proxy_handle_http_request env reg s req of
      None \<Rightarrow> uri_refused env reg (hps_name s) req
    | Some res \<Rightarrow> \<not> uri_refused env reg (hps_name s) req \<and> proxy_answer res"
  using assms proxy_response_answer
  by (auto simp: proxy_handle_http_request_def uri_refused_def Let_def path_and_query_of_def
      proxy_answer_def [of new_bad_gateway_error] split: option.split sum.split)

lemma proxy_panics_exactly:
  "rq_context req \<noteq> None \<Longrightarrow> proxy_handle_http_request env reg s req = None \<longleftrightarrow> uri_refused env reg (hps_name s) req"
  using proxy_answers [of req env reg s] by (auto split: option.splits)

text \<open>
  A client can reach it: the library refuses URIs of more than 65534 bytes, and the scheme and the
  address that the proxy puts before a target of that length, which the library has accepted, make it
  one.
\<close>

lemma long_target_panics:
  assumes "\<forall>uri. 65534 < length uri \<longrightarrow> \<not> xe_uri_ok env uri" and "rq_context req \<noteq> None"
    and "get_upstreams reg (hps_name s) \<noteq> []" and "rq_path_and_query req = Some target" and "length target = 65534"
  shows "proxy_handle_http_request env reg s req = None"
  using assms
  by (simp add: proxy_panics_exactly uri_refused_def Let_def path_and_query_of_def upstream_uri_def)

lemma long_target_panics_witness:
  "\<exists>target. proxy_handle_http_request
     ((demo_proxy_env (demo_upstream_answer ''a''))\<lparr>xe_uri_ok := \<lambda>uri. length uri \<le> 65534\<rparr>) demo_registry demo_proxy
     (demo_proxied\<lparr>rq_path_and_query := Some (CHR ''/'' # target)\<rparr>) = None"
proof -
  obtain target :: string where target: "length (CHR ''/'' # target) = 65534"
  proof (rule that [of "replicate 65533 CHR ''a''"])
    show "length (CHR ''/'' # replicate 65533 CHR ''a'') = 65534" unfolding length_Cons length_replicate by simp
  qed
  have "length (get_upstreams demo_registry (hps_name demo_proxy)) \<noteq> 0" by code_simp
  then show ?thesis
    by (intro exI [of _ target] long_target_panics [OF _ _ _ _ target]) (simp_all add: demo_proxied_def)
qed

end
