(* ===== verification/Tcp_Proxy.thy ===== *)
theory Tcp_Proxy
  imports Service_Registry
begin

text \<open>
  \<^verbatim>\<open>pingoo/services/tcp_proxy_service.rs\<close>: the retry loop and the connection to an
  upstream. The outcome of attempt \<open>i\<close> (from 1) is \<open>op i\<close>; the loop returns its result
  with the number of attempts made and the time slept between them.
\<close>

section \<open>The retry loop\<close>

function retry_from :: "(nat \<Rightarrow> error + 'a) \<Rightarrow> nat \<Rightarrow> duration \<Rightarrow> nat \<Rightarrow> (error + 'a) \<times> nat \<times> duration" where
  "retry_from op retries delay attempt =
     (let attempt = attempt + 1
      in case op attempt of
           Inr val \<Rightarrow> (Inr val, attempt, 0)
         | Inl err \<Rightarrow>
             if attempt < retries
             then (let (r, n, slept) = retry_from op retries delay attempt
                   in (r, n, (if delay \<noteq> 0 then delay else 0) + slept))
             else (Inl err, attempt, 0))"
  by auto
termination
  by (relation "measure (\<lambda>(op, retries, delay, attempt). retries - attempt)") auto

declare retry_from.simps [simp del]

definition retry :: "(nat \<Rightarrow> error + 'a) \<Rightarrow> nat \<Rightarrow> duration \<Rightarrow> (error + 'a) \<times> nat \<times> duration" where
  "retry op retries delay = retry_from op retries delay 0"

section \<open>Serving a connection\<close>

record tcp_proxy_service =
  tps_name :: string

definition tcp_proxy_new :: "string \<Rightarrow> tcp_proxy_service" where
  "tcp_proxy_new name = \<lparr>tps_name = name\<rparr>"

text \<open>What a connection attempt with its three seconds of patience comes to.\<close>

datatype 'conn connect_outcome = Connected 'conn | ConnectError | ConnectTimeout

definition connect_timeout :: duration where
  "connect_timeout = from_secs 3"

text \<open>
  Every attempt asks the registry anew: \<open>reg i\<close> is its state at attempt \<open>i\<close>,
  \<open>pick i\<close> the random choice.
\<close>

definition connect_upstream ::
  "(nat \<Rightarrow> service_registry) \<Rightarrow> (nat \<Rightarrow> nat \<Rightarrow> nat) \<Rightarrow> (nat \<Rightarrow> socket_addr \<Rightarrow> 'conn connect_outcome) \<Rightarrow>
     tcp_proxy_service \<Rightarrow> nat \<Rightarrow> error + 'conn" where
  "connect_upstream reg pick connect s i =
     (let upstreams = get_upstreams (reg i) (tps_name s)
      in if upstreams = [] then Inl (Unspecified ''no upstream available'')
         else (let upstream = upstreams ! pick i (length upstreams)
               in case connect i (up_socket_address upstream) of
                    Connected stream \<Rightarrow> Inr stream
                  | ConnectError \<Rightarrow> Inl (Unspecified ''error connecting to upstream'')
                  | ConnectTimeout \<Rightarrow> Inl (Unspecified ''error connecting to upstream: timeout'')))"

text \<open>\<open>None\<close>: the client's connection is dropped; else the streams are joined.\<close>

definition serve_connection ::
  "(nat \<Rightarrow> service_registry) \<Rightarrow> (nat \<Rightarrow> nat \<Rightarrow> nat) \<Rightarrow> (nat \<Rightarrow> socket_addr \<Rightarrow> 'conn connect_outcome) \<Rightarrow>
     tcp_proxy_service \<Rightarrow> 'conn option" where
  "serve_connection reg pick connect s =
     (case fst (retry (connect_upstream reg pick connect s) 3 5000000) of
        Inr stream \<Rightarrow> Some stream
      | Inl _ \<Rightarrow> None)"

section \<open>What the loop does\<close>

text \<open>The number of attempts it may make; the first one that succeeds.\<close>

definition attempts_of :: "nat \<Rightarrow> nat" where
  "attempts_of retries = max 1 retries"

definition first_success :: "(nat \<Rightarrow> error + 'a) \<Rightarrow> nat \<Rightarrow> nat option" where
  "first_success op n = List.find (\<lambda>i. is_ok (op i)) [Suc 0..<Suc n]"

text \<open>
  The outcome stated without a loop: the first successful attempt among those allowed, or the
  error of the last one, and a pause before every attempt but the first.
\<close>

definition retry_spec :: "(nat \<Rightarrow> error + 'a) \<Rightarrow> nat \<Rightarrow> duration \<Rightarrow> (error + 'a) \<times> nat \<times> duration" where
  "retry_spec op retries delay =
     (case first_success op (attempts_of retries) of
        Some i \<Rightarrow> (op i, i, (i - 1) * delay)
      | None \<Rightarrow> (op (attempts_of retries), attempts_of retries, (attempts_of retries - 1) * delay))"

definition spec_from :: "(nat \<Rightarrow> error + 'a) \<Rightarrow> nat \<Rightarrow> duration \<Rightarrow> nat \<Rightarrow> (error + 'a) \<times> nat \<times> duration" where
  "spec_from op n delay attempt =
     (let i = (case List.find (\<lambda>i. is_ok (op i)) [Suc attempt..<Suc n] of Some i \<Rightarrow> i | None \<Rightarrow> n)
      in (op i, i, (i - attempt - 1) * delay))"

lemma find_upt_le: "List.find P [a..<b] = Some i \<Longrightarrow> a \<le> i \<and> i < b"
  by (auto simp: find_Some_iff)

lemma retry_from_spec:
  "attempt < attempts_of retries \<Longrightarrow>
     retry_from op retries delay attempt = spec_from op (attempts_of retries) delay attempt"
proof (induction op retries delay attempt rule: retry_from.induct)
  case (1 op retries delay attempt)
  let ?n = "attempts_of retries"
  have upt: "[Suc attempt..<Suc ?n] = Suc attempt # [Suc (Suc attempt)..<Suc ?n]"
    using 1(2) by (simp add: upt_conv_Cons)
  show ?case
  proof (cases "op (Suc attempt)")
    case (Inr v)
    then show ?thesis
      by (subst retry_from.simps) (simp add: spec_from_def upt Let_def del: upt_Suc)
  next
    case (Inl e)
    have find: "List.find (\<lambda>i. is_ok (op i)) [Suc attempt..<Suc ?n]
        = List.find (\<lambda>i. is_ok (op i)) [Suc (Suc attempt)..<Suc ?n]"
      using Inl by (simp add: upt del: upt_Suc)
    show ?thesis
    proof (cases "Suc attempt < retries")
      case True
      then have less: "Suc attempt < ?n" by (simp add: attempts_of_def)
      have IH: "retry_from op retries delay (Suc attempt) = spec_from op ?n delay (Suc attempt)"
        using 1(1) [of "attempt + 1"] Inl True less by simp
      define i where "i = (case List.find (\<lambda>i. is_ok (op i)) [Suc (Suc attempt)..<Suc ?n] of Some i \<Rightarrow> i | None \<Rightarrow> ?n)"
      have "Suc (Suc attempt) \<le> i"
        using less find_upt_le [of "\<lambda>i. is_ok (op i)" "Suc (Suc attempt)" "Suc ?n"]
        by (auto simp: i_def simp del: upt_Suc split: option.split)
      then have "i - attempt - 1 = Suc (i - (Suc attempt) - 1)" by simp
      then have slept: "(i - attempt - 1) * delay = delay + (i - (Suc attempt) - 1) * delay" by simp
      have "retry_from op retries delay attempt
          = (op i, i, (if delay \<noteq> 0 then delay else 0) + (i - (Suc attempt) - 1) * delay)"
        by (subst retry_from.simps)
          (use Inl True IH in \<open>simp add: spec_from_def Let_def i_def [symmetric] del: upt_Suc\<close>)
      moreover have "spec_from op ?n delay attempt = (op i, i, (i - attempt - 1) * delay)"
        unfolding spec_from_def find by (simp add: Let_def i_def del: upt_Suc)
      ultimately show ?thesis using slept by simp
    next
      case False
      then have n: "?n = Suc attempt" using 1(2) by (simp add: attempts_of_def)
      then show ?thesis
        using Inl False by (subst retry_from.simps) (simp add: spec_from_def Let_def n)
    qed
  qed
qed

lemma retry_eq_spec: "retry op retries delay = retry_spec op retries delay"
proof -
  have "0 < attempts_of retries" by (simp add: attempts_of_def)
  then show ?thesis
    by (simp add: retry_def retry_from_spec retry_spec_def spec_from_def first_success_def Let_def
        del: upt_Suc split: option.split)
qed

text \<open>C37: the retry loop ends after at most \<open>max 1 retries\<close> attempts; its result is that of the first
  successful attempt among these, or the error of the last, and it has paused once before every
  attempt but the first.\<close>

theorem retry_exact: "retry op retries delay = retry_spec op retries delay"
  by (rule retry_eq_spec)

text \<open>A TCP connection is joined with an upstream exactly when one of the three connection attempts
  reaches one; it then is the upstream of the first such attempt.\<close>

lemma serve_connection_exact:
  "serve_connection reg pick connect s
   = map_option (\<lambda>i. projr (connect_upstream reg pick connect s i))
       (first_success (connect_upstream reg pick connect s) 3)"
proof -
  let ?op = "connect_upstream reg pick connect s"
  have three: "attempts_of 3 = 3" by (simp add: attempts_of_def)
  show ?thesis
  proof (cases "first_success ?op 3")
    case None
    then have "\<not> is_ok (?op 3)"
      by (auto simp: first_success_def find_None_iff)
    then obtain e where "?op 3 = Inl e" by (cases "?op 3") auto
    then show ?thesis
      using None by (simp add: serve_connection_def retry_eq_spec retry_spec_def three)
  next
    case (Some i)
    then have "is_ok (?op i)" by (auto simp: first_success_def find_Some_iff)
    then obtain c where "?op i = Inr c" by (auto simp: is_ok_iff)
    then show ?thesis
      using Some by (simp add: serve_connection_def retry_eq_spec retry_spec_def three)
  qed
qed

end
