(* ===== verification/Http_Listener.thy ===== *)
theory Http_Listener
  imports Rules Geoip Rate_Limiter Captcha
begin

text \<open>
  The request handler of \<^verbatim>\<open>pingoo/listeners/http_listener.rs\<close>: from a parsed request to a
  response, through GeoIP, the client identifier, the cookies, the captcha, the rules with their
  limiters, and the services. \<open>None\<close> is a panic of the connection's task.
\<close>

section \<open>Services\<close>

text \<open>
  A service as the handler sees it: whether it takes a request, and its answer, which may change
  the state the services keep (\<open>'st\<close>); \<open>'io\<close> is the outside world at that moment.
\<close>

record ('lists, 'io, 'st) http_service =
  hs_match_request :: "'lists rules_context \<Rightarrow> bool"
  hs_handle_http_request :: "'io \<Rightarrow> request \<Rightarrow> 'st \<Rightarrow> response option \<times> 'st"

section \<open>The state and the environment\<close>

text \<open>
  A limiter task that has panicked is \<open>None\<close>: its channel is closed.
\<close>

record ('mmdb, 'st) listener_state =
  ls_geoip :: "'mmdb geoip_db option"
  ls_limiters :: "ip_addr rate_limiter option list"
  ls_services :: 'st

text \<open>
  Fixed for the life of a listener: the rules, lists, services, keys and libraries.
  \<open>le_variable_ok\<close> says whether the expression library can convert a variable.
\<close>

record ('prog, 'lists, 'mmdb, 'ed, 'ec, 'io, 'st) listener =
  li_address :: socket_addr
  li_use_tls :: bool
  li_rules :: "'prog rule list"
  li_lists :: 'lists
  li_services :: "('lists, 'io, 'st) http_service list"
  li_captcha_env :: "('ed, 'ec) captcha_env"
  li_captcha_manager :: "('ed, 'ec) captcha_manager"
  li_execute :: "('prog, 'lists) executor"
  li_request_ok :: "request_data \<Rightarrow> bool"
  li_client_ok :: "client_data \<Rightarrow> bool"
  li_parse_cookies :: "string \<Rightarrow> cookie option list"
  li_mmdb_lookup :: "'mmdb \<Rightarrow> ip_addr \<Rightarrow> mmdb_error + geoip_record"
  li_alloc :: "nat \<Rightarrow> nat"

text \<open>
  What the handler reads from clocks, random numbers and the outside during one request; the
  clock readings of the \<open>k\<close>-th rule's limiter are \<open>mo_limit k\<close>.
\<close>

record 'io moment =
  mo_evict :: "(ip_addr \<times> geoip_record) list \<Rightarrow> (ip_addr \<times> geoip_record) list"
  mo_challenge :: bytes
  mo_now1 :: int
  mo_now2 :: int
  mo_now3 :: int
  mo_jti :: string
  mo_limit :: "nat \<Rightarrow> nat \<Rightarrow> instant \<times> instant"
  mo_io :: 'io

section \<open>Reading the request\<close>

definition get_host :: "header_env \<Rightarrow> request \<Rightarrow> string" where
  "get_host he req =
     (case rq_uri_host req of
        Some host \<Rightarrow> or_default (heapless_from_str hostname_max_length (trim host))
      | None \<Rightarrow>
          (case header_get (rq_headers req) ''host'' of
             Some host \<Rightarrow> or_default (heapless_from_str hostname_max_length (trim (or_default (to_str he host))))
           | None \<Rightarrow> ''''))"

definition get_user_agent :: "header_env \<Rightarrow> request \<Rightarrow> string" where
  "get_user_agent he req =
     or_default (heapless_from_str user_agent_max_length
       (or_default (map_option (\<lambda>header. trim (or_default (to_str he header)))
          (header_get (rq_headers req) ''user-agent''))))"

definition parsed_cookies :: "header_env \<Rightarrow> (string \<Rightarrow> cookie option list) \<Rightarrow> request \<Rightarrow> cookie list" where
  "parsed_cookies he parse req =
     (case header_get (rq_headers req) ''cookie'' of
        None \<Rightarrow> []
      | Some cookies_header \<Rightarrow>
          (case to_str he cookies_header of
             None \<Rightarrow> []
           | Some s \<Rightarrow> List.map_filter (\<lambda>c. c) (parse s)))"

definition lookup_client ::
  "('mmdb \<Rightarrow> ip_addr \<Rightarrow> mmdb_error + geoip_record) \<Rightarrow>
     ((ip_addr \<times> geoip_record) list \<Rightarrow> (ip_addr \<times> geoip_record) list) \<Rightarrow> ip_addr \<Rightarrow> 'mmdb geoip_db option \<Rightarrow>
     geoip_record \<times> 'mmdb geoip_db option" where
  "lookup_client mmdb_lookup evict client_ip geoip =
     (case geoip of
        None \<Rightarrow> (geoip_record_default, None)
      | Some db \<Rightarrow>
          (let (r, db) = geoip_lookup mmdb_lookup evict client_ip db
           in (case r of Inr geoip_record \<Rightarrow> geoip_record | Inl _ \<Rightarrow> geoip_record_default, Some db)))"

section \<open>Rules\<close>

text \<open>A request to limiter task \<open>i\<close>: the probe goes through its channel, the task answers.\<close>

definition probe_limiter ::
  "(nat \<Rightarrow> nat) \<Rightarrow> nat \<Rightarrow> ip_addr \<Rightarrow> instant \<times> instant \<Rightarrow> ip_addr rate_limiter option list \<Rightarrow>
     response option \<times> ip_addr rate_limiter option list" where
  "probe_limiter alloc i ip clock limiters =
     (case (if i < length limiters then limiters ! i else None) of
        None \<Rightarrow> (limit_http_request False None, limiters)
      | Some rl \<Rightarrow>
          (case can_resume alloc ip (fst clock) (snd clock) rl of
             None \<Rightarrow> (limit_http_request True None, limiters[i := None])
           | Some (rl', r) \<Rightarrow> (limit_http_request True (Some r), limiters[i := Some rl'])))"

text \<open>
  The outcome of an action or a rule: an answer, the captcha page, or on to the next.
  \<open>j\<close> counts the actions of the rule.
\<close>

datatype verdict = Answer response | ShowCaptcha | Continue

fun apply_actions ::
  "(nat \<Rightarrow> nat) \<Rightarrow> ip_addr \<Rightarrow> bool \<Rightarrow> nat option \<Rightarrow> (nat \<Rightarrow> instant \<times> instant) \<Rightarrow> action list \<Rightarrow> nat \<Rightarrow>
     ip_addr rate_limiter option list \<Rightarrow> verdict \<times> ip_addr rate_limiter option list" where
  "apply_actions alloc ip captcha_verified limiter_tx clocks [] j ls = (Continue, ls)"
| "apply_actions alloc ip captcha_verified limiter_tx clocks (Block # actions) j ls = (Answer new_blocked_response, ls)"
| "apply_actions alloc ip captcha_verified limiter_tx clocks (Captcha # actions) j ls =
     (if \<not> captcha_verified then (ShowCaptcha, ls)
      else apply_actions alloc ip captcha_verified limiter_tx clocks actions (Suc j) ls)"
| "apply_actions alloc ip captcha_verified limiter_tx clocks (Limit # actions) j ls =
     (case limiter_tx of
        None \<Rightarrow> apply_actions alloc ip captcha_verified limiter_tx clocks actions (Suc j) ls
      | Some i \<Rightarrow>
          (case probe_limiter alloc i ip (clocks j) ls of
             (Some res, ls) \<Rightarrow> (Answer res, ls)
           | (None, ls) \<Rightarrow> apply_actions alloc ip captcha_verified limiter_tx clocks actions (Suc j) ls))"

fun apply_rules ::
  "(nat \<Rightarrow> nat) \<Rightarrow> ip_addr \<Rightarrow> bool \<Rightarrow> ('prog rule \<Rightarrow> bool) \<Rightarrow> (nat \<Rightarrow> nat \<Rightarrow> instant \<times> instant) \<Rightarrow> 'prog rule list \<Rightarrow> nat \<Rightarrow>
     ip_addr rate_limiter option list \<Rightarrow> verdict \<times> ip_addr rate_limiter option list" where
  "apply_rules alloc ip captcha_verified matches clocks [] k ls = (Continue, ls)"
| "apply_rules alloc ip captcha_verified matches clocks (rule # rules) k ls =
     (if matches rule
      then (case apply_actions alloc ip captcha_verified (rule_limiter_tx rule) (clocks k) (rule_actions rule) 0 ls of
              (Continue, ls) \<Rightarrow> apply_rules alloc ip captcha_verified matches clocks rules (Suc k) ls
            | decided \<Rightarrow> decided)
      else apply_rules alloc ip captcha_verified matches clocks rules (Suc k) ls)"

text \<open>The first service that takes the request.\<close>

fun dispatch ::
  "('lists, 'io, 'st) http_service list \<Rightarrow> 'lists rules_context \<Rightarrow> 'io \<Rightarrow> request \<Rightarrow> 'st \<Rightarrow> response option \<times> 'st" where
  "dispatch [] ctx io req st = (Some new_not_found_error, st)"
| "dispatch (service # services) ctx io req st =
     (if hs_match_request service ctx then hs_handle_http_request service io req st
      else dispatch services ctx io req st)"

section \<open>The handler\<close>

definition rules_context_of ::
  "('prog, 'lists, 'mmdb, 'ed, 'ec, 'io, 'st) listener \<Rightarrow> request \<Rightarrow> request_context \<Rightarrow> string \<Rightarrow> 'lists rules_context" where
  "rules_context_of li req ctx user_agent =
     (let request_data = \<lparr>rd_host = ctx_host ctx, rd_url = rq_uri req, rd_path = get_path req,
                          rd_method = rq_method req, rd_user_agent = user_agent\<rparr>;
          client_data = \<lparr>cd_ip = sa_ip (ctx_client_address ctx), cd_remote_port = ucast (sa_port (ctx_client_address ctx)),
                         cd_asn = ucast (ctx_asn ctx), cd_country = ctx_country ctx\<rparr>
      in \<lparr>rc_http_request = (if li_request_ok li request_data then Some request_data else None),
          rc_client = (if li_client_ok li client_data then Some client_data else None),
          rc_lists = li_lists li\<rparr>)"

definition rules_and_services ::
  "('prog, 'lists, 'mmdb, 'ed, 'ec, 'io, 'st) listener \<Rightarrow> 'io moment \<Rightarrow> request \<Rightarrow> request_context \<Rightarrow> string \<Rightarrow> bool \<Rightarrow>
     ('mmdb, 'st) listener_state \<Rightarrow> response option \<times> ('mmdb, 'st) listener_state" where
  "rules_and_services li mo req ctx user_agent captcha_verified st =
     (let rules_ctx = rules_context_of li req ctx user_agent;
          (v, limiters) = apply_rules (li_alloc li) (sa_ip (ctx_client_address ctx)) captcha_verified
             (\<lambda>rule. match_rule (li_execute li) rule rules_ctx) (mo_limit mo) (li_rules li) 0 (ls_limiters st);
          st = st\<lparr>ls_limiters := limiters\<rparr>
      in case v of
           Answer res \<Rightarrow> (Some res, st)
         | ShowCaptcha \<Rightarrow> (serve_captcha (li_captcha_env li), st)
         | Continue \<Rightarrow>
             (let (res, services) = dispatch (li_services li) rules_ctx (mo_io mo) req (ls_services st)
              in (res, st\<lparr>ls_services := services\<rparr>)))"

definition check_cookie_then_rules ::
  "('prog, 'lists, 'mmdb, 'ed, 'ec, 'io, 'st) listener \<Rightarrow> 'io moment \<Rightarrow> request \<Rightarrow> request_context \<Rightarrow> string \<Rightarrow> string \<Rightarrow>
     cookie list \<Rightarrow> ('mmdb, 'st) listener_state \<Rightarrow> response option \<times> ('mmdb, 'st) listener_state" where
  "check_cookie_then_rules li mo req ctx user_agent client_id cookies st =
     (case List.find (\<lambda>c. ck_name c = captcha_verified_cookie_name) cookies of
        None \<Rightarrow> rules_and_services li mo req ctx user_agent False st
      | Some c \<Rightarrow>
          (case validate_captcha_verified_cookie (li_captcha_env li) (li_captcha_manager li) (ck_value c) client_id
                  (mo_now1 mo) (mo_now2 mo) of
             None \<Rightarrow> (None, st)
           | Some (Inr _) \<Rightarrow> rules_and_services li mo req ctx user_agent True st
           | Some (Inl _) \<Rightarrow> (serve_captcha (li_captcha_env li), st)))"

definition request_context_of ::
  "('prog, 'lists, 'mmdb, 'ed, 'ec, 'io, 'st) listener \<Rightarrow> socket_addr \<Rightarrow> request \<Rightarrow> geoip_record \<Rightarrow> bool \<Rightarrow> request_context" where
  "request_context_of li client_socket_addr req geoip_record geoip_enabled =
     \<lparr>ctx_client_address = client_socket_addr, ctx_server_address = li_address li, ctx_asn = gr_asn geoip_record,
      ctx_country = gr_country geoip_record, ctx_geoip_enabled = geoip_enabled, ctx_tls = li_use_tls li,
      ctx_host = get_host (cpe_headers (li_captcha_env li)) req\<rparr>"

definition user_agent_refused :: "string \<Rightarrow> bool" where
  "user_agent_refused user_agent = (user_agent = [] \<or> length user_agent \<ge> user_agent_max_length)"

definition serve_http_request ::
  "('prog, 'lists, 'mmdb, 'ed, 'ec, 'io, 'st) listener \<Rightarrow> 'io moment \<Rightarrow> socket_addr \<Rightarrow> request \<Rightarrow>
     ('mmdb, 'st) listener_state \<Rightarrow> response option \<times> ('mmdb, 'st) listener_state" where
  "serve_http_request li mo client_socket_addr req st =
     (let he = cpe_headers (li_captcha_env li);
          host = get_host he req;
          path = get_path req;
          (geoip_record, geoip) = lookup_client (li_mmdb_lookup li) (mo_evict mo) (sa_ip client_socket_addr) (ls_geoip st);
          st = st\<lparr>ls_geoip := geoip\<rparr>;
          user_agent = get_user_agent he req
      in case generate_captcha_client_id (li_captcha_env li) (sa_ip client_socket_addr) user_agent host of
           None \<Rightarrow> (None, st)
         | Some client_id \<Rightarrow>
             (let cookies = parsed_cookies he (li_parse_cookies li) req;
                  ctx = request_context_of li client_socket_addr req geoip_record (geoip \<noteq> None);
                  req = req\<lparr>rq_context := Some ctx\<rparr>
              in if user_agent_refused user_agent then (Some new_blocked_response, st)
                 else if starts_with path ''/__pingoo/captcha''
                 then (serve_captcha_request (li_captcha_env li) (li_captcha_manager li) req cookies client_id
                         (mo_challenge mo) (mo_now1 mo) (mo_now2 mo) (mo_now3 mo) (mo_jti mo), st)
                 else check_cookie_then_rules li mo req ctx user_agent client_id cookies st))"

section \<open>A connection\<close>

text \<open>The requests of one connection, each at its moment, until a handler panics.\<close>

fun serve_http_requests ::
  "('prog, 'lists, 'mmdb, 'ed, 'ec, 'io, 'st) listener \<Rightarrow> socket_addr \<Rightarrow> ('io moment \<times> request) list \<Rightarrow>
     ('mmdb, 'st) listener_state \<Rightarrow> response list \<times> ('mmdb, 'st) listener_state" where
  "serve_http_requests li client [] st = ([], st)"
| "serve_http_requests li client ((mo, req) # rs) st =
     (case serve_http_request li mo client req st of
        (None, st) \<Rightarrow> ([], st)
      | (Some res, st) \<Rightarrow> apfst ((#) res) (serve_http_requests li client rs st))"

end
