(* ===== verification/Http_Listener_Spec.thy ===== *)
theory Http_Listener_Spec
  imports Http_Listener Captcha_Spec
begin

text \<open>
  What the request handler guarantees: which requests never reach a service, that a captcha rule
  really asks for the captcha, that a full limiter stops a client, which limiters a request
  touches, and that no request panics.
\<close>

section \<open>The values a request is judged by\<close>

definition handler_env :: "('prog, 'lists, 'mmdb, 'ed, 'ec, 'io, 'st) listener \<Rightarrow> header_env" where
  "handler_env li = cpe_headers (li_captcha_env li)"

definition client_record ::
  "('prog, 'lists, 'mmdb, 'ed, 'ec, 'io, 'st) listener \<Rightarrow> 'io moment \<Rightarrow> socket_addr \<Rightarrow> ('mmdb, 'st) listener_state \<Rightarrow>
     geoip_record \<times> 'mmdb geoip_db option" where
  "client_record li mo client st = lookup_client (li_mmdb_lookup li) (mo_evict mo) (sa_ip client) (ls_geoip st)"

definition judged_context ::
  "('prog, 'lists, 'mmdb, 'ed, 'ec, 'io, 'st) listener \<Rightarrow> 'io moment \<Rightarrow> socket_addr \<Rightarrow> request \<Rightarrow>
     ('mmdb, 'st) listener_state \<Rightarrow> request_context" where
  "judged_context li mo client req st =
     request_context_of li client req (fst (client_record li mo client st)) (snd (client_record li mo client st) \<noteq> None)"

definition judged_rules_context ::
  "('prog, 'lists, 'mmdb, 'ed, 'ec, 'io, 'st) listener \<Rightarrow> 'io moment \<Rightarrow> socket_addr \<Rightarrow> request \<Rightarrow>
     ('mmdb, 'st) listener_state \<Rightarrow> 'lists rules_context" where
  "judged_rules_context li mo client req st =
     (let ctx = judged_context li mo client req st
      in rules_context_of li (req\<lparr>rq_context := Some ctx\<rparr>) ctx (get_user_agent (handler_env li) req))"

definition client_id_of ::
  "('prog, 'lists, 'mmdb, 'ed, 'ec, 'io, 'st) listener \<Rightarrow> socket_addr \<Rightarrow> request \<Rightarrow> string option" where
  "client_id_of li client req =
     generate_captcha_client_id (li_captcha_env li) (sa_ip client) (get_user_agent (handler_env li) req)
       (get_host (handler_env li) req)"

definition request_cookies :: "('prog, 'lists, 'mmdb, 'ed, 'ec, 'io, 'st) listener \<Rightarrow> request \<Rightarrow> cookie list" where
  "request_cookies li req = parsed_cookies (handler_env li) (li_parse_cookies li) req"

text \<open>The captcha proof: a cookie with a token of a manager's key for this client, passed and in time.\<close>

definition captcha_proven ::
  "('prog, 'lists, 'mmdb, 'ed, 'ec, 'io, 'st) listener \<Rightarrow> 'io moment \<Rightarrow> socket_addr \<Rightarrow> request \<Rightarrow> bool" where
  "captcha_proven li mo client req \<longleftrightarrow>
     (\<exists>c \<in> set (request_cookies li req). \<exists>k p. ck_name c = captcha_verified_cookie_name
        \<and> lookup_key (li_captcha_manager li) (pj_header p) = Some k
        \<and> parse_and_verify (cpe_jwt (li_captcha_env li)) (verified_claims_codec (li_captcha_env li)) k (ck_value c)
            jwt_validation_options (mo_now1 mo) (mo_now2 mo) = Some (Inr p)
        \<and> cv_challenge_passed (pj_claims p)
        \<and> client_id_of li client req = Some (or_default (rc_sub (cv_registered (pj_claims p)))))"

text \<open>The handler over these values.\<close>

lemma serve_http_request_eq:
  "serve_http_request li mo client req st =
     (let st' = st\<lparr>ls_geoip := snd (client_record li mo client st)\<rparr>;
          ctx = judged_context li mo client req st;
          user_agent = get_user_agent (handler_env li) req;
          req' = req\<lparr>rq_context := Some ctx\<rparr>
      in case client_id_of li client req of
           None \<Rightarrow> (None, st')
         | Some client_id \<Rightarrow>
             if user_agent_refused user_agent then (Some new_blocked_response, st')
             else if starts_with (get_path req) ''/__pingoo/captcha''
             then (serve_captcha_request (li_captcha_env li) (li_captcha_manager li) req' (request_cookies li req)
                     client_id (mo_challenge mo) (mo_now1 mo) (mo_now2 mo) (mo_now3 mo) (mo_jti mo), st')
             else check_cookie_then_rules li mo req' ctx user_agent client_id (request_cookies li req) st')"
  unfolding serve_http_request_def client_id_of_def judged_context_def client_record_def request_cookies_def
    handler_env_def Let_def case_prod_beta by (rule refl)

section \<open>Rules that stop a request\<close>

lemma apply_actions_Continue:
  "apply_actions alloc ip v tx clocks acts j ls = (Continue, ls') \<Longrightarrow> Block \<notin> set acts \<and> (Captcha \<in> set acts \<longrightarrow> v)"
proof (induction acts arbitrary: j ls)
  case (Cons a acts)
  show ?case
  proof (cases a)
    case Limit
    show ?thesis
    proof (cases tx)
      case None
      then show ?thesis using Cons Limit by auto
    next
      case (Some i)
      obtain r ls1 where p: "probe_limiter alloc i ip (clocks j) ls = (r, ls1)" by fastforce
      show ?thesis using Cons.IH [of "Suc j" ls1] Cons.prems by (cases r) (auto simp: Limit Some p)
    qed
  qed (use Cons in \<open>auto split: if_splits\<close>)
qed simp

lemma apply_rules_Continue:
  "apply_rules alloc ip v matches clocks rules k ls = (Continue, ls') \<Longrightarrow> rule \<in> set rules \<Longrightarrow> matches rule \<Longrightarrow>
     Block \<notin> set (rule_actions rule) \<and> (Captcha \<in> set (rule_actions rule) \<longrightarrow> v)"
proof (induction alloc ip v matches clocks rules k ls rule: apply_rules.induct)
  case (2 alloc ip v matches clocks r rules k ls)
  then show ?case
    by (auto split: if_splits prod.splits verdict.splits dest: apply_actions_Continue)
qed simp

text \<open>Two listeners that differ in their services only.\<close>

definition with_services ::
  "('lists, 'io, 'st) http_service list \<Rightarrow> ('prog, 'lists, 'mmdb, 'ed, 'ec, 'io, 'st) listener \<Rightarrow>
     ('prog, 'lists, 'mmdb, 'ed, 'ec, 'io, 'st) listener" where
  "with_services ss li = li\<lparr>li_services := ss\<rparr>"

lemma with_services_simps [simp]:
  "li_rules (with_services ss li) = li_rules li" "li_alloc (with_services ss li) = li_alloc li"
  "li_captcha_env (with_services ss li) = li_captcha_env li" "li_captcha_manager (with_services ss li) = li_captcha_manager li"
  "li_execute (with_services ss li) = li_execute li" "handler_env (with_services ss li) = handler_env li"
  "rules_context_of (with_services ss li) = rules_context_of li"
  "client_record (with_services ss li) = client_record li" "judged_context (with_services ss li) = judged_context li"
  "client_id_of (with_services ss li) = client_id_of li" "request_cookies (with_services ss li) = request_cookies li"
  by (simp_all add: with_services_def handler_env_def rules_context_of_def client_record_def judged_context_def
      request_context_of_def client_id_of_def request_cookies_def fun_eq_iff Let_def)

lemma stopped_by_rules:
  assumes "\<And>ls'. apply_rules (li_alloc li) (sa_ip (ctx_client_address ctx)) v
      (\<lambda>rule. match_rule (li_execute li) rule (rules_context_of li req ctx ua)) (mo_limit mo) (li_rules li) 0 (ls_limiters st)
      \<noteq> (Continue, ls')"
  shows "rules_and_services li mo req ctx ua v st = rules_and_services (with_services ss li) mo req ctx ua v st"
proof -
  obtain w ls' where w: "apply_rules (li_alloc li) (sa_ip (ctx_client_address ctx)) v
      (\<lambda>rule. match_rule (li_execute li) rule (rules_context_of li req ctx ua)) (mo_limit mo) (li_rules li) 0 (ls_limiters st)
      = (w, ls')" by fastforce
  with assms have "w \<noteq> Continue" by auto
  then show ?thesis
    by (cases w) (simp_all add: rules_and_services_def w)
qed

lemma ctx_client [simp]: "ctx_client_address (judged_context li mo client req st) = client"
  by (simp add: judged_context_def request_context_of_def)

text \<open>The whole handler does not depend on the services when its last stage does not.\<close>

lemma stopped_request:
  assumes "\<And>v cid. client_id_of li client req = Some cid \<Longrightarrow> v \<longrightarrow> captcha_proven li mo client req \<Longrightarrow>
    rules_and_services li mo (req\<lparr>rq_context := Some (judged_context li mo client req st)\<rparr>)
      (judged_context li mo client req st) (get_user_agent (handler_env li) req) v
      (st\<lparr>ls_geoip := snd (client_record li mo client st)\<rparr>)
    = rules_and_services (with_services ss li) mo (req\<lparr>rq_context := Some (judged_context li mo client req st)\<rparr>)
      (judged_context li mo client req st) (get_user_agent (handler_env li) req) v
      (st\<lparr>ls_geoip := snd (client_record li mo client st)\<rparr>)"
  shows "serve_http_request li mo client req st = serve_http_request (with_services ss li) mo client req st"
proof (cases "client_id_of li client req")
  case None
  then show ?thesis by (simp add: serve_http_request_eq)
next
  case (Some cid)
  note same = assms [OF Some]
  have proven: "captcha_proven li mo client req"
    if "List.find (\<lambda>c. ck_name c = captcha_verified_cookie_name) (request_cookies li req) = Some c"
      and "validate_captcha_verified_cookie (li_captcha_env li) (li_captcha_manager li) (ck_value c) cid (mo_now1 mo) (mo_now2 mo)
        = Some (Inr ())" for c
    using that(2)
  proof (rule validate_Inr)
    fix k p
    assume "lookup_key (li_captcha_manager li) (pj_header p) = Some k"
      "parse_and_verify (cpe_jwt (li_captcha_env li)) (verified_claims_codec (li_captcha_env li)) k (ck_value c)
         jwt_validation_options (mo_now1 mo) (mo_now2 mo) = Some (Inr p)"
      "cv_challenge_passed (pj_claims p)" "cid = or_default (rc_sub (cv_registered (pj_claims p)))"
    moreover have "c \<in> set (request_cookies li req)" "ck_name c = captcha_verified_cookie_name"
      using that(1) by (auto simp: find_Some_iff)
    ultimately show ?thesis
      unfolding captcha_proven_def using Some by blast
  qed
  show ?thesis
    using same [of False] same [of True] proven
    by (auto simp: serve_http_request_eq Some Let_def check_cookie_then_rules_def split: option.split sum.split)
qed

section \<open>Barred requests\<close>

definition rule_matches ::
  "('prog, 'lists, 'mmdb, 'ed, 'ec, 'io, 'st) listener \<Rightarrow> 'io moment \<Rightarrow> socket_addr \<Rightarrow> request \<Rightarrow>
     ('mmdb, 'st) listener_state \<Rightarrow> 'prog rule \<Rightarrow> bool" where
  "rule_matches li mo client req st rule = match_rule (li_execute li) rule (judged_rules_context li mo client req st)"

text \<open>
  A request without a usable user agent, on the captcha's own paths, or with a matching rule that
  blocks, or asks for the captcha of a client who has not proven to have solved it.
\<close>

definition barred ::
  "('prog, 'lists, 'mmdb, 'ed, 'ec, 'io, 'st) listener \<Rightarrow> 'io moment \<Rightarrow> socket_addr \<Rightarrow> request \<Rightarrow>
     ('mmdb, 'st) listener_state \<Rightarrow> bool" where
  "barred li mo client req st \<longleftrightarrow>
     user_agent_refused (get_user_agent (handler_env li) req)
     \<or> starts_with (get_path req) ''/__pingoo/captcha''
     \<or> (\<exists>rule \<in> set (li_rules li). rule_matches li mo client req st rule
          \<and> (Block \<in> set (rule_actions rule)
             \<or> Captcha \<in> set (rule_actions rule) \<and> \<not> captcha_proven li mo client req))"

lemma judged_rules:
  "rules_context_of li (req\<lparr>rq_context := Some (judged_context li mo client req st)\<rparr>) (judged_context li mo client req st)
     (get_user_agent (handler_env li) req) = judged_rules_context li mo client req st"
  by (simp add: judged_rules_context_def Let_def)

text \<open>C2: a barred request never reaches a service: whatever the services are, its answer and its effect
  on the state are the same. Barred are requests with an empty or overlong user agent, the captcha's
  paths, a matching rule that blocks, and a matching captcha rule unless a cookie proves, with a token
  of this manager for this client, that the captcha is solved.\<close>

theorem barred_never_served:
  assumes "barred li mo client req st"
  shows "serve_http_request li mo client req st = serve_http_request (with_services ss li) mo client req st"
proof (cases "user_agent_refused (get_user_agent (handler_env li) req) \<or> starts_with (get_path req) ''/__pingoo/captcha''")
  case True
  then show ?thesis
    by (auto simp: serve_http_request_eq Let_def split: option.split)
next
  case False
  then obtain rule where rule: "rule \<in> set (li_rules li)" "rule_matches li mo client req st rule"
    and stops: "Block \<in> set (rule_actions rule) \<or> Captcha \<in> set (rule_actions rule) \<and> \<not> captcha_proven li mo client req"
    using assms by (auto simp: barred_def)
  show ?thesis
  proof (rule stopped_request, rule stopped_by_rules)
    fix v cid ls'
    assume v: "v \<longrightarrow> captcha_proven li mo client req"
    let ?ctx = "judged_context li mo client req st"
    let ?rules_ctx = "rules_context_of li (req\<lparr>rq_context := Some ?ctx\<rparr>) ?ctx (get_user_agent (handler_env li) req)"
    show "apply_rules (li_alloc li) (sa_ip (ctx_client_address ?ctx)) v (\<lambda>rule. match_rule (li_execute li) rule ?rules_ctx)
        (mo_limit mo) (li_rules li) 0 (ls_limiters (st\<lparr>ls_geoip := snd (client_record li mo client st)\<rparr>)) \<noteq> (Continue, ls')"
      using rule stops v by (auto simp: judged_rules rule_matches_def dest!: apply_rules_Continue)
  qed
qed

section \<open>Full limiters\<close>

definition limiter_refuses ::
  "(nat \<Rightarrow> nat) \<Rightarrow> ip_addr \<Rightarrow> instant \<times> instant \<Rightarrow> ip_addr rate_limiter option \<Rightarrow> bool" where
  "limiter_refuses alloc ip clock limiter =
     (case limiter of
        None \<Rightarrow> True
      | Some rl \<Rightarrow>
          (case can_resume alloc ip (fst clock) (snd clock) rl of
             None \<Rightarrow> True
           | Some (_, r) \<Rightarrow> r \<noteq> Inr True))"

lemma probe_refuses:
  "i < length ls \<Longrightarrow> limiter_refuses alloc ip clock (ls ! i) \<Longrightarrow> fst (probe_limiter alloc i ip clock ls) \<noteq> None"
  by (auto simp: limiter_refuses_def probe_limiter_def limit_http_request_def split: option.splits sum.splits)

lemma probe_other:
  "snd (probe_limiter alloc i' ip clock ls) ! i = (if i' = i then snd (probe_limiter alloc i' ip clock ls) ! i else ls ! i)
   \<and> length (snd (probe_limiter alloc i' ip clock ls)) = length ls"
  by (auto simp: probe_limiter_def split: option.split prod.split)

lemma apply_actions_refused:
  assumes "\<And>j. limiter_refuses alloc ip (clocks j) (ls ! i)" and "i < length ls"
  shows "Limit \<in> set acts \<Longrightarrow> apply_actions alloc ip v (Some i) clocks acts j ls \<noteq> (Continue, ls')"
proof (induction acts arbitrary: j)
  case (Cons a acts)
  show ?case
  proof (cases a)
    case Limit
    obtain r where "fst (probe_limiter alloc i ip (clocks j) ls) = Some r"
      using probe_refuses [OF assms(2,1)] by blast
    then show ?thesis by (auto simp: Limit split: prod.split option.split)
  qed (use Cons in auto)
qed simp

lemma apply_actions_other:
  "tx \<noteq> Some i \<Longrightarrow> snd (apply_actions alloc ip v tx clocks acts j ls) ! i = ls ! i
     \<and> length (snd (apply_actions alloc ip v tx clocks acts j ls)) = length ls"
proof (induction acts arbitrary: j ls)
  case (Cons a acts)
  show ?case
  proof (cases a)
    case Limit
    show ?thesis
    proof (cases tx)
      case None
      then show ?thesis using Cons by (simp add: Limit)
    next
      case (Some i')
      obtain r ls1 where p: "probe_limiter alloc i' ip (clocks j) ls = (r, ls1)" by fastforce
      have "ls1 ! i = ls ! i \<and> length ls1 = length ls"
        using probe_other [of alloc i' ip "clocks j" ls i] Cons.prems Some p by simp
      then show ?thesis using Cons.IH [of "Suc j" ls1] Cons.prems by (cases r) (simp_all add: Limit Some p)
    qed
  qed (use Cons in auto)
qed simp

lemma apply_rules_refused:
  assumes "\<And>k j. limiter_refuses alloc ip (clocks k j) lim"
    and "ls ! i = lim" and "i < length ls"
    and "rule \<in> set rules" and "matches rule" and "Limit \<in> set (rule_actions rule)" and "rule_limiter_tx rule = Some i"
    and "\<forall>r \<in> set rules. rule_limiter_tx r = Some i \<longrightarrow> r = rule"
  shows "apply_rules alloc ip v matches clocks rules k ls \<noteq> (Continue, ls')"
  using assms(2-)
proof (induction rules arbitrary: k ls ls')
  case (Cons r rules)
  show ?case
  proof (cases "r = rule")
    case True
    have "apply_actions alloc ip v (Some i) (clocks k) (rule_actions rule) 0 ls \<noteq> (Continue, ls1)" for ls1
      by (rule apply_actions_refused) (use Cons.prems(1,2,5) assms(1) in auto)
    then show ?thesis
      using Cons.prems(4,6) True by (auto split: prod.splits verdict.splits)
  next
    case False
    then have r: "rule_limiter_tx r \<noteq> Some i" using Cons.prems(7) by (meson list.set_intros(1))
    obtain w ls1 where a: "apply_actions alloc ip v (rule_limiter_tx r) (clocks k) (rule_actions r) 0 ls = (w, ls1)"
      by fastforce
    have "ls1 ! i = ls ! i \<and> length ls1 = length ls"
      using apply_actions_other [OF r, of alloc ip v "clocks k" "rule_actions r" 0 ls] a by simp
    then have "apply_rules alloc ip v matches clocks rules (Suc k) ls' \<noteq> (Continue, ls'')" if "ls' = ls \<or> ls' = ls1" for ls' ls''
    proof -
      have l: "ls' ! i = lim" "i < length ls'"
        using that \<open>ls1 ! i = ls ! i \<and> length ls1 = length ls\<close> Cons.prems(1,2) by auto
      have r: "rule \<in> set rules" "\<forall>r \<in> set rules. rule_limiter_tx r = Some i \<longrightarrow> r = rule"
        using Cons.prems(3) False by simp (use Cons.prems(7) in \<open>meson list.set_intros(2)\<close>)
      show ?thesis by (rule Cons.IH [OF l r(1) Cons.prems(4-6) r(2)])
    qed
    then show ?thesis by (cases w) (auto simp: a)
  qed
next
  case Nil
  from Nil.prems(3) show ?case by simp
qed


text \<open>C3: a full limiter stops a client: when a rule with a limit matches and its limiter, which no other
  rule uses, refuses the client's address at this moment, no service is reached.\<close>

theorem limited_never_served:
  assumes "rule \<in> set (li_rules li)" and "rule_matches li mo client req st rule" and "Limit \<in> set (rule_actions rule)"
    and "rule_limiter_tx rule = Some i" and "\<forall>r \<in> set (li_rules li). rule_limiter_tx r = Some i \<longrightarrow> r = rule"
    and "i < length (ls_limiters st)" and "\<forall>k j. limiter_refuses (li_alloc li) (sa_ip client) (mo_limit mo k j) (ls_limiters st ! i)"
  shows "serve_http_request li mo client req st = serve_http_request (with_services ss li) mo client req st"
proof (rule stopped_request, rule stopped_by_rules)
  fix v cid ls'
  let ?ctx = "judged_context li mo client req st"
  let ?rules_ctx = "rules_context_of li (req\<lparr>rq_context := Some ?ctx\<rparr>) ?ctx (get_user_agent (handler_env li) req)"
  show "apply_rules (li_alloc li) (sa_ip (ctx_client_address ?ctx)) v (\<lambda>rule. match_rule (li_execute li) rule ?rules_ctx)
      (mo_limit mo) (li_rules li) 0 (ls_limiters (st\<lparr>ls_geoip := snd (client_record li mo client st)\<rparr>)) \<noteq> (Continue, ls')"
    by (rule apply_rules_refused [OF _ _ _ assms(1) _ assms(3,4,5)])
      (use assms(2,6,7) in \<open>simp_all add: judged_rules rule_matches_def\<close>)
qed

section \<open>Every request is answered\<close>

lemma dispatch_answers:
  assumes "\<forall>s \<in> set ss. \<forall>st. fst (hs_handle_http_request s io req st) \<noteq> None"
  shows "fst (dispatch ss ctx io req st) \<noteq> None"
  using assms by (induction ss) auto

lemma rules_and_services_answers:
  assumes "manager_ok (li_captcha_env li) (li_captcha_manager li)"
    and "\<forall>s \<in> set (li_services li). \<forall>st. fst (hs_handle_http_request s (mo_io mo) req st) \<noteq> None"
  shows "fst (rules_and_services li mo req ctx ua v st) \<noteq> None"
proof -
  have page: "serve_captcha (li_captcha_env li) \<noteq> None"
    using captcha_total(4) [OF assms(1)] by (auto simp: serve_captcha_def)
  obtain w ls where w: "apply_rules (li_alloc li) (sa_ip (ctx_client_address ctx)) v
      (\<lambda>rule. match_rule (li_execute li) rule (rules_context_of li req ctx ua)) (mo_limit mo) (li_rules li) 0 (ls_limiters st)
      = (w, ls)" by fastforce
  show ?thesis
    using page dispatch_answers [OF assms(2), of "rules_context_of li req ctx ua" "ls_services st"]
    by (cases w) (simp_all add: rules_and_services_def w case_prod_beta Let_def)
qed

text \<open>No request panics the handler: with the keys of a manager and services that answer the request
  once it carries its context, every request gets a response.\<close>

lemma handler_answers:
  assumes "manager_ok (li_captcha_env li) (li_captcha_manager li)" and "length (mo_challenge mo) = 32"
    and "\<forall>s \<in> set (li_services li). \<forall>ctx st. ctx_client_address ctx = client \<longrightarrow>
      fst (hs_handle_http_request s (mo_io mo) (req\<lparr>rq_context := Some ctx\<rparr>) st) \<noteq> None"
  shows "\<exists>res st'. serve_http_request li mo client req st = (Some res, st')"
proof -
  note total = captcha_never_panics [OF assms(1,2)]
  obtain cid where cid: "client_id_of li client req = Some cid"
    using total unfolding client_id_of_def by blast
  have page: "serve_captcha (li_captcha_env li) \<noteq> None" using total by blast
  have valid: "validate_captcha_verified_cookie (li_captcha_env li) (li_captcha_manager li) t c n1 n2 \<noteq> None" for t c n1 n2
    using total by blast
  have captcha: "serve_captcha_request (li_captcha_env li) (li_captcha_manager li) r cs c (mo_challenge mo) n1 n2 n3 j \<noteq> None"
    for r cs c n1 n2 n3 j
    using total by blast
  let ?ctx = "judged_context li mo client req st" and ?ua = "get_user_agent (handler_env li) req"
  let ?req = "req\<lparr>rq_context := Some ?ctx\<rparr>"
  have rules: "fst (rules_and_services li mo ?req ?ctx ?ua v st') \<noteq> None" for v st'
    by (rule rules_and_services_answers [OF assms(1)])
      (use assms(3) in \<open>simp add: judged_context_def request_context_of_def\<close>)
  have "fst (check_cookie_then_rules li mo ?req ?ctx ?ua cid cs st') \<noteq> None" for cs st'
  proof (cases "List.find (\<lambda>c. ck_name c = captcha_verified_cookie_name) cs")
    case None
    then show ?thesis using rules by (simp add: check_cookie_then_rules_def)
  next
    case (Some c)
    obtain r where "validate_captcha_verified_cookie (li_captcha_env li) (li_captcha_manager li) (ck_value c) cid
        (mo_now1 mo) (mo_now2 mo) = Some r" using valid by blast
    then show ?thesis using rules page Some by (cases r) (simp_all add: check_cookie_then_rules_def)
  qed
  then have "fst (serve_http_request li mo client req st) \<noteq> None"
    using captcha by (auto simp: serve_http_request_eq cid Let_def)
  then show ?thesis by (metis not_None_eq prod.collapse)
qed

section \<open>A small listener\<close>

type_synonym demo_listener = "(unit, unit, unit, bytes, ec_curve \<times> bytes, unit, unit) listener"

definition demo_rule :: "action list \<Rightarrow> nat option \<Rightarrow> unit rule" where
  "demo_rule acts tx = \<lparr>rule_name = ''r'', rule_expression = None, rule_actions = acts, rule_limiter_tx = tx\<rparr>"

definition demo_service :: "nat \<Rightarrow> (unit, unit, unit) http_service" where
  "demo_service status =
     \<lparr>hs_match_request = (\<lambda>_. True),
      hs_handle_http_request = (\<lambda>_ _ st. (Some \<lparr>res_status = status, res_headers = [], res_body = Full ''''\<rparr>, st))\<rparr>"

definition demo_listener :: "unit rule list \<Rightarrow> demo_listener" where
  "demo_listener rules =
     \<lparr>li_address = SocketAddr ipv4_localhost 80, li_use_tls = False, li_rules = rules, li_lists = (),
      li_services = [demo_service 200], li_captcha_env = demo_captcha_env, li_captcha_manager = demo_manager,
      li_execute = (\<lambda>_ _. IsBool True), li_request_ok = (\<lambda>_. True), li_client_ok = (\<lambda>_. True),
      li_parse_cookies = (\<lambda>_. []), li_mmdb_lookup = (\<lambda>_ _. Inl AddressNotFoundError), li_alloc = (\<lambda>n. n)\<rparr>"

definition demo_moment :: "unit moment" where
  "demo_moment =
     \<lparr>mo_evict = (\<lambda>c. c), mo_challenge = replicate 32 CHR ''a'', mo_now1 = 0, mo_now2 = 0, mo_now3 = 0, mo_jti = ''j'',
      mo_limit = (\<lambda>_ _. (0, 0)), mo_io = ()\<rparr>"

definition demo_listener_state :: "ip_addr rate_limiter option list \<Rightarrow> (unit, unit) listener_state" where
  "demo_listener_state limiters = \<lparr>ls_geoip = None, ls_limiters = limiters, ls_services = ()\<rparr>"

definition demo_client :: socket_addr where
  "demo_client = SocketAddr ipv4_localhost 4000"

definition demo_http_request :: request where
  "demo_http_request =
     \<lparr>rq_method = ''GET'', rq_uri_host = None, rq_path = ''/'', rq_path_and_query = Some ''/'', rq_uri = ''/'',
      rq_version = HTTP_11, rq_headers = [(''user-agent'', ''ua'')], rq_body = Inr '''', rq_context = None\<rparr>"

lemma demo_rule_matches: "rule_matches (demo_listener rules) mo client req st (demo_rule acts tx)"
  by (simp add: rule_matches_def match_rule_def demo_rule_def)

lemma demo_not_proven: "\<not> captcha_proven (demo_listener rules) mo client req"
  by (simp add: captcha_proven_def request_cookies_def parsed_cookies_def demo_listener_def handler_env_def
      List.map_filter_simps split: option.split)

theorem barred_never_served_witness:
  "serve_http_request (demo_listener [demo_rule [Captcha] None]) demo_moment demo_client demo_http_request (demo_listener_state [])
   = serve_http_request (with_services [] (demo_listener [demo_rule [Captcha] None])) demo_moment demo_client
       demo_http_request (demo_listener_state [])"
proof (rule barred_never_served)
  have "demo_rule [Captcha] None \<in> set (li_rules (demo_listener [demo_rule [Captcha] None]))"
    by (simp add: demo_listener_def)
  then show "barred (demo_listener [demo_rule [Captcha] None]) demo_moment demo_client demo_http_request (demo_listener_state [])"
    unfolding barred_def using demo_rule_matches [of "[demo_rule [Captcha] None]"] demo_not_proven
    by (intro disjI2 bexI [of _ "demo_rule [Captcha] None"]) (simp_all add: demo_rule_def)
qed

theorem limited_never_served_witness:
  "serve_http_request (demo_listener [demo_rule [Limit] (Some 0)]) demo_moment demo_client demo_http_request (demo_listener_state [None])
   = serve_http_request (with_services [] (demo_listener [demo_rule [Limit] (Some 0)])) demo_moment demo_client
       demo_http_request (demo_listener_state [None])"
proof (rule limited_never_served [OF _ demo_rule_matches, where i = 0])
  show "demo_rule [Limit] (Some 0) \<in> set (li_rules (demo_listener [demo_rule [Limit] (Some 0)]))"
    "\<forall>r \<in> set (li_rules (demo_listener [demo_rule [Limit] (Some 0)])). rule_limiter_tx r = Some 0 \<longrightarrow> r = demo_rule [Limit] (Some 0)"
    by (simp_all add: demo_listener_def)
qed (simp_all add: demo_rule_def demo_listener_state_def limiter_refuses_def)

lemma demo_listener_answers:
  "\<exists>res st'. serve_http_request (demo_listener [demo_rule [Block] None]) demo_moment demo_client demo_http_request
     (demo_listener_state []) = (Some res, st')"
  by (rule handler_answers)
    (simp_all add: demo_listener_def demo_moment_def demo_service_def demo_manager_ok)

end
