(* ===== verification/Tls_Certificate.thy ===== *)
theory Tls_Certificate
  imports Config_Types Strings
begin

text \<open>
  \<^verbatim>\<open>pingoo/tls/certificate.rs\<close>: reading a certificate with its names and validity, and the
  self-signed default certificate. PEM, X.509, SHA-256, the wildcard matcher and the key library
  are an environment; a certified key is a value of their type \<open>'key\<close>. A wildcard matcher is
  its pattern.
\<close>

section \<open>Data\<close>

record certificate_metadata =
  cmd_hash :: string
  cmd_private_key_hash :: string
  cmd_hostnames :: "string list"
  cmd_wildcard_matchers :: "string list"
  cmd_not_after :: int
  cmd_not_before :: int

record 'key certificate =
  crt_key :: 'key
  crt_metadata :: certificate_metadata

text \<open>What the X.509 parser reports: the validity in seconds and the names of each such extension.\<close>

datatype general_name = DNSName string | IPAddressName string | OtherName

record x509 =
  x5_not_before :: int
  x5_not_after :: int
  x5_subject_alternative_names :: "general_name list list"

record 'key cert_env =
  ce_private_key :: "string \<Rightarrow> unit + string option"
  ce_certs :: "string \<Rightarrow> unit + string list"
  ce_x509 :: "string \<Rightarrow> unit + x509"
  ce_timestamp :: "int \<Rightarrow> int option"
  ce_sha256 :: "string \<Rightarrow> string"
  ce_wildcard_ok :: "string \<Rightarrow> bool"
  ce_certified_key :: "string list \<Rightarrow> string \<Rightarrow> unit + 'key"

section \<open>Names\<close>

fun big_endian :: "nat \<Rightarrow> string \<Rightarrow> nat" where
  "big_endian a [] = a"
| "big_endian a (c # cs) = big_endian (a * 256 + byte c) cs"

definition ip_of_bytes :: "string \<Rightarrow> ip_addr option" where
  "ip_of_bytes bs =
     (if length bs = 4 then Some (V4 (of_nat (big_endian 0 bs)))
      else if length bs = 16 then Some (V6 (of_nat (big_endian 0 bs)))
      else None)"

fun san_of :: "general_name \<Rightarrow> string option" where
  "san_of (DNSName d) = Some d"
| "san_of (IPAddressName bs) = map_option show_ip (ip_of_bytes bs)"
| "san_of OtherName = None"

definition subject_alternative_names :: "x509 \<Rightarrow> string list" where
  "subject_alternative_names cert = List.map_filter san_of (concat (x5_subject_alternative_names cert))"

section \<open>Reading a certificate\<close>

definition get_certificate_metadata :: "'key cert_env \<Rightarrow> string \<Rightarrow> string \<Rightarrow> error + certificate_metadata" where
  "get_certificate_metadata env cert_der private_key_der =
     (case ce_x509 env cert_der of
        Inl _ \<Rightarrow> Inl (Tls ''error parsing TLS certificate'')
      | Inr cert \<Rightarrow>
          and_then (ok_or (ce_timestamp env (x5_not_before cert)) (Tls ''TLS certificate not_before timestamp is not valid'')) (\<lambda>not_before.
          and_then (ok_or (ce_timestamp env (x5_not_after cert)) (Tls ''TLS certificate not_after timestamp is not valid'')) (\<lambda>not_after.
            (let sans = subject_alternative_names cert
             in and_then (try_map (\<lambda>hostname. if ce_wildcard_ok env hostname then Inr hostname
                                              else Inl (Tls ''TLS hostname is not valid''))
                   (filter (\<lambda>hostname. contains_char hostname CHR ''*'') sans)) (\<lambda>wildcard_matchers.
                Inr \<lparr>cmd_hash = ce_sha256 env cert_der, cmd_private_key_hash = ce_sha256 env private_key_der,
                     cmd_hostnames = filter (\<lambda>san. \<not> contains_char san CHR ''*'') sans,
                     cmd_wildcard_matchers = wildcard_matchers,
                     cmd_not_after = not_after, cmd_not_before = not_before\<rparr>)))))"

definition parse_certificate_and_private_key :: "'key cert_env \<Rightarrow> string \<Rightarrow> string \<Rightarrow> error + 'key certificate" where
  "parse_certificate_and_private_key env certs_pem private_key_pem =
     and_then (case ce_private_key env private_key_pem of
                 Inl _ \<Rightarrow> Inl (Config ''error parsing TLS private key'')
               | Inr k \<Rightarrow> ok_or k (Tls ''private key file is not valid'')) (\<lambda>private_key.
     and_then (case ce_certs env certs_pem of
                 Inl _ \<Rightarrow> Inl (Config ''error parsing TLS certificates'')
               | Inr cs \<Rightarrow> Inr cs) (\<lambda>certificates.
       case certificates of
         [] \<Rightarrow> Inl (Tls ''TLS cert chain is empty'')
       | first # _ \<Rightarrow>
           and_then (get_certificate_metadata env first private_key) (\<lambda>metadata.
             if cmd_hostnames metadata = [] \<and> cmd_wildcard_matchers metadata = []
             then Inl (Tls ''TLS certificate is not valid: hostnames list (SAN, Subject Alternative Name) is empty'')
             else case ce_certified_key env certificates private_key of
                    Inl _ \<Rightarrow> Inl (Tls ''error verifying TLS certificates'')
                  | Inr certified_key \<Rightarrow> Inr \<lparr>crt_key = certified_key, crt_metadata = metadata\<rparr>)))"

section \<open>Self-signed certificates\<close>

text \<open>
  The validity begins today and ends on the same day of the next year. The library's constructor
  of a date is a field; its panic is \<open>None\<close>.
\<close>

type_synonym date = "nat \<times> nat \<times> nat"

text \<open>The library's names, key pair, signing and PEM encoding; the common name is fixed.\<close>

record pem =
  pem_key :: string
  pem_cert :: string

record 'key self_signed_env =
  sse_cert :: "'key cert_env"
  sse_date_time_ymd :: "nat \<Rightarrow> nat \<Rightarrow> nat \<Rightarrow> date option"
  sse_dns_name_ok :: "string \<Rightarrow> bool"
  sse_key_pair :: "unit + string"
  sse_self_signed :: "date \<Rightarrow> date \<Rightarrow> string \<Rightarrow> string list \<Rightarrow> string \<Rightarrow> unit + string"

definition generate_self_signed_certificates ::
  "'key self_signed_env \<Rightarrow> date \<Rightarrow> string list \<Rightarrow> (error + 'key certificate \<times> pem) option" where
  "generate_self_signed_certificates env today hostnames =
     (case today of (year, month, day) \<Rightarrow>
        (case sse_date_time_ymd env year month day of
           None \<Rightarrow> None
         | Some not_before \<Rightarrow>
             (case sse_date_time_ymd env (year + 1) month day of
                None \<Rightarrow> None
              | Some not_after \<Rightarrow>
                  Some (and_then (try_map (\<lambda>hostname. if sse_dns_name_ok env hostname then Inr hostname
                              else Inl (Tls ''error converting hostname to SAN name'')) hostnames) (\<lambda>names.
                    (case sse_key_pair env of
                       Inl _ \<Rightarrow> Inl (Tls ''error generating keypair for self-signed certificate'')
                     | Inr key_pem \<Rightarrow>
                         (case sse_self_signed env not_before not_after ''Pingoo self-signed certificate'' names key_pem of
                            Inl _ \<Rightarrow> Inl (Tls ''error seigning self-signed certificate'')
                          | Inr cert_pem \<Rightarrow>
                              and_then (parse_certificate_and_private_key (sse_cert env) cert_pem key_pem) (\<lambda>certificate.
                                Inr (certificate, \<lparr>pem_key = key_pem, pem_cert = cert_pem\<rparr>)))))))))"

section \<open>Facts\<close>

text \<open>The names of a certificate are its alternative names, split by whether they hold a star.\<close>

definition names_of :: "x509 \<Rightarrow> certificate_metadata \<Rightarrow> bool" where
  "names_of cert md \<longleftrightarrow>
     cmd_hostnames md = filter (\<lambda>n. CHR ''*'' \<notin> set n) (subject_alternative_names cert)
     \<and> cmd_wildcard_matchers md = filter (\<lambda>n. CHR ''*'' \<in> set n) (subject_alternative_names cert)"

lemma try_map_check: "try_map (\<lambda>x. if P x then Inr x else Inl e) xs = Inr ys \<longleftrightarrow> ys = xs \<and> list_all P xs"
  by (induction xs arbitrary: ys) (auto simp: and_then_Inr_iff)

lemma metadata_names:
  assumes "get_certificate_metadata env cert_der key_der = Inr md"
  obtains cert where "ce_x509 env cert_der = Inr cert" and "names_of cert md"
    and "ce_timestamp env (x5_not_before cert) = Some (cmd_not_before md)"
    and "ce_timestamp env (x5_not_after cert) = Some (cmd_not_after md)"
  using assms
  by (auto simp: get_certificate_metadata_def names_of_def and_then_Inr_iff ok_or_Inr_iff try_map_check Let_def
      split: sum.splits)

text \<open>A certificate that loads has names: its host names and wildcards are exactly the alternative
  names of the first certificate of its chain, without and with a star, and there is at least one;
  the key is that of the chain.\<close>

lemma certificate_names:
  assumes "parse_certificate_and_private_key env certs_pem key_pem = Inr crt"
  shows "\<exists>first rest key cert. ce_certs env certs_pem = Inr (first # rest) \<and> ce_private_key env key_pem = Inr (Some key)
    \<and> ce_x509 env first = Inr cert \<and> names_of cert (crt_metadata crt)
    \<and> (cmd_hostnames (crt_metadata crt) \<noteq> [] \<or> cmd_wildcard_matchers (crt_metadata crt) \<noteq> [])
    \<and> ce_certified_key env (first # rest) key = Inr (crt_key crt)"
proof -
  obtain key cs where key: "ce_private_key env key_pem = Inr (Some key)" and cs: "ce_certs env certs_pem = Inr cs"
    using assms by (auto simp: parse_certificate_and_private_key_def and_then_Inr_iff ok_or_Inr_iff split: sum.splits)
  obtain first rest where cons: "cs = first # rest"
    using assms by (cases cs) (auto simp: parse_certificate_and_private_key_def key cs)
  obtain md where md: "get_certificate_metadata env first key = Inr md"
    using assms by (cases "get_certificate_metadata env first key") (auto simp: parse_certificate_and_private_key_def key cs cons)
  obtain ck where ck: "ce_certified_key env (first # rest) key = Inr ck"
    using assms by (cases "ce_certified_key env (first # rest) key")
      (auto simp: parse_certificate_and_private_key_def key cs cons md split: if_splits)
  have "crt_metadata crt = md" "cmd_hostnames md \<noteq> [] \<or> cmd_wildcard_matchers md \<noteq> []"
    "ce_certified_key env (first # rest) key = Inr (crt_key crt)"
    using assms by (auto simp: parse_certificate_and_private_key_def key cs cons md ck split: if_splits)
  note md = md this
  note * = cs [unfolded cons] key md
  obtain cert where "ce_x509 env first = Inr cert" "names_of cert md"
    by (rule metadata_names [OF *(3)])
  with * show ?thesis by blast
qed

definition demo_cert_env :: "string cert_env" where
  "demo_cert_env =
     \<lparr>ce_private_key = (\<lambda>p. Inr (Some p)), ce_certs = (\<lambda>p. Inr [p]),
      ce_x509 = (\<lambda>d. Inr \<lparr>x5_not_before = 0, x5_not_after = 1, x5_subject_alternative_names = [[DNSName d, OtherName, IPAddressName ''abcd'']]\<rparr>),
      ce_timestamp = Some, ce_sha256 = (\<lambda>b. b), ce_wildcard_ok = (\<lambda>_. True), ce_certified_key = (\<lambda>cs k. Inr k)\<rparr>"

lemma certificate_names_witness:
  "\<exists>crt. parse_certificate_and_private_key demo_cert_env ''*.a'' ''k'' = Inr crt
    \<and> cmd_wildcard_matchers (crt_metadata crt) = [''*.a'']"
proof -
  have "is_ok (parse_certificate_and_private_key demo_cert_env ''*.a'' ''k'')" by code_simp
  then obtain crt where crt: "parse_certificate_and_private_key demo_cert_env ''*.a'' ''k'' = Inr crt"
    by (auto simp: is_ok_iff)
  have sans: "subject_alternative_names \<lparr>x5_not_before = 0, x5_not_after = 1,
      x5_subject_alternative_names = [[DNSName ''*.a'', OtherName, IPAddressName ''abcd'']]\<rparr> = [''*.a'', ''97.98.99.100'']"
    by code_simp
  from certificate_names [OF crt] have "cmd_wildcard_matchers (crt_metadata crt) = [''*.a'']"
    by (auto simp: demo_cert_env_def names_of_def sans)
  with crt show ?thesis by blast
qed

text \<open>The Gregorian calendar; the constructor accepts exactly its days.\<close>

definition leap_year :: "nat \<Rightarrow> bool" where
  "leap_year y = (y mod 4 = 0 \<and> (y mod 100 \<noteq> 0 \<or> y mod 400 = 0))"

definition days_in_month :: "nat \<Rightarrow> nat \<Rightarrow> nat" where
  "days_in_month y m = (if m = 2 then (if leap_year y then 29 else 28) else if m \<in> {4, 6, 9, 11} then 30 else 31)"

definition valid_date :: "date \<Rightarrow> bool" where
  "valid_date = (\<lambda>(y, m, d). 1 \<le> m \<and> m \<le> 12 \<and> 1 \<le> d \<and> d \<le> days_in_month y m)"

definition calendar_date :: "nat \<Rightarrow> nat \<Rightarrow> nat \<Rightarrow> date option" where
  "calendar_date y m d = (if valid_date (y, m, d) then Some (y, m, d) else None)"

text \<open>Making a self-signed certificate panics exactly on the 29th of February: that day does not exist
  in the next year, on which the validity is to end.\<close>

lemma self_signed_panics_exactly:
  assumes "sse_date_time_ymd env = calendar_date" and "valid_date (y, m, d)"
  shows "generate_self_signed_certificates env (y, m, d) hostnames = None \<longleftrightarrow> m = 2 \<and> d = 29"
proof -
  have leap: "\<not> (leap_year y \<and> leap_year (y + 1))" unfolding leap_year_def by presburger
  have "valid_date (y + 1, m, d) \<longleftrightarrow> \<not> (m = 2 \<and> d = 29)"
    using assms(2) leap by (auto simp: valid_date_def days_in_month_def split: if_splits)
  then show ?thesis
    using assms by (auto simp: generate_self_signed_certificates_def calendar_date_def)
qed

definition demo_self_signed_env :: "string self_signed_env" where
  "demo_self_signed_env =
     \<lparr>sse_cert = demo_cert_env, sse_date_time_ymd = calendar_date, sse_dns_name_ok = (\<lambda>_. True), sse_key_pair = Inr ''k'',
      sse_self_signed = (\<lambda>_ _ _ names _. Inr (concat names))\<rparr>"

lemma self_signed_panics_exactly_witness:
  "generate_self_signed_certificates demo_self_signed_env (2028, 2, 29) [''*''] = None
   \<and> generate_self_signed_certificates demo_self_signed_env (2028, 2, 28) [''*''] \<noteq> None"
proof -
  have "valid_date (2028, 2, 29)" "valid_date (2028, 2, 28)" by code_simp+
  moreover have "sse_date_time_ymd demo_self_signed_env = calendar_date" by (simp add: demo_self_signed_env_def)
  ultimately show ?thesis by (simp add: self_signed_panics_exactly)
qed

end
