(* ===== verification/Tls_Manager.thy ===== *)
theory Tls_Manager
  imports Tls_Certificate Paths
begin

text \<open>
  \<^verbatim>\<open>pingoo/tls/tls_manager.rs\<close>: loading the certificates of the TLS folder and the default
  certificate, and choosing the certificate of a connection. The file system and the certificate
  library are an environment; a wildcard pattern is matched by the library (\<open>matches\<close>). The
  ACME account is in the theory of that module; \<open>'acme\<close> is what it leaves here.
\<close>

section \<open>Data\<close>

record ('key, 'acme) tls_manager =
  tm_default_certificate :: "'key certificate"
  tm_certificates :: "(string \<times> 'key certificate) list"
  tm_wildcard_certificates :: "'key certificate list"
  tm_acme :: "'acme option"

definition default_tls_folder :: string where
  "default_tls_folder = ''/etc/pingoo/tls''"

text \<open>
  The entries of a directory up to the first one that cannot be read, each with the outcome of
  asking for its file type.
\<close>

record 'key tls_env =
  te_self_signed :: "'key self_signed_env"
  te_create_dir_all :: "unit + unit"
  te_dir_metadata :: "unit + unit"
  te_set_permissions :: "unit + unit"
  te_read_dir :: "unit + (string \<times> (unit + bool)) list"
  te_read :: "string \<Rightarrow> unit + string"
  te_metadata :: "string \<Rightarrow> io_error_kind + unit"
  te_write :: "string \<Rightarrow> string \<Rightarrow> unit + unit"
  te_utf8 :: "string \<Rightarrow> bool"
  te_today :: date

section \<open>Choosing a certificate\<close>

definition wildcard_match :: "(string \<Rightarrow> string \<Rightarrow> bool) \<Rightarrow> string \<Rightarrow> 'key certificate \<Rightarrow> bool" where
  "wildcard_match matches sni cert =
     list_ex (\<lambda>matcher. matches matcher sni) (cmd_wildcard_matchers (crt_metadata cert))"

definition resolve ::
  "(string \<Rightarrow> string \<Rightarrow> bool) \<Rightarrow> ('key, 'acme) tls_manager \<Rightarrow> string option \<Rightarrow> 'key option" where
  "resolve matches tm server_name =
     (let sni = (case server_name of Some s \<Rightarrow> s | None \<Rightarrow> '''')
      in Some (case map_of (tm_certificates tm) sni of
                 Some cert \<Rightarrow> crt_key cert
               | None \<Rightarrow>
                   (case List.find (wildcard_match matches sni) (tm_wildcard_certificates tm) of
                      Some cert \<Rightarrow> crt_key cert
                    | None \<Rightarrow> crt_key (tm_default_certificate tm))))"

section \<open>Loading\<close>

definition load_certificate :: "'key tls_env \<Rightarrow> string \<Rightarrow> error + 'key certificate" where
  "load_certificate env cert_file_path =
     (case te_read env cert_file_path of
        Inl _ \<Rightarrow> Inl (Config ''error reading certificate'')
      | Inr cert_file_content \<Rightarrow>
          (case te_read env (set_extension cert_file_path ''key'') of
             Inl _ \<Rightarrow> Inl (Config ''error reading private key'')
           | Inr private_key_file_content \<Rightarrow>
               parse_certificate_and_private_key (sse_cert (te_self_signed env)) cert_file_content private_key_file_content))"

definition utf8_or_default :: "'key tls_env \<Rightarrow> string option \<Rightarrow> string" where
  "utf8_or_default env x = (case x of Some s \<Rightarrow> if te_utf8 env s then s else '''' | None \<Rightarrow> '''')"

text \<open>The files taken for certificates.\<close>

definition is_certificate_path :: "'key tls_env \<Rightarrow> string \<Rightarrow> bool" where
  "is_certificate_path env path =
     (utf8_or_default env (path_extension path) = ''pem'' \<and> utf8_or_default env (file_name path) \<noteq> ''default'')"

fun list_certificates :: "'key tls_env \<Rightarrow> (string \<times> (unit + bool)) list \<Rightarrow> error + string list" where
  "list_certificates env [] = Inr []"
| "list_certificates env ((path, file_type) # entries) =
     (case file_type of
        Inl _ \<Rightarrow> Inl (Config ''error getting file type'')
      | Inr is_file \<Rightarrow>
          and_then (list_certificates env entries) (\<lambda>paths.
            Inr (if is_file \<and> is_certificate_path env path then path # paths else paths)))"

definition add_certificate ::
  "'key certificate \<Rightarrow> (string \<times> 'key certificate) list \<times> 'key certificate list \<Rightarrow>
     (string \<times> 'key certificate) list \<times> 'key certificate list" where
  "add_certificate cert = (\<lambda>(certificates, wildcard_certificates).
     (fold (\<lambda>hostname. AList.update hostname cert) (cmd_hostnames (crt_metadata cert)) certificates,
      if cmd_wildcard_matchers (crt_metadata cert) \<noteq> [] then wildcard_certificates @ [cert] else wildcard_certificates))"

definition load_certificates ::
  "'key tls_env \<Rightarrow> error + (string \<times> 'key certificate) list \<times> 'key certificate list" where
  "load_certificates env =
     (case te_read_dir env of
        Inl _ \<Rightarrow> Inl (Config ''error reading certificates folder'')
      | Inr entries \<Rightarrow>
          and_then (list_certificates env entries) (\<lambda>paths.
          and_then (try_map (load_certificate env) paths) (\<lambda>certs.
            Inr (fold add_certificate certs ([], [])))))"

definition default_certificate_valid :: "'key certificate \<Rightarrow> bool" where
  "default_certificate_valid cert =
     (\<not> (length (cmd_hostnames (crt_metadata cert)) \<noteq> 0
         \<or> length (cmd_wildcard_matchers (crt_metadata cert)) \<noteq> 1
         \<or> cmd_wildcard_matchers (crt_metadata cert) ! 0 \<noteq> ''*''))"

text \<open>\<open>None\<close> is the panic of the self-signed certificate.\<close>

definition load_or_create_default_certificate :: "'key tls_env \<Rightarrow> string \<Rightarrow> (error + 'key certificate) option" where
  "load_or_create_default_certificate env certs_dir =
     (let default_cert_path = path_push certs_dir ''default.pem'';
          loaded = (case te_metadata env default_cert_path of
             Inr _ \<Rightarrow> Some (load_certificate env default_cert_path)
           | Inl NotFound \<Rightarrow>
               map_option (\<lambda>r. and_then r (\<lambda>(default_certificate, pem).
                 (case te_write env default_cert_path (pem_cert pem) of
                    Inl _ \<Rightarrow> Inl (Tls ''error writing default TLS certificate'')
                  | Inr _ \<Rightarrow>
                      (case te_write env (set_extension default_cert_path ''key'') (pem_key pem) of
                         Inl _ \<Rightarrow> Inl (Tls ''error writing private key for default TLS certificate'')
                       | Inr _ \<Rightarrow> Inr default_certificate))))
                 (generate_self_signed_certificates (te_self_signed env) (te_today env) [''*''])
           | Inl OtherIoError \<Rightarrow> Some (Inl (Tls ''error loading default certificate'')))
      in map_option (\<lambda>r. and_then r (\<lambda>default_cert.
           if default_certificate_valid default_cert then Inr default_cert
           else Inl (Tls ''default TLS certificate is not valid''))) loaded)"

definition tls_manager_new ::
  "'key tls_env \<Rightarrow> (string \<Rightarrow> error + 'acme) \<Rightarrow> tls_config \<Rightarrow> (error + ('key, 'acme) tls_manager) option" where
  "tls_manager_new env load_account tls_config =
     (case te_create_dir_all env of
        Inl _ \<Rightarrow> Some (Inl (Config ''error creating TLS folder''))
      | Inr _ \<Rightarrow>
          (case te_dir_metadata env of
             Inl _ \<Rightarrow> Some (Inl (IO ''''))
           | Inr _ \<Rightarrow>
               (case te_set_permissions env of
                  Inl _ \<Rightarrow> Some (Inl (IO ''''))
                | Inr _ \<Rightarrow>
                    (case load_certificates env of
                       Inl e \<Rightarrow> Some (Inl e)
                     | Inr (certificates, wildcard_certificates) \<Rightarrow>
                         map_option (\<lambda>r. and_then r (\<lambda>default_certificate.
                           and_then (case tls_acme tls_config of
                                       Some acme_config \<Rightarrow>
                                         and_then (load_account (acme_directory_url acme_config)) (\<lambda>acme. Inr (Some acme))
                                     | None \<Rightarrow> Inr None) (\<lambda>acme.
                             Inr \<lparr>tm_default_certificate = default_certificate, tm_certificates = certificates,
                                  tm_wildcard_certificates = wildcard_certificates, tm_acme = acme\<rparr>)))
                           (load_or_create_default_certificate env default_tls_folder)))))"

section \<open>What is served\<close>

text \<open>The certificates a folder holds, and whether a certificate is for a name.\<close>

definition folder_certificates :: "'key tls_env \<Rightarrow> 'key certificate list \<Rightarrow> bool" where
  "folder_certificates env certs \<longleftrightarrow>
     (\<exists>entries paths. te_read_dir env = Inr entries \<and> list_certificates env entries = Inr paths
        \<and> try_map (load_certificate env) paths = Inr certs)"

definition covers :: "(string \<Rightarrow> string \<Rightarrow> bool) \<Rightarrow> 'key certificate \<Rightarrow> string \<Rightarrow> bool" where
  "covers matches cert sni \<longleftrightarrow>
     sni \<in> set (cmd_hostnames (crt_metadata cert)) \<or> (\<exists>m \<in> set (cmd_wildcard_matchers (crt_metadata cert)). matches m sni)"

definition best_certificate ::
  "(string \<Rightarrow> string \<Rightarrow> bool) \<Rightarrow> 'key certificate list \<Rightarrow> 'key certificate \<Rightarrow> string \<Rightarrow> 'key certificate \<Rightarrow> bool" where
  "best_certificate matches certs default_cert sni cert \<longleftrightarrow>
     (if \<exists>c \<in> set certs. sni \<in> set (cmd_hostnames (crt_metadata c))
      then cert \<in> set certs \<and> sni \<in> set (cmd_hostnames (crt_metadata cert))
      else if \<exists>c \<in> set certs. covers matches c sni then cert \<in> set certs \<and> covers matches cert sni
      else cert = default_cert)"

lemma wildcard_match_iff:
  "wildcard_match matches sni c \<longleftrightarrow> (\<exists>m \<in> set (cmd_wildcard_matchers (crt_metadata c)). matches m sni)"
  by (simp add: wildcard_match_def list_ex_iff)

lemma map_of_fold_hostnames:
  "map_of (fold (\<lambda>h. AList.update h cert) hs m) n = (if n \<in> set hs then Some cert else map_of m n)"
  by (induction hs arbitrary: m) (auto simp: update_conv')

lemma add_certificates:
  assumes "fold add_certificate certs (cs, ws) = (cs', ws')"
  shows "ws' = ws @ filter (\<lambda>c. cmd_wildcard_matchers (crt_metadata c) \<noteq> []) certs
    \<and> (\<forall>n. map_of cs' n = (case List.find (\<lambda>c. n \<in> set (cmd_hostnames (crt_metadata c))) (rev certs) of
                             Some c \<Rightarrow> Some c | None \<Rightarrow> map_of cs n))"
  using assms
proof (induction certs arbitrary: cs ws)
  case (Cons c certs)
  have app: "List.find P (xs @ [x]) = (case List.find P xs of Some y \<Rightarrow> Some y | None \<Rightarrow> if P x then Some x else None)"
    for P and xs :: "'a certificate list" and x
    by (induction xs) auto
  show ?case
    using Cons.IH [of "fst (add_certificate c (cs, ws))" "snd (add_certificate c (cs, ws))"] Cons.prems
    by (auto simp: add_certificate_def app map_of_fold_hostnames split: option.split)
qed simp

lemma find_in: "List.find P xs = Some x \<Longrightarrow> x \<in> set xs \<and> P x"
  by (auto simp: find_Some_iff)

lemma resolve_best:
  assumes "fold add_certificate certs ([], []) = (tm_certificates tm, tm_wildcard_certificates tm)"
  shows "\<exists>cert. resolve matches tm name = Some (crt_key cert)
    \<and> best_certificate matches certs (tm_default_certificate tm) (case name of Some s \<Rightarrow> s | None \<Rightarrow> '''') cert"
proof -
  define sni where "sni = (case name of Some s \<Rightarrow> s | None \<Rightarrow> '''')"
  let ?exact = "\<lambda>c. sni \<in> set (cmd_hostnames (crt_metadata c))"
  have ws: "tm_wildcard_certificates tm = filter (\<lambda>c. cmd_wildcard_matchers (crt_metadata c) \<noteq> []) certs"
    and cs: "map_of (tm_certificates tm) sni = List.find ?exact (rev certs)"
    using add_certificates [OF assms] by (auto split: option.split)
  show ?thesis
  proof (cases "List.find ?exact (rev certs)")
    case (Some c)
    then have "c \<in> set certs \<and> ?exact c" using find_in [OF Some] by simp
    then show ?thesis
      by (intro exI [of _ c]) (auto simp: resolve_def sni_def [symmetric] cs Some best_certificate_def)
  next
    case None
    then have no: "\<not> (\<exists>c \<in> set certs. ?exact c)" by (simp add: find_None_iff)
    show ?thesis
    proof (cases "List.find (wildcard_match matches sni) (tm_wildcard_certificates tm)")
      case (Some c)
      have "c \<in> set certs \<and> covers matches c sni"
        using find_in [OF Some] by (auto simp: ws covers_def wildcard_match_iff)
      then show ?thesis
        using no by (intro exI [of _ c])
          (auto simp: resolve_def sni_def [symmetric] cs None Some best_certificate_def)
    next
      case wild: None
      then have "\<not> (\<exists>c \<in> set certs. covers matches c sni)"
        using no by (fastforce simp: find_None_iff ws covers_def wildcard_match_iff)
      then show ?thesis
        using no by (intro exI [of _ "tm_default_certificate tm"])
          (simp add: resolve_def sni_def [symmetric] cs None wild best_certificate_def)
    qed
  qed
qed

lemma tls_manager_new_folder:
  assumes "tls_manager_new env load_account cfg = Some (Inr tm)"
  obtains certs where "folder_certificates env certs"
    and "fold add_certificate certs ([], []) = (tm_certificates tm, tm_wildcard_certificates tm)"
    and "default_certificate_valid (tm_default_certificate tm)"
proof -
  obtain cs ws where load: "load_certificates env = Inr (cs, ws)"
    using assms by (cases "load_certificates env") (auto simp: tls_manager_new_def split: sum.splits)
  obtain r where r: "load_or_create_default_certificate env default_tls_folder = Some r"
    using assms load by (cases "load_or_create_default_certificate env default_tls_folder")
      (auto simp: tls_manager_new_def split: sum.splits)
  obtain d where d: "r = Inr d"
    using assms load r by (cases r) (auto simp: tls_manager_new_def split: sum.splits)
  have tm: "tm_certificates tm = cs" "tm_wildcard_certificates tm = ws" "tm_default_certificate tm = d"
    using assms load r d by (auto simp: tls_manager_new_def and_then_Inr_iff split: sum.splits)
  have "default_certificate_valid d"
    using r d by (auto simp: load_or_create_default_certificate_def Let_def and_then_Inr_iff split: if_splits)
  moreover obtain entries paths certs where "te_read_dir env = Inr entries" "list_certificates env entries = Inr paths"
    "try_map (load_certificate env) paths = Inr certs" "fold add_certificate certs ([], []) = (cs, ws)"
    using load by (cases "te_read_dir env") (auto simp: load_certificates_def and_then_Inr_iff)
  ultimately show thesis
    using that [of certs] by (auto simp: folder_certificates_def tm)
qed

text \<open>C27: every connection gets the best certificate: one of the folder's that names the host exactly if
  there is one, else one with a matching wildcard, and only when the folder has neither the default
  certificate, whose single name is the star.\<close>

theorem resolve_serves_best:
  assumes "tls_manager_new env load_account cfg = Some (Inr tm)"
  shows "\<exists>certs cert. folder_certificates env certs \<and> resolve matches tm name = Some (crt_key cert)
    \<and> best_certificate matches certs (tm_default_certificate tm) (case name of Some s \<Rightarrow> s | None \<Rightarrow> '''') cert
    \<and> default_certificate_valid (tm_default_certificate tm)"
  using assms
proof (rule tls_manager_new_folder)
  fix certs
  assume "folder_certificates env certs" "default_certificate_valid (tm_default_certificate tm)"
    and "fold add_certificate certs ([], []) = (tm_certificates tm, tm_wildcard_certificates tm)"
  with resolve_best [of certs tm matches name] show ?thesis by blast
qed

text \<open>A folder with the default certificate, a wildcard certificate and one for a single host.\<close>

definition demo_pem_of :: "string \<Rightarrow> string" where
  "demo_pem_of path =
     (if path = ''/etc/pingoo/tls/default.pem'' then ''*''
      else if path = ''/etc/pingoo/tls/wild.pem'' then ''*.a'' else path)"

definition demo_tls_env :: "string tls_env" where
  "demo_tls_env =
     \<lparr>te_self_signed = demo_self_signed_env\<lparr>sse_cert := demo_cert_env\<lparr>ce_x509 := (\<lambda>d. Inr
        \<lparr>x5_not_before = 0, x5_not_after = 1, x5_subject_alternative_names = [[DNSName d]]\<rparr>)\<rparr>\<rparr>,
      te_create_dir_all = Inr (), te_dir_metadata = Inr (), te_set_permissions = Inr (),
      te_read_dir = Inr [(''/etc/pingoo/tls/default.pem'', Inr True), (''/etc/pingoo/tls/default.key'', Inr True),
                         (''/etc/pingoo/tls/wild.pem'', Inr True), (''/etc/pingoo/tls'', Inr False)],
      te_read = (\<lambda>p. Inr (demo_pem_of p)), te_metadata = (\<lambda>_. Inr ()), te_write = (\<lambda>_ _. Inr ()),
      te_utf8 = (\<lambda>_. True), te_today = (2026, 1, 1)\<rparr>"

definition demo_matches :: "string \<Rightarrow> string \<Rightarrow> bool" where
  "demo_matches pattern s = (pattern = ''*'' \<or> starts_with pattern ''*.'' \<and> ends_with s (drop 1 pattern))"

definition no_account :: "string \<Rightarrow> error + unit" where
  "no_account url = Inr ()"

lemma demo_tls_manager: "\<exists>tm. tls_manager_new demo_tls_env no_account \<lparr>tls_acme = None\<rparr> = Some (Inr tm)"
proof -
  have "map_option is_ok (tls_manager_new demo_tls_env no_account \<lparr>tls_acme = None\<rparr>) = Some True"
    by code_simp
  then show ?thesis by (auto simp: is_ok_iff)
qed

theorem resolve_serves_best_witness:
  "\<exists>tm (cert :: string certificate). tls_manager_new demo_tls_env no_account \<lparr>tls_acme = None\<rparr> = Some (Inr tm)
     \<and> resolve demo_matches tm (Some ''x.a'') = Some (crt_key cert)"
proof -
  obtain tm where tm: "tls_manager_new demo_tls_env no_account \<lparr>tls_acme = None\<rparr> = Some (Inr tm)"
    using demo_tls_manager by blast
  from resolve_serves_best [OF this, of demo_matches "Some ''x.a''"] tm show ?thesis by blast
qed

text \<open>
  The default certificate file is taken for a certificate of the folder, as the test compares the
  name with \<open>default\<close> and not the stem: listed first, its star hides every other wildcard.
\<close>

lemma default_file_is_listed: "is_certificate_path demo_tls_env ''/etc/pingoo/tls/default.pem''"
  by code_simp

lemma default_hides_wildcards:
  "map_option (map_sum id (\<lambda>tm. resolve demo_matches tm (Some ''x.a'')))
     (tls_manager_new demo_tls_env no_account \<lparr>tls_acme = None\<rparr>)
   = Some (Inr (Some ''/etc/pingoo/tls/default.key''))"
  by code_simp

end
