(* ===== verification/Acme.thy ===== *)
theory Acme
  imports Tls_Manager Tcp_Proxy
begin

text \<open>
  \<^verbatim>\<open>pingoo/tls/acme.rs\<close>: the ACME account file, ordering certificates with the
  tls-alpn-01 challenge, answering the challenge, and the renewal loop. The ACME client library,
  the certificate library and the file system are environments: every call's outcome is a field.
\<close>

section \<open>The account\<close>

record acme_account =
  aa_id :: string
  aa_key :: string

text \<open>The configuration file: version 1 with the accounts of the directory URLs.\<close>

datatype acme_file = V1 (v1_accounts: "(string \<times> acme_account) list")

text \<open>
  The library: building a client, restoring an account from its parts, creating one; and JSON and
  the file system. An account of the library is what identifies it.
\<close>

record account_env =
  ae_read :: "io_error_kind + string"
  ae_parse :: "string \<Rightarrow> unit + acme_file"
  ae_print :: "acme_file \<Rightarrow> unit + string"
  ae_write :: "string \<Rightarrow> unit + unit"
  ae_builder :: "unit + unit"
  ae_from_parts :: "acme_account \<Rightarrow> string \<Rightarrow> unit + acme_account"
  ae_create :: "string \<Rightarrow> unit + acme_account"

definition index_map_insert :: "string \<Rightarrow> 'v \<Rightarrow> (string \<times> 'v) list \<Rightarrow> (string \<times> 'v) list" where
  "index_map_insert k v m = AList.update k v m"

definition load_or_create_acme_account :: "account_env \<Rightarrow> string \<Rightarrow> error + acme_account" where
  "load_or_create_acme_account env directory_url =
     and_then (case ae_read env of
                 Inr content \<Rightarrow>
                   (case ae_parse env content of
                      Inl _ \<Rightarrow> Inl (Unspecified ''error reading acme.json'')
                    | Inr c \<Rightarrow> Inr c)
               | Inl NotFound \<Rightarrow> Inr (V1 [])
               | Inl OtherIoError \<Rightarrow> Inl (Unspecified ''error reading ACME configuration file'')) (\<lambda>acme_config.
       case acme_config of V1 accounts \<Rightarrow>
         (case map_of accounts directory_url of
            Some account \<Rightarrow>
              (case ae_builder env of
                 Inl _ \<Rightarrow> Inl (Unspecified ''error creating ACME account builder'')
               | Inr _ \<Rightarrow>
                   (case ae_from_parts env account directory_url of
                      Inl _ \<Rightarrow> Inl (Unspecified ''error loading ACME account'')
                    | Inr acme_account \<Rightarrow> Inr acme_account))
          | None \<Rightarrow>
              (case ae_builder env of
                 Inl _ \<Rightarrow> Inl (Config ''error building ACME client'')
               | Inr _ \<Rightarrow>
                   (case ae_create env directory_url of
                      Inl _ \<Rightarrow> Inl (Config ''error creating ACME account'')
                    | Inr acme_account \<Rightarrow>
                        (case ae_print env (V1 (index_map_insert directory_url acme_account accounts)) of
                           Inl _ \<Rightarrow> Inl (Config ''error serializing ACME configuration'')
                         | Inr content \<Rightarrow>
                             (case ae_write env content of
                                Inl _ \<Rightarrow> Inl (Config ''error saving ACME configuration file'')
                              | Inr _ \<Rightarrow> Inr acme_account))))))"

section \<open>Ordering a certificate\<close>

datatype authorization_status = AuthorizationPending | AuthorizationValid | AuthorizationOther

text \<open>The outcomes of an order's calls, in the order they are made.\<close>

record order_env =
  oe_new_order :: "unit + unit"
  oe_next_authorization :: "(unit + authorization_status) option"
  oe_key_authorization :: "string option"
  oe_set_ready :: "unit + unit"
  oe_poll_ready :: "unit + bool"
  oe_finalize :: "unit + string"
  oe_poll_certificate :: "unit + string"

type_synonym challenges = "(string \<times> string) list"

definition or_unspecified :: "unit + 'a \<Rightarrow> string \<Rightarrow> error + 'a" where
  "or_unspecified r msg = (case r of Inl _ \<Rightarrow> Inl (Unspecified msg) | Inr x \<Rightarrow> Inr x)"

text \<open>The part before the challenge is published, and the part after it.\<close>

definition prepare_challenge :: "order_env \<Rightarrow> error + string" where
  "prepare_challenge oe =
     and_then (or_unspecified (oe_new_order oe) ''error placing ACME order'') (\<lambda>_.
     and_then (ok_or (oe_next_authorization oe) (Unspecified ''ACME authorizations is empty'')) (\<lambda>authorization.
     and_then (or_unspecified authorization ''error getting ACME authorization'') (\<lambda>status.
       if status \<noteq> AuthorizationPending \<and> status \<noteq> AuthorizationValid
       then Inl (Unspecified ''unexpected ACME order status'')
       else ok_or (oe_key_authorization oe) (Unspecified ''tls-alpn-01 challenge not found''))))"

definition complete_order :: "order_env \<Rightarrow> error + string \<times> string" where
  "complete_order oe =
     and_then (or_unspecified (oe_set_ready oe) ''error setting ACME challenge as ready'') (\<lambda>_.
     and_then (or_unspecified (oe_poll_ready oe) ''error polling ACME challenge'') (\<lambda>ready.
       if \<not> ready then Inl (Unspecified ''unexpected ACME order status'')
       else
         and_then (or_unspecified (oe_finalize oe) ''error getting private key for ACME order'') (\<lambda>private_key_pem.
         and_then (or_unspecified (oe_poll_certificate oe) ''error getting certificate chain for ACME order'') (\<lambda>cert_chain_pem.
           Inr (private_key_pem, cert_chain_pem)))))"

definition order_certificate ::
  "order_env \<Rightarrow> string \<Rightarrow> challenges \<Rightarrow> (error + string \<times> string) \<times> challenges" where
  "order_certificate oe domain challenges_store =
     (case prepare_challenge oe of
        Inl e \<Rightarrow> (Inl e, challenges_store)
      | Inr key_authorization \<Rightarrow>
          (let challenges_store = AList.update domain key_authorization challenges_store
           in case complete_order oe of
                Inl e \<Rightarrow> (Inl e, challenges_store)
              | Inr pems \<Rightarrow> (Inr pems, AList.delete domain challenges_store)))"

section \<open>Answering the challenge\<close>

definition tls_alpn_acme :: string where
  "tls_alpn_acme = ''acme-tls/1''"

text \<open>\<open>None\<close> when the client offers no protocols.\<close>

definition is_tls_alpn_challenge :: "string list option \<Rightarrow> bool" where
  "is_tls_alpn_challenge alpn = ((case alpn of Some ps \<Rightarrow> ps | None \<Rightarrow> []) = [tls_alpn_acme])"

text \<open>
  The certificate library: parameters of a certificate with the identifier extension, a key pair,
  the self-signed certificate and the signing key.
\<close>

record 'key alpn_env =
  ale_params_ok :: "string \<Rightarrow> bool"
  ale_digest :: "string \<Rightarrow> string"
  ale_key_pair :: "unit + string"
  ale_self_signed :: "string \<Rightarrow> string \<Rightarrow> string \<Rightarrow> unit + string"
  ale_signing_key :: "string \<Rightarrow> unit + unit"
  ale_certified_key :: "string \<Rightarrow> string \<Rightarrow> 'key"

definition get_tls_alpn_01_cert :: "'key alpn_env \<Rightarrow> challenges \<Rightarrow> string option \<Rightarrow> error + 'key" where
  "get_tls_alpn_01_cert env challenges_store server_name =
     (let domain = (case server_name of Some s \<Rightarrow> s | None \<Rightarrow> '''')
      in and_then (ok_or (map_of challenges_store domain) (Unspecified ''ACME challenge not found'')) (\<lambda>key_authorization.
           if \<not> ale_params_ok env domain then Inl (Unspecified ''error creating certificate'')
           else
             and_then (or_unspecified (ale_key_pair env) ''error generating keypair'') (\<lambda>key_pair.
             and_then (or_unspecified (ale_self_signed env domain (ale_digest env key_authorization) key_pair)
                         ''error generating self-signed certificate'') (\<lambda>cert.
             and_then (or_unspecified (ale_signing_key env key_pair) ''error creating SigningKey'') (\<lambda>_.
               Inr (ale_certified_key env cert key_pair))))))"

text \<open>
  The TLS configuration of a challenge connection: a single certificate with the challenge's
  protocol, or the ordinary configuration.
\<close>

datatype 'key alpn_config = ChallengeConfig 'key | ServerConfig

definition get_tls_alpn_01_server_config ::
  "'key alpn_env \<Rightarrow> challenges option \<Rightarrow> string option \<Rightarrow> 'key alpn_config" where
  "get_tls_alpn_01_server_config env acme server_name =
     (case acme of
        None \<Rightarrow> ServerConfig
      | Some challenges \<Rightarrow>
          (case get_tls_alpn_01_cert env challenges server_name of
             Inr certified_key \<Rightarrow> ChallengeConfig certified_key
           | Inl _ \<Rightarrow> ServerConfig))"

section \<open>The renewal loop\<close>

text \<open>
  One round: the domains without a certificate, or with one that ends within 30 days of \<open>now\<close>,
  the clock in seconds, rounded up.
\<close>

definition domains_to_order :: "(string \<times> 'key certificate) list \<Rightarrow> string list \<Rightarrow> int \<Rightarrow> string list" where
  "domains_to_order certificates domains now =
     filter (\<lambda>domain.
         case map_of certificates domain of
           Some cert \<Rightarrow> cmd_not_after (crt_metadata cert) < now + 30 * 24 * 3600
         | None \<Rightarrow> True) domains"

text \<open>
  The task of a domain: order, parse, put into the store, save with up to five attempts. The
  saving of attempt \<open>i\<close> has the outcomes of its two writes.
\<close>

definition save_certificate :: "(nat \<Rightarrow> (unit + unit) \<times> (unit + unit)) \<Rightarrow> nat \<Rightarrow> error + unit" where
  "save_certificate writes i =
     and_then (or_unspecified (fst (writes i)) ''error writing private key'') (\<lambda>_.
       or_unspecified (snd (writes i)) ''tls: error writing ACME certificate'')"

definition renew_domain ::
  "'key cert_env \<Rightarrow> order_env \<Rightarrow> (nat \<Rightarrow> (unit + unit) \<times> (unit + unit)) \<Rightarrow> string \<Rightarrow>
     (string \<times> 'key certificate) list \<times> challenges \<Rightarrow> bool \<times> (string \<times> 'key certificate) list \<times> challenges" where
  "renew_domain env oe writes domain = (\<lambda>(certificates, challenges).
     (case order_certificate oe domain challenges of
        (Inl _, challenges) \<Rightarrow> (False, certificates, challenges)
      | (Inr (private_key_pem, cert_chain_pem), challenges) \<Rightarrow>
          (case parse_certificate_and_private_key env cert_chain_pem private_key_pem of
             Inl _ \<Rightarrow> (False, certificates, challenges)
           | Inr certificate \<Rightarrow>
               (let certificates = AList.update domain certificate certificates
                in (is_ok (fst (retry (save_certificate writes) 5 (from_secs 5))), certificates, challenges)))))"

text \<open>
  The loop only starts with domains. In a round every domain to order has its own task;
  \<open>tasks\<close> is the order in which they get to run.
\<close>

definition start_acme_in_background :: "string list option \<Rightarrow> bool" where
  "start_acme_in_background configured = (case configured of None \<Rightarrow> False | Some ds \<Rightarrow> ds \<noteq> [])"

definition run_tasks ::
  "'key cert_env \<Rightarrow> (string \<Rightarrow> order_env) \<Rightarrow> (string \<Rightarrow> nat \<Rightarrow> (unit + unit) \<times> (unit + unit)) \<Rightarrow> string list \<Rightarrow>
     (string \<times> 'key certificate) list \<times> challenges \<Rightarrow> (string \<times> 'key certificate) list \<times> challenges" where
  "run_tasks env oe writes tasks state =
     fold (\<lambda>domain state. snd (renew_domain env (oe domain) (writes domain) domain state)) tasks state"

section \<open>What a round does\<close>

text \<open>The certificate a domain's task obtains, and the challenge it leaves behind.\<close>

definition renewed :: "'key cert_env \<Rightarrow> order_env \<Rightarrow> 'key certificate option" where
  "renewed env oe =
     (case and_then (prepare_challenge oe) (\<lambda>_. complete_order oe) of
        Inl _ \<Rightarrow> None
      | Inr (private_key_pem, cert_chain_pem) \<Rightarrow>
          (case parse_certificate_and_private_key env cert_chain_pem private_key_pem of
             Inl _ \<Rightarrow> None
           | Inr c \<Rightarrow> Some c))"

definition left_challenge :: "order_env \<Rightarrow> string option \<Rightarrow> string option" where
  "left_challenge oe previous =
     (case prepare_challenge oe of
        Inl _ \<Rightarrow> previous
      | Inr key_authorization \<Rightarrow> if is_ok (complete_order oe) then None else Some key_authorization)"

lemma renew_domain_lookup:
  assumes "snd (renew_domain env oe writes domain (cs, ch)) = (cs', ch')"
  shows "map_of cs' d = (if d = domain \<and> renewed env oe \<noteq> None then renewed env oe else map_of cs d)
    \<and> map_of ch' d = (if d = domain then left_challenge oe (map_of ch d) else map_of ch d)"
proof (cases "prepare_challenge oe")
  case (Inl e)
  then show ?thesis
    using assms by (auto simp: renew_domain_def order_certificate_def renewed_def left_challenge_def)
next
  case prep: (Inr ka)
  show ?thesis
  proof (cases "complete_order oe")
    case (Inl e)
    then show ?thesis
      using assms prep
      by (auto simp: renew_domain_def order_certificate_def renewed_def left_challenge_def Let_def update_conv')
  next
    case (Inr pems)
    obtain key chain where pems: "pems = (key, chain)" by fastforce
    show ?thesis
      using assms prep Inr pems
      by (cases "parse_certificate_and_private_key env chain key")
        (auto simp: renew_domain_def order_certificate_def renewed_def left_challenge_def Let_def update_conv' delete_conv')
  qed
qed

lemma run_tasks_lookup:
  assumes "distinct tasks"
  shows "map_of (fst (run_tasks env oe writes tasks state)) d
      = (if d \<in> set tasks \<and> renewed env (oe d) \<noteq> None then renewed env (oe d) else map_of (fst state) d)
    \<and> map_of (snd (run_tasks env oe writes tasks state)) d
      = (if d \<in> set tasks then left_challenge (oe d) (map_of (snd state) d) else map_of (snd state) d)"
  using assms
proof (induction tasks arbitrary: state)
  case (Cons t tasks)
  obtain cs ch where st: "state = (cs, ch)" by fastforce
  obtain cs' ch' where st': "snd (renew_domain env (oe t) (writes t) t (cs, ch)) = (cs', ch')" by fastforce
  have "run_tasks env oe writes (t # tasks) state = run_tasks env oe writes tasks (cs', ch')"
    by (simp add: run_tasks_def st st')
  then show ?case
    using Cons.IH [of "(cs', ch')"] Cons.prems renew_domain_lookup [OF st', of d] by (auto simp: st)
qed (simp add: run_tasks_def)

text \<open>C35: a round of renewals, in whatever order its tasks run: a domain whose order succeeds has its new
  certificate and no challenge, any other keeps the certificate it had, and a challenge remains
  exactly where an order failed after publishing it.\<close>

theorem round_exact:
  assumes "distinct domains" and "set tasks = set (domains_to_order cs domains now)" and "distinct tasks"
  shows "map_of (fst (run_tasks env oe writes tasks (cs, ch))) d
      = (if d \<in> set (domains_to_order cs domains now) \<and> renewed env (oe d) \<noteq> None then renewed env (oe d) else map_of cs d)
    \<and> map_of (snd (run_tasks env oe writes tasks (cs, ch))) d
      = (if d \<in> set (domains_to_order cs domains now) then left_challenge (oe d) (map_of ch d) else map_of ch d)"
  using run_tasks_lookup [OF assms(3), of env oe writes "(cs, ch)" d] by (simp add: assms(2))

text \<open>Renewals settle: after a round in which every ordered certificate arrives and lasts another
  30 days, no domain is left to order at that time.\<close>

lemma renewal_settles:
  assumes "distinct tasks" and "set tasks = set (domains_to_order cs domains now)"
    and "\<forall>d \<in> set tasks. \<exists>c. renewed env (oe d) = Some c \<and> now + 30 * 24 * 3600 \<le> cmd_not_after (crt_metadata c)"
  shows "domains_to_order (fst (run_tasks env oe writes tasks (cs, ch))) domains now = []"
proof -
  have "\<not> (case map_of (fst (run_tasks env oe writes tasks (cs, ch))) d of
      Some cert \<Rightarrow> cmd_not_after (crt_metadata cert) < now + 30 * 24 * 3600 | None \<Rightarrow> True)" if d: "d \<in> set domains" for d
  proof (cases "d \<in> set tasks")
    case True
    then obtain c where "renewed env (oe d) = Some c" "now + 30 * 24 * 3600 \<le> cmd_not_after (crt_metadata c)"
      using assms(3) by blast
    then show ?thesis
      using run_tasks_lookup [OF assms(1), of env oe writes "(cs, ch)" d] True by simp
  next
    case False
    then have "map_of (fst (run_tasks env oe writes tasks (cs, ch))) d = map_of cs d"
      using run_tasks_lookup [OF assms(1), of env oe writes "(cs, ch)" d] by simp
    moreover have "d \<notin> set (domains_to_order cs domains now)" using False assms(2) by simp
    ultimately show ?thesis
      using d by (auto simp: domains_to_order_def split: option.splits)
  qed
  then show ?thesis by (simp add: domains_to_order_def filter_empty_conv)
qed

section \<open>The account is kept\<close>

text \<open>C36: the account created for a directory is the one every later start uses: when the first start
  had none for it and succeeds, a start that reads the file it wrote restores the same account, and the
  accounts of other directories are still in that file.\<close>

theorem account_kept:
  assumes "load_or_create_acme_account env url = Inr account"
    and "ae_read env = Inl NotFound \<or> (\<exists>s f. ae_read env = Inr s \<and> ae_parse env s = Inr f \<and> map_of (v1_accounts f) url = None)"
    and "\<forall>f s. ae_print env f = Inr s \<longrightarrow> ae_parse env s = Inr f"
    and "\<forall>a u. ae_from_parts env a u = Inr a"
  shows "\<exists>written f. ae_write env written = Inr () \<and> ae_parse env written = Inr f
    \<and> load_or_create_acme_account (env\<lparr>ae_read := Inr written\<rparr>) url = Inr account
    \<and> (\<forall>s g u. ae_read env = Inr s \<and> ae_parse env s = Inr g \<and> u \<noteq> url \<longrightarrow> map_of (v1_accounts f) u = map_of (v1_accounts g) u)"
proof -
  obtain accounts where none: "map_of accounts url = None"
    and content: "(case ae_read env of Inr content \<Rightarrow>
                   (case ae_parse env content of Inl _ \<Rightarrow> Inl (Unspecified ''error reading acme.json'') | Inr c \<Rightarrow> Inr c)
               | Inl NotFound \<Rightarrow> Inr (V1 [])
               | Inl OtherIoError \<Rightarrow> Inl (Unspecified ''error reading ACME configuration file'')) = Inr (V1 accounts)"
    using assms(2)
  proof
    assume "ae_read env = Inl NotFound"
    then show thesis by (intro that [of "[]"]) simp_all
  next
    assume "\<exists>s f. ae_read env = Inr s \<and> ae_parse env s = Inr f \<and> map_of (v1_accounts f) url = None"
    then obtain s f where "ae_read env = Inr s" "ae_parse env s = Inr f" "map_of (v1_accounts f) url = None" by blast
    then show thesis by (intro that [of "v1_accounts f"]) simp_all
  qed
  let ?f = "V1 (index_map_insert url account accounts)"
  have builder: "ae_builder env = Inr ()"
    using assms(1) none by (cases "ae_builder env") (auto simp: load_or_create_acme_account_def content)
  have created: "ae_create env url = Inr account"
    using assms(1) none builder
    by (cases "ae_create env url") (auto simp: load_or_create_acme_account_def content split: sum.splits)
  obtain written where printed: "ae_print env ?f = Inr written"
    using assms(1) none builder created
    by (cases "ae_print env ?f") (auto simp: load_or_create_acme_account_def content)
  have saved: "ae_write env written = Inr ()"
    using assms(1) none builder created printed
    by (cases "ae_write env written") (auto simp: load_or_create_acme_account_def content)
  have parsed: "ae_parse env written = Inr ?f" using assms(3) printed by blast
  have "load_or_create_acme_account (env\<lparr>ae_read := Inr written\<rparr>) url = Inr account"
    using parsed builder assms(4) by (simp add: load_or_create_acme_account_def index_map_insert_def update_conv')
  moreover have "map_of (v1_accounts ?f) u = map_of (v1_accounts g) u"
    if "ae_read env = Inr s" "ae_parse env s = Inr g" "u \<noteq> url" for s g u
    using that content by (cases g) (simp add: index_map_insert_def update_conv')
  ultimately show ?thesis using saved parsed by blast
qed

section \<open>A small instance\<close>

definition demo_order :: "string \<Rightarrow> order_env" where
  "demo_order domain =
     \<lparr>oe_new_order = Inr (), oe_next_authorization = Some (Inr AuthorizationPending), oe_key_authorization = Some ''ka'',
      oe_set_ready = Inr (), oe_poll_ready = Inr (domain \<noteq> ''bad.b''), oe_finalize = Inr ''k'', oe_poll_certificate = Inr domain\<rparr>"

definition demo_acme_cert_env :: "string cert_env" where
  "demo_acme_cert_env = demo_cert_env\<lparr>ce_x509 := (\<lambda>d. Inr
     \<lparr>x5_not_before = 0, x5_not_after = 90 * 24 * 3600, x5_subject_alternative_names = [[DNSName d]]\<rparr>)\<rparr>"

lemma demo_renewed:
  "\<exists>c. renewed demo_acme_cert_env (demo_order ''good.b'') = Some c \<and> 30 * 24 * 3600 \<le> cmd_not_after (crt_metadata c)"
  "renewed demo_acme_cert_env (demo_order ''bad.b'') = None"
proof -
  have "map_option (\<lambda>c. 30 * 24 * 3600 \<le> cmd_not_after (crt_metadata c)) (renewed demo_acme_cert_env (demo_order ''good.b'')) = Some True"
    by code_simp
  then show "\<exists>c. renewed demo_acme_cert_env (demo_order ''good.b'') = Some c \<and> 30 * 24 * 3600 \<le> cmd_not_after (crt_metadata c)"
    by auto
  show "renewed demo_acme_cert_env (demo_order ''bad.b'') = None" by code_simp
qed

theorem round_exact_witness:
  "map_of (snd (run_tasks demo_acme_cert_env demo_order (\<lambda>_ _. (Inr (), Inr ())) [''bad.b'', ''good.b''] ([], []))) ''bad.b'' = Some ''ka''"
proof -
  let ?ds = "[''good.b'', ''bad.b'']"
  have d: "distinct ?ds" "set [''bad.b'', ''good.b''] = set (domains_to_order [] ?ds 0)" "distinct [''bad.b'', ''good.b'']"
    by (auto simp: domains_to_order_def)
  have "left_challenge (demo_order ''bad.b'') None = Some ''ka''" by code_simp
  then show ?thesis
    using round_exact [OF d, of demo_acme_cert_env demo_order "\<lambda>_ _. (Inr (), Inr ())" "[]" "''bad.b''"]
    by (simp add: domains_to_order_def)
qed

lemma renewal_settles_witness:
  "domains_to_order (fst (run_tasks demo_acme_cert_env demo_order (\<lambda>_ _. (Inr (), Inr ())) [''good.b''] ([], []))) [''good.b''] 0 = []"
  by (rule renewal_settles) (use demo_renewed in \<open>auto simp: domains_to_order_def\<close>)

definition demo_account_env :: account_env where
  "demo_account_env =
     \<lparr>ae_read = Inl NotFound, ae_parse = (\<lambda>s. if s = ''x'' then Inl () else Inr (V1 [(''u'', \<lparr>aa_id = s, aa_key = ''key''\<rparr>)])),
      ae_print = (\<lambda>f. case v1_accounts f of [(u, a)] \<Rightarrow> if u = ''u'' \<and> aa_key a = ''key'' \<and> aa_id a \<noteq> ''x'' then Inr (aa_id a) else Inl () | _ \<Rightarrow> Inl ()),
      ae_write = (\<lambda>_. Inr ()), ae_builder = Inr (), ae_from_parts = (\<lambda>a _. Inr a),
      ae_create = (\<lambda>_. Inr \<lparr>aa_id = ''me'', aa_key = ''key''\<rparr>)\<rparr>"

theorem account_kept_witness:
  "\<exists>written. load_or_create_acme_account (demo_account_env\<lparr>ae_read := Inr written\<rparr>) ''u'' = Inr \<lparr>aa_id = ''me'', aa_key = ''key''\<rparr>"
proof -
  have created: "load_or_create_acme_account demo_account_env ''u'' = Inr \<lparr>aa_id = ''me'', aa_key = ''key''\<rparr>"
    by (simp add: load_or_create_acme_account_def demo_account_env_def index_map_insert_def)
  have "ae_parse demo_account_env s = Inr f" if "ae_print demo_account_env f = Inr s" for f s
    using that by (cases f) (auto simp: demo_account_env_def split: list.splits prod.splits if_splits)
  then have codec: "\<forall>f s. ae_print demo_account_env f = Inr s \<longrightarrow> ae_parse demo_account_env s = Inr f" by blast
  have parts: "\<forall>a u. ae_from_parts demo_account_env a u = Inr a" and absent: "ae_read demo_account_env = Inl NotFound"
    by (simp_all add: demo_account_env_def)
  from account_kept [OF created disjI1 [OF absent] codec parts] show ?thesis by blast
qed

end
