(* ===== verification/Listeners.thy ===== *)
theory Listeners
  imports Acme
begin

text \<open>
  \<^verbatim>\<open>pingoo/listeners\<close>: binding a socket, accepting a TLS connection, and the accept loops
  of the TCP, TCP with TLS and HTTPS listeners. Calls to the operating system and the TLS library
  are outcomes of an environment.
\<close>

section \<open>Binding\<close>

datatype socket_domain = IPV4 | IPV6

fun socket_domain_of :: "ip_addr \<Rightarrow> socket_domain" where
  "socket_domain_of (V4 _) = IPV4"
| "socket_domain_of (V6 _) = IPV6"

text \<open>The calls of \<open>bind_tcp_socket\<close>, in order, and the log of those that were made.\<close>

datatype socket_call =
  NewSocket socket_domain
| SetNonblocking
| SetReusePort
| SetReuseAddress
| BindTo socket_addr
| ListenWith nat
| SetNonblockingStd
| FromStd

definition bind_calls :: "socket_addr \<Rightarrow> socket_call list" where
  "bind_calls address =
     [NewSocket (socket_domain_of (sa_ip address)), SetNonblocking, SetReusePort, SetReuseAddress,
      BindTo address, ListenWith 2048, SetNonblockingStd, FromStd]"

fun run_calls :: "(socket_call \<Rightarrow> bool) \<Rightarrow> error \<Rightarrow> socket_call list \<Rightarrow> (error + unit) \<times> socket_call list" where
  "run_calls works err [] = (Inr (), [])"
| "run_calls works err (c # cs) =
     (if works c then apsnd ((#) c) (run_calls works err cs) else (Inl err, [c]))"

definition bind_tcp_socket :: "(socket_call \<Rightarrow> bool) \<Rightarrow> socket_addr \<Rightarrow> string \<Rightarrow> (error + unit) \<times> socket_call list" where
  "bind_tcp_socket works address listener_name = run_calls works (Listening listener_name address) (bind_calls address)"

section \<open>Accepting TLS\<close>

text \<open>
  A step of the handshake: done, failed, or out of time after \<open>tls_handshake_timeout\<close>; with the
  time it took.
\<close>

definition tls_handshake_timeout :: duration where
  "tls_handshake_timeout = from_secs 10"

datatype 'a timed = Done 'a duration | Failed duration | TimedOut

fun time_of :: "'a timed \<Rightarrow> duration" where
  "time_of (Done _ d) = min d tls_handshake_timeout"
| "time_of (Failed d) = min d tls_handshake_timeout"
| "time_of TimedOut = tls_handshake_timeout"

text \<open>
  One connection's handshake: the client hello (its protocols and server name), then the rest
  under the configuration that was chosen for it, and for a challenge the shutdown, which may take any
  time (one that never completes is longer than every time).
\<close>

record 'stream handshake =
  hk_hello :: "(string list option \<times> string option) timed"
  hk_stream :: "bool \<Rightarrow> 'stream timed"
  hk_shutdown :: duration

text \<open>\<open>Some (Some stream)\<close> is a connection to serve, \<open>Some None\<close> an answered challenge.\<close>

definition accept_tls_connection :: "'stream handshake \<Rightarrow> 'stream option option \<times> duration" where
  "accept_tls_connection h =
     (case hk_hello h of
        Done (alpn, server_name) _ \<Rightarrow>
          (if is_tls_alpn_challenge alpn
           then (case hk_stream h True of
                   Done _ _ \<Rightarrow> (Some None, time_of (hk_hello h) + time_of (hk_stream h True) + hk_shutdown h)
                 | _ \<Rightarrow> (None, time_of (hk_hello h) + time_of (hk_stream h True)))
           else (case hk_stream h False of
                   Done stream _ \<Rightarrow> (Some (Some stream), time_of (hk_hello h) + time_of (hk_stream h False))
                 | _ \<Rightarrow> (None, time_of (hk_hello h) + time_of (hk_stream h False))))
      | _ \<Rightarrow> (None, time_of (hk_hello h)))"

section \<open>The accept loops\<close>

text \<open>
  What happens at a listening socket, in order of time: a connection arrives, an accept fails, or
  the shutdown signal is given. A loop starts serving connections; the result is the list of the
  served ones with the moments their service starts.
\<close>

datatype 'conn event = Arrives instant 'conn | AcceptFails | Shutdown

fun tcp_listen :: "'conn event list \<Rightarrow> (instant \<times> 'conn) list" where
  "tcp_listen [] = []"
| "tcp_listen (Arrives t c # es) = (t, c) # tcp_listen es"
| "tcp_listen (AcceptFails # es) = tcp_listen es"
| "tcp_listen (Shutdown # es) = []"

text \<open>The TCP with TLS listener: every handshake runs in a task of its own.\<close>

definition after_handshake :: "instant \<Rightarrow> 'stream handshake \<Rightarrow> (instant \<times> 'stream) list" where
  "after_handshake t h =
     (case accept_tls_connection h of
        (Some (Some stream), d) \<Rightarrow> [(t + int d, stream)]
      | _ \<Rightarrow> [])"

fun tcp_tls_listen :: "'stream handshake event list \<Rightarrow> (instant \<times> 'stream) list" where
  "tcp_tls_listen [] = []"
| "tcp_tls_listen (Arrives t h # es) = after_handshake t h @ tcp_tls_listen es"
| "tcp_tls_listen (AcceptFails # es) = tcp_tls_listen es"
| "tcp_tls_listen (Shutdown # es) = []"

text \<open>
  The HTTPS listener: the handshake is awaited inside the loop, before the task of the connection
  is spawned, so the next connection is accepted when it is over. \<open>free\<close> is the moment the
  loop is back at accepting.
\<close>

fun https_listen :: "instant \<Rightarrow> 'stream handshake event list \<Rightarrow> (instant \<times> 'stream) list" where
  "https_listen free [] = []"
| "https_listen free (Arrives t h # es) =
     (let start = max free t
      in after_handshake start h @ https_listen (start + int (snd (accept_tls_connection h))) es)"
| "https_listen free (AcceptFails # es) = https_listen free es"
| "https_listen free (Shutdown # es) = []"

section \<open>The end of a listener\<close>

text \<open>
  After the shutdown signal a listener waits for its open connections, but not longer than the
  timeout. The result is the moment it returns, \<open>now\<close> the moment it leaves its loop, and
  \<open>ends\<close> the moments its connections end (\<open>None\<close>: never). The server returns with the
  last of its listeners.
\<close>

definition graceful_shutdown_timeout :: duration where
  "graceful_shutdown_timeout = from_secs 20"

definition listener_returns :: "instant \<Rightarrow> instant option list \<Rightarrow> instant" where
  "listener_returns now ends =
     (if None \<in> set ends then now + int graceful_shutdown_timeout
      else min (now + int graceful_shutdown_timeout) (fold max (map the ends) now))"

definition server_returns :: "(instant \<times> instant option list) list \<Rightarrow> instant \<Rightarrow> instant" where
  "server_returns listeners start = fold max (map (\<lambda>(now, ends). listener_returns now ends) listeners) start"

section \<open>What the loops guarantee\<close>

fun until_shutdown :: "'conn event list \<Rightarrow> (instant \<times> 'conn) list" where
  "until_shutdown [] = []"
| "until_shutdown (Arrives t c # es) = (t, c) # until_shutdown es"
| "until_shutdown (AcceptFails # es) = until_shutdown es"
| "until_shutdown (Shutdown # es) = []"

definition handshake_time :: "'stream handshake \<Rightarrow> duration" where
  "handshake_time h = snd (accept_tls_connection h)"

text \<open>The delay the HTTPS loop adds: the moment it starts on each connection.\<close>

fun https_starts :: "instant \<Rightarrow> (instant \<times> 'stream handshake) list \<Rightarrow> instant list" where
  "https_starts free [] = []"
| "https_starts free ((t, h) # cs) =
     max free t # https_starts (max free t + int (handshake_time h)) cs"

lemma tcp_listen_serves: "tcp_listen es = until_shutdown es"
  by (induction es rule: tcp_listen.induct) auto

lemma tcp_tls_listen_serves:
  "tcp_tls_listen es = concat (map (\<lambda>(t, h). after_handshake t h) (until_shutdown es))"
  by (induction es rule: tcp_tls_listen.induct) auto

lemma https_listen_serves:
  "https_listen free es
    = concat (map2 (\<lambda>s (t, h). after_handshake s h) (https_starts free (until_shutdown es)) (until_shutdown es))"
  by (induction free es rule: https_listen.induct) (auto simp: Let_def handshake_time_def)

lemma length_https_starts [simp]: "length (https_starts free cs) = length cs"
  by (induction free cs rule: https_starts.induct) auto

text \<open>
  The part of the handshake that has no timeout: the shutdown of the stream of an answered challenge.
\<close>

definition challenge_shutdown :: "'stream handshake \<Rightarrow> duration" where
  "challenge_shutdown h = (if fst (accept_tls_connection h) = Some None then hk_shutdown h else 0)"

lemma accept_tls_time: "handshake_time h \<le> 2 * tls_handshake_timeout + challenge_shutdown h"
proof -
  have "time_of r \<le> tls_handshake_timeout" for r :: "'b timed"
    by (cases r) simp_all
  then have "time_of (hk_hello h) \<le> tls_handshake_timeout" "time_of (hk_stream h b) \<le> tls_handshake_timeout" for b
    by blast+
  from this(1) this(2) [of True] this(2) [of False] show ?thesis
    by (auto simp: handshake_time_def challenge_shutdown_def accept_tls_connection_def split: timed.split prod.split)
qed

lemma run_calls_exact:
  "run_calls works err cs =
     (if list_all works cs then Inr () else Inl err, takeWhile works cs @ take 1 (dropWhile works cs))"
  by (induction cs) auto

lemma https_starts_ge: "n < length cs \<Longrightarrow> free \<le> https_starts free cs ! n \<and> fst (cs ! n) \<le> https_starts free cs ! n"
proof (induction free cs arbitrary: n rule: https_starts.induct)
  case (2 free t h cs)
  show ?case
  proof (cases n)
    case (Suc m)
    then have "max free t + int (handshake_time h) \<le> https_starts (max free t + int (handshake_time h)) cs ! m"
      and "fst (cs ! m) \<le> https_starts (max free t + int (handshake_time h)) cs ! m"
      using 2 by auto
    then show ?thesis using Suc by simp
  qed simp
qed simp

lemma https_starts_queue:
  "i < n \<Longrightarrow> n < length cs \<Longrightarrow>
     https_starts free cs ! i + int (handshake_time (snd (cs ! i))) \<le> https_starts free cs ! n"
proof (induction free cs arbitrary: i n rule: https_starts.induct)
  case (2 free t h cs)
  obtain m where m: "n = Suc m" using 2(2) by (cases n) auto
  show ?case
  proof (cases i)
    case 0
    have "max free t + int (handshake_time h) \<le> https_starts (max free t + int (handshake_time h)) cs ! m"
      using https_starts_ge [of m cs "max free t + int (handshake_time h)"] 2(3) m by simp
    then show ?thesis by (simp add: m 0)
  next
    case (Suc j)
    then show ?thesis using 2 m by simp
  qed
qed simp

definition challenge_shutdowns :: "(instant \<times> 'stream handshake) list \<Rightarrow> duration" where
  "challenge_shutdowns cs = sum_list (map (\<lambda>(t, h). challenge_shutdown h) cs)"

lemma challenge_shutdowns_simps [simp]:
  "challenge_shutdowns [] = 0"
  "challenge_shutdowns ((t, h) # cs) = challenge_shutdown h + challenge_shutdowns cs"
  by (simp_all add: challenge_shutdowns_def)

lemma https_starts_le:
  "n < length cs \<Longrightarrow> \<forall>(t, h) \<in> set (take (Suc n) cs). t \<le> latest \<Longrightarrow>
     https_starts free cs ! n
       \<le> max free latest + int (n * (2 * tls_handshake_timeout)) + int (challenge_shutdowns (take n cs))"
proof (induction free cs arbitrary: n rule: https_starts.induct)
  case (2 free t h cs)
  have t: "t \<le> latest" and h: "handshake_time h \<le> 2 * tls_handshake_timeout + challenge_shutdown h"
    using 2(3) accept_tls_time [of h] by auto
  show ?case
  proof (cases n)
    case 0
    then show ?thesis using t by simp
  next
    case (Suc m)
    have "https_starts (max free t + int (handshake_time h)) cs ! m
        \<le> max (max free t + int (handshake_time h)) latest + int (m * (2 * tls_handshake_timeout))
          + int (challenge_shutdowns (take m cs))"
      using 2 Suc by (intro 2(1)) auto
    also have "\<dots> \<le> max free latest + int (2 * tls_handshake_timeout) + int (challenge_shutdown h)
          + int (m * (2 * tls_handshake_timeout)) + int (challenge_shutdowns (take m cs))"
      using t h by linarith
    finally show ?thesis by (simp add: Suc distrib_right)
  qed
qed simp

text \<open>A shutdown takes at most the timeout, and less only when every connection has ended.\<close>

lemma fold_max_le: "fold max xs a \<le> (b :: instant) \<longleftrightarrow> a \<le> b \<and> (\<forall>x \<in> set xs. x \<le> b)"
  by (induction xs arbitrary: a) auto

lemma listener_returns_bounds:
  "now \<le> listener_returns now ends \<and> listener_returns now ends \<le> now + int graceful_shutdown_timeout
   \<and> (listener_returns now ends < now + int graceful_shutdown_timeout \<longrightarrow>
        (\<forall>e \<in> set ends. \<exists>t. e = Some t \<and> t \<le> listener_returns now ends))"
proof -
  have le: "now \<le> fold max (map the ends) now \<and> (\<forall>x \<in> set (map the ends). x \<le> fold max (map the ends) now)"
    using fold_max_le [of "map the ends" now "fold max (map the ends) now"] by simp
  show ?thesis
  proof (cases "None \<in> set ends")
    case False
    then have "\<exists>t. e = Some t" if "e \<in> set ends" for e using that by (cases e) auto
    with le False show ?thesis by (fastforce simp: listener_returns_def min_def)
  qed (simp add: listener_returns_def)
qed

lemma server_returns_in_time:
  assumes "\<forall>(now, ends) \<in> set listeners. now \<le> signal" and "start \<le> signal"
  shows "server_returns listeners start \<le> signal + int graceful_shutdown_timeout"
proof -
  have "listener_returns now ends \<le> signal + int graceful_shutdown_timeout" if "(now, ends) \<in> set listeners" for now ends
    using listener_returns_bounds [of now ends] assms(1) that by fastforce
  then show ?thesis using assms(2) by (auto simp: server_returns_def fold_max_le)
qed

text \<open>C31: the HTTPS listener makes connections wait for each other's handshakes: it turns to a connection
  only when the handshakes of all earlier ones are over. Each can hold it back by up to 20 seconds, and
  one that is an answered ACME challenge by the shutdown of its stream besides, for which the code has no
  timeout, and no more; the listener for TCP with TLS serves each connection its own handshake after it
  arrived.\<close>

theorem handshakes_queue:
  assumes "i < n" and "n < length cs" and "\<forall>(t, h) \<in> set cs. t \<le> latest"
  shows "https_starts free cs ! i + int (handshake_time (snd (cs ! i))) \<le> https_starts free cs ! n
    \<and> https_starts free cs ! n
        \<le> max free latest + int (n * (2 * tls_handshake_timeout)) + int (challenge_shutdowns (take n cs))
    \<and> https_listen free (map (\<lambda>(t, h). Arrives t h) cs)
        = concat (map2 (\<lambda>start (t, h). after_handshake start h) (https_starts free cs) cs)
    \<and> tcp_tls_listen (map (\<lambda>(t, h). Arrives t h) cs) = concat (map (\<lambda>(t, h). after_handshake t h) cs)"
proof -
  have "\<forall>(t, h) \<in> set (take (Suc n) cs). t \<le> latest"
    using assms(3) by (meson in_set_takeD)
  moreover have "until_shutdown (map (\<lambda>(t, h). Arrives t h) cs) = cs"
    by (induction cs) auto
  ultimately show ?thesis
    using https_starts_queue [OF assms(1,2)] https_starts_le [OF assms(2)] by (simp add: tcp_tls_listen_serves https_listen_serves)
qed

text \<open>A client that stays silent, and one that answers a challenge and delays the shutdown.\<close>

definition silent_client :: "unit handshake" where
  "silent_client = \<lparr>hk_hello = TimedOut, hk_stream = (\<lambda>_. TimedOut), hk_shutdown = 0\<rparr>"

definition slow_challenger :: "duration \<Rightarrow> unit handshake" where
  "slow_challenger d = \<lparr>hk_hello = Done (Some [''acme-tls/1''], Some ''a.b'') 0, hk_stream = (\<lambda>_. Done () 0), hk_shutdown = d\<rparr>"

text \<open>It holds the loop for as long as it likes.\<close>

lemma challenge_unlimited:
  "handshake_time (slow_challenger d) = d"
  "https_starts 0 [(0, slow_challenger d), (0, h)] ! 1 = int d"
proof -
  have "is_tls_alpn_challenge (Some [''acme-tls/1''])" by code_simp
  then show "handshake_time (slow_challenger d) = d"
    by (simp add: handshake_time_def accept_tls_connection_def slow_challenger_def)
  then show "https_starts 0 [(0, slow_challenger d), (0, h)] ! 1 = int d" by simp
qed

theorem handshakes_queue_witness:
  "https_starts 0 [(0, silent_client), (0, slow_challenger 7), (0, silent_client)] ! 2 \<le> int (from_secs 40) + 7"
proof -
  let ?cs = "[(0 :: instant, silent_client), (0, slow_challenger 7), (0, silent_client)]"
  have "challenge_shutdown silent_client = 0" "challenge_shutdown (slow_challenger 7) \<le> 7"
    by (simp_all add: challenge_shutdown_def silent_client_def slow_challenger_def)
  moreover have "\<forall>(t, h) \<in> set ?cs. t \<le> 0" by simp
  ultimately show ?thesis
    using handshakes_queue [of 0 2 ?cs 0 0] by (simp add: tls_handshake_timeout_def from_secs_def)
qed

end
