(* ===== verification/Interleaving.thy ===== *)
theory Interleaving
  imports Http_Listener
begin

text \<open>
  Requests are handled by tasks that run concurrently: between two actions of one request, other
  requests act. This theory cuts the rule phase of the handler of
  \<^verbatim>\<open>pingoo/listeners/http_listener.rs\<close> into its atomic actions, a probe of a limiter being
  one as the limiter's task answers probes one at a time, and lets the tasks interleave at will. The
  handler's own loop is the run of one task that is not interrupted, and a limit holds whatever the
  interleaving.
\<close>

section \<open>Tasks\<close>

text \<open>
  What a request has to do: the actions of the rules that match it, each with the limiter of its
  rule.
\<close>

type_synonym item = "action \<times> nat option"

definition rule_items :: "'prog rule \<Rightarrow> item list" where
  "rule_items rule = map (\<lambda>a. (a, rule_limiter_tx rule)) (rule_actions rule)"

definition agenda :: "('prog rule \<Rightarrow> bool) \<Rightarrow> 'prog rule list \<Rightarrow> item list" where
  "agenda matches rules = concat (map rule_items (filter matches rules))"

text \<open>
  A task of a client, with the items behind it and those before it, or its outcome with all of its
  items.
\<close>

datatype task =
  Running ip_addr bool "item list" "item list"
| Finished ip_addr "item list" verdict

type_synonym limiters = "ip_addr rate_limiter option list"

fun task_step :: "(nat \<Rightarrow> nat) \<Rightarrow> instant \<times> instant \<Rightarrow> task \<Rightarrow> limiters \<Rightarrow> task \<times> limiters" where
  "task_step alloc clock (Running ip v past []) ls = (Finished ip past Continue, ls)"
| "task_step alloc clock (Running ip v past ((Block, tx) # todo)) ls =
     (Finished ip (past @ (Block, tx) # todo) (Answer new_blocked_response), ls)"
| "task_step alloc clock (Running ip v past ((Captcha, tx) # todo)) ls =
     (if \<not> v then (Finished ip (past @ (Captcha, tx) # todo) ShowCaptcha, ls)
      else (Running ip v (past @ [(Captcha, tx)]) todo, ls))"
| "task_step alloc clock (Running ip v past ((Limit, None) # todo)) ls =
     (Running ip v (past @ [(Limit, None)]) todo, ls)"
| "task_step alloc clock (Running ip v past ((Limit, Some i) # todo)) ls =
     (case probe_limiter alloc i ip clock ls of
        (Some res, ls) \<Rightarrow> (Finished ip (past @ (Limit, Some i) # todo) (Answer res), ls)
      | (None, ls) \<Rightarrow> (Running ip v (past @ [(Limit, Some i)]) todo, ls))"
| "task_step alloc clock (Finished ip items w) ls = (Finished ip items w, ls)"

text \<open>The tasks of the process step one at a time; a new request adds a task.\<close>

datatype task_event = Start ip_addr bool "item list" | Advance nat "instant \<times> instant"

inductive interleaved :: "(nat \<Rightarrow> nat) \<Rightarrow> task_event \<Rightarrow> task list \<times> limiters \<Rightarrow> task list \<times> limiters \<Rightarrow> bool" for alloc where
  start: "interleaved alloc (Start ip v items) (ts, ls) (ts @ [Running ip v [] items], ls)"
| advance: "n < length ts \<Longrightarrow> task_step alloc clock (ts ! n) ls = (t, ls') \<Longrightarrow>
     interleaved alloc (Advance n clock) (ts, ls) (ts[n := t], ls')"

inductive runs :: "(nat \<Rightarrow> nat) \<Rightarrow> task_event list \<Rightarrow> task list \<times> limiters \<Rightarrow> task list \<times> limiters \<Rightarrow> bool" for alloc where
  none: "runs alloc [] c c"
| more: "interleaved alloc e c c' \<Longrightarrow> runs alloc es c' c'' \<Longrightarrow> runs alloc (e # es) c c''"

declare interleaved.intros [intro] runs.intros [intro]

inductive_cases startE [elim!]: "interleaved alloc (Start ip v items) c c'"
inductive_cases advanceE [elim!]: "interleaved alloc (Advance n clock) c c'"
inductive_simps runs_Nil [simp]: "runs alloc [] c c'"
inductive_simps runs_Cons: "runs alloc (e # es) c c'"

lemma runs_append: "runs alloc es c c' \<Longrightarrow> runs alloc es' c' c'' \<Longrightarrow> runs alloc (es @ es') c c''"
  by (induction rule: runs.induct) auto

section \<open>The handler's loop is an uninterrupted task\<close>

text \<open>The \<open>n\<close>-th task goes from one state to another while the others rest.\<close>

definition alone :: "(nat \<Rightarrow> nat) \<Rightarrow> nat \<Rightarrow> (instant \<times> instant) list \<Rightarrow> task list \<Rightarrow> task \<times> limiters \<Rightarrow> task \<times> limiters \<Rightarrow> bool" where
  "alone alloc n clocks ts = (\<lambda>(t, ls) (t', ls'). runs alloc (map (Advance n) clocks) (ts[n := t], ls) (ts[n := t'], ls'))"

lemma alone_none: "alone alloc n [] ts c c"
  by (cases c) (simp add: alone_def)

lemma alone_step:
  assumes "n < length ts" and "task_step alloc clock t ls = (t', ls')" and "alone alloc n clocks ts (t', ls') c"
  shows "alone alloc n (clock # clocks) ts (t, ls) c"
proof -
  have "interleaved alloc (Advance n clock) (ts[n := t], ls) ((ts[n := t])[n := t'], ls')"
    using assms(1,2) by (intro interleaved.advance) simp_all
  then show ?thesis
    using assms(3) by (cases c) (auto simp: alone_def)
qed

lemma alone_append:
  "alone alloc n cs ts c c' \<Longrightarrow> alone alloc n cs' ts c' c'' \<Longrightarrow> alone alloc n (cs @ cs') ts c c''"
  by (auto simp: alone_def intro: runs_append)

lemma apply_actions_alone:
  assumes "n < length ts" and "apply_actions alloc ip v tx clocks acts j ls = (w, ls')"
  shows "\<exists>cs. set cs \<subseteq> range clocks \<and> alone alloc n cs ts
     (Running ip v past (map (\<lambda>a. (a, tx)) acts @ todo), ls)
     (if w = Continue then Running ip v (past @ map (\<lambda>a. (a, tx)) acts) todo
      else Finished ip (past @ map (\<lambda>a. (a, tx)) acts @ todo) w, ls')"
  using assms(2)
proof (induction acts arbitrary: j ls past)
  case Nil
  then show ?case using alone_none by (intro exI [of _ "[]"]) simp
next
  case (Cons a acts)
  let ?items = "map (\<lambda>a. (a, tx)) acts"
  have go_on: "\<exists>cs. set cs \<subseteq> range clocks \<and> alone alloc n cs ts
       (Running ip v past ((a, tx) # ?items @ todo), ls)
       (if w = Continue then Running ip v (past @ (a, tx) # ?items) todo
        else Finished ip (past @ (a, tx) # ?items @ todo) w, ls')"
    if step: "task_step alloc (clocks j) (Running ip v past ((a, tx) # ?items @ todo)) ls
        = (Running ip v (past @ [(a, tx)]) (?items @ todo), ls1)"
      and rest: "apply_actions alloc ip v tx clocks acts (Suc j) ls1 = (w, ls')" for ls1
  proof -
    obtain cs where cs: "set cs \<subseteq> range clocks" "alone alloc n cs ts
       (Running ip v (past @ [(a, tx)]) (?items @ todo), ls1)
       (if w = Continue then Running ip v (past @ (a, tx) # ?items) todo
        else Finished ip (past @ (a, tx) # ?items @ todo) w, ls')"
      using Cons.IH [OF rest, of "past @ [(a, tx)]", unfolded append_assoc append_Cons append_Nil] by blast
    show ?thesis
      by (intro exI [of _ "clocks j # cs"] conjI alone_step [OF assms(1) step cs(2)]) (use cs(1) in simp)
  qed
  have stop: "\<exists>cs. set cs \<subseteq> range clocks \<and> alone alloc n cs ts
       (Running ip v past ((a, tx) # ?items @ todo), ls) (Finished ip (past @ (a, tx) # ?items @ todo) w, ls')"
    if "task_step alloc (clocks j) (Running ip v past ((a, tx) # ?items @ todo)) ls
        = (Finished ip (past @ (a, tx) # ?items @ todo) w, ls')"
    using alone_step [OF assms(1) that alone_none] by (intro exI [of _ "[clocks j]"]) simp
  show ?case
  proof (cases a)
    case Block
    then show ?thesis using stop Cons.prems by auto
  next
    case Captcha
    then show ?thesis using stop go_on Cons.prems by (cases v) auto
  next
    case Limit
    show ?thesis
    proof (cases tx)
      case None
      then show ?thesis using go_on Cons.prems Limit by auto
    next
      case (Some i)
      obtain r ls1 where p: "probe_limiter alloc i ip (clocks j) ls = (r, ls1)" by fastforce
      show ?thesis
        using stop go_on Cons.prems Limit Some p by (cases r) auto
    qed
  qed
qed

lemma apply_rules_alone:
  assumes "n < length ts" and "apply_rules alloc ip v matches clocks rules k ls = (w, ls')"
  shows "\<exists>cs. set cs \<subseteq> range (case_prod clocks) \<and> alone alloc n cs ts (Running ip v past (agenda matches rules), ls)
     (Finished ip (past @ agenda matches rules) w, ls')"
  using assms(2)
proof (induction rules arbitrary: k ls past)
  case Nil
  have "task_step alloc (clocks 0 0) (Running ip v past []) ls = (Finished ip past Continue, ls)" by simp
  from alone_step [OF assms(1) this alone_none] Nil show ?case
    by (intro exI [of _ "[clocks 0 0]"]) (auto simp: agenda_def intro: image_eqI [of _ _ "(0, 0)"])
next
  case (Cons rule rules)
  show ?case
  proof (cases "matches rule")
    case False
    then show ?thesis using Cons.IH [of "Suc k" ls past] Cons.prems by (simp add: agenda_def)
  next
    case True
    let ?rest = "agenda matches rules"
    have items: "agenda matches (rule # rules) = rule_items rule @ ?rest" using True by (simp add: agenda_def)
    obtain w1 ls1 where acts: "apply_actions alloc ip v (rule_limiter_tx rule) (clocks k) (rule_actions rule) 0 ls = (w1, ls1)"
      by fastforce
    from apply_actions_alone [OF assms(1) this, of past ?rest] obtain cs where cs: "set cs \<subseteq> range (clocks k)"
      and run: "alone alloc n cs ts (Running ip v past (rule_items rule @ ?rest), ls)
        (if w1 = Continue then Running ip v (past @ rule_items rule) ?rest
         else Finished ip (past @ rule_items rule @ ?rest) w1, ls1)"
      unfolding rule_items_def by blast
    have range: "set cs \<subseteq> range (case_prod clocks)" using cs by (force intro: range_eqI [of _ _ "(k, _)"])
    show ?thesis
    proof (cases "w1 = Continue")
      case True
      have "apply_rules alloc ip v matches clocks rules (Suc k) ls1 = (w, ls')"
        using Cons.prems \<open>matches rule\<close> acts True by simp
      from Cons.IH [OF this, of "past @ rule_items rule"] obtain cs' where "set cs' \<subseteq> range (case_prod clocks)"
        "alone alloc n cs' ts (Running ip v (past @ rule_items rule) ?rest, ls1)
           (Finished ip (past @ rule_items rule @ ?rest) w, ls')"
        unfolding append_assoc by blast
      then show ?thesis
        unfolding items using alone_append [OF run] True range by (intro exI [of _ "cs @ cs'"]) auto
    next
      case False
      then have "w = w1 \<and> ls' = ls1" using Cons.prems \<open>matches rule\<close> acts by (cases w1) auto
      then show ?thesis unfolding items using run range False by auto
    qed
  qed
qed

section \<open>Limits hold for every interleaving\<close>

definition limited :: "nat \<Rightarrow> item list \<Rightarrow> bool" where
  "limited i items \<longleftrightarrow> (Limit, Some i) \<in> set items"

text \<open>
  A request of the client that limiter \<open>i\<close> limits and that is past all of its probes of it: on
  its way to the services, or handed to them.
\<close>

fun passed :: "nat \<Rightarrow> ip_addr \<Rightarrow> task \<Rightarrow> bool" where
  "passed i ip (Running a v past todo) = (a = ip \<and> limited i past \<and> \<not> limited i todo)"
| "passed i ip (Finished a items w) = (a = ip \<and> limited i items \<and> w = Continue)"

definition passed_count :: "nat \<Rightarrow> ip_addr \<Rightarrow> task list \<Rightarrow> nat" where
  "passed_count i ip ts = length (filter (passed i ip) ts)"

lemma passed_count_update:
  "n < length ts \<Longrightarrow> passed_count i ip (ts[n := t]) + of_bool (passed i ip (ts ! n))
     = passed_count i ip ts + of_bool (passed i ip t)"
  unfolding passed_count_def
proof (induction ts arbitrary: n)
  case (Cons u ts)
  then show ?case by (cases n) auto
qed simp

text \<open>An action either leaves the limiter alone and no more requests past it, or is a probe of it.\<close>

lemma task_step_cases:
  assumes "task_step alloc clock t ls = (t', ls')"
  obtains "ls' ! i = ls ! i" "length ls' = length ls" "passed i ip t' \<longrightarrow> passed i ip t"
  | a v past todo r where "t = Running a v past ((Limit, Some i) # todo)" "probe_limiter alloc i a clock ls = (r, ls')"
      "passed i ip t' \<longrightarrow> a = ip \<and> r = None"
proof (cases t)
  case (Running a v past todo)
  show ?thesis
  proof (cases todo)
    case Nil
    then show ?thesis using assms Running that(1) by (auto simp: limited_def)
  next
    case (Cons x rest)
    obtain act tx where x: "x = (act, tx)" by fastforce
    show ?thesis
    proof (cases "act = Limit \<and> tx = Some i")
      case True
      obtain r ls1 where p: "probe_limiter alloc i a clock ls = (r, ls1)" by fastforce
      have "passed i ip t' \<longrightarrow> a = ip \<and> r = None" "ls1 = ls'"
        using assms by (auto simp: Running Cons x True p split: option.splits)
      then show ?thesis using that(2) p by (simp add: Running Cons x True)
    next
      case False
      show ?thesis
      proof (cases "\<exists>i'. act = Limit \<and> tx = Some i'")
        case True
        then obtain i' where i': "act = Limit" "tx = Some i'" "i' \<noteq> i" using False by blast
        obtain r ls1 where p: "probe_limiter alloc i' a clock ls = (r, ls1)" by fastforce
        have "ls1 = ls'" "passed i ip t' \<longrightarrow> passed i ip t"
          using assms i' by (auto simp: Running Cons x p limited_def split: option.splits)
        moreover have "ls1 ! i = ls ! i" "length ls1 = length ls"
          using p i'(3) by (auto simp: probe_limiter_def split: option.splits prod.splits if_splits)
        ultimately show ?thesis using that(1) by simp
      next
        case False
        then show ?thesis
          using assms that(1) by (cases act; cases tx) (auto simp: Running Cons x limited_def split: if_splits)
      qed
    qed
  qed
qed (use assms that(1) in auto)

lemma limiter_serve_window:
  assumes "admission_inv rl" and "in_window now rl"
  shows "in_window t (fst (limiter_serve alloc rl (ip, now, later))) = in_window t rl"
proof (cases "rl_limit rl = 0 \<or> \<not> has_room ip (curr_bucket rl)")
  case True
  then have "fst (limiter_serve alloc rl (ip, now, later)) = rl"
    using can_resume_full [of rl ip alloc now later] assms(2) by (auto simp: limiter_serve_def can_resume_def)
  then show ?thesis by simp
next
  case False
  obtain p where "period_ok p rl" using assms(1) by (auto simp: admission_inv_def)
  with False assms(2) obtain b r where "limiter_serve alloc rl (ip, now, later) = (set_curr_bucket rl b, r)"
    and C: "count_request ip (curr_bucket rl) = Inr (b, of_nat (min (Suc (hits ip (curr_bucket rl))) 65535))"
    using can_resume_room [of rl p ip alloc now later] by (auto simp: limiter_serve_def)
  then show ?thesis
    using count_request_starts [OF C] by (simp add: in_window_def is_within_curr_bucket_window_def)
qed

lemma probe_serves:
  assumes "i < length ls" and "ls ! i = Some rl" and "admission_inv rl" and "probe_limiter alloc i ip clock ls = (r, ls')"
  shows "ls' = ls[i := Some (fst (limiter_serve alloc rl (ip, clock)))]
    \<and> (r = None \<longleftrightarrow> snd (limiter_serve alloc rl (ip, clock)))"
proof -
  obtain now later where clock: "clock = (now, later)" by fastforce
  obtain p where "period_ok p rl" using assms(3) by (auto simp: admission_inv_def)
  from can_resume_Some [OF this] obtain rl' x where "can_resume alloc ip now later rl = Some (rl', x)" by blast
  then show ?thesis
    using assms by (auto simp: probe_limiter_def clock limiter_serve_def limit_http_request_def split: sum.splits if_splits)
qed

text \<open>
  What a run inside one window of a limiter keeps, relative to the limiter \<open>rl0\<close> it began with;
  counted are the requests that came after the first \<open>k\<close>.
\<close>

definition counted :: "nat \<Rightarrow> nat \<Rightarrow> ip_addr \<Rightarrow> ip_addr rate_limiter \<Rightarrow> task list \<times> limiters \<Rightarrow> bool" where
  "counted k i ip rl0 = (\<lambda>(ts, ls). k \<le> length ts \<and> i < length ls \<and> (\<exists>rl. ls ! i = Some rl \<and> admission_inv rl
     \<and> rl_limit rl = rl_limit rl0 \<and> (\<forall>t. in_window t rl = in_window t rl0)
     \<and> hits ip (curr_bucket rl0) + passed_count i ip (drop k ts) \<le> hits ip (curr_bucket rl)
     \<and> passed_count i ip (drop k ts) \<le> unat (rl_limit rl0) - hits ip (curr_bucket rl0)))"

fun clock_of :: "task_event \<Rightarrow> (instant \<times> instant) option" where
  "clock_of (Start ip v items) = None"
| "clock_of (Advance n clock) = Some clock"

text \<open>Requests before the first \<open>k\<close> are not counted; any other counts when it gets past.\<close>

lemma passed_count_drop:
  assumes "n < length ts" and "\<not> passed i ip (ts ! n)"
  shows "passed_count i ip (drop k (ts[n := t])) \<le> passed_count i ip (drop k ts) + of_bool (passed i ip t)"
proof (cases "n < k")
  case False
  then have "drop k (ts[n := t]) = (drop k ts)[n - k := t]" by (simp add: drop_update_swap)
  then show ?thesis using passed_count_update [of "n - k" "drop k ts" i ip t] assms False by simp
qed simp

lemma passed_count_drop_mono:
  assumes "n < length ts" and "passed i ip t \<longrightarrow> passed i ip (ts ! n)"
  shows "passed_count i ip (drop k (ts[n := t])) \<le> passed_count i ip (drop k ts)"
proof (cases "n < k")
  case False
  then have "drop k (ts[n := t]) = (drop k ts)[n - k := t]" by (simp add: drop_update_swap)
  moreover have "n - k < length (drop k ts)" using assms(1) False by simp
  from passed_count_update [OF this, of i ip t] have "passed_count i ip ((drop k ts)[n - k := t]) \<le> passed_count i ip (drop k ts)"
    using assms False by (cases "passed i ip t") auto
  ultimately show ?thesis by simp
qed simp

lemma counted_probe:
  assumes "counted k i ip rl0 (ts, ls)" and "in_window (fst clock) rl0" and "n < length ts"
    and probe: "probe_limiter alloc i a clock ls = (r, ls')"
    and t: "\<not> passed i ip (ts ! n)" "passed i ip t' \<longrightarrow> a = ip \<and> r = None"
  shows "counted k i ip rl0 (ts[n := t'], ls')"
proof -
  obtain rl where rl: "ls ! i = Some rl" "admission_inv rl" "rl_limit rl = rl_limit rl0"
    "\<And>t. in_window t rl = in_window t rl0"
    "hits ip (curr_bucket rl0) + passed_count i ip (drop k ts) \<le> hits ip (curr_bucket rl)"
    "passed_count i ip (drop k ts) \<le> unat (rl_limit rl0) - hits ip (curr_bucket rl0)"
    and i: "i < length ls" and k: "k \<le> length ts"
    using assms(1) by (auto simp: counted_def)
  obtain now later where clock: "clock = (now, later)" by fastforce
  let ?s = "limiter_serve alloc rl (a, now, later)"
  have w: "in_window now rl" using assms(2) rl(4) by (simp add: clock)
  note step = limiter_serve_step [OF rl(2) w, where alloc = alloc and ip = a and later = later]
  have serves: "ls' = ls[i := Some (fst ?s)]" "r = None \<longleftrightarrow> snd ?s"
    using probe_serves [OF i rl(1,2) probe] by (simp_all add: clock)
  note cnt = passed_count_drop [OF assms(3) t(1), of k t']
  have "hits ip (curr_bucket rl0) + passed_count i ip (drop k (ts[n := t'])) \<le> hits ip (curr_bucket (fst ?s))
      \<and> passed_count i ip (drop k (ts[n := t'])) \<le> unat (rl_limit rl0) - hits ip (curr_bucket rl0)"
  proof (cases "passed i ip t'")
    case True
    then have "a = ip" "snd ?s" using t(2) serves(2) by blast+
    then show ?thesis using step(4) rl(3,5) cnt True by auto
  next
    case False
    then show ?thesis using step(3) [of ip] rl(5,6) cnt by simp
  qed
  then show ?thesis
    using i k step(1,2) rl(3) limiter_serve_window [OF rl(2) w] rl(4) by (simp add: counted_def serves(1))
qed

lemma counted_step:
  assumes "interleaved alloc e c c'" and "counted k i ip rl0 c" and "\<forall>clock. clock_of e = Some clock \<longrightarrow> in_window (fst clock) rl0"
  shows "counted k i ip rl0 c'"
  using assms
proof (induction rule: interleaved.induct)
  case (start a v items ts ls)
  then have "passed_count i ip (drop k (ts @ [Running a v [] items])) = passed_count i ip (drop k ts)"
    by (simp add: counted_def passed_count_def limited_def)
  then show ?case using start by (simp add: counted_def)
next
  case (advance n ts clock ls t ls')
  show ?case
  proof (rule task_step_cases [OF advance(2), of i ip])
    assume "ls' ! i = ls ! i" "length ls' = length ls" and mono: "passed i ip t \<longrightarrow> passed i ip (ts ! n)"
    then show ?thesis
      using advance(3) passed_count_drop_mono [OF advance(1) mono, of k] by (fastforce simp: counted_def)
  next
    fix a v past todo r
    assume t: "ts ! n = Running a v past ((Limit, Some i) # todo)" "passed i ip t \<longrightarrow> a = ip \<and> r = None"
      and probe: "probe_limiter alloc i a clock ls = (r, ls')"
    have "\<not> passed i ip (ts ! n)" unfolding t(1) by (simp add: limited_def)
    then show ?thesis
      using counted_probe [OF advance(3) _ advance(1) probe _ t(2)] advance(4) by simp
  qed
qed

lemma counted_runs:
  "runs alloc es c c' \<Longrightarrow> counted k i ip rl0 c \<Longrightarrow> \<forall>e \<in> set es. \<forall>clock. clock_of e = Some clock \<longrightarrow> in_window (fst clock) rl0 \<Longrightarrow>
     counted k i ip rl0 c'"
proof (induction rule: runs.induct)
  case (more e c c' es c'')
  have "counted k i ip rl0 c'" by (rule counted_step [OF more(1,4)]) (use more(5) in simp)
  then show ?case by (rule more(3)) (use more(5) in simp)
qed

lemma interleaved_limit:
  assumes "runs alloc es (ts0, ls) (ts, ls')" and "i < length ls" and "ls ! i = Some rl"
    and "limiter_reachable alloc rl" and "period_ok w rl"
    and "\<forall>e \<in> set es. \<forall>clock. clock_of e = Some clock \<longrightarrow> in_window (fst clock) rl"
  shows "passed_count i ip (drop (length ts0) ts) \<le> unat (rl_limit rl) - hits ip (curr_bucket rl)"
proof -
  have "admission_inv rl"
    using limiter_reachable_ok [OF assms(4)] assms(5) by (auto simp: limiter_ok_def admission_inv_def)
  then have "counted (length ts0) i ip rl (ts0, ls)"
    using assms(2,3) by (simp add: counted_def passed_count_def)
  from counted_runs [OF assms(1) this assms(6)] show ?thesis by (auto simp: counted_def)
qed

section \<open>Properties\<close>

text \<open>The handler's loop over the rules is one task that is never interrupted: from whatever other
  tasks there are, letting only this one act ends with the loop's verdict and limiters.\<close>

lemma handler_is_a_task:
  assumes "apply_rules alloc ip v matches clocks rules 0 ls = (w, ls')"
  shows "\<exists>cs. set cs \<subseteq> range (case_prod clocks)
     \<and> runs alloc (Start ip v (agenda matches rules) # map (Advance (length ts)) cs) (ts, ls)
         (ts @ [Finished ip (agenda matches rules) w], ls')"
proof -
  let ?t = "Running ip v [] (agenda matches rules)"
  obtain cs where "set cs \<subseteq> range (case_prod clocks)"
    and "alone alloc (length ts) cs (ts @ [?t]) (?t, ls) (Finished ip (agenda matches rules) w, ls')"
    using apply_rules_alone [OF _ assms, of "length ts" "ts @ [?t]" "[]"] by auto
  then show ?thesis by (auto simp: alone_def intro!: exI [of _ cs])
qed

text \<open>A limit holds for every interleaving of concurrent requests: as long as the probes fall into one
  window of its limiter, at most as many new requests of a client get past it as the limit leaves,
  whatever the other tasks do in between.\<close>

lemma limit_holds_interleaved:
  assumes "runs alloc es (ts0, ls) (ts, ls')" and "i < length ls" and "ls ! i = Some rl"
    and "limiter_reachable alloc rl" and "period_ok w rl"
    and "\<forall>e \<in> set es. \<forall>clock. clock_of e = Some clock \<longrightarrow> in_window (fst clock) rl"
  shows "passed_count i ip (drop (length ts0) ts) \<le> unat (rl_limit rl) - hits ip (curr_bucket rl)"
  using assms by (rule interleaved_limit)

text \<open>
  Two requests of a client under a rule with a limit, from a fresh limiter that admits two per
  second; their actions alternate.
\<close>

definition demo_rule_items :: "item list" where
  "demo_rule_items = [(Captcha, Some 0), (Limit, Some 0)]"

definition demo_shared_limiter :: "ip_addr rate_limiter" where
  "demo_shared_limiter = rate_limiter_new (\<lambda>n. n) 2 (from_secs 1) 4 0 0"

definition demo_events :: "task_event list" where
  "demo_events =
     [Start ipv4_localhost True demo_rule_items, Start ipv4_localhost True demo_rule_items,
      Advance 0 (1, 1), Advance 1 (2, 2), Advance 1 (3, 3), Advance 0 (4, 4), Advance 0 (5, 5)]"

lemma runs_advances:
  "\<forall>e \<in> set es. fst e < length ts \<Longrightarrow> \<exists>ts' ls'. runs alloc (map (\<lambda>e. Advance (fst e) (snd e)) es) (ts, ls) (ts', ls')"
proof (induction es arbitrary: ts ls)
  case (Cons e es)
  obtain t ls1 where step: "task_step alloc (snd e) (ts ! fst e) ls = (t, ls1)" by fastforce
  have e: "interleaved alloc (Advance (fst e) (snd e)) (ts, ls) (ts[fst e := t], ls1)"
    using Cons.prems step by (intro interleaved.advance) simp_all
  obtain ts' ls' where "runs alloc (map (\<lambda>e. Advance (fst e) (snd e)) es) (ts[fst e := t], ls1) (ts', ls')"
    using Cons.IH [of "ts[fst e := t]" ls1] Cons.prems by auto
  from runs.more [OF e this] show ?case by auto
qed auto

lemma demo_interleaving: "\<exists>ts ls. runs (\<lambda>n. n) demo_events ([], [Some demo_shared_limiter]) (ts, ls)"
proof -
  let ?t = "Running ipv4_localhost True [] demo_rule_items"
  obtain ts ls where rest: "runs (\<lambda>n. n) (map (\<lambda>e. Advance (fst e) (snd e)) [(0, (1, 1)), (1, (2, 2)), (1, (3, 3)), (0, (4, 4)), (0, (5, 5))])
      ([?t, ?t], [Some demo_shared_limiter]) (ts, ls)"
    using runs_advances [where ts = "[?t, ?t]"
        and es = "[(0, (1, 1)), (1, (2, 2)), (1, (3, 3)), (0, (4, 4)), (0, (5, 5))]"] by force
  have two: "interleaved (\<lambda>n. n) (Start ipv4_localhost True demo_rule_items) ([], ls) ([?t], ls)"
    "interleaved (\<lambda>n. n) (Start ipv4_localhost True demo_rule_items) ([?t], ls) ([?t, ?t], ls)" for ls
    using interleaved.start [of "\<lambda>n. n" _ _ _ "[]"] interleaved.start [of "\<lambda>n. n" _ _ _ "[?t]"] by simp_all
  from runs.more [OF two(1) runs.more [OF two(2) rest]] show ?thesis by (auto simp: demo_events_def)
qed

lemma limit_holds_interleaved_witness:
  "\<exists>ts ls. runs (\<lambda>n. n) demo_events ([], [Some demo_shared_limiter]) (ts, ls) \<and> passed_count 0 ipv4_localhost ts \<le> 2"
proof -
  obtain ts ls where run: "runs (\<lambda>n. n) demo_events ([], [Some demo_shared_limiter]) (ts, ls)"
    using demo_interleaving by blast
  have "limiter_reachable (\<lambda>n. n) demo_shared_limiter" "period_ok 1 demo_shared_limiter"
    unfolding demo_shared_limiter_def by (rule limiter_reachable.start) (simp add: period_ok_def rate_limiter_new_def Let_def)
  moreover have "\<forall>e \<in> set demo_events. \<forall>clock. clock_of e = Some clock \<longrightarrow> in_window (fst clock) demo_shared_limiter"
    by (simp add: demo_events_def demo_shared_limiter_def limiter_eval)
  moreover have "unat (rl_limit demo_shared_limiter) - hits ipv4_localhost (curr_bucket demo_shared_limiter) = 2"
    by (simp add: demo_shared_limiter_def limiter_eval)
  ultimately have "passed_count 0 ipv4_localhost ts \<le> 2"
    using limit_holds_interleaved [OF run, of 0 demo_shared_limiter 1 ipv4_localhost] by simp
  with run show ?thesis by blast
qed

lemma handler_is_a_task_witness:
  "\<exists>cs. set cs \<subseteq> {(0, 0)} \<and> runs (\<lambda>n. n) (Start ipv4_localhost True [(Block, None)] # map (Advance 0) cs) ([], [])
     ([Finished ipv4_localhost [(Block, None)] (Answer new_blocked_response)], [])"
proof -
  let ?rule = "\<lparr>rule_name = ''r'', rule_expression = None, rule_actions = [Block], rule_limiter_tx = None\<rparr> :: unit rule"
  have "apply_rules (\<lambda>n. n) ipv4_localhost True (\<lambda>_. True) (\<lambda>_ _. (0, 0)) [?rule] 0 [] = (Answer new_blocked_response, [])"
    by simp
  from handler_is_a_task [OF this, of "[]"] show ?thesis by (simp add: agenda_def rule_items_def)
qed

end
