(* ===== verification/Server.thy ===== *)
theory Server
  imports Load_Config Docker Lists Static_Site Http_Proxy Http_Listener Listeners
begin

text \<open>
  \<^verbatim>\<open>pingoo/server.rs\<close> and the constructor of services in
  \<^verbatim>\<open>pingoo/services/http_utils.rs\<close>: the start of the server, which assembles services and
  listeners out of the configuration, and the process around it in \<^verbatim>\<open>pingoo/main.rs\<close>.
\<close>

section \<open>Services\<close>

text \<open>
  The outside world of a request to a service, and the state of the services: the caches of the
  static sites, by service name.
\<close>

record service_io =
  si_static :: static_env
  si_proxy :: proxy_env
  si_registry :: service_registry

type_synonym service_state = "(string \<times> file_cache) list"

definition static_service ::
  "('prog, 'lists) executor \<Rightarrow> 'prog static_site_service \<Rightarrow> ('lists, service_io, service_state) http_service" where
  "static_service execute s =
     \<lparr>hs_match_request = static_match_request execute s,
      hs_handle_http_request = (\<lambda>io req st.
        (let cache = (case map_of st (sss_name s) of Some c \<Rightarrow> c | None \<Rightarrow> []);
             (res, cache) = static_handle_http_request (si_static io) s req cache
         in (Some res, AList.update (sss_name s) cache st)))\<rparr>"

definition proxy_service ::
  "('prog, 'lists) executor \<Rightarrow> 'prog http_proxy_service \<Rightarrow> ('lists, service_io, service_state) http_service" where
  "proxy_service execute s =
     \<lparr>hs_match_request = proxy_match_request execute s,
      hs_handle_http_request = (\<lambda>io req st.
        (proxy_handle_http_request (si_proxy io) (si_registry io) s req, st))\<rparr>"

text \<open>\<open>None\<close> is the \<open>unreachable!\<close>.\<close>

definition new_http_service ::
  "('prog, 'lists) executor \<Rightarrow> 'prog service_config \<Rightarrow> ('lists, service_io, service_state) http_service option" where
  "new_http_service execute config =
     (if sc_static config \<noteq> None then map_option (static_service execute) (static_site_new config)
      else if sc_http_proxy config \<noteq> None then Some (proxy_service execute (http_proxy_new config))
      else None)"

text \<open>A panic inside the iteration is one of the whole.\<close>

fun all_or_panic :: "'a option list \<Rightarrow> 'a list option" where
  "all_or_panic [] = Some []"
| "all_or_panic (None # _) = None"
| "all_or_panic (Some x # xs) = map_option ((#) x) (all_or_panic xs)"

definition tcp_services_of :: "'prog service_config list \<Rightarrow> (string \<times> tcp_proxy_service) list" where
  "tcp_services_of services =
     collect_map (map (\<lambda>sc. (sc_name sc, tcp_proxy_new (sc_name sc))) (filter (\<lambda>sc. sc_tcp_proxy sc \<noteq> None) services))"

definition http_services_of ::
  "('prog, 'lists) executor \<Rightarrow> 'prog service_config list \<Rightarrow>
     (string \<times> ('lists, service_io, service_state) http_service) list option" where
  "http_services_of execute services =
     map_option collect_map (all_or_panic (map (\<lambda>sc. map_option (Pair (sc_name sc)) (new_http_service execute sc))
       (filter (\<lambda>sc. sc_http_proxy sc \<noteq> None \<or> sc_static sc \<noteq> None) services)))"

section \<open>Listeners\<close>

text \<open>A listener with what it serves; the TLS manager, rules and lists are shared by all.\<close>

datatype 'lists server_listener =
  TcpListener listener_config tcp_proxy_service
| TcpAndTlsListener listener_config tcp_proxy_service
| HttpListener listener_config "('lists, service_io, service_state) http_service list"
| HttpsListener listener_config "('lists, service_io, service_state) http_service list"

text \<open>
  The first service of the list, or the panic of indexing an empty one; a name without a service
  is the panic of \<open>expect\<close> or \<open>unwrap\<close>.
\<close>

definition tcp_service_for :: "(string \<times> tcp_proxy_service) list \<Rightarrow> listener_config \<Rightarrow> tcp_proxy_service option" where
  "tcp_service_for tcp_services lc =
     (case lc_services lc of [] \<Rightarrow> None | name # _ \<Rightarrow> map_of tcp_services name)"

definition new_listener ::
  "(string \<times> tcp_proxy_service) list \<Rightarrow> (string \<times> ('lists, service_io, service_state) http_service) list \<Rightarrow>
     listener_config \<Rightarrow> 'lists server_listener option" where
  "new_listener tcp_services http_services lc =
     (case lc_protocol lc of
        Tcp \<Rightarrow> map_option (TcpListener lc) (tcp_service_for tcp_services lc)
      | TcpAndTls \<Rightarrow> map_option (TcpAndTlsListener lc) (tcp_service_for tcp_services lc)
      | Http \<Rightarrow> map_option (HttpListener lc) (all_or_panic (map (map_of http_services) (lc_services lc)))
      | Https \<Rightarrow> map_option (HttpsListener lc) (all_or_panic (map (map_of http_services) (lc_services lc))))"

text \<open>
  The loop over the listeners: build, bind, spawn. The result are the listeners that run when it
  ends, by its end, an error of binding, or a panic.
\<close>

datatype start_outcome = Started | StartError error | StartPanic

fun start_listeners ::
  "(listener_config \<Rightarrow> 'lists server_listener option) \<Rightarrow> (listener_config \<Rightarrow> error + unit) \<Rightarrow> listener_config list \<Rightarrow>
     start_outcome \<times> 'lists server_listener list" where
  "start_listeners new bind [] = (Started, [])"
| "start_listeners new bind (lc # lcs) =
     (case new lc of
        None \<Rightarrow> (StartPanic, [])
      | Some l \<Rightarrow>
          (case bind lc of
             Inl e \<Rightarrow> (StartError e, [])
           | Inr _ \<Rightarrow> apsnd ((#) l) (start_listeners new bind lcs)))"

section \<open>The server\<close>

fun error_of_geoip :: "geoip_error \<Rightarrow> error" where
  "error_of_geoip (AddressNotFound _) = Unspecified ''address not found''"
| "error_of_geoip (GeoipUnspecified msg) = Unspecified msg"
| "error_of_geoip InvalidMmdbFile = Unspecified ''mmdb file is not valid''"
| "error_of_geoip (InvalidCountryCode _) = Unspecified ''is not a valid country code''"

text \<open>
  What the server finds at its start: the Docker socket, the GeoIP files, the captcha keys, the
  lists' files, the TLS folder, and what binding sockets gives.
\<close>

record ('mmdb, 'ed, 'ec, 'net, 'key, 'acme) server_env =
  sv_docker_socket :: "io_error_kind + unit"
  sv_geoip_exists :: "string \<Rightarrow> unit + bool"
  sv_geoip_read :: "string \<Rightarrow> unit + string"
  sv_zstd_decode :: "string \<Rightarrow> unit + string"
  sv_mmdb :: "string \<Rightarrow> unit + 'mmdb"
  sv_crypto :: "('ed, 'ec) crypto_env"
  sv_keys :: "'ed keys_env"
  sv_lists :: "'net list_env"
  sv_tls :: "'key tls_env"
  sv_acme_account :: "string \<Rightarrow> error + 'acme"
  sv_socket_works :: "listener_config \<Rightarrow> socket_call \<Rightarrow> bool"

record ('mmdb, 'ed, 'ec, 'net, 'key, 'acme) server_parts =
  sp_registry :: service_registry
  sp_geoip :: "'mmdb geoip_db option"
  sp_captcha :: "('ed, 'ec) captcha_manager"
  sp_lists :: "(string \<times> 'net items) list"
  sp_tcp_services :: "(string \<times> tcp_proxy_service) list"
  sp_http_services :: "(string \<times> ((string \<times> 'net items) list, service_io, service_state) http_service) list"
  sp_tls :: "('key, 'acme) tls_manager"

text \<open>The parts, in the order they are made; \<open>None\<close> is a panic.\<close>

definition make_parts ::
  "('mmdb, 'ed, 'ec, 'net, 'key, 'acme) server_env \<Rightarrow> ('prog, (string \<times> 'net items) list) executor \<Rightarrow> 'prog config \<Rightarrow>
     (error + ('mmdb, 'ed, 'ec, 'net, 'key, 'acme) server_parts) option" where
  "make_parts env execute config =
     (case docker_discoverer_new (cfg_docker_socket config) (sv_docker_socket env) :: error + unit docker_discoverer of
        Inl e \<Rightarrow> Some (Inl e)
      | Inr _ \<Rightarrow>
          (case geoip_load (sv_geoip_exists env) (sv_geoip_read env) (sv_zstd_decode env) (sv_mmdb env) of
             Inl e \<Rightarrow> Some (Inl (error_of_geoip e))
           | Inr geoip_db \<Rightarrow>
               (case captcha_manager_new (sv_crypto env) (sv_keys env) of
                  Inl e \<Rightarrow> Some (Inl e)
                | Inr captcha_manager \<Rightarrow>
                    (case load_lists (sv_lists env) (cfg_lists config) of
                       Inl e \<Rightarrow> Some (Inl e)
                     | Inr ls \<Rightarrow>
                         (case http_services_of execute (cfg_services config) of
                            None \<Rightarrow> None
                          | Some http_services \<Rightarrow>
                              map_option (\<lambda>r. and_then r (\<lambda>tls_manager.
                                Inr \<lparr>sp_registry = service_registry_new (cfg_services config), sp_geoip = geoip_db,
                                     sp_captcha = captcha_manager, sp_lists = ls,
                                     sp_tcp_services = tcp_services_of (cfg_services config),
                                     sp_http_services = http_services, sp_tls = tls_manager\<rparr>))
                                (tls_manager_new (sv_tls env) (sv_acme_account env) (cfg_tls config)))))))"

definition server_run ::
  "('mmdb, 'ed, 'ec, 'net, 'key, 'acme) server_env \<Rightarrow> ('prog, (string \<times> 'net items) list) executor \<Rightarrow> 'prog config \<Rightarrow>
     start_outcome \<times> (string \<times> 'net items) list server_listener list" where
  "server_run env execute config =
     (case make_parts env execute config of
        None \<Rightarrow> (StartPanic, [])
      | Some (Inl e) \<Rightarrow> (StartError e, [])
      | Some (Inr parts) \<Rightarrow>
          start_listeners (new_listener (sp_tcp_services parts) (sp_http_services parts))
            (\<lambda>lc. fst (bind_tcp_socket (sv_socket_works env lc) (lc_address lc) (lc_name lc)))
            (cfg_listeners config))"

text \<open>
  The handler of an HTTP or HTTPS listener: the libraries of \<open>lib\<close> with the configuration and
  the parts; and the state it begins with.
\<close>

definition handler_of ::
  "('prog, (string \<times> 'net items) list, 'mmdb, 'ed, 'ec, service_io, service_state) listener \<Rightarrow> 'prog config \<Rightarrow>
     ('mmdb, 'ed, 'ec, 'net, 'key, 'acme) server_parts \<Rightarrow> listener_config \<Rightarrow>
     ((string \<times> 'net items) list, service_io, service_state) http_service list \<Rightarrow>
     ('prog, (string \<times> 'net items) list, 'mmdb, 'ed, 'ec, service_io, service_state) listener" where
  "handler_of lib config parts lc services =
     lib\<lparr>li_address := lc_address lc, li_use_tls := (lc_protocol lc = Https), li_rules := cfg_rules config,
         li_lists := sp_lists parts, li_services := services, li_captcha_manager := sp_captcha parts\<rparr>"

definition initial_state ::
  "(nat \<Rightarrow> nat) \<Rightarrow> instant \<Rightarrow> instant \<Rightarrow> 'prog config \<Rightarrow> ('mmdb, 'ed, 'ec, 'net, 'key, 'acme) server_parts \<Rightarrow>
     ('mmdb, service_state) listener_state" where
  "initial_state alloc now later config parts =
     \<lparr>ls_geoip = sp_geoip parts,
      ls_limiters = map (\<lambda>w. Some (rate_limiter_new alloc (rlim_max w) (from_secs (unat (rlim_window w))) (rlim_capacity w) now later))
        (cfg_limiter_workers config),
      ls_services = []\<rparr>"

section \<open>The process\<close>

text \<open>
  The child process is started before the server; indexing its empty command panics. \<open>spawn\<close> is
  the outcome of starting it.
\<close>

definition start_child :: "(string \<Rightarrow> string list \<Rightarrow> unit + unit) \<Rightarrow> string list option \<Rightarrow> start_outcome" where
  "start_child spawn child_process =
     (case child_process of
        None \<Rightarrow> Started
      | Some [] \<Rightarrow> StartPanic
      | Some (program # args) \<Rightarrow>
          (case spawn program args of
             Inl _ \<Rightarrow> StartError (Unspecified ''error starting child process'')
           | Inr _ \<Rightarrow> Started))"

definition main_process ::
  "'prog load_env \<Rightarrow> (string \<Rightarrow> string list \<Rightarrow> unit + unit) \<Rightarrow> ('mmdb, 'ed, 'ec, 'net, 'key, 'acme) server_env \<Rightarrow>
     ('prog, (string \<times> 'net items) list) executor \<Rightarrow> start_outcome \<times> (string \<times> 'net items) list server_listener list" where
  "main_process load spawn env execute =
     (case load_and_validate load of
        Inl e \<Rightarrow> (StartError e, [])
      | Inr config \<Rightarrow>
          (case start_child spawn (cfg_child_process config) of
             Started \<Rightarrow> server_run env execute config
           | failed \<Rightarrow> (failed, [])))"

end
