(* ===== verification/Server_Spec.thy ===== *)
theory Server_Spec
  imports Server Static_Site_Spec Http_Proxy_Spec Http_Listener_Spec
begin

text \<open>
  What holds across the assembled server: when its start panics, what the proxies of an assembled
  listener tell the upstreams about the client, and the one way in which a service does not answer.
\<close>

section \<open>Assembling listeners\<close>

definition tcp_named :: "'prog service_config list \<Rightarrow> string \<Rightarrow> bool" where
  "tcp_named services n \<longleftrightarrow> (\<exists>sc \<in> set services. sc_name sc = n \<and> sc_tcp_proxy sc \<noteq> None)"

definition http_named :: "'prog service_config list \<Rightarrow> string \<Rightarrow> bool" where
  "http_named services n \<longleftrightarrow> (\<exists>sc \<in> set services. sc_name sc = n \<and> (sc_http_proxy sc \<noteq> None \<or> sc_static sc \<noteq> None))"

text \<open>A listener fits when all its services speak its protocol.\<close>

definition protocol_fits :: "'prog service_config list \<Rightarrow> listener_config \<Rightarrow> bool" where
  "protocol_fits services lc \<longleftrightarrow>
     (\<forall>n \<in> set (lc_services lc).
        if lc_protocol lc \<in> {Tcp, TcpAndTls} then tcp_named services n else http_named services n)"

lemma map_of_collect_None: "map_of (collect_map xs) k = None \<longleftrightarrow> k \<notin> fst ` set xs"
  by (simp add: map_of_collect_map map_of_eq_None_iff)

lemma all_or_panic_None: "all_or_panic xs = None \<longleftrightarrow> None \<in> set xs"
proof (induction xs)
  case (Cons x xs)
  then show ?case by (cases x) auto
qed simp

lemma tcp_services_None: "map_of (tcp_services_of services) n = None \<longleftrightarrow> \<not> tcp_named services n"
  unfolding tcp_services_of_def map_of_collect_None by (force simp: tcp_named_def)

lemma all_or_panic_total: "(\<And>x. x \<in> set xs \<Longrightarrow> f x \<noteq> None) \<Longrightarrow> all_or_panic (map f xs) = Some (map (\<lambda>x. the (f x)) xs)"
proof (induction xs)
  case (Cons x xs)
  then obtain y where "f x = Some y" by fastforce
  with Cons show ?case by simp
qed simp

lemma new_http_service_total: "sc_http_proxy sc \<noteq> None \<or> sc_static sc \<noteq> None \<Longrightarrow> new_http_service execute sc \<noteq> None"
  by (auto simp: new_http_service_def static_site_new_def)

lemma http_services_eq:
  "http_services_of execute services = Some (collect_map (map (\<lambda>sc. (sc_name sc, the (new_http_service execute sc)))
     (filter (\<lambda>sc. sc_http_proxy sc \<noteq> None \<or> sc_static sc \<noteq> None) services)))"
proof -
  let ?http = "filter (\<lambda>sc. sc_http_proxy sc \<noteq> None \<or> sc_static sc \<noteq> None) services"
  have ok: "new_http_service execute sc \<noteq> None" if "sc \<in> set ?http" for sc
    using that by (intro new_http_service_total) simp
  have "all_or_panic (map (\<lambda>sc. map_option (Pair (sc_name sc)) (new_http_service execute sc)) ?http)
      = Some (map (\<lambda>sc. the (map_option (Pair (sc_name sc)) (new_http_service execute sc))) ?http)"
    by (rule all_or_panic_total) (use ok in blast)
  moreover have "map (\<lambda>sc. the (map_option (Pair (sc_name sc)) (new_http_service execute sc))) ?http
      = map (\<lambda>sc. (sc_name sc, the (new_http_service execute sc))) ?http"
  proof (rule map_cong [OF refl])
    fix sc assume "sc \<in> set ?http"
    from ok [OF this] obtain s where "new_http_service execute sc = Some s" by blast
    then show "the (map_option (Pair (sc_name sc)) (new_http_service execute sc)) = (sc_name sc, the (new_http_service execute sc))"
      by simp
  qed
  ultimately show ?thesis unfolding http_services_of_def by (simp only: option.map)
qed

lemma http_services_None:
  assumes "http_services_of execute services = Some m"
  shows "map_of m n = None \<longleftrightarrow> \<not> http_named services n"
proof -
  have "m = collect_map (map (\<lambda>sc. (sc_name sc, the (new_http_service execute sc)))
     (filter (\<lambda>sc. sc_http_proxy sc \<noteq> None \<or> sc_static sc \<noteq> None) services))"
    using assms unfolding http_services_eq by simp
  then show ?thesis
    by (simp only: map_of_collect_None) (force simp: http_named_def)
qed

lemma new_listener_None:
  assumes "http_services_of execute services = Some m" and "listener_valid names lc"
  shows "new_listener (tcp_services_of services) m lc = None \<longleftrightarrow> \<not> protocol_fits services lc"
proof (cases "lc_protocol lc \<in> {Tcp, TcpAndTls}")
  case True
  then obtain n where "lc_services lc = [n]"
    using assms(2) by (auto simp: listener_valid_def length_Suc_conv)
  then show ?thesis
    using True by (auto simp: new_listener_def tcp_service_for_def tcp_services_None protocol_fits_def)
next
  case False
  have "(None \<in> set (map (map_of m) (lc_services lc))) \<longleftrightarrow> (\<exists>n \<in> set (lc_services lc). map_of m n = None)"
    by force
  then show ?thesis
    using False by (cases "lc_protocol lc")
      (simp_all add: new_listener_def all_or_panic_None http_services_None [OF assms(1)] protocol_fits_def)
qed

lemma start_listeners_panic:
  assumes "\<forall>lc \<in> set lcs. is_ok (bind lc)"
  shows "fst (start_listeners new bind lcs) = StartPanic \<longleftrightarrow> (\<exists>lc \<in> set lcs. new lc = None)"
  using assms
proof (induction lcs)
  case (Cons lc lcs)
  then obtain u where "bind lc = Inr u" by (auto simp: is_ok_iff)
  then show ?case using Cons by (cases "new lc") auto
qed simp

text \<open>C20: with a valid configuration and sockets that bind, assembling the listeners panics exactly when
  some listener names a service of the other kind: an HTTP listener a TCP service or a TCP listener
  an HTTP service, which the validation of the configuration accepts.\<close>

theorem start_panics_exactly:
  assumes "config_valid cfg" and "http_services_of execute (cfg_services cfg) = Some http_services"
    and "\<forall>lc \<in> set (cfg_listeners cfg). is_ok (bind lc)"
  shows "fst (start_listeners (new_listener (tcp_services_of (cfg_services cfg)) http_services) bind (cfg_listeners cfg)) = StartPanic
    \<longleftrightarrow> (\<exists>lc \<in> set (cfg_listeners cfg). \<not> protocol_fits (cfg_services cfg) lc)"
proof -
  have "\<forall>lc \<in> set (cfg_listeners cfg). \<exists>names. listener_valid names lc"
    using assms(1) by (auto simp: config_valid_def listeners_valid_def)
  then show ?thesis
    using new_listener_None [OF assms(2)] unfolding start_listeners_panic [OF assms(3)] by blast
qed

text \<open>A valid configuration whose HTTP listener names a TCP service.\<close>

definition demo_mixed_config :: "listener_protocol \<Rightarrow> unit config" where
  "demo_mixed_config p =
     \<lparr>cfg_listeners = [\<lparr>lc_name = ''web'', lc_address = SocketAddr ipv4_localhost 80, lc_protocol = p, lc_services = [''db'']\<rparr>],
      cfg_services = [\<lparr>sc_name = ''db'', sc_route = None, sc_http_proxy = None, sc_static = None, sc_tcp_proxy = Some []\<rparr>],
      cfg_rules = [], cfg_tls = \<lparr>tls_acme = None\<rparr>, cfg_docker_socket = '''', cfg_lists = [], cfg_child_process = None,
      cfg_limiter_workers = []\<rparr>"

lemma demo_mixed_valid: "config_valid (demo_mixed_config p)"
  by (simp add: config_valid_def demo_mixed_config_def listeners_valid_def listener_valid_def service_valid_def
      service_kinds_def service_upstreams_def acme_valid_def count_true_def)

theorem start_panics_exactly_witness:
  "\<exists>http_services. fst (start_listeners (new_listener (tcp_services_of (cfg_services (demo_mixed_config Http)))
      (http_services :: (string \<times> (unit, service_io, service_state) http_service) list)) (\<lambda>_. Inr ())
      (cfg_listeners (demo_mixed_config Http))) = StartPanic"
proof -
  obtain http_services :: "(string \<times> (unit, service_io, service_state) http_service) list"
    where http: "http_services_of (\<lambda>_ _. IsBool True) (cfg_services (demo_mixed_config Http)) = Some http_services"
    using http_services_eq by blast
  have "\<not> protocol_fits (cfg_services (demo_mixed_config Http)) (hd (cfg_listeners (demo_mixed_config Http)))"
    by (simp add: protocol_fits_def demo_mixed_config_def http_named_def)
  then have "\<exists>lc \<in> set (cfg_listeners (demo_mixed_config Http)). \<not> protocol_fits (cfg_services (demo_mixed_config Http)) lc"
    by (simp add: demo_mixed_config_def)
  then show ?thesis
    using start_panics_exactly [OF demo_mixed_valid http, of "\<lambda>_. Inr ()"] by auto
qed

text \<open>The services a listener gets by default fit its protocol.\<close>

lemma default_services_fit:
  assumes "lcf_services l = None" and "\<forall>(n, sc) \<in> set services. sc_name sc = n"
  shows "protocol_fits (map snd services) (listener_of_file services (name, l))"
  using assms
  by (cases "lacf_protocol (lcf_address l)")
    (force simp: listener_of_file_def protocol_fits_def default_services_for_listener_def all_tcp_services_def
      all_http_services_def tcp_named_def http_named_def)+

section \<open>What upstreams learn of the client\<close>

definition tells_truth :: "socket_addr \<Rightarrow> bool \<Rightarrow> upstream_request \<Rightarrow> bool" where
  "tells_truth client tls r \<longleftrightarrow>
     header_get_all (ur_headers r) ''pingoo-client-ip'' = [show_ip (sa_ip client)]
     \<and> header_get_all (ur_headers r) ''x-forwarded-proto'' = [if tls then ''https'' else ''http'']
     \<and> (\<forall>n \<in> set hop_headers. header_get_all (ur_headers r) n = [])"

lemma insert_if_valid_other: "m \<noteq> n \<Longrightarrow> header_get_all (insert_if_valid he n v hs) m = header_get_all hs m"
  by (simp add: insert_if_valid_def split: option.split)

lemma host_headers_other:
  "m \<noteq> ''host'' \<Longrightarrow> m \<noteq> ''x-forwarded-host'' \<Longrightarrow> header_get_all (host_headers he ctx hs) m = header_get_all hs m"
  by (simp add: host_headers_def split: option.split)

lemma geoip_headers_other:
  "m \<noteq> ''pingoo-client-asn'' \<Longrightarrow> m \<noteq> ''pingoo-client-country'' \<Longrightarrow> header_get_all (geoip_headers he ctx hs) m = header_get_all hs m"
  by (simp add: geoip_headers_def insert_if_valid_other)

lemma proxy_headers_truth:
  assumes "header_env_ok he"
  shows "header_get_all (proxy_headers he ctx hs) ''pingoo-client-ip'' = [show_ip (sa_ip (ctx_client_address ctx))]"
    and "header_get_all (proxy_headers he ctx hs) ''x-forwarded-proto'' = [if ctx_tls ctx then ''https'' else ''http'']"
    and "n \<in> set hop_headers \<Longrightarrow> header_get_all (proxy_headers he ctx hs) n = []"
proof -
  show "header_get_all (proxy_headers he ctx hs) ''pingoo-client-ip'' = [show_ip (sa_ip (ctx_client_address ctx))]"
    by (simp add: proxy_headers_def Let_def geoip_headers_other insert_if_valid_visible [OF assms visible_show_ip])
  show "header_get_all (proxy_headers he ctx hs) ''x-forwarded-proto'' = [if ctx_tls ctx then ''https'' else ''http'']"
    by (simp add: proxy_headers_def Let_def geoip_headers_other insert_if_valid_other)
  assume n: "n \<in> set hop_headers"
  then have "n \<noteq> ''host'' \<and> n \<noteq> ''x-forwarded-host'' \<and> n \<noteq> ''pingoo-client-asn'' \<and> n \<noteq> ''pingoo-client-country''
      \<and> n \<noteq> ''pingoo-client-ip'' \<and> n \<noteq> ''x-forwarded-proto'' \<and> n \<noteq> ''x-forwarded-for''"
    unfolding hop_headers_def by auto
  then show "header_get_all (proxy_headers he ctx hs) n = []"
    using n by (simp add: proxy_headers_def Let_def geoip_headers_other insert_if_valid_other host_headers_other
        header_get_all_fold_remove)
qed

definition same_outside :: "(upstream_request \<Rightarrow> bool) \<Rightarrow> service_io \<Rightarrow> service_io \<Rightarrow> bool" where
  "same_outside P io io' \<longleftrightarrow>
     si_static io = si_static io' \<and> si_registry io = si_registry io' \<and> same_answers_at P (si_proxy io) (si_proxy io')"

definition assembled :: "('prog, 'lists, 'mmdb, 'ed, 'ec, service_io, service_state) listener \<Rightarrow> bool" where
  "assembled li \<longleftrightarrow> (\<forall>s \<in> set (li_services li). \<exists>sc. new_http_service (li_execute li) sc = Some s)"

lemma service_truth:
  assumes "new_http_service execute sc = Some s" and "header_env_ok (xe_headers (si_proxy io))"
    and "same_outside (tells_truth client tls) io io'"
    and "rq_context req = Some ctx" and "ctx_client_address ctx = client" and "ctx_tls ctx = tls"
  shows "hs_handle_http_request s io req st = hs_handle_http_request s io' req st"
proof (cases "sc_static sc")
  case (Some c)
  then have "s = static_service execute \<lparr>sss_name = sc_name sc, sss_route = sc_route sc, sss_config = c\<rparr>"
    using assms(1) by (simp add: new_http_service_def static_site_new_def)
  then show ?thesis using assms(3) by (simp add: static_service_def same_outside_def)
next
  case None
  then have s: "s = proxy_service execute (http_proxy_new sc)"
    using assms(1) by (auto simp: new_http_service_def split: if_splits)
  have same: "xe_choose (si_proxy io') = xe_choose (si_proxy io)" "xe_uri_ok (si_proxy io') = xe_uri_ok (si_proxy io)"
    "xe_headers (si_proxy io') = xe_headers (si_proxy io)" "si_registry io' = si_registry io"
    and answer: "tells_truth client tls r \<Longrightarrow> xe_request (si_proxy io) r = xe_request (si_proxy io') r" for r
    using assms(3) by (simp_all add: same_outside_def same_answers_at_def)
  have "tells_truth client tls \<lparr>ur_method = me, ur_uri = u, ur_version = ve,
      ur_headers = proxy_headers (xe_headers (si_proxy io)) ctx hs, ur_body = b\<rparr>" for me u ve hs b
    unfolding tells_truth_def using proxy_headers_truth [OF assms(2)] assms(5,6) by simp
  then show ?thesis
    using answer by (simp add: s proxy_service_def proxy_handle_http_request_def Let_def same assms(4))
qed

lemma dispatch_truth:
  assumes "\<And>s. s \<in> set ss \<Longrightarrow> hs_handle_http_request s io req st = hs_handle_http_request s io' req st"
  shows "dispatch ss ctx io req st = dispatch ss ctx io' req st"
  using assms by (induction ss) auto

lemma rules_and_services_truth:
  assumes "assembled li" and "header_env_ok (xe_headers (si_proxy (mo_io mo)))"
    and "same_outside (tells_truth client (li_use_tls li)) (mo_io mo) io'"
    and "rq_context req = Some ctx" and "ctx_client_address ctx = client" and "ctx_tls ctx = li_use_tls li"
  shows "rules_and_services li (mo\<lparr>mo_io := io'\<rparr>) req ctx ua v st = rules_and_services li mo req ctx ua v st"
proof -
  have "hs_handle_http_request s (mo_io mo) req st' = hs_handle_http_request s io' req st'" if "s \<in> set (li_services li)" for s st'
  proof -
    obtain sc where "new_http_service (li_execute li) sc = Some s"
      using assms(1) \<open>s \<in> set (li_services li)\<close> by (auto simp: assembled_def)
    then show ?thesis by (rule service_truth [OF _ assms(2-6)])
  qed
  then have same: "dispatch (li_services li) c (mo_io mo) req st' = dispatch (li_services li) c io' req st'" for c st'
    by (rule dispatch_truth)
  have "mo_limit (mo\<lparr>mo_io := io'\<rparr>) = mo_limit mo" "mo_io (mo\<lparr>mo_io := io'\<rparr>) = io'"
    by simp_all
  then show ?thesis unfolding rules_and_services_def same by (simp only:)
qed

text \<open>C14: through an assembled listener upstreams learn of the client only the truth, whatever headers it
  sends: two outside worlds that differ only in the answers to upstream requests that lie about the client's
  address or protocol, or that carry a hop-by-hop header, give the request the same answer.\<close>

theorem upstreams_know_client:
  assumes "assembled li" and "header_env_ok (xe_headers (si_proxy (mo_io mo)))"
    and "same_outside (tells_truth client (li_use_tls li)) (mo_io mo) io'"
  shows "serve_http_request li mo client req st = serve_http_request li (mo\<lparr>mo_io := io'\<rparr>) client req st"
proof -
  let ?mo = "mo\<lparr>mo_io := io'\<rparr>" and ?ctx = "judged_context li mo client req st"
  have eqs: "client_record li ?mo client st = client_record li mo client st" "judged_context li ?mo client req st = ?ctx"
    by (simp_all add: client_record_def judged_context_def)
  have "ctx_client_address ?ctx = client" "ctx_tls ?ctx = li_use_tls li"
    by (simp_all add: judged_context_def request_context_of_def)
  then have "rules_and_services li ?mo (req\<lparr>rq_context := Some ?ctx\<rparr>) ?ctx ua v st'
      = rules_and_services li mo (req\<lparr>rq_context := Some ?ctx\<rparr>) ?ctx ua v st'" for ua v st'
    by (intro rules_and_services_truth [OF assms]) simp_all
  moreover have now: "mo_now1 ?mo = mo_now1 mo" "mo_now2 ?mo = mo_now2 mo" "mo_now3 ?mo = mo_now3 mo" "mo_jti ?mo = mo_jti mo"
    "mo_challenge ?mo = mo_challenge mo"
    by simp_all
  ultimately have "check_cookie_then_rules li ?mo (req\<lparr>rq_context := Some ?ctx\<rparr>) ?ctx ua cid cs st'
      = check_cookie_then_rules li mo (req\<lparr>rq_context := Some ?ctx\<rparr>) ?ctx ua cid cs st'" for ua cid cs st'
    unfolding check_cookie_then_rules_def by (simp only:)
  then show ?thesis
    unfolding serve_http_request_eq eqs Let_def now by (simp only:)
qed

text \<open>Two networks that answer alike the requests from the client's true address only.\<close>

definition demo_honest_answer :: "string \<Rightarrow> upstream_request \<Rightarrow> unit + response" where
  "demo_honest_answer other r =
     Inr \<lparr>res_status = 200, res_headers = [],
          res_body = UpstreamBody (if tells_truth demo_client False r then ''honest'' else other)\<rparr>"

definition demo_io :: "static_env \<Rightarrow> string \<Rightarrow> service_io" where
  "demo_io env other =
     \<lparr>si_static = env, si_proxy = demo_proxy_env (demo_honest_answer other), si_registry = demo_registry\<rparr>"

definition demo_web :: "unit service_config" where
  "demo_web = \<lparr>sc_name = ''api'', sc_route = None, sc_http_proxy = Some [], sc_static = None, sc_tcp_proxy = None\<rparr>"

definition demo_server_listener :: "(unit, unit, unit, bytes, ec_curve \<times> bytes, service_io, service_state) listener" where
  "demo_server_listener =
     \<lparr>li_address = SocketAddr ipv4_localhost 80, li_use_tls = False, li_rules = [], li_lists = (),
      li_services = [proxy_service (\<lambda>_ _. IsBool True) (http_proxy_new demo_web)],
      li_captcha_env = demo_captcha_env, li_captcha_manager = demo_manager,
      li_execute = (\<lambda>_ _. IsBool True), li_request_ok = (\<lambda>_. True), li_client_ok = (\<lambda>_. True),
      li_parse_cookies = (\<lambda>_. []), li_mmdb_lookup = (\<lambda>_ _. Inl AddressNotFoundError), li_alloc = (\<lambda>n. n)\<rparr>"

definition demo_server_moment :: "string \<Rightarrow> service_io moment" where
  "demo_server_moment other =
     \<lparr>mo_evict = (\<lambda>c. c), mo_challenge = [], mo_now1 = 0, mo_now2 = 0, mo_now3 = 0, mo_jti = ''j'',
      mo_limit = (\<lambda>_ _. (0, 0)), mo_io = demo_io (demo_static_env ''s'') other\<rparr>"

definition demo_server_state :: "(unit, service_state) listener_state" where
  "demo_server_state = \<lparr>ls_geoip = None, ls_limiters = [], ls_services = []\<rparr>"

lemma demo_assembled: "assembled demo_server_listener"
proof -
  have "new_http_service (\<lambda>_ _. IsBool True) demo_web
      = Some (proxy_service (\<lambda>_ _. IsBool True) (http_proxy_new demo_web) :: (unit, service_io, service_state) http_service)"
    by (simp add: new_http_service_def demo_web_def)
  then show ?thesis unfolding assembled_def demo_server_listener_def by auto
qed

theorem upstreams_know_client_witness:
  "serve_http_request demo_server_listener (demo_server_moment ''a'') demo_client demo_http_request demo_server_state
   = serve_http_request demo_server_listener (demo_server_moment ''b'') demo_client demo_http_request demo_server_state"
proof -
  have "same_outside (tells_truth demo_client (li_use_tls demo_server_listener)) (mo_io (demo_server_moment ''a''))
      (demo_io (demo_static_env ''s'') ''b'')"
    by (simp add: same_outside_def same_answers_at_def demo_server_moment_def demo_server_listener_def demo_io_def
        demo_proxy_env_def demo_honest_answer_def)
  moreover have "header_env_ok (xe_headers (si_proxy (mo_io (demo_server_moment ''a''))))"
    by (simp add: demo_server_moment_def demo_io_def demo_proxy_env_def demo_header_env_ok)
  moreover have "(demo_server_moment ''a'')\<lparr>mo_io := demo_io (demo_static_env ''s'') ''b''\<rparr> = demo_server_moment ''b''"
    by (simp add: demo_server_moment_def)
  ultimately show ?thesis
    using upstreams_know_client [OF demo_assembled, of "demo_server_moment ''a''" demo_client] by metis
qed

section \<open>What services answer\<close>

text \<open>
  The one way in which a service does not answer: the first of the listener's services that takes the
  request is a proxy that panics on the URI of its upstream.
\<close>

definition proxy_panics ::
  "('prog, 'lists, 'mmdb, 'ed, 'ec, service_io, service_state) listener \<Rightarrow> service_io \<Rightarrow> request \<Rightarrow> 'lists rules_context \<Rightarrow> bool" where
  "proxy_panics li io req rules_ctx \<longleftrightarrow>
     (\<exists>s sc. List.find (\<lambda>s. hs_match_request s rules_ctx) (li_services li) = Some s
        \<and> new_http_service (li_execute li) sc = Some s \<and> sc_static sc = None
        \<and> uri_refused (si_proxy io) (si_registry io) (sc_name sc) req)"

lemma service_answers:
  assumes "new_http_service execute sc = Some s" and "rq_context req \<noteq> None"
  shows "fst (hs_handle_http_request s io req st) = None
    \<longleftrightarrow> sc_static sc = None \<and> uri_refused (si_proxy io) (si_registry io) (sc_name sc) req"
proof (cases "sc_static sc")
  case (Some c)
  then have "s = static_service execute \<lparr>sss_name = sc_name sc, sss_route = sc_route sc, sss_config = c\<rparr>"
    using assms(1) by (simp add: new_http_service_def static_site_new_def)
  then show ?thesis using Some by (simp add: static_service_def Let_def case_prod_beta)
next
  case None
  then have "s = proxy_service execute (http_proxy_new sc)"
    using assms(1) by (auto simp: new_http_service_def split: if_splits)
  then show ?thesis
    using None proxy_panics_exactly [OF assms(2), of "si_proxy io" "si_registry io" "http_proxy_new sc"]
    by (simp add: proxy_service_def http_proxy_new_def)
qed

lemma dispatch_finds:
  "dispatch ss rules_ctx io req st
     = (case List.find (\<lambda>s. hs_match_request s rules_ctx) ss of
          None \<Rightarrow> (Some new_not_found_error, st)
        | Some s \<Rightarrow> hs_handle_http_request s io req st)"
  by (induction ss) auto

lemma dispatch_panics:
  assumes "assembled li" and "rq_context req \<noteq> None"
  shows "fst (dispatch (li_services li) rules_ctx io req st) = None \<longleftrightarrow> proxy_panics li io req rules_ctx"
proof (cases "List.find (\<lambda>s. hs_match_request s rules_ctx) (li_services li)")
  case (Some s)
  then have "s \<in> set (li_services li)" by (auto simp: find_Some_iff)
  then obtain sc where sc: "new_http_service (li_execute li) sc = Some s" using assms(1) by (auto simp: assembled_def)
  have "fst (hs_handle_http_request s io req st) = None \<longleftrightarrow> proxy_panics li io req rules_ctx"
    unfolding proxy_panics_def Some using service_answers [OF _ assms(2), of "li_execute li" _ s io st] sc by blast
  then show ?thesis by (simp add: dispatch_finds Some)
qed (simp add: dispatch_finds proxy_panics_def)

section \<open>The server runs its configuration\<close>

fun config_of :: "'lists server_listener \<Rightarrow> listener_config" where
  "config_of (TcpListener lc _) = lc"
| "config_of (TcpAndTlsListener lc _) = lc"
| "config_of (HttpListener lc _) = lc"
| "config_of (HttpsListener lc _) = lc"

fun protocol_of :: "'lists server_listener \<Rightarrow> listener_protocol" where
  "protocol_of (TcpListener _ _) = Tcp"
| "protocol_of (TcpAndTlsListener _ _) = TcpAndTls"
| "protocol_of (HttpListener _ _) = Http"
| "protocol_of (HttpsListener _ _) = Https"

text \<open>A service built from the configuration of that name; what a listener serves.\<close>

definition service_named ::
  "('prog, 'lists) executor \<Rightarrow> 'prog service_config list \<Rightarrow> string \<Rightarrow> ('lists, service_io, service_state) http_service \<Rightarrow> bool" where
  "service_named execute services n s \<longleftrightarrow>
     (\<exists>sc \<in> set services. sc_name sc = n \<and> new_http_service execute sc = Some s)"

fun serves :: "('prog, 'lists) executor \<Rightarrow> 'prog service_config list \<Rightarrow> 'lists server_listener \<Rightarrow> bool" where
  "serves execute services (TcpListener lc s) = (tcp_named services (tps_name s) \<and> lc_services lc = [tps_name s])"
| "serves execute services (TcpAndTlsListener lc s) = (tcp_named services (tps_name s) \<and> lc_services lc = [tps_name s])"
| "serves execute services (HttpListener lc ss) = list_all2 (service_named execute services) (lc_services lc) ss"
| "serves execute services (HttpsListener lc ss) = list_all2 (service_named execute services) (lc_services lc) ss"

lemma all_or_panic_Some: "all_or_panic xs = Some ys \<longleftrightarrow> xs = map Some ys"
proof (induction xs arbitrary: ys)
  case (Cons x xs)
  then show ?case by (cases x; cases ys) auto
qed auto

lemma tcp_services_Some: "map_of (tcp_services_of services) n = Some s \<Longrightarrow> tps_name s = n"
  by (auto simp: tcp_services_of_def map_of_collect_map tcp_proxy_new_def dest!: map_of_SomeD)

lemma http_services_Some:
  assumes "http_services_of execute services = Some m" and "map_of m n = Some s"
  shows "service_named execute services n s"
proof -
  let ?made = "map (\<lambda>sc. (sc_name sc, the (new_http_service execute sc)))
      (filter (\<lambda>sc. sc_http_proxy sc \<noteq> None \<or> sc_static sc \<noteq> None) services)"
  have "m = collect_map ?made" using assms(1) unfolding http_services_eq by (rule option.inject [THEN iffD1, symmetric])
  then have "map_of (rev ?made) n = Some s" using assms(2) by (simp only: map_of_collect_map)
  then have "(n, s) \<in> set (rev ?made)" by (rule map_of_SomeD)
  then have "(n, s) \<in> set ?made" unfolding set_rev .
  then obtain sc where "sc \<in> set services" "sc_http_proxy sc \<noteq> None \<or> sc_static sc \<noteq> None" "n = sc_name sc"
    "s = the (new_http_service execute sc)" by auto
  with new_http_service_total [of sc execute] show ?thesis by (auto simp: service_named_def)
qed

lemma new_listener_serves:
  assumes "http_services_of execute services = Some m" and "listener_valid names lc"
    and "new_listener (tcp_services_of services) m lc = Some l"
  shows "config_of l = lc \<and> protocol_of l = lc_protocol lc \<and> serves execute services l"
proof -
  have tcp: "tcp_named services (tps_name s) \<and> lc_services lc = [tps_name s]"
    if t: "tcp_service_for (tcp_services_of services) lc = Some s" and p: "lc_protocol lc \<in> {Tcp, TcpAndTls}" for s
  proof -
    obtain n where n: "lc_services lc = [n]"
      using assms(2) p by (auto simp: listener_valid_def length_Suc_conv)
    then have "map_of (tcp_services_of services) n = Some s" using t by (simp add: tcp_service_for_def)
    then show ?thesis
      using n tcp_services_Some [of services n s] tcp_services_None [of services n] by auto
  qed
  have http: "list_all2 (service_named execute services) (lc_services lc) ss"
    if "all_or_panic (map (map_of m) (lc_services lc)) = Some ss" for ss
    using that http_services_Some [OF assms(1)]
    by (auto simp: all_or_panic_Some list_all2_conv_all_nth list_eq_iff_nth_eq)
  show ?thesis
    using assms(3) tcp http by (cases "lc_protocol lc") (auto simp: new_listener_def)
qed

lemma start_listeners_started:
  assumes "\<forall>lc \<in> set lcs. is_ok (bind lc) \<and> new lc \<noteq> None"
  shows "start_listeners new bind lcs = (Started, map (\<lambda>lc. the (new lc)) lcs)"
  using assms
proof (induction lcs)
  case (Cons lc lcs)
  then obtain u l where "bind lc = Inr u" "new lc = Some l" by (auto simp: is_ok_iff)
  with Cons show ?case by simp
qed simp

lemma make_parts_services:
  "make_parts env execute config = Some (Inr parts) \<Longrightarrow>
     sp_tcp_services parts = tcp_services_of (cfg_services config)
     \<and> http_services_of execute (cfg_services config) = Some (sp_http_services parts)"
  by (auto simp: make_parts_def and_then_Inr_iff split: sum.splits option.splits)

text \<open>C21: when the parts of the server are made and its sockets bind, a valid configuration whose listeners
  name services of their kind is running in full: one listener for each configured one, in order, with
  its protocol, that serves exactly the services it names, each built from its configuration.\<close>

theorem server_runs_configuration:
  assumes "config_valid config" and "make_parts env execute config = Some (Inr parts)"
    and "\<forall>lc \<in> set (cfg_listeners config). protocol_fits (cfg_services config) lc
      \<and> is_ok (fst (bind_tcp_socket (sv_socket_works env lc) (lc_address lc) (lc_name lc)))"
  shows "\<exists>ls. server_run env execute config = (Started, ls)
    \<and> list_all2 (\<lambda>lc l. config_of l = lc \<and> protocol_of l = lc_protocol lc \<and> serves execute (cfg_services config) l)
        (cfg_listeners config) ls"
proof -
  let ?new = "new_listener (sp_tcp_services parts) (sp_http_services parts)"
  have services: "sp_tcp_services parts = tcp_services_of (cfg_services config)"
    "http_services_of execute (cfg_services config) = Some (sp_http_services parts)"
    using make_parts_services [OF assms(2)] by simp_all
  have valid: "\<exists>names. listener_valid names lc" if "lc \<in> set (cfg_listeners config)" for lc
    using assms(1) that by (auto simp: config_valid_def listeners_valid_def)
  have made: "?new lc \<noteq> None" if "lc \<in> set (cfg_listeners config)" for lc
    using valid [OF that] new_listener_None [OF services(2)] assms(3) that unfolding services(1) by blast
  have run: "server_run env execute config = (Started, map (\<lambda>lc. the (?new lc)) (cfg_listeners config))"
    unfolding server_run_def assms(2) using assms(3) made by (simp add: start_listeners_started)
  have "config_of (the (?new lc)) = lc \<and> protocol_of (the (?new lc)) = lc_protocol lc
      \<and> serves execute (cfg_services config) (the (?new lc))" if lc: "lc \<in> set (cfg_listeners config)" for lc
  proof -
    obtain names l where "listener_valid names lc" "?new lc = Some l" using valid [OF lc] made [OF lc] by blast
    then show ?thesis using new_listener_serves [OF services(2)] unfolding services(1) by simp
  qed
  with run show ?thesis by (auto simp: list_all2_conv_all_nth)
qed

text \<open>The handlers of the HTTP listeners of a running server are assembled.\<close>

lemma served_assembled:
  assumes "list_all2 (service_named execute services) names ss" and "li_execute lib = execute"
  shows "assembled (handler_of lib config parts lc ss)"
  unfolding assembled_def
proof
  fix s assume "s \<in> set (li_services (handler_of lib config parts lc ss))"
  then obtain i where "i < length ss" "s = ss ! i" by (auto simp: handler_of_def in_set_conv_nth)
  then have "service_named execute services (names ! i) s" using assms(1) by (simp add: list_all2_conv_all_nth)
  then show "\<exists>sc. new_http_service (li_execute (handler_of lib config parts lc ss)) sc = Some s"
    using assms(2) by (auto simp: service_named_def handler_of_def)
qed

text \<open>A server with one HTTP listener for one proxy.\<close>

definition demo_server_config :: "unit config" where
  "demo_server_config =
     (demo_mixed_config Http)\<lparr>cfg_services := [demo_web],
        cfg_listeners := [\<lparr>lc_name = ''web'', lc_address = SocketAddr ipv4_localhost 80, lc_protocol = Http, lc_services = [''api'']\<rparr>]\<rparr>"

definition demo_server_env :: "(unit, bytes, ec_curve \<times> bytes, nat, string, unit) server_env" where
  "demo_server_env =
     \<lparr>sv_docker_socket = Inl NotFound, sv_geoip_exists = (\<lambda>_. Inr False), sv_geoip_read = (\<lambda>_. Inl ()),
      sv_zstd_decode = (\<lambda>_. Inl ()), sv_mmdb = (\<lambda>_. Inl ()), sv_crypto = demo_crypto, sv_keys = demo_keys_env,
      sv_lists = demo_list_env, sv_tls = demo_tls_env, sv_acme_account = no_account, sv_socket_works = (\<lambda>_ _. True)\<rparr>"

lemma demo_server_parts: "\<exists>parts. make_parts demo_server_env (\<lambda>_ _. IsBool True) demo_server_config = Some (Inr parts)"
proof -
  obtain cm where cm: "captcha_manager_new demo_crypto demo_keys_env = Inr cm"
    using manager_keys_good_witness by blast
  obtain tm where tm: "tls_manager_new demo_tls_env no_account \<lparr>tls_acme = None\<rparr> = Some (Inr tm)"
    using demo_tls_manager by blast
  show ?thesis
    by (simp add: make_parts_def demo_server_env_def demo_server_config_def demo_mixed_config_def docker_discoverer_new_def
        geoip_load_def geoip_database_paths_def load_lists_def http_services_eq cm tm)
qed

theorem server_runs_configuration_witness:
  "\<exists>ls. server_run demo_server_env (\<lambda>_ _. IsBool True) demo_server_config = (Started, ls) \<and> length ls = 1"
proof -
  have valid: "config_valid demo_server_config"
    by (simp add: config_valid_def demo_server_config_def demo_mixed_config_def demo_web_def listeners_valid_def
        listener_valid_def service_valid_def service_kinds_def service_upstreams_def acme_valid_def count_true_def)
  obtain parts where parts: "make_parts demo_server_env (\<lambda>_ _. IsBool True) demo_server_config = Some (Inr parts)"
    using demo_server_parts by blast
  have "\<forall>lc \<in> set (cfg_listeners demo_server_config). protocol_fits (cfg_services demo_server_config) lc
      \<and> is_ok (fst (bind_tcp_socket (sv_socket_works demo_server_env lc) (lc_address lc) (lc_name lc)))"
    by (simp add: demo_server_config_def protocol_fits_def http_named_def demo_web_def demo_server_env_def
        bind_tcp_socket_def bind_calls_def)
  from server_runs_configuration [OF valid parts this] show ?thesis
    by (auto dest!: list_all2_lengthD simp: demo_server_config_def)
qed

end
