(* ===== verification/Running_Server.thy ===== *)
theory Running_Server
  imports Interleaving Server_Spec Acme
begin

text \<open>
  The server after its start (\<^verbatim>\<open>pingoo/server.rs\<close>): the tasks it has spawned share the
  registry, the GeoIP database, the limiters, the caches of the static sites and the certificates.
  The handler of \<^verbatim>\<open>pingoo/listeners/http_listener.rs\<close> is cut into the phases between
  which other tasks may act: a request is received and judged, the actions of the rules that match it are
  done one at a time, and it is answered. The steps of all requests, refreshes of the registry and rounds
  of renewals come in any order. The handler as one function is a run of these steps, and what holds in
  every state that is reached is proved here.
\<close>

section \<open>The phases of a request\<close>

text \<open>Whether the captcha is proven, or the answer to a cookie that does not validate.\<close>

definition cookie_decision ::
  "('prog, 'lists, 'mmdb, 'ed, 'ec, 'io, 'st) listener \<Rightarrow> 'io moment \<Rightarrow> string \<Rightarrow> cookie list \<Rightarrow> response option + bool" where
  "cookie_decision li mo client_id cookies =
     (case List.find (\<lambda>c. ck_name c = captcha_verified_cookie_name) cookies of
        None \<Rightarrow> Inr False
      | Some c \<Rightarrow>
          (case validate_captcha_verified_cookie (li_captcha_env li) (li_captcha_manager li) (ck_value c) client_id
                  (mo_now1 mo) (mo_now2 mo) of
             None \<Rightarrow> Inl None
           | Some (Inr _) \<Rightarrow> Inr True
           | Some (Inl _) \<Rightarrow> Inl (serve_captcha (li_captcha_env li))))"

text \<open>
  Receiving: up to the rules. The result is the answer, when there is one before the rules, or the
  request with its context, its user agent and whether the captcha is proven.
\<close>

definition receive_request ::
  "('prog, 'lists, 'mmdb, 'ed, 'ec, 'io, 'st) listener \<Rightarrow> 'io moment \<Rightarrow> socket_addr \<Rightarrow> request \<Rightarrow>
     ('mmdb, 'st) listener_state \<Rightarrow> (response option + request \<times> request_context \<times> string \<times> bool) \<times> ('mmdb, 'st) listener_state" where
  "receive_request li mo client_socket_addr req st =
     (let he = cpe_headers (li_captcha_env li);
          (geoip_record, geoip) = lookup_client (li_mmdb_lookup li) (mo_evict mo) (sa_ip client_socket_addr) (ls_geoip st);
          st = st\<lparr>ls_geoip := geoip\<rparr>;
          user_agent = get_user_agent he req
      in case generate_captcha_client_id (li_captcha_env li) (sa_ip client_socket_addr) user_agent (get_host he req) of
           None \<Rightarrow> (Inl None, st)
         | Some client_id \<Rightarrow>
             (let cookies = parsed_cookies he (li_parse_cookies li) req;
                  ctx = request_context_of li client_socket_addr req geoip_record (geoip \<noteq> None);
                  req = req\<lparr>rq_context := Some ctx\<rparr>
              in if user_agent_refused user_agent then (Inl (Some new_blocked_response), st)
                 else if starts_with (get_path req) ''/__pingoo/captcha''
                 then (Inl (serve_captcha_request (li_captcha_env li) (li_captcha_manager li) req cookies client_id
                         (mo_challenge mo) (mo_now1 mo) (mo_now2 mo) (mo_now3 mo) (mo_jti mo)), st)
                 else (case cookie_decision li mo client_id cookies of
                         Inl res \<Rightarrow> (Inl res, st)
                       | Inr captcha_verified \<Rightarrow> (Inr (req, ctx, user_agent, captcha_verified), st))))"

text \<open>What the rules that match give the request to do.\<close>

definition request_items ::
  "('prog, 'lists, 'mmdb, 'ed, 'ec, 'io, 'st) listener \<Rightarrow> 'lists rules_context \<Rightarrow> item list" where
  "request_items li rules_ctx = agenda (\<lambda>rule. match_rule (li_execute li) rule rules_ctx) (li_rules li)"

text \<open>Answering: after the rules.\<close>

fun answer_request ::
  "('prog, 'lists, 'mmdb, 'ed, 'ec, 'io, 'st) listener \<Rightarrow> 'io \<Rightarrow> request \<Rightarrow> 'lists rules_context \<Rightarrow> verdict \<Rightarrow> 'st \<Rightarrow>
     response option \<times> 'st" where
  "answer_request li io req rules_ctx (Answer res) services = (Some res, services)"
| "answer_request li io req rules_ctx ShowCaptcha services = (serve_captcha (li_captcha_env li), services)"
| "answer_request li io req rules_ctx Continue services = dispatch (li_services li) rules_ctx io req services"

lemma listener_state_same: "st\<lparr>ls_limiters := ls, ls_services := ls_services st\<rparr> = st\<lparr>ls_limiters := ls\<rparr>"
  by (cases st) simp

lemma rules_and_services_phases:
  "rules_and_services li mo req ctx ua v st =
     (let rules_ctx = rules_context_of li req ctx ua;
          (w, ls) = apply_rules (li_alloc li) (sa_ip (ctx_client_address ctx)) v
             (\<lambda>rule. match_rule (li_execute li) rule rules_ctx) (mo_limit mo) (li_rules li) 0 (ls_limiters st);
          (res, services) = answer_request li (mo_io mo) req rules_ctx w (ls_services st)
      in (res, st\<lparr>ls_limiters := ls, ls_services := services\<rparr>))"
  by (auto simp: rules_and_services_def Let_def listener_state_same split: prod.split verdict.split)

text \<open>The handler is the three phases in a row.\<close>

lemma serve_http_request_phases:
  "serve_http_request li mo client req st =
     (case receive_request li mo client req st of
        (Inl res, st) \<Rightarrow> (res, st)
      | (Inr (req, ctx, ua, v), st) \<Rightarrow> rules_and_services li mo req ctx ua v st)"
proof -
  have path: "get_path (req\<lparr>rq_context := c\<rparr>) = get_path req" for c by (simp add: get_path_def)
  show ?thesis
    unfolding serve_http_request_def receive_request_def check_cookie_then_rules_def cookie_decision_def Let_def path
    by (auto split: prod.split option.split sum.split)
qed

section \<open>The running server\<close>

text \<open>What does not change: the libraries, the configuration, the parts and the running listeners.\<close>

record ('prog, 'net, 'mmdb, 'ed, 'ec, 'key, 'acme) deployment =
  dp_libraries :: "('prog, (string \<times> 'net items) list, 'mmdb, 'ed, 'ec, service_io, service_state) listener"
  dp_config :: "'prog config"
  dp_parts :: "('mmdb, 'ed, 'ec, 'net, 'key, 'acme) server_parts"
  dp_listeners :: "(string \<times> 'net items) list server_listener list"

text \<open>A request that has reached the rules; \<open>rt_answer\<close> is what it was answered with, when it was.\<close>

record ('prog, 'lists, 'mmdb, 'ed, 'ec) request_task =
  rt_listener :: "('prog, 'lists, 'mmdb, 'ed, 'ec, service_io, service_state) listener"
  rt_request :: request
  rt_context :: request_context
  rt_rules_context :: "'lists rules_context"
  rt_rules :: task
  rt_answer :: "response option option"

text \<open>The state the tasks share, and the tasks.\<close>

record ('prog, 'lists, 'mmdb, 'ed, 'ec, 'key) running =
  rn_registry :: service_registry
  rn_handlers :: "('mmdb, service_state) listener_state"
  rn_tasks :: "('prog, 'lists, 'mmdb, 'ed, 'ec) request_task list"
  rn_certificates :: "(string \<times> 'key certificate) list"
  rn_challenges :: challenges

definition server_starts ::
  "('prog, 'net, 'mmdb, 'ed, 'ec, 'key, 'acme) deployment \<Rightarrow> instant \<Rightarrow> instant \<Rightarrow>
     ('prog, (string \<times> 'net items) list, 'mmdb, 'ed, 'ec, 'key) running" where
  "server_starts d now later =
     \<lparr>rn_registry = sp_registry (dp_parts d),
      rn_handlers = initial_state (li_alloc (dp_libraries d)) now later (dp_config d) (dp_parts d),
      rn_tasks = [],
      rn_certificates = tm_certificates (sp_tls (dp_parts d)),
      rn_challenges = []\<rparr>"

text \<open>The handlers of the HTTP and HTTPS listeners.\<close>

fun http_handler ::
  "('prog, 'net, 'mmdb, 'ed, 'ec, 'key, 'acme) deployment \<Rightarrow> (string \<times> 'net items) list server_listener \<Rightarrow>
     ('prog, (string \<times> 'net items) list, 'mmdb, 'ed, 'ec, service_io, service_state) listener option" where
  "http_handler d (HttpListener lc ss) = Some (handler_of (dp_libraries d) (dp_config d) (dp_parts d) lc ss)"
| "http_handler d (HttpsListener lc ss) = Some (handler_of (dp_libraries d) (dp_config d) (dp_parts d) lc ss)"
| "http_handler d _ = None"

definition handlers ::
  "('prog, 'net, 'mmdb, 'ed, 'ec, 'key, 'acme) deployment \<Rightarrow>
     ('prog, (string \<times> 'net items) list, 'mmdb, 'ed, 'ec, service_io, service_state) listener set" where
  "handlers d = {li. \<exists>l \<in> set (dp_listeners d). http_handler d l = Some li}"

definition acme_domains_of :: "'prog config \<Rightarrow> string list" where
  "acme_domains_of config = (case tls_acme (cfg_tls config) of None \<Rightarrow> [] | Some acme \<Rightarrow> acme_domains acme)"

text \<open>A request that goes on to the rules becomes a task.\<close>

definition new_task ::
  "('prog, 'lists, 'mmdb, 'ed, 'ec, service_io, service_state) listener \<Rightarrow> request \<Rightarrow> request_context \<Rightarrow> string \<Rightarrow> bool \<Rightarrow>
     ('prog, 'lists, 'mmdb, 'ed, 'ec) request_task" where
  "new_task li req ctx ua v =
     (let rules_ctx = rules_context_of li req ctx ua
      in \<lparr>rt_listener = li, rt_request = req, rt_context = ctx, rt_rules_context = rules_ctx,
          rt_rules = Running (sa_ip (ctx_client_address ctx)) v [] (request_items li rules_ctx), rt_answer = None\<rparr>)"

text \<open>
  A step, with the event it is: a request of a client comes in and is answered before the rules, or
  becomes a task; a task does its next action; a task is answered, with the registry of that moment; the
  registry is refreshed; a round of renewals. The events of answers carry the response, or None for a
  panic.
\<close>

datatype server_event =
  Refused socket_addr request "response option"
| Rules task_event
| Answered nat "response option"
| Refresh
| Renewal

inductive server_step ::
  "('prog, 'net, 'mmdb, 'ed, 'ec, 'key, 'acme) deployment \<Rightarrow> server_event \<Rightarrow>
     ('prog, (string \<times> 'net items) list, 'mmdb, 'ed, 'ec, 'key) running \<Rightarrow>
     ('prog, (string \<times> 'net items) list, 'mmdb, 'ed, 'ec, 'key) running \<Rightarrow> bool" for d where
  refused: "li \<in> handlers d \<Longrightarrow> evicts (mo_evict mo) \<Longrightarrow>
     receive_request li mo client req (rn_handlers s) = (Inl res, st) \<Longrightarrow>
     server_step d (Refused client req res) s (s\<lparr>rn_handlers := st\<rparr>)"
| received: "li \<in> handlers d \<Longrightarrow> evicts (mo_evict mo) \<Longrightarrow>
     receive_request li mo client req (rn_handlers s) = (Inr (req', ctx, ua, v), st) \<Longrightarrow> t = new_task li req' ctx ua v \<Longrightarrow>
     server_step d (Rules (Start (sa_ip (ctx_client_address ctx)) v (request_items li (rt_rules_context t)))) s
       (s\<lparr>rn_handlers := st, rn_tasks := rn_tasks s @ [t]\<rparr>)"
| acts: "n < length (rn_tasks s) \<Longrightarrow>
     task_step (li_alloc (dp_libraries d)) clock (rt_rules (rn_tasks s ! n)) (ls_limiters (rn_handlers s)) = (t, ls) \<Longrightarrow>
     server_step d (Rules (Advance n clock)) s
       (s\<lparr>rn_handlers := (rn_handlers s)\<lparr>ls_limiters := ls\<rparr>, rn_tasks := (rn_tasks s)[n := (rn_tasks s ! n)\<lparr>rt_rules := t\<rparr>]\<rparr>)"
| answered: "n < length (rn_tasks s) \<Longrightarrow> rn_tasks s ! n = t \<Longrightarrow> rt_rules t = Finished ip items w \<Longrightarrow> rt_answer t = None \<Longrightarrow>
     si_registry io = rn_registry s \<Longrightarrow>
     answer_request (rt_listener t) io (rt_request t) (rt_rules_context t) w (ls_services (rn_handlers s)) = (res, services) \<Longrightarrow>
     server_step d (Answered n res) s
       (s\<lparr>rn_handlers := (rn_handlers s)\<lparr>ls_services := services\<rparr>, rn_tasks := (rn_tasks s)[n := t\<lparr>rt_answer := Some res\<rparr>]\<rparr>)"
| refresh: "server_step d Refresh s (s\<lparr>rn_registry := discover results (rn_registry s)\<rparr>)"
| renewal: "distinct tasks \<Longrightarrow>
     set tasks = set (domains_to_order (rn_certificates s) (acme_domains_of (dp_config d)) now) \<Longrightarrow>
     run_tasks env oe writes tasks (rn_certificates s, rn_challenges s) = (certificates, challenges) \<Longrightarrow>
     server_step d Renewal s (s\<lparr>rn_certificates := certificates, rn_challenges := challenges\<rparr>)"

inductive server_runs ::
  "('prog, 'net, 'mmdb, 'ed, 'ec, 'key, 'acme) deployment \<Rightarrow> server_event list \<Rightarrow>
     ('prog, (string \<times> 'net items) list, 'mmdb, 'ed, 'ec, 'key) running \<Rightarrow>
     ('prog, (string \<times> 'net items) list, 'mmdb, 'ed, 'ec, 'key) running \<Rightarrow> bool" for d where
  rest: "server_runs d [] s s"
| step: "server_step d e s s' \<Longrightarrow> server_runs d es s' s'' \<Longrightarrow> server_runs d (e # es) s s''"

definition server_reachable ::
  "('prog, 'net, 'mmdb, 'ed, 'ec, 'key, 'acme) deployment \<Rightarrow>
     ('prog, (string \<times> 'net items) list, 'mmdb, 'ed, 'ec, 'key) running \<Rightarrow> bool" where
  "server_reachable d s \<longleftrightarrow> (\<exists>now later es. server_runs d es (server_starts d now later) s)"

lemma server_runs_append: "server_runs d es s s' \<Longrightarrow> server_runs d es' s' s'' \<Longrightarrow> server_runs d (es @ es') s s''"
  by (induction rule: server_runs.induct) (auto intro: server_runs.intros)

lemma server_reachable_run: "server_reachable d s \<Longrightarrow> server_runs d es s s' \<Longrightarrow> server_reachable d s'"
  unfolding server_reachable_def using server_runs_append by blast

lemma server_run_induct [consumes 1, case_names rest step]:
  assumes "server_runs d es s s'" and "P s" and "\<And>e s s'. server_step d e s s' \<Longrightarrow> P s \<Longrightarrow> P s'"
  shows "P s'"
  using assms by (induction rule: server_runs.induct) blast+

section \<open>The rule phases of a run are a run of the interleaved system\<close>

definition rule_phase :: "('prog, 'lists, 'mmdb, 'ed, 'ec, 'key) running \<Rightarrow> task list \<times> limiters" where
  "rule_phase s = (map rt_rules (rn_tasks s), ls_limiters (rn_handlers s))"

fun rule_event :: "server_event \<Rightarrow> task_event option" where
  "rule_event (Rules e) = Some e"
| "rule_event _ = None"

lemma receive_limiters: "ls_limiters (snd (receive_request li mo client req st)) = ls_limiters st"
  by (auto simp: receive_request_def Let_def split: prod.split option.split sum.split)

lemma step_interleaves:
  assumes "server_step d e s s'"
  shows "case rule_event e of None \<Rightarrow> rule_phase s' = rule_phase s
    | Some e \<Rightarrow> interleaved (li_alloc (dp_libraries d)) e (rule_phase s) (rule_phase s')"
  using assms
proof (induction rule: server_step.induct)
  case (refused li mo client req s res st)
  then show ?case using receive_limiters [of li mo client req "rn_handlers s"] by (simp add: rule_phase_def)
next
  case (received li mo client req s req' ctx ua v st t)
  then show ?case
    using receive_limiters [of li mo client req "rn_handlers s"] by (auto simp: rule_phase_def new_task_def Let_def)
next
  case (acts n s clock t ls)
  then show ?case
    using interleaved.advance [of n "map rt_rules (rn_tasks s)" "li_alloc (dp_libraries d)" clock "ls_limiters (rn_handlers s)" t ls]
    by (simp add: rule_phase_def map_update)
next
  case (answered n s t ip items w io res services)
  then have "(map rt_rules (rn_tasks s))[n := rt_rules t] = map rt_rules (rn_tasks s)"
    by (metis list_update_id nth_map)
  then show ?case by (simp add: rule_phase_def map_update)
qed (simp_all add: rule_phase_def)

lemma run_interleaves:
  "server_runs d es s s' \<Longrightarrow> runs (li_alloc (dp_libraries d)) (List.map_filter rule_event es) (rule_phase s) (rule_phase s')"
proof (induction rule: server_runs.induct)
  case (step e s s' es s'')
  from step_interleaves [OF step(1)] step(3) show ?case by (cases "rule_event e") (auto simp: List.map_filter_def)
qed (simp add: List.map_filter_def)

section \<open>What steps keep of the shared state\<close>

text \<open>A limiter that runs with its configuration.\<close>

definition limiter_runs :: "(nat \<Rightarrow> nat) \<Rightarrow> rate_limit \<Rightarrow> ip_addr rate_limiter \<Rightarrow> bool" where
  "limiter_runs alloc cfg rl \<longleftrightarrow>
     limiter_reachable alloc rl \<and> period_ok (unat (rlim_window cfg)) rl
     \<and> rl_limit rl = (if rlim_max cfg = - 1 then - 2 else rlim_max cfg)"

definition limiters_run :: "(nat \<Rightarrow> nat) \<Rightarrow> rate_limit list \<Rightarrow> ip_addr rate_limiter option list \<Rightarrow> bool" where
  "limiters_run alloc cfgs ls \<longleftrightarrow> list_all2 (\<lambda>cfg l. \<exists>rl. l = Some rl \<and> limiter_runs alloc cfg rl) cfgs ls"

lemma can_resume_limit: "can_resume alloc ip now later rl = Some (rl', r) \<Longrightarrow> rl_limit rl' = rl_limit rl"
  by (auto simp: can_resume_def Let_def rollover_def split: if_splits sum.splits prod.splits)

lemma limiter_runs_new:
  "limiter_runs alloc cfg
     (rate_limiter_new alloc (rlim_max cfg) (from_secs (unat (rlim_window cfg))) (rlim_capacity cfg) now later)"
proof -
  have "unat (rlim_window cfg) < 65536" using unsigned_less [of "rlim_window cfg"] by simp
  then show ?thesis
    using limiter_reachable.start [of alloc "rlim_max cfg" "from_secs (unat (rlim_window cfg))" "rlim_capacity cfg" now later]
    by (auto simp: limiter_runs_def period_ok_def) (auto simp: rate_limiter_new_def Let_def)
qed

lemma limiter_runs_can_resume:
  assumes "limiter_runs alloc cfg rl"
  shows "\<exists>rl' r. can_resume alloc ip now later rl = Some (rl', r) \<and> limiter_runs alloc cfg rl'"
proof -
  have "period_ok (unat (rlim_window cfg)) rl" using assms by (simp add: limiter_runs_def)
  from can_resume_Some [OF this] obtain rl' r where
    "can_resume alloc ip now later rl = Some (rl', r)" "period_ok (unat (rlim_window cfg)) rl'" by blast
  then show ?thesis
    using assms by (auto simp: limiter_runs_def can_resume_limit intro: limiter_reachable.request)
qed

lemma probe_limiters_run:
  assumes "limiters_run alloc cfgs ls" and "probe_limiter alloc i ip clock ls = (res, ls')"
  shows "limiters_run alloc cfgs ls'"
    and "i < length cfgs \<Longrightarrow> res = None \<or> res = Some new_too_many_requests_response_429 \<or> res = Some new_service_unavailable_error_503"
proof -
  have len: "length ls = length cfgs" using assms(1) by (simp add: limiters_run_def list_all2_lengthD)
  have "limiters_run alloc cfgs ls'
    \<and> (i < length cfgs \<longrightarrow> res \<in> {None, Some new_too_many_requests_response_429, Some new_service_unavailable_error_503})"
  proof (cases "i < length cfgs")
    case True
    then obtain rl where rl: "ls ! i = Some rl" "limiter_runs alloc (cfgs ! i) rl"
      using assms(1) by (auto simp: limiters_run_def list_all2_conv_all_nth)
    from limiter_runs_can_resume [OF rl(2)] obtain rl' r where
      step: "can_resume alloc ip (fst clock) (snd clock) rl = Some (rl', r)" "limiter_runs alloc (cfgs ! i) rl'" by blast
    have "ls' = ls[i := Some rl']" and res: "res = limit_http_request True (Some r)"
      using assms(2) True rl step by (auto simp: probe_limiter_def len)
    then have "limiters_run alloc cfgs ls'"
      using assms(1) step(2) True by (auto simp: limiters_run_def list_all2_conv_all_nth nth_list_update)
    then show ?thesis unfolding res by (cases r) (auto simp: limit_http_request_def)
  next
    case False
    then show ?thesis using assms by (auto simp: probe_limiter_def len)
  qed
  then show "limiters_run alloc cfgs ls'"
    and "i < length cfgs \<Longrightarrow> res = None \<or> res = Some new_too_many_requests_response_429 \<or> res = Some new_service_unavailable_error_503"
    by blast+
qed

text \<open>
  A task only probes limiters there are, and the rules answer with one of three responses: blocked, too
  many requests, or unavailable.
\<close>

definition rule_answers :: "response set" where
  "rule_answers = {new_blocked_response, new_too_many_requests_response_429, new_service_unavailable_error_503}"

fun task_sound :: "nat \<Rightarrow> task \<Rightarrow> bool" where
  "task_sound n (Running ip v past todo) = (\<forall>i. limited i todo \<longrightarrow> i < n)"
| "task_sound n (Finished ip items w) = (\<forall>res. w = Answer res \<longrightarrow> res \<in> rule_answers)"

lemma task_step_sound:
  assumes "limiters_run alloc cfgs ls" and "task_sound (length cfgs) t" and "task_step alloc clock t ls = (t', ls')"
  shows "limiters_run alloc cfgs ls' \<and> task_sound (length cfgs) t'"
proof (cases t)
  case (Running ip v past todo)
  show ?thesis
  proof (cases todo)
    case (Cons x rest)
    obtain act tx where x: "x = (act, tx)" by fastforce
    show ?thesis
    proof (cases "act = Limit \<and> tx \<noteq> None")
      case True
      then obtain i where i: "act = Limit" "tx = Some i" by blast
      obtain r ls1 where p: "probe_limiter alloc i ip clock ls = (r, ls1)" by fastforce
      have "i < length cfgs" using assms(2) by (simp add: Running Cons x i limited_def)
      then have "limiters_run alloc cfgs ls1" "r = None \<or> r = Some new_too_many_requests_response_429 \<or> r = Some new_service_unavailable_error_503"
        using probe_limiters_run [OF assms(1) p] by blast+
      then show ?thesis
        using assms(2,3) by (auto simp: Running Cons x i p limited_def rule_answers_def)
    next
      case False
      then show ?thesis
        using assms by (cases act; cases tx) (auto simp: Running Cons x limited_def rule_answers_def split: if_splits)
    qed
  qed (use assms Running in auto)
qed (use assms in auto)

section \<open>What holds in every state\<close>

text \<open>A deployment is what the start of the server has made of a configuration that is valid, as every loaded one is.\<close>

definition deployed ::
  "('mmdb, 'ed, 'ec, 'net, 'key, 'acme) server_env \<Rightarrow> ('prog, 'net, 'mmdb, 'ed, 'ec, 'key, 'acme) deployment \<Rightarrow> bool" where
  "deployed env d \<longleftrightarrow>
     config_valid (dp_config d)
     \<and> make_parts env (li_execute (dp_libraries d)) (dp_config d) = Some (Inr (dp_parts d))
     \<and> server_run env (li_execute (dp_libraries d)) (dp_config d) = (Started, dp_listeners d)"

text \<open>The database is the one of the start, and its cache holds its answers only.\<close>

definition geoip_runs ::
  "('mmdb \<Rightarrow> ip_addr \<Rightarrow> mmdb_error + geoip_record) \<Rightarrow> 'mmdb geoip_db option \<Rightarrow> 'mmdb geoip_db option \<Rightarrow> bool" where
  "geoip_runs mmdb_lookup loaded g \<longleftrightarrow>
     rel_option (\<lambda>db0 db. gd_mmdb db = gd_mmdb db0 \<and> cache_ok mmdb_lookup db) loaded g"

text \<open>What the database file says of an address, without any cache.\<close>

definition database_record ::
  "('mmdb \<Rightarrow> ip_addr \<Rightarrow> mmdb_error + geoip_record) \<Rightarrow> 'mmdb geoip_db option \<Rightarrow> ip_addr \<Rightarrow> geoip_record" where
  "database_record mmdb_lookup loaded ip =
     (case loaded of
        None \<Rightarrow> geoip_record_default
      | Some db \<Rightarrow> (case lookup_uncached mmdb_lookup (gd_mmdb db) ip of Inr r \<Rightarrow> r | Inl _ \<Rightarrow> geoip_record_default))"

definition request_sound ::
  "('prog, 'net, 'mmdb, 'ed, 'ec, 'key, 'acme) deployment \<Rightarrow>
     ('prog, (string \<times> 'net items) list, 'mmdb, 'ed, 'ec) request_task \<Rightarrow> bool" where
  "request_sound d t \<longleftrightarrow>
     rt_listener t \<in> handlers d
     \<and> rq_context (rt_request t) = Some (rt_context t)
     \<and> task_sound (length (cfg_limiter_workers (dp_config d))) (rt_rules t)
     \<and> \<lparr>gr_asn = ctx_asn (rt_context t), gr_country = ctx_country (rt_context t)\<rparr>
         = database_record (li_mmdb_lookup (dp_libraries d)) (sp_geoip (dp_parts d)) (sa_ip (ctx_client_address (rt_context t)))"

definition running_ok ::
  "('prog, 'net, 'mmdb, 'ed, 'ec, 'key, 'acme) deployment \<Rightarrow>
     ('prog, (string \<times> 'net items) list, 'mmdb, 'ed, 'ec, 'key) running \<Rightarrow> bool" where
  "running_ok d s \<longleftrightarrow>
     (\<exists>views. rn_registry s = run_ticks views (service_registry_new (cfg_services (dp_config d))))
     \<and> limiters_run (li_alloc (dp_libraries d)) (cfg_limiter_workers (dp_config d)) (ls_limiters (rn_handlers s))
     \<and> geoip_runs (li_mmdb_lookup (dp_libraries d)) (sp_geoip (dp_parts d)) (ls_geoip (rn_handlers s))
     \<and> (\<forall>t \<in> set (rn_tasks s). request_sound d t)
     \<and> dom (map_of (tm_certificates (sp_tls (dp_parts d)))) \<subseteq> dom (map_of (rn_certificates s))
     \<and> dom (map_of (rn_challenges s)) \<subseteq> set (acme_domains_of (dp_config d))"

lemma geoip_load_fresh: "geoip_load te rd zs src = Inr g \<Longrightarrow> geoip_runs f g g"
  by (auto simp: geoip_load_def geoip_runs_def cache_ok_def split: sum.splits option.splits prod.splits)

lemma make_parts_fields:
  "make_parts env execute config = Some (Inr parts) \<Longrightarrow>
     sp_registry parts = service_registry_new (cfg_services config)
     \<and> geoip_load (sv_geoip_exists env) (sv_geoip_read env) (sv_zstd_decode env) (sv_mmdb env) = Inr (sp_geoip parts)"
  by (auto simp: make_parts_def and_then_Inr_iff split: sum.splits option.splits)

lemma lookup_client_runs:
  assumes "geoip_runs f loaded g" and "evicts evict"
  shows "geoip_runs f loaded (snd (lookup_client f evict ip g))"
    and "fst (lookup_client f evict ip g)
      = database_record f loaded ip"
proof -
  have "geoip_runs f loaded (snd (lookup_client f evict ip g)) \<and> fst (lookup_client f evict ip g)
      = database_record f loaded ip"
  proof (cases g)
    case None
    then show ?thesis using assms(1) by (cases loaded) (auto simp: lookup_client_def geoip_runs_def database_record_def)
  next
    case (Some db)
    then obtain db0 where "loaded = Some db0" "gd_mmdb db = gd_mmdb db0" "cache_ok f db"
      using assms(1) by (auto simp: geoip_runs_def elim: option.rel_cases)
    then show ?thesis
      using geoip_lookup_step [of f db evict ip] assms(2)
      by (auto simp: lookup_client_def geoip_runs_def database_record_def Some split: prod.splits)
  qed
  then show "geoip_runs f loaded (snd (lookup_client f evict ip g))"
    and "fst (lookup_client f evict ip g)
      = database_record f loaded ip"
    by blast+
qed

lemma handlers_share:
  "li \<in> handlers d \<Longrightarrow>
     li_alloc li = li_alloc (dp_libraries d) \<and> li_mmdb_lookup li = li_mmdb_lookup (dp_libraries d)
     \<and> li_rules li = cfg_rules (dp_config d)"
  by (auto simp: handlers_def handler_of_def elim!: http_handler.elims)

lemma receive_geoip:
  "ls_geoip (snd (receive_request li mo client req st))
     = snd (lookup_client (li_mmdb_lookup li) (mo_evict mo) (sa_ip client) (ls_geoip st))"
  by (auto simp: receive_request_def Let_def split: prod.split option.split sum.split)

lemma receive_context:
  "receive_request li mo client req st = (Inr (req', ctx, ua, v), st') \<Longrightarrow>
     ctx_client_address ctx = client \<and> req' = req\<lparr>rq_context := Some ctx\<rparr>
     \<and> \<lparr>gr_asn = ctx_asn ctx, gr_country = ctx_country ctx\<rparr>
         = fst (lookup_client (li_mmdb_lookup li) (mo_evict mo) (sa_ip client) (ls_geoip st))"
  by (auto simp: receive_request_def Let_def request_context_of_def split: prod.splits option.splits sum.splits if_splits)

lemma running_ok_starts:
  assumes "deployed env d"
  shows "running_ok d (server_starts d now later)"
  using make_parts_fields [of env "li_execute (dp_libraries d)" "dp_config d" "dp_parts d"] assms
  by (auto simp: running_ok_def geoip_load_fresh server_starts_def initial_state_def deployed_def limiters_run_def run_ticks_def
      list_all2_conv_all_nth limiter_runs_new intro!: exI [of _ "[]"])

lemma run_tasks_domains:
  assumes "distinct tasks"
    and "run_tasks env oe writes tasks (certificates, challenges) = (certificates', challenges')"
  shows "dom (map_of certificates) \<subseteq> dom (map_of certificates')"
    and "dom (map_of challenges') \<subseteq> dom (map_of challenges) \<union> set tasks"
  using run_tasks_lookup [OF assms(1), of env oe writes "(certificates, challenges)"] assms(2)
  by (auto simp: domIff split: if_splits)

text \<open>The items of a rule of the configuration refer to its limiters.\<close>

lemma request_items_sound:
  assumes "config_valid (dp_config d)" and "li \<in> handlers d" and "limited i (request_items li rules_ctx)"
  shows "i < length (cfg_limiter_workers (dp_config d))"
proof -
  obtain rule where "rule \<in> set (cfg_rules (dp_config d))" "rule_limiter_tx rule = Some i"
    using assms(2,3) handlers_share [OF assms(2)] by (auto simp: limited_def request_items_def agenda_def rule_items_def)
  then show ?thesis using assms(1) by (auto simp: config_valid_def rule_valid_def)
qed


lemma running_ok_receive:
  assumes "running_ok d s" and "li \<in> handlers d" and "evicts (mo_evict mo)"
    and "receive_request li mo client req (rn_handlers s) = (r, st)"
  shows "running_ok d (s\<lparr>rn_handlers := st\<rparr>)"
    and "fst (lookup_client (li_mmdb_lookup li) (mo_evict mo) (sa_ip client) (ls_geoip (rn_handlers s)))
      = database_record (li_mmdb_lookup (dp_libraries d)) (sp_geoip (dp_parts d)) (sa_ip client)"
proof -
  have g: "geoip_runs (li_mmdb_lookup li) (sp_geoip (dp_parts d)) (ls_geoip (rn_handlers s))"
    using assms(1) handlers_share [OF assms(2)] by (simp add: running_ok_def)
  have st: "ls_limiters st = ls_limiters (rn_handlers s)"
    "ls_geoip st = snd (lookup_client (li_mmdb_lookup li) (mo_evict mo) (sa_ip client) (ls_geoip (rn_handlers s)))"
    using receive_limiters [of li mo client req "rn_handlers s"] receive_geoip [of li mo client req "rn_handlers s"] assms(4)
    by simp_all
  show "running_ok d (s\<lparr>rn_handlers := st\<rparr>)"
    using assms(1) lookup_client_runs(1) [OF g assms(3)] handlers_share [OF assms(2)] by (simp add: running_ok_def st)
  show "fst (lookup_client (li_mmdb_lookup li) (mo_evict mo) (sa_ip client) (ls_geoip (rn_handlers s)))
      = database_record (li_mmdb_lookup (dp_libraries d)) (sp_geoip (dp_parts d)) (sa_ip client)"
    using lookup_client_runs(2) [OF g assms(3)] handlers_share [OF assms(2)] by simp
qed

lemma new_task_sound:
  assumes "running_ok d s" and "config_valid (dp_config d)" and "li \<in> handlers d" and "evicts (mo_evict mo)"
    and "receive_request li mo client req (rn_handlers s) = (Inr (req', ctx, ua, v), st)"
  shows "request_sound d (new_task li req' ctx ua v)"
  using running_ok_receive(2) [OF assms(1,3,4,5)] receive_context [OF assms(5)] assms(3) request_items_sound [OF assms(2,3)]
  by (simp add: request_sound_def new_task_def Let_def)

lemma all_set_update: "\<forall>x \<in> set xs. P x \<Longrightarrow> P y \<Longrightarrow> \<forall>x \<in> set (xs[n := y]). P x"
  using set_update_subset_insert [of xs n y] by blast

lemma running_ok_step:
  assumes "server_step d e s s'" and "running_ok d s" and "config_valid (dp_config d)"
  shows "running_ok d s'"
  using assms
proof (induction rule: server_step.induct)
  case (refused li mo client req s res st)
  then show ?case using running_ok_receive(1) by blast
next
  case (received li mo client req s req' ctx ua v st t)
  have "running_ok d (s\<lparr>rn_handlers := st\<rparr>)" by (rule running_ok_receive(1) [OF received(5,1,2,3)])
  moreover have "request_sound d t"
    using new_task_sound [OF received(5,6,1,2,3)] received(4) by simp
  ultimately show ?case by (auto simp: running_ok_def)
next
  case (acts n s clock t ls)
  let ?t = "rn_tasks s ! n"
  have "request_sound d ?t" using acts(1,3) by (simp add: running_ok_def)
  then have sound: "task_sound (length (cfg_limiter_workers (dp_config d))) (rt_rules ?t)" by (simp add: request_sound_def)
  have "limiters_run (li_alloc (dp_libraries d)) (cfg_limiter_workers (dp_config d)) (ls_limiters (rn_handlers s))"
    using acts(3) by (simp add: running_ok_def)
  note stepped = task_step_sound [OF this sound acts(2)]
  then have "request_sound d (?t\<lparr>rt_rules := t\<rparr>)"
    using \<open>request_sound d ?t\<close> by (simp add: request_sound_def)
  then show ?case
    using acts(3) stepped all_set_update [of "rn_tasks s" "request_sound d" "?t\<lparr>rt_rules := t\<rparr>" n] by (simp add: running_ok_def)
next
  case (answered n s t ip items w io res services)
  have "request_sound d t" using answered(1,2,7) by (auto simp: running_ok_def)
  then have "request_sound d (t\<lparr>rt_answer := Some res\<rparr>)" by (simp add: request_sound_def)
  then show ?case
    using answered(7) all_set_update [of "rn_tasks s" "request_sound d" "t\<lparr>rt_answer := Some res\<rparr>" n] by (simp add: running_ok_def)
next
  case (refresh s results)
  let ?r = "service_registry_new (cfg_services (dp_config d))"
  obtain views where "rn_registry s = run_ticks views ?r" using refresh(1) unfolding running_ok_def by blast
  then have "discover results (rn_registry s) = run_ticks (views @ [results]) ?r" by (simp add: run_ticks_def)
  then have "\<exists>views. discover results (rn_registry s) = run_ticks views ?r" by blast
  then show ?case using refresh(1) by (simp add: running_ok_def)
next
  case (renewal tasks s now env oe writes certificates challenges)
  have "set tasks \<subseteq> set (acme_domains_of (dp_config d))" using renewal(2) by (auto simp: domains_to_order_def)
  then have "dom (map_of (tm_certificates (sp_tls (dp_parts d)))) \<subseteq> dom (map_of certificates)"
    and "dom (map_of challenges) \<subseteq> set (acme_domains_of (dp_config d))"
    using run_tasks_domains [OF renewal(1,3)] renewal(4) unfolding running_ok_def by blast+
  then show ?case using renewal(4) by (simp add: running_ok_def)
qed

lemma running_ok_reachable:
  assumes "deployed env d" and "server_reachable d s"
  shows "running_ok d s"
proof -
  have valid: "config_valid (dp_config d)" using assms(1) by (simp add: deployed_def)
  obtain now later es where "server_runs d es (server_starts d now later) s"
    using assms(2) by (auto simp: server_reachable_def)
  then show ?thesis
    by (rule server_run_induct) (use running_ok_starts [OF assms(1)] running_ok_step valid in blast)+
qed

section \<open>The handler is a run\<close>

text \<open>A task that acts alone goes where its steps lead, for the interleaved system and for the server.\<close>

definition acts_alone :: "(nat \<Rightarrow> nat) \<Rightarrow> (instant \<times> instant) list \<Rightarrow> task \<times> limiters \<Rightarrow> task \<times> limiters" where
  "acts_alone alloc clocks = fold (\<lambda>clock (t, ls). task_step alloc clock t ls) clocks"

lemma alone_acts:
  "alone alloc n cs ts (t, ls) (t', ls') \<Longrightarrow> n < length ts \<Longrightarrow> acts_alone alloc cs (t, ls) = (t', ls')"
proof (induction cs arbitrary: t ls)
  case Nil
  have "(ts[n := t]) ! n = (ts[n := t']) ! n" using Nil(1) by (simp add: alone_def)
  then show ?case using Nil by (simp add: alone_def acts_alone_def)
next
  case (Cons clock cs)
  obtain t1 ls1 where step: "task_step alloc clock t ls = (t1, ls1)" by fastforce
  then have "alone alloc n cs ts (t1, ls1) (t', ls')"
    using Cons.prems by (auto simp: alone_def runs_Cons)
  from Cons.IH [OF this Cons.prems(2)] show ?case by (simp add: acts_alone_def step)
qed

definition with_rules ::
  "nat \<Rightarrow> task \<times> limiters \<Rightarrow> ('prog, 'lists, 'mmdb, 'ed, 'ec, 'key) running \<Rightarrow> ('prog, 'lists, 'mmdb, 'ed, 'ec, 'key) running" where
  "with_rules n = (\<lambda>(t, ls) s. s\<lparr>rn_handlers := (rn_handlers s)\<lparr>ls_limiters := ls\<rparr>,
     rn_tasks := (rn_tasks s)[n := (rn_tasks s ! n)\<lparr>rt_rules := t\<rparr>]\<rparr>)"

lemma with_rules_simps:
  assumes "n < length (rn_tasks s)"
  shows "with_rules n (rt_rules (rn_tasks s ! n), ls_limiters (rn_handlers s)) s = s"
    and "with_rules n c' (with_rules n c s) = with_rules n c' s"
    and "rn_tasks (with_rules n c s) ! n = (rn_tasks s ! n)\<lparr>rt_rules := fst c\<rparr>"
    and "ls_limiters (rn_handlers (with_rules n c s)) = snd c"
    and "length (rn_tasks (with_rules n c s)) = length (rn_tasks s)"
  using assms by (simp_all add: with_rules_def split: prod.split)

lemma server_acts_alone:
  assumes "n < length (rn_tasks s)"
  shows "server_runs d (map (\<lambda>clock. Rules (Advance n clock)) cs) s
    (with_rules n (acts_alone (li_alloc (dp_libraries d)) cs (rt_rules (rn_tasks s ! n), ls_limiters (rn_handlers s))) s)"
  using assms
proof (induction cs arbitrary: s)
  case Nil
  then show ?case by (simp add: acts_alone_def with_rules_simps server_runs.rest)
next
  case (Cons clock cs)
  let ?c = "task_step (li_alloc (dp_libraries d)) clock (rt_rules (rn_tasks s ! n)) (ls_limiters (rn_handlers s))"
  let ?s = "with_rules n ?c s"
  have step: "server_step d (Rules (Advance n clock)) s ?s"
    using server_step.acts [OF Cons.prems, of d clock] by (auto simp: with_rules_def split: prod.split)
  have same: "with_rules n (acts_alone (li_alloc (dp_libraries d)) cs
        (rt_rules (rn_tasks ?s ! n), ls_limiters (rn_handlers ?s))) ?s
      = with_rules n (acts_alone (li_alloc (dp_libraries d)) (clock # cs) (rt_rules (rn_tasks s ! n), ls_limiters (rn_handlers s))) s"
    using Cons.prems by (simp add: with_rules_simps acts_alone_def)
  have "n < length (rn_tasks ?s)" using Cons.prems by (simp add: with_rules_simps)
  from server_runs.step [OF step Cons.IH [OF this, unfolded same]] show ?case by simp
qed

lemma rules_phase_runs:
  assumes "apply_rules alloc ip v matches clocks rules 0 ls = (w, ls')"
  shows "\<exists>cs. acts_alone alloc cs (Running ip v [] (agenda matches rules), ls) = (Finished ip (agenda matches rules) w, ls')"
proof -
  obtain cs where "alone alloc 0 cs [Running ip v [] []] (Running ip v [] (agenda matches rules), ls)
      (Finished ip (agenda matches rules) w, ls')"
    using apply_rules_alone [OF _ assms, of 0 "[Running ip v [] []]" "[]"] by auto
  from alone_acts [OF this] show ?thesis by auto
qed

lemma received_request_runs:
  assumes li: "li \<in> handlers d" and io: "si_registry (mo_io mo) = rn_registry s"
    and task: "rn_tasks s = ts @ [new_task li req ctx ua v]"
    and served: "rules_and_services li mo req ctx ua v (rn_handlers s) = (res, st')"
  shows "\<exists>cs t. server_runs d (map (\<lambda>clock. Rules (Advance (length ts) clock)) cs @ [Answered (length ts) res]) s
      (s\<lparr>rn_handlers := st', rn_tasks := ts @ [t]\<rparr>)
    \<and> rt_listener t = li \<and> rt_request t = req \<and> rt_context t = ctx \<and> rt_answer t = Some res"
proof -
  let ?rctx = "rules_context_of li req ctx ua" and ?n = "length ts" and ?t = "new_task li req ctx ua v"
  let ?ip = "sa_ip (ctx_client_address ctx)"
  obtain w ls where rules: "apply_rules (li_alloc li) ?ip v (\<lambda>rule. match_rule (li_execute li) rule ?rctx) (mo_limit mo)
      (li_rules li) 0 (ls_limiters (rn_handlers s)) = (w, ls)" by fastforce
  obtain services where answer: "answer_request li (mo_io mo) req ?rctx w (ls_services (rn_handlers s)) = (res, services)"
    and st': "st' = (rn_handlers s)\<lparr>ls_limiters := ls, ls_services := services\<rparr>"
    using served by (auto simp: rules_and_services_phases rules Let_def split: prod.splits)
  let ?done = "Finished ?ip (request_items li ?rctx) w"
  obtain cs where cs: "acts_alone (li_alloc (dp_libraries d)) cs (rt_rules ?t, ls_limiters (rn_handlers s)) = (?done, ls)"
    using rules_phase_runs [OF rules] handlers_share [OF li] by (auto simp: new_task_def request_items_def Let_def)
  let ?s = "with_rules ?n (?done, ls) s"
  have run: "server_runs d (map (\<lambda>clock. Rules (Advance ?n clock)) cs) s ?s"
    using server_acts_alone [of ?n s d cs] cs task by simp
  let ?t' = "?t\<lparr>rt_rules := ?done, rt_answer := Some res\<rparr>"
  have "server_step d (Answered ?n res) ?s (s\<lparr>rn_handlers := st', rn_tasks := ts @ [?t']\<rparr>)"
    using server_step.answered [of ?n ?s "?t\<lparr>rt_rules := ?done\<rparr>" ?ip "request_items li ?rctx" w "mo_io mo" res services d] answer io task
    by (simp add: with_rules_def new_task_def Let_def st')
  from server_runs_append [OF run server_runs.step [OF this server_runs.rest]]
  show ?thesis by (intro exI [of _ cs] exI [of _ ?t']) (simp add: new_task_def Let_def)
qed

end
