(* ===== verification/Running_Spec.thy ===== *)
theory Running_Spec
  imports Running_Server
begin

text \<open>
  What holds for the running server, whatever its tasks have done before and in whatever order: the
  handler as one function is a run of events of its request alone, the invariant of the shared state,
  limits under concurrency, what rules answer, and what requests are judged by.
\<close>

section \<open>Properties\<close>

text \<open>C40: the handler is a run of the concurrent server in which no other task acts: what it answers, taken
  as one function, and the state it leaves are those of one event, the answer before the rules, or of the
  events of a new task alone, its start, its actions and its answer; the registry, the certificates, the
  challenges and every other task are left as they were.\<close>

theorem handler_is_a_run:
  assumes "li \<in> handlers d" and "evicts (mo_evict mo)" and "si_registry (mo_io mo) = rn_registry s"
    and "serve_http_request li mo client req (rn_handlers s) = (res, st')"
  shows "server_runs d [Refused client req res] s (s\<lparr>rn_handlers := st'\<rparr>)
    \<or> (\<exists>v items cs t.
        server_runs d
          (Rules (Start (sa_ip client) v items)
            # map (\<lambda>clock. Rules (Advance (length (rn_tasks s)) clock)) cs @ [Answered (length (rn_tasks s)) res])
          s (s\<lparr>rn_handlers := st', rn_tasks := rn_tasks s @ [t]\<rparr>)
        \<and> rt_listener t = li \<and> rt_request t = req\<lparr>rq_context := Some (rt_context t)\<rparr> \<and> rt_answer t = Some res)"
proof -
  obtain r st where receive: "receive_request li mo client req (rn_handlers s) = (r, st)" by fastforce
  show ?thesis
  proof (cases r)
    case (Inl res')
    then have "server_step d (Refused client req res) s (s\<lparr>rn_handlers := st'\<rparr>)"
      using server_step.refused [OF assms(1,2)] receive assms(4) by (auto simp: serve_http_request_phases)
    from server_runs.step [OF this server_runs.rest] show ?thesis by blast
  next
    case (Inr p)
    obtain req' ctx ua v where p: "p = (req', ctx, ua, v)" by (cases p)
    let ?t = "new_task li req' ctx ua v"
    let ?s = "s\<lparr>rn_handlers := st, rn_tasks := rn_tasks s @ [?t]\<rparr>"
    note received = receive_context [OF receive [unfolded Inr p]]
    have step: "server_step d (Rules (Start (sa_ip client) v (request_items li (rt_rules_context ?t)))) s ?s"
      using server_step.received [OF assms(1,2) receive [unfolded Inr p] refl] received by simp
    have "rules_and_services li mo req' ctx ua v (rn_handlers ?s) = (res, st')"
      using assms(4) by (simp add: serve_http_request_phases receive Inr p)
    from received_request_runs [OF assms(1) _ _ this] assms(3) obtain cs t where run:
      "server_runs d (map (\<lambda>clock. Rules (Advance (length (rn_tasks s)) clock)) cs @ [Answered (length (rn_tasks s)) res]) ?s
         (?s\<lparr>rn_handlers := st', rn_tasks := rn_tasks s @ [t]\<rparr>)"
      and t: "rt_listener t = li" "rt_request t = req'" "rt_context t = ctx" "rt_answer t = Some res"
      by auto
    have "req' = req\<lparr>rq_context := Some ctx\<rparr>" using received by blast
    with server_runs.step [OF step run] t show ?thesis by fastforce
  qed
qed

lemma offered_last:
  "views \<noteq> [] \<Longrightarrow> set (get_upstreams (run_ticks views (service_registry_new services)) n)
     \<subseteq> set (offered_upstreams (last views) (service_registry_new services) n)"
  unfolding run_ticks_def
  using registry.run_sound [OF registry_ok_new, of "butlast views" "last views"] by (metis append_butlast_last_id)

text \<open>C6: whatever requests, refreshes and renewals a running server has seen, in whatever order and however
  interleaved: every limiter task is alive and runs its configuration, the registry is what a sequence of
  refreshes has made of the configured services, and after the first it holds upstreams that the last
  one offered only, the GeoIP cache holds answers of the database only, no name of the folder has lost
  its certificate, and challenges are stored for configured domains only.\<close>

theorem running_server_invariant:
  assumes "deployed env d" and "server_reachable d s"
  shows "(\<exists>views. rn_registry s = run_ticks views (service_registry_new (cfg_services (dp_config d)))
      \<and> (views \<noteq> [] \<longrightarrow> (\<forall>n. set (get_upstreams (rn_registry s) n)
            \<subseteq> set (offered_upstreams (last views) (service_registry_new (cfg_services (dp_config d))) n))))
    \<and> list_all2 (\<lambda>cfg l. \<exists>rl. l = Some rl \<and> limiter_runs (li_alloc (dp_libraries d)) cfg rl)
        (cfg_limiter_workers (dp_config d)) (ls_limiters (rn_handlers s))
    \<and> geoip_runs (li_mmdb_lookup (dp_libraries d)) (sp_geoip (dp_parts d)) (ls_geoip (rn_handlers s))
    \<and> dom (map_of (tm_certificates (sp_tls (dp_parts d)))) \<subseteq> dom (map_of (rn_certificates s))
    \<and> dom (map_of (rn_challenges s)) \<subseteq> set (acme_domains_of (dp_config d))"
proof -
  have ok: "running_ok d s" by (rule running_ok_reachable [OF assms])
  then obtain views where views: "rn_registry s = run_ticks views (service_registry_new (cfg_services (dp_config d)))"
    unfolding running_ok_def by blast
  have "views \<noteq> [] \<longrightarrow> (\<forall>n. set (get_upstreams (rn_registry s) n)
      \<subseteq> set (offered_upstreams (last views) (service_registry_new (cfg_services (dp_config d))) n))"
    unfolding views using offered_last by blast
  with views ok show ?thesis unfolding running_ok_def limiters_run_def by blast
qed

text \<open>C5: limits hold for the running server: while the probes of a limiter fall into one of its windows,
  at most as many new requests of a client that it limits are handed to services as the limit leaves,
  whatever else the server does in between.\<close>

theorem running_limit_holds:
  assumes "deployed env d" and "server_reachable d s" and "server_runs d es s s'"
    and "i < length (cfg_limiter_workers (dp_config d))" and "ls_limiters (rn_handlers s) ! i = Some rl"
    and "\<forall>n clock. Rules (Advance n clock) \<in> set es \<longrightarrow> in_window (fst clock) rl"
  shows "length (filter (\<lambda>t. rt_answer t \<noteq> None \<and> passed i ip (rt_rules t)) (drop (length (rn_tasks s)) (rn_tasks s')))
    \<le> unat (rl_limit rl) - hits ip (curr_bucket rl)"
proof -
  let ?alloc = "li_alloc (dp_libraries d)" and ?new = "drop (length (rn_tasks s)) (rn_tasks s')"
  have "limiters_run ?alloc (cfg_limiter_workers (dp_config d)) (ls_limiters (rn_handlers s))"
    using running_ok_reachable [OF assms(1,2)] by (simp add: running_ok_def)
  then have i: "i < length (ls_limiters (rn_handlers s))" "limiter_runs ?alloc (cfg_limiter_workers (dp_config d) ! i) rl"
    using assms(4,5) by (auto simp: limiters_run_def list_all2_conv_all_nth)
  have clocks: "\<forall>e \<in> set (List.map_filter rule_event es). \<forall>clock. clock_of e = Some clock \<longrightarrow> in_window (fst clock) rl"
  proof (intro ballI allI impI)
    fix e clock assume e: "e \<in> set (List.map_filter rule_event es)" "clock_of e = Some clock"
    have "Rules e \<in> set es" using e(1) by (auto simp: List.map_filter_def elim!: rule_event.elims)
    moreover obtain n where "e = Advance n clock" using e(2) by (cases e rule: task_event.exhaust) auto
    ultimately show "in_window (fst clock) rl" using assms(6) by blast
  qed
  have "passed_count i ip (drop (length (map rt_rules (rn_tasks s))) (map rt_rules (rn_tasks s')))
      \<le> unat (rl_limit rl) - hits ip (curr_bucket rl)"
    by (rule interleaved_limit [OF run_interleaves [OF assms(3), unfolded rule_phase_def] i(1) assms(5) _ _ clocks])
      (use i(2) in \<open>auto simp: limiter_runs_def\<close>)
  then have "length (filter (\<lambda>t. passed i ip (rt_rules t)) ?new) \<le> unat (rl_limit rl) - hits ip (curr_bucket rl)"
    by (simp add: passed_count_def drop_map filter_map o_def)
  moreover have "length (filter (\<lambda>t. rt_answer t \<noteq> None \<and> passed i ip (rt_rules t)) ?new)
      \<le> length (filter (\<lambda>t. passed i ip (rt_rules t)) ?new)"
    using length_filter_le [of "\<lambda>t. rt_answer t \<noteq> None" "filter (\<lambda>t. passed i ip (rt_rules t)) ?new"]
    by (simp add: conj_commute)
  ultimately show ?thesis by linarith
qed

text \<open>C23: the rules of a running server decide every request: a rule stops a request only as blocked, as one
  too many, or for want of room, never because a limiter's task has died.\<close>

theorem running_rules_decide:
  assumes "deployed env d" and "server_reachable d s" and "t \<in> set (rn_tasks s)"
    and "rt_rules t = Finished ip items (Answer res)"
  shows "res \<in> {new_blocked_response, new_too_many_requests_response_429, new_service_unavailable_error_503}"
  using running_ok_reachable [OF assms(1,2)] assms(3,4) by (auto simp: running_ok_def request_sound_def rule_answers_def)

text \<open>C24: requests are judged by the database: the country and network that the rules and the services see
  are those the GeoIP file loaded at the start has for the client's address, or the default when it
  has none, whatever was cached or evicted before.\<close>

theorem judged_by_database:
  assumes "deployed env d" and "server_reachable d s" and "t \<in> set (rn_tasks s)"
  shows "\<lparr>gr_asn = ctx_asn (rt_context t), gr_country = ctx_country (rt_context t)\<rparr>
    = (case sp_geoip (dp_parts d) of
         None \<Rightarrow> geoip_record_default
       | Some db \<Rightarrow>
           (case lookup_uncached (li_mmdb_lookup (dp_libraries d)) (gd_mmdb db) (sa_ip (ctx_client_address (rt_context t))) of
              Inr r \<Rightarrow> r | Inl _ \<Rightarrow> geoip_record_default))"
  using running_ok_reachable [OF assms(1,2)] assms(3) unfolding running_ok_def request_sound_def database_record_def by blast

text \<open>C25: country codes are two upper-case ASCII letters: what a request of a running server is judged by,
  and so what \<open>as_str\<close> reads as text without a check, is well formed for every database file.\<close>

theorem judged_country_type:
  assumes "deployed env d" and "server_reachable d s" and "t \<in> set (rn_tasks s)"
    and "li_mmdb_lookup (dp_libraries d) = lookup_record reader"
  shows "country_ok (ctx_country (rt_context t))"
proof -
  have "\<lparr>gr_asn = ctx_asn (rt_context t), gr_country = ctx_country (rt_context t)\<rparr>
      = database_record (lookup_record reader) (sp_geoip (dp_parts d)) (sa_ip (ctx_client_address (rt_context t)))"
    using running_ok_reachable [OF assms(1,2)] assms(3,4) by (simp add: running_ok_def request_sound_def)
  then have "ctx_country (rt_context t)
      = gr_country (database_record (lookup_record reader) (sp_geoip (dp_parts d)) (sa_ip (ctx_client_address (rt_context t))))"
    by (metis geoip_record.select_convs(2))
  then show ?thesis
    by (auto simp: database_record_def geoip_record_default_ok lookup_uncached_def lookup_record_ok
        split: option.split sum.split mmdb_error.split)
qed


section \<open>A running server with one HTTP listener for one proxy\<close>

definition demo_limit_rule :: "unit rule" where
  "demo_limit_rule = \<lparr>rule_name = ''few'', rule_expression = None, rule_actions = [Limit], rule_limiter_tx = Some 0\<rparr>"

definition demo_block_rule :: "unit rule" where
  "demo_block_rule = \<lparr>rule_name = ''none'', rule_expression = None, rule_actions = [Block], rule_limiter_tx = None\<rparr>"

definition demo_ruled_config :: "unit rule \<Rightarrow> unit config" where
  "demo_ruled_config rule =
     demo_server_config\<lparr>cfg_rules := [rule],
       cfg_limiter_workers := [\<lparr>rlim_max = 10, rlim_window = 60, rlim_capacity = 100\<rparr>]\<rparr>"

definition demo_geoip_env :: "(unit, bytes, ec_curve \<times> bytes, nat, string, unit) server_env" where
  "demo_geoip_env =
     demo_server_env\<lparr>sv_geoip_exists := \<lambda>_. Inr True, sv_geoip_read := \<lambda>_. Inr [], sv_mmdb := \<lambda>_. Inr ()\<rparr>"

definition demo_reader :: "unit \<Rightarrow> ip_addr \<Rightarrow> mmdb_error + json" where
  "demo_reader = (\<lambda>_ _. Inr (JObject [(''asn'', JString ''AS1''), (''country'', JString ''FR'')]))"

definition demo_libraries ::
  "(unit, (string \<times> nat items) list, unit, bytes, ec_curve \<times> bytes, service_io, service_state) listener" where
  "demo_libraries =
     \<lparr>li_address = SocketAddr ipv4_localhost 80, li_use_tls = False, li_rules = [], li_lists = [], li_services = [],
      li_captcha_env = demo_captcha_env, li_captcha_manager = demo_manager,
      li_execute = (\<lambda>_ _. IsBool True), li_request_ok = (\<lambda>_. True), li_client_ok = (\<lambda>_. True),
      li_parse_cookies = (\<lambda>_. []), li_mmdb_lookup = lookup_record demo_reader, li_alloc = (\<lambda>n. n)\<rparr>"

lemma demo_ruled_valid: "rule \<in> {demo_limit_rule, demo_block_rule} \<Longrightarrow> config_valid (demo_ruled_config rule)"
  by (auto simp: config_valid_def demo_ruled_config_def demo_server_config_def demo_mixed_config_def demo_web_def
      listeners_valid_def listener_valid_def service_valid_def service_kinds_def service_upstreams_def acme_valid_def
      count_true_def demo_limit_rule_def demo_block_rule_def rule_valid_def)

lemma demo_geoip_loaded:
  "geoip_load (sv_geoip_exists demo_geoip_env) (sv_geoip_read demo_geoip_env) (sv_zstd_decode demo_geoip_env) (sv_mmdb demo_geoip_env)
     = Inr (Some \<lparr>gd_mmdb = (), gd_cache = []\<rparr>)"
  by (simp add: geoip_load_def geoip_database_paths_def demo_geoip_env_def ends_with_def)

lemma demo_geoip_parts: "\<exists>parts. make_parts demo_geoip_env (\<lambda>_ _. IsBool True) (demo_ruled_config rule) = Some (Inr parts)"
proof -
  obtain parts where "make_parts demo_server_env (\<lambda>_ _. IsBool True) demo_server_config = Some (Inr parts)"
    using demo_server_parts by blast
  then show ?thesis
    unfolding make_parts_def demo_geoip_loaded
    by (auto simp: demo_ruled_config_def demo_geoip_env_def and_then_Inr_iff split: sum.splits option.splits)
qed

lemma demo_deployed:
  assumes "rule \<in> {demo_limit_rule, demo_block_rule}"
  obtains d lc ss where "deployed demo_geoip_env d" and "dp_libraries d = demo_libraries"
    and "dp_config d = demo_ruled_config rule" and "handler_of demo_libraries (dp_config d) (dp_parts d) lc ss \<in> handlers d"
proof -
  let ?execute = "\<lambda>_ _. IsBool True"
  let ?lc = "\<lparr>lc_name = ''web'', lc_address = SocketAddr ipv4_localhost 80, lc_protocol = Http, lc_services = [''api'']\<rparr>"
  obtain parts where parts: "make_parts demo_geoip_env ?execute (demo_ruled_config rule) = Some (Inr parts)"
    using demo_geoip_parts by blast
  have "http_named (cfg_services (demo_ruled_config rule)) ''api''"
    by (simp add: demo_ruled_config_def demo_server_config_def http_named_def demo_web_def)
  then obtain s where s: "map_of (sp_http_services parts) ''api'' = Some s"
    using http_services_None [of ?execute "cfg_services (demo_ruled_config rule)" "sp_http_services parts" "''api''"]
      make_parts_services [OF parts] by auto
  have run: "server_run demo_geoip_env ?execute (demo_ruled_config rule) = (Started, [HttpListener ?lc [s]])"
    unfolding server_run_def parts
    by (simp add: demo_ruled_config_def demo_server_config_def new_listener_def s demo_geoip_env_def demo_server_env_def
        bind_tcp_socket_def bind_calls_def)
  show thesis
    by (rule that [of "\<lparr>dp_libraries = demo_libraries, dp_config = demo_ruled_config rule, dp_parts = parts,
          dp_listeners = [HttpListener ?lc [s]]\<rparr>" ?lc "[s]"])
      (use parts run demo_ruled_valid [OF assms] in \<open>simp_all add: deployed_def demo_libraries_def handlers_def\<close>)
qed

lemma demo_evicts: "evicts (mo_evict (demo_server_moment a))"
  by (simp add: demo_server_moment_def evicts_def)

lemma demo_refreshed:
  "server_reachable d ((server_starts d 0 0)\<lparr>rn_registry := discover [] (rn_registry (server_starts d 0 0))\<rparr>)"
  unfolding server_reachable_def using server_runs.step [OF server_step.refresh server_runs.rest] by blast

text \<open>The first request of such a server reaches the rules.\<close>

definition demo_visitor :: socket_addr where
  "demo_visitor = SocketAddr (V4 16909060) 80"

lemma demo_received:
  assumes "li_captcha_env li = demo_captcha_env" and "li_parse_cookies li = (\<lambda>_. [])"
  shows "\<exists>req ctx st'. receive_request li (demo_server_moment a) demo_visitor demo_http_request st = (Inr (req, ctx, ''ua'', False), st')"
proof -
  have ua: "get_user_agent (cpe_headers demo_captcha_env) demo_http_request = ''ua''"
    and "\<not> starts_with (get_path demo_http_request) ''/__pingoo/captcha''"
    by code_simp+
  then have path: "\<not> starts_with (get_path (demo_http_request\<lparr>rq_context := c\<rparr>)) ''/__pingoo/captcha''" for c
    by (simp add: get_path_def)
  obtain cid where "generate_captcha_client_id demo_captcha_env (sa_ip demo_visitor) ''ua''
      (get_host (cpe_headers demo_captcha_env) demo_http_request) = Some cid"
    using captcha_never_panics [OF demo_manager_ok, of "replicate 32 CHR ''a''"] by (metis length_replicate not_None_eq)
  moreover have "cookie_decision li mo cid (parsed_cookies he (\<lambda>_. []) req) = Inr False" for mo he req
    by (simp add: cookie_decision_def parsed_cookies_def List.map_filter_simps split: option.split)
  ultimately show ?thesis
    using path by (auto simp: receive_request_def Let_def assms ua user_agent_refused_def user_agent_max_length_def split: prod.split)
qed

text \<open>A server to whose rules the first request has come.\<close>

lemma demo_visited:
  assumes "rule \<in> {demo_limit_rule, demo_block_rule}"
  obtains d :: "(unit, nat, unit, bytes, ec_curve \<times> bytes, string, unit) deployment" and s t e
  where "deployed demo_geoip_env d" and "dp_libraries d = demo_libraries" and "dp_config d = demo_ruled_config rule"
    and "server_step d (Rules e) (server_starts d 0 0) s" and "clock_of e = None" and "rn_tasks s = [t]"
    and "ls_limiters (rn_handlers s) = ls_limiters (rn_handlers (server_starts d 0 0))"
    and "sa_ip (ctx_client_address (rt_context t)) = V4 16909060"
    and "rt_rules t = Running (V4 16909060) False [] (rule_items rule)" and "rt_answer t = None"
proof -
  obtain d :: "(unit, nat, unit, bytes, ec_curve \<times> bytes, string, unit) deployment" and lc ss where
    d: "deployed demo_geoip_env d" "dp_libraries d = demo_libraries" "dp_config d = demo_ruled_config rule"
    and li: "handler_of demo_libraries (dp_config d) (dp_parts d) lc ss \<in> handlers d"
    by (rule demo_deployed [OF assms]) blast
  let ?li = "handler_of demo_libraries (dp_config d) (dp_parts d) lc ss" and ?s = "server_starts d 0 0"
  have "li_captcha_env ?li = demo_captcha_env" "li_parse_cookies ?li = (\<lambda>_. [])"
    by (simp_all add: handler_of_def demo_libraries_def)
  from demo_received [OF this] obtain req ctx st where
    receive: "receive_request ?li (demo_server_moment ''a'') demo_visitor demo_http_request (rn_handlers ?s)
      = (Inr (req, ctx, ''ua'', False), st)"
    by blast
  have ip: "sa_ip (ctx_client_address ctx) = V4 16909060"
    using receive_context [OF receive] by (simp add: demo_visitor_def)
  have limiters: "ls_limiters st = ls_limiters (rn_handlers ?s)"
    using receive_limiters [of ?li "demo_server_moment ''a''" demo_visitor demo_http_request "rn_handlers ?s"] receive by simp
  have "rule_expression rule = None" using assms by (auto simp: demo_limit_rule_def demo_block_rule_def)
  then have items: "request_items ?li rc = rule_items rule" for rc
    by (simp add: request_items_def agenda_def handler_of_def d(3) demo_ruled_config_def match_rule_def)
  show thesis
    by (rule that [where t = "new_task ?li req ctx ''ua'' False", OF d server_step.received [OF li demo_evicts receive refl]])
      (simp_all add: limiters new_task_def items ip server_starts_def)
qed

theorem running_server_invariant_witness:
  "\<exists>(d :: (unit, nat, unit, bytes, ec_curve \<times> bytes, string, unit) deployment) s.
     deployed demo_geoip_env d \<and> server_reachable d s
     \<and> (\<exists>views. rn_registry s = run_ticks views (service_registry_new (cfg_services (dp_config d))))
     \<and> length (ls_limiters (rn_handlers s)) = 1"
proof -
  obtain d :: "(unit, nat, unit, bytes, ec_curve \<times> bytes, string, unit) deployment" and lc ss where
    d: "deployed demo_geoip_env d" "dp_config d = demo_ruled_config demo_limit_rule"
    by (rule demo_deployed [of demo_limit_rule]) (simp, blast)
  from running_server_invariant [OF d(1) demo_refreshed] d demo_refreshed show ?thesis
    by (fastforce dest: list_all2_lengthD simp: demo_ruled_config_def)
qed

lemma demo_visited_reachable: "server_step d (Rules e) (server_starts d 0 0) s \<Longrightarrow> server_reachable d s"
  unfolding server_reachable_def using server_runs.step [OF _ server_runs.rest] by blast

theorem handler_is_a_run_witness:
  "\<exists>(d :: (unit, nat, unit, bytes, ec_curve \<times> bytes, string, unit) deployment) li mo res st' es s'.
     li \<in> handlers d
     \<and> serve_http_request li mo demo_visitor demo_http_request (rn_handlers (server_starts d 0 0)) = (res, st')
     \<and> server_runs d es (server_starts d 0 0) s' \<and> rn_handlers s' = st'
     \<and> (es = [Refused demo_visitor demo_http_request res] \<or> last es = Answered 0 res)"
proof -
  obtain d :: "(unit, nat, unit, bytes, ec_curve \<times> bytes, string, unit) deployment" and lc ss where
    li: "handler_of demo_libraries (dp_config d) (dp_parts d) lc ss \<in> handlers d"
    by (rule demo_deployed [of demo_limit_rule]) (simp, blast)
  let ?li = "handler_of demo_libraries (dp_config d) (dp_parts d) lc ss" and ?mo = "demo_server_moment ''a''"
  let ?s = "server_starts d 0 0"
  let ?now = "?mo\<lparr>mo_io := (mo_io ?mo)\<lparr>si_registry := rn_registry ?s\<rparr>\<rparr>"
  obtain res st' where served: "serve_http_request ?li ?now demo_visitor demo_http_request (rn_handlers ?s) = (res, st')"
    by fastforce
  have "evicts (mo_evict ?now)" "si_registry (mo_io ?now) = rn_registry ?s" using demo_evicts by simp_all
  moreover have "length (rn_tasks ?s) = 0" by (simp add: server_starts_def)
  ultimately obtain es s' where "server_runs d es ?s s'" "rn_handlers s' = st'"
    "es = [Refused demo_visitor demo_http_request res] \<or> last es = Answered 0 res"
    using handler_is_a_run [OF li _ _ served] by fastforce
  with li served show ?thesis by blast
qed

theorem running_limit_holds_witness:
  "\<exists>(d :: (unit, nat, unit, bytes, ec_curve \<times> bytes, string, unit) deployment) es s.
     deployed demo_geoip_env d \<and> server_runs d es (server_starts d 0 0) s \<and> length es = 3 \<and> length (rn_tasks s) = 1
     \<and> length (filter (\<lambda>t. rt_answer t \<noteq> None \<and> passed 0 (V4 16909060) (rt_rules t)) (rn_tasks s)) \<le> 10"
proof -
  obtain d :: "(unit, nat, unit, bytes, ec_curve \<times> bytes, string, unit) deployment" and s t e where
    d: "deployed demo_geoip_env d" "dp_libraries d = demo_libraries" "dp_config d = demo_ruled_config demo_limit_rule"
    and first: "server_step d (Rules e) (server_starts d 0 0) s" "clock_of e = None" "rn_tasks s = [t]"
    by (rule demo_visited [of demo_limit_rule]) (simp, blast)
  let ?rl = "rate_limiter_new (\<lambda>n. n) 10 (from_secs 60) 100 0 0 :: ip_addr rate_limiter"
  let ?es = "Rules e # map (\<lambda>clock. Rules (Advance 0 clock)) [(0, 0), (0, 0)]"
  obtain s' where run: "server_runs d ?es (server_starts d 0 0) s'" and one: "length (rn_tasks s') = 1"
    using server_runs.step [OF first(1) server_acts_alone [of 0 s d "[(0, 0), (0, 0)]"]] first(3)
    by (auto simp: with_rules_def split: prod.splits)
  have "server_reachable d (server_starts d 0 0)" unfolding server_reachable_def using server_runs.rest by blast
  moreover have "ls_limiters (rn_handlers (server_starts d 0 0)) ! 0 = Some ?rl"
    by (simp add: server_starts_def initial_state_def d demo_libraries_def demo_ruled_config_def)
  moreover have "\<forall>n clock. Rules (Advance n clock) \<in> set ?es \<longrightarrow> in_window (fst clock) ?rl"
    using first(2) by (auto simp: limiter_eval)
  moreover have "unat (rl_limit ?rl) - hits (V4 16909060) (curr_bucket ?rl) = 10" by (simp add: limiter_eval)
  moreover have "rn_tasks (server_starts d 0 0) = []" by (simp add: server_starts_def)
  ultimately have "length (filter (\<lambda>t. rt_answer t \<noteq> None \<and> passed 0 (V4 16909060) (rt_rules t)) (rn_tasks s')) \<le> 10"
    using running_limit_holds [OF d(1) _ run, of 0 ?rl "V4 16909060"] by (simp add: d(3) demo_ruled_config_def)
  with d(1) run one show ?thesis by (intro exI [of _ d] exI [of _ ?es] exI [of _ s']) simp
qed

theorem running_rules_decide_witness:
  "\<exists>(d :: (unit, nat, unit, bytes, ec_curve \<times> bytes, string, unit) deployment) s t ip items res.
     deployed demo_geoip_env d \<and> server_reachable d s \<and> t \<in> set (rn_tasks s) \<and> rt_rules t = Finished ip items (Answer res)
     \<and> res \<in> {new_blocked_response, new_too_many_requests_response_429, new_service_unavailable_error_503}"
proof -
  obtain d :: "(unit, nat, unit, bytes, ec_curve \<times> bytes, string, unit) deployment" and s t e where
    d: "deployed demo_geoip_env d" and first: "server_step d (Rules e) (server_starts d 0 0) s" "rn_tasks s = [t]"
    and t: "rt_rules t = Running (V4 16909060) False [] (rule_items demo_block_rule)"
    by (rule demo_visited [of demo_block_rule]) (simp, blast)
  have "acts_alone alloc [(0, 0)] (rt_rules t, ls) = (Finished (V4 16909060) (rule_items demo_block_rule) (Answer new_blocked_response), ls)"
    for alloc ls
    by (simp add: t acts_alone_def rule_items_def demo_block_rule_def)
  then obtain s' t' where run: "server_runs d [Rules (Advance 0 (0, 0))] s s'" and t': "t' \<in> set (rn_tasks s')"
    "rt_rules t' = Finished (V4 16909060) (rule_items demo_block_rule) (Answer new_blocked_response)"
    using server_acts_alone [of 0 s d "[(0, 0)]"] first(2) by (fastforce simp: with_rules_def)
  have "server_reachable d s'" by (rule server_reachable_run [OF demo_visited_reachable [OF first(1)] run])
  from running_rules_decide [OF d this t'] d this t' show ?thesis by blast
qed

theorem judged_by_database_witness:
  "\<exists>(d :: (unit, nat, unit, bytes, ec_curve \<times> bytes, string, unit) deployment) s t.
     deployed demo_geoip_env d \<and> server_reachable d s \<and> rn_tasks s = [t]
     \<and> ctx_country (rt_context t) = CountryCode CHR ''F'' CHR ''R''"
proof -
  obtain d :: "(unit, nat, unit, bytes, ec_curve \<times> bytes, string, unit) deployment" and s t e where
    d: "deployed demo_geoip_env d" "dp_libraries d = demo_libraries"
    and first: "server_step d (Rules e) (server_starts d 0 0) s" "rn_tasks s = [t]"
    and ip: "sa_ip (ctx_client_address (rt_context t)) = V4 16909060"
    by (rule demo_visited [of demo_limit_rule]) (simp, blast)
  have "sp_geoip (dp_parts d) = Some \<lparr>gd_mmdb = (), gd_cache = []\<rparr>"
    using make_parts_fields [of demo_geoip_env "li_execute (dp_libraries d)" "dp_config d" "dp_parts d"] d(1) demo_geoip_loaded
    by (auto simp: deployed_def)
  moreover have "lookup_uncached (lookup_record demo_reader) () (V4 16909060) = Inr \<lparr>gr_asn = 1, gr_country = CountryCode CHR ''F'' CHR ''R''\<rparr>"
    by code_simp
  moreover have "li_mmdb_lookup (dp_libraries d) = lookup_record demo_reader" by (simp add: d(2) demo_libraries_def)
  ultimately have "ctx_country (rt_context t) = CountryCode CHR ''F'' CHR ''R''"
    using judged_by_database [OF d(1) demo_visited_reachable [OF first(1)], of t] first(2) ip by simp
  with d(1) first(2) demo_visited_reachable [OF first(1)] show ?thesis by blast
qed

theorem judged_country_type_witness:
  "\<exists>(d :: (unit, nat, unit, bytes, ec_curve \<times> bytes, string, unit) deployment) s t.
     deployed demo_geoip_env d \<and> server_reachable d s \<and> rn_tasks s = [t] \<and> country_ok (ctx_country (rt_context t))"
proof -
  obtain d :: "(unit, nat, unit, bytes, ec_curve \<times> bytes, string, unit) deployment" and s t e where
    d: "deployed demo_geoip_env d" "dp_libraries d = demo_libraries"
    and first: "server_step d (Rules e) (server_starts d 0 0) s" "rn_tasks s = [t]"
    by (rule demo_visited [of demo_limit_rule]) (simp, blast)
  have "t \<in> set (rn_tasks s)" "li_mmdb_lookup (dp_libraries d) = lookup_record demo_reader"
    by (simp_all add: first(2) d(2) demo_libraries_def)
  from judged_country_type [OF d(1) demo_visited_reachable [OF first(1)] this] d(1) first(2) demo_visited_reachable [OF first(1)]
  show ?thesis by blast
qed

end
