(* ===== verification/Running_Progress.thy ===== *)
theory Running_Progress
  imports Running_Spec
begin

text \<open>
  Progress of the running server: each step of a request's own brings its rules nearer to their end,
  whatever other tasks do in between, and when they have ended the request can be answered. No task waits
  for another. The answer is a response unless the request is handed to a proxy that panics on the URI
  of its upstream; nothing else panics.
\<close>

section \<open>Rules end\<close>

text \<open>The steps a request still has to take among its rules.\<close>

fun items_left :: "task \<Rightarrow> nat" where
  "items_left (Running ip v past todo) = Suc (length todo)"
| "items_left (Finished ip items w) = 0"

lemma task_step_left: "items_left (fst (task_step alloc clock t ls)) \<le> items_left t - 1"
  by (induction alloc clock t ls rule: task_step.induct) (auto split: prod.split option.split)

definition own_steps :: "nat \<Rightarrow> server_event list \<Rightarrow> nat" where
  "own_steps n es = length (filter (\<lambda>e. \<exists>clock. e = Rules (Advance n clock)) es)"

lemma own_steps_simps [simp]:
  "own_steps n [] = 0"
  "own_steps n (e # es) = of_bool (\<exists>clock. e = Rules (Advance n clock)) + own_steps n es"
  by (simp_all add: own_steps_def)

lemma step_left:
  assumes "server_step d e s s'" and "n < length (rn_tasks s)"
  shows "n < length (rn_tasks s')"
    and "items_left (rt_rules (rn_tasks s' ! n)) \<le> items_left (rt_rules (rn_tasks s ! n)) - own_steps n [e]"
proof -
  have "n < length (rn_tasks s')
    \<and> items_left (rt_rules (rn_tasks s' ! n)) \<le> items_left (rt_rules (rn_tasks s ! n)) - own_steps n [e]"
    using assms
  proof (induction rule: server_step.induct)
    case (acts m s clock t ls)
    then show ?case
      using task_step_left [of "li_alloc (dp_libraries d)" clock "rt_rules (rn_tasks s ! m)" "ls_limiters (rn_handlers s)"]
      by (cases "m = n") auto
  next
    case (answered m s t ip items w io res services)
    then show ?case by (cases "m = n") auto
  qed (simp_all add: nth_append)
  then show "n < length (rn_tasks s')"
    and "items_left (rt_rules (rn_tasks s' ! n)) \<le> items_left (rt_rules (rn_tasks s ! n)) - own_steps n [e]"
    by blast+
qed

lemma run_left:
  "server_runs d es s s' \<Longrightarrow> n < length (rn_tasks s) \<Longrightarrow>
     n < length (rn_tasks s') \<and> items_left (rt_rules (rn_tasks s' ! n)) \<le> items_left (rt_rules (rn_tasks s ! n)) - own_steps n es"
proof (induction rule: server_runs.induct)
  case (step e s s' es s'')
  then show ?case using step_left [OF step(1,4)] by fastforce
qed simp

section \<open>Handlers are assembled\<close>

lemma start_listeners_made:
  "start_listeners new bind lcs = (Started, ls) \<Longrightarrow> l \<in> set ls \<Longrightarrow> \<exists>lc \<in> set lcs. new lc = Some l"
proof (induction lcs arbitrary: ls)
  case (Cons lc lcs)
  then show ?case by (fastforce simp: apsnd_def map_prod_def split: option.splits sum.splits prod.splits)
qed simp

lemma deployed_serves:
  assumes "deployed env d" and "l \<in> set (dp_listeners d)"
  shows "serves (li_execute (dp_libraries d)) (cfg_services (dp_config d)) l"
proof -
  let ?parts = "dp_parts d" and ?config = "dp_config d" and ?execute = "li_execute (dp_libraries d)"
  have parts: "make_parts env ?execute ?config = Some (Inr ?parts)" using assms(1) by (simp add: deployed_def)
  note services = make_parts_services [OF parts]
  have "start_listeners (new_listener (sp_tcp_services ?parts) (sp_http_services ?parts))
      (\<lambda>lc. fst (bind_tcp_socket (sv_socket_works env lc) (lc_address lc) (lc_name lc))) (cfg_listeners ?config)
      = (Started, dp_listeners d)"
    using assms(1) by (simp add: deployed_def server_run_def parts)
  from start_listeners_made [OF this assms(2)] obtain lc where lc: "lc \<in> set (cfg_listeners ?config)"
    "new_listener (sp_tcp_services ?parts) (sp_http_services ?parts) lc = Some l"
    by blast
  obtain names where "listener_valid names lc"
    using assms(1) lc(1) by (auto simp: deployed_def config_valid_def listeners_valid_def)
  from new_listener_serves [OF _ this] lc(2) services show ?thesis by auto
qed

lemma handlers_assembled:
  assumes "deployed env d" and "li \<in> handlers d"
  shows "assembled li"
proof -
  obtain l where l: "l \<in> set (dp_listeners d)" "http_handler d l = Some li" using assms(2) by (auto simp: handlers_def)
  have "serves (li_execute (dp_libraries d)) (cfg_services (dp_config d)) l" by (rule deployed_serves [OF assms(1) l(1)])
  then show ?thesis using l(2) by (cases l) (auto intro: served_assembled)
qed

section \<open>Requests are answered\<close>

lemma answer_request_panics:
  assumes "assembled li" and "captcha_env_ok (li_captcha_env li)" and "rq_context req \<noteq> None"
  shows "fst (answer_request li io req rules_ctx w services) = None \<longleftrightarrow> w = Continue \<and> proxy_panics li io req rules_ctx"
proof (cases w)
  case ShowCaptcha
  then show ?thesis using assms(2) by (auto simp: captcha_env_ok_def serve_captcha_def)
qed (simp_all add: dispatch_panics [OF assms(1,3)])

text \<open>Before the rules nothing panics.\<close>

lemma receive_request_answers:
  assumes "manager_ok (li_captcha_env li) (li_captcha_manager li)" and "length (mo_challenge mo) = 32"
    and "receive_request li mo client req st = (Inl res, st')"
  shows "res \<noteq> None"
proof -
  note total = captcha_never_panics [OF assms(1,2)]
  have page: "serve_captcha (li_captcha_env li) \<noteq> None" using total by blast
  have cid: "generate_captcha_client_id (li_captcha_env li) ip ua host = None \<longleftrightarrow> False" for ip ua host using total by blast
  have captcha: "serve_captcha_request (li_captcha_env li) (li_captcha_manager li) r cs c (mo_challenge mo) n1 n2 n3 j = None \<longleftrightarrow> False"
    for r cs c n1 n2 n3 j
    using total by blast
  have valid: "validate_captcha_verified_cookie (li_captcha_env li) (li_captcha_manager li) t c n1 n2 = None \<longleftrightarrow> False" for t c n1 n2
    using total by blast
  have "cookie_decision li mo c cs = Inl None \<longleftrightarrow> False" for c cs
    using page by (auto simp: cookie_decision_def valid split: option.split sum.split)
  note answers = cid captcha this
  show ?thesis
  proof
    assume "res = None"
    with assms(3) have "receive_request li mo client req st = (Inl None, st')" by simp
    then show False
      by (auto simp: receive_request_def Let_def answers split: prod.splits option.splits sum.splits if_splits)
  qed
qed

text \<open>C22: an assembled listener answers every request with a response, with one exception: with the keys of a
  captcha manager and a fresh challenge of 32 bytes, the handler and the services panic exactly when the
  request passes the rules and the first service that takes it is a proxy for whose upstream the URI
  library refuses the URI.\<close>

theorem assembled_answers:
  assumes "assembled li" and "manager_ok (li_captcha_env li) (li_captcha_manager li)" and "length (mo_challenge mo) = 32"
  shows "fst (serve_http_request li mo client req st) = None
    \<longleftrightarrow> (\<exists>req' ctx ua v st' ls.
          receive_request li mo client req st = (Inr (req', ctx, ua, v), st')
          \<and> apply_rules (li_alloc li) (sa_ip client) v
               (\<lambda>rule. match_rule (li_execute li) rule (rules_context_of li req' ctx ua)) (mo_limit mo) (li_rules li) 0
               (ls_limiters st') = (Continue, ls)
          \<and> proxy_panics li (mo_io mo) req' (rules_context_of li req' ctx ua))"
proof -
  have env: "captcha_env_ok (li_captcha_env li)" using assms(2) by (simp add: manager_ok_def)
  obtain r st' where receive: "receive_request li mo client req st = (r, st')" by fastforce
  show ?thesis
  proof (cases r)
    case (Inl res)
    have "res \<noteq> None" by (rule receive_request_answers [OF assms(2,3) receive [unfolded Inl]])
    then show ?thesis by (simp add: serve_http_request_phases receive Inl)
  next
    case (Inr p)
    obtain req' ctx ua v where p: "p = (req', ctx, ua, v)" by (cases p)
    note received = receive_context [OF receive [unfolded Inr p]]
    let ?rctx = "rules_context_of li req' ctx ua"
    obtain w ls where rules: "apply_rules (li_alloc li) (sa_ip client) v (\<lambda>rule. match_rule (li_execute li) rule ?rctx)
        (mo_limit mo) (li_rules li) 0 (ls_limiters st') = (w, ls)" by fastforce
    have ctx: "rq_context req' \<noteq> None" "ctx_client_address ctx = client" using received by simp_all
    have "fst (serve_http_request li mo client req st)
        = fst (answer_request li (mo_io mo) req' ?rctx w (ls_services st'))"
      by (simp add: serve_http_request_phases receive Inr p rules_and_services_phases Let_def ctx(2) rules split: prod.split)
    then show ?thesis by (simp add: receive Inr p rules answer_request_panics [OF assms(1) env ctx(1)])
  qed
qed

theorem assembled_answers_witness:
  "\<exists>res. fst (serve_http_request demo_server_listener
     ((demo_server_moment ''a'')\<lparr>mo_challenge := replicate 32 CHR ''a''\<rparr>) demo_client demo_http_request demo_server_state) = Some res"
proof -
  let ?mo = "(demo_server_moment ''a'')\<lparr>mo_challenge := replicate 32 CHR ''a''\<rparr>"
  have "\<not> proxy_panics demo_server_listener (mo_io ?mo) req rctx" for req rctx
    by (simp add: proxy_panics_def uri_refused_def Let_def demo_server_moment_def demo_io_def demo_proxy_env_def)
  moreover have "manager_ok (li_captcha_env demo_server_listener) (li_captcha_manager demo_server_listener)"
    by (simp add: demo_server_listener_def demo_manager_ok)
  moreover have "length (mo_challenge ?mo) = 32" by simp
  ultimately have "fst (serve_http_request demo_server_listener ?mo demo_client demo_http_request demo_server_state) \<noteq> None"
    using assembled_answers [OF demo_assembled, of ?mo] by blast
  then show ?thesis by blast
qed

text \<open>C7: every request of a running server gets its answer: after as many steps of its own as it has actions
  left, and one more, its rules have ended, whatever else the server has done in between; and then the
  step that answers it is possible. The answer is a response, not a panic, unless the rules have let the
  request on to a proxy for whose upstream the URI library refuses the URI.\<close>

theorem every_request_answered:
  assumes "deployed env d" and "server_reachable d s" and "n < length (rn_tasks s)"
    and "server_runs d es s s'" and "items_left (rt_rules (rn_tasks s ! n)) \<le> own_steps n es"
    and "rt_answer (rn_tasks s' ! n) = None" and "captcha_env_ok (li_captcha_env (dp_libraries d))"
    and "si_registry io = rn_registry s'"
  shows "\<exists>s'' ip items w res. rt_rules (rn_tasks s' ! n) = Finished ip items w
    \<and> server_step d (Answered n res) s' s'' \<and> rt_answer (rn_tasks s'' ! n) = Some res
    \<and> (res = None \<longleftrightarrow> w = Continue
        \<and> proxy_panics (rt_listener (rn_tasks s' ! n)) io (rt_request (rn_tasks s' ! n)) (rt_rules_context (rn_tasks s' ! n)))"
proof -
  let ?t = "rn_tasks s' ! n"
  have n: "n < length (rn_tasks s')" and "items_left (rt_rules ?t) = 0"
    using run_left [OF assms(4,3)] assms(5) by simp_all
  then obtain ip items w where w: "rt_rules ?t = Finished ip items w" by (cases "rt_rules ?t") auto
  have "request_sound d ?t"
    using running_ok_reachable [OF assms(1) server_reachable_run [OF assms(2,4)]] n by (simp add: running_ok_def)
  then have li: "rt_listener ?t \<in> handlers d" and ctx: "rq_context (rt_request ?t) \<noteq> None" by (simp_all add: request_sound_def)
  have "captcha_env_ok (li_captcha_env (rt_listener ?t))"
    using li assms(7) by (auto simp: handlers_def handler_of_def elim!: http_handler.elims)
  note panics = answer_request_panics [OF handlers_assembled [OF assms(1) li] this ctx]
  obtain res services where answer: "answer_request (rt_listener ?t) io (rt_request ?t) (rt_rules_context ?t) w (ls_services (rn_handlers s'))
      = (res, services)"
    by fastforce
  let ?s = "s'\<lparr>rn_handlers := (rn_handlers s')\<lparr>ls_services := services\<rparr>, rn_tasks := (rn_tasks s')[n := ?t\<lparr>rt_answer := Some res\<rparr>]\<rparr>"
  have "server_step d (Answered n res) s' ?s" by (rule server_step.answered [OF n refl w assms(6,8) answer])
  moreover have "rt_answer (rn_tasks ?s ! n) = Some res" using n by simp
  moreover have "res = None \<longleftrightarrow> w = Continue \<and> proxy_panics (rt_listener ?t) io (rt_request ?t) (rt_rules_context ?t)"
    using panics [of io "rt_rules_context ?t" w "ls_services (rn_handlers s')"] unfolding answer by simp
  ultimately show ?thesis using w by blast
qed

theorem every_request_answered_witness:
  "\<exists>(d :: (unit, nat, unit, bytes, ec_curve \<times> bytes, string, unit) deployment) s s' s'' res.
     deployed demo_geoip_env d \<and> server_reachable d s \<and> server_runs d [Rules (Advance 0 (0, 0)), Rules (Advance 0 (0, 0))] s s'
     \<and> server_step d (Answered 0 (Some res)) s' s'' \<and> rt_answer (rn_tasks s'' ! 0) = Some (Some res)"
proof -
  obtain d :: "(unit, nat, unit, bytes, ec_curve \<times> bytes, string, unit) deployment" and s t e where
    d: "deployed demo_geoip_env d" "dp_libraries d = demo_libraries"
    and first: "server_step d (Rules e) (server_starts d 0 0) s" "rn_tasks s = [t]"
    and t: "rt_rules t = Running (V4 16909060) False [] (rule_items demo_limit_rule)" "rt_answer t = None"
    by (rule demo_visited [of demo_limit_rule]) (simp, blast)
  note reachable = demo_visited_reachable [OF first(1)]
  let ?es = "map (\<lambda>clock. Rules (Advance 0 clock)) [(0, 0), (0, 0)]"
  obtain s' where run: "server_runs d ?es s s'" and unanswered: "rt_answer (rn_tasks s' ! 0) = None"
    using server_acts_alone [of 0 s d "[(0, 0), (0, 0)]"] first(2) t(2) by (fastforce simp: with_rules_def split: prod.splits)
  let ?io = "(demo_io (demo_static_env ''s'') ''a'')\<lparr>si_registry := rn_registry s'\<rparr>"
  have "items_left (rt_rules (rn_tasks s ! 0)) \<le> own_steps 0 ?es"
    by (simp add: first(2) t(1) rule_items_def demo_limit_rule_def)
  moreover have "captcha_env_ok (li_captcha_env (dp_libraries d))" by (simp add: d(2) demo_libraries_def demo_captcha_env_ok)
  moreover have "\<not> proxy_panics (rt_listener (rn_tasks s' ! 0)) ?io (rt_request (rn_tasks s' ! 0)) (rt_rules_context (rn_tasks s' ! 0))"
    by (simp add: proxy_panics_def uri_refused_def Let_def demo_io_def demo_proxy_env_def)
  ultimately have "\<exists>s'' res. server_step d (Answered 0 (Some res)) s' s'' \<and> rt_answer (rn_tasks s'' ! 0) = Some (Some res)"
    using every_request_answered [OF d(1) reachable _ run _ unanswered, of ?io] first(2) by fastforce
  moreover have "server_runs d [Rules (Advance 0 (0, 0)), Rules (Advance 0 (0, 0))] s s'" using run by simp
  ultimately show ?thesis using d(1) reachable by blast
qed

end
