(* ===== verification/Rule_Variables.thy ===== *)
theory Rule_Variables
  imports Http_Listener_Spec
begin

text \<open>
  What rules and routes see of a request: the derived serialisation of \<open>RequestData\<close> and
  \<open>ClientData\<close> in \<^verbatim>\<open>pingoo/rules.rs\<close> with the adapters \<open>http_uri\<close> and
  \<open>http_method\<close> of \<^verbatim>\<open>pingoo/serde_utils.rs\<close>, as the handler fills them.
\<close>

definition http_uri_serialize :: "string \<Rightarrow> json" where
  "http_uri_serialize uri = JString uri"

definition http_method_serialize :: "string \<Rightarrow> json" where
  "http_method_serialize method = JString method"

definition request_data_to_value :: "request_data \<Rightarrow> json" where
  "request_data_to_value d =
     JObject [(''host'', JString (rd_host d)), (''url'', http_uri_serialize (rd_url d)), (''path'', JString (rd_path d)),
              (''method'', http_method_serialize (rd_method d)), (''user_agent'', JString (rd_user_agent d))]"

text \<open>Only signed integers are supported, so the port and the network number are widened before.\<close>

definition client_data_to_value :: "client_data \<Rightarrow> json" where
  "client_data_to_value d =
     JObject [(''ip'', JString (show_ip (cd_ip d))), (''remote_port'', JInt (sint (cd_remote_port d))),
              (''asn'', JInt (sint (cd_asn d))), (''country'', country_to_value (cd_country d))]"

text \<open>Widening keeps the numbers: no port or network number turns negative or is cut.\<close>

lemma sint_ucast_wide:
  fixes x :: "'a::len word"
  assumes "LENGTH('a) < LENGTH('b::len)"
  shows "sint (ucast x :: 'b word) = uint x"
proof -
  have "uint (ucast x :: 'b word) = uint x"
    using assms by (simp add: unsigned_ucast_eq take_bit_int_eq_self_iff less_le_trans [OF uint_bounded power_increasing])
  moreover have "uint x < 2 ^ (LENGTH('b) - 1)"
    using assms by (intro less_le_trans [OF uint_bounded power_increasing]) simp_all
  moreover have "- (2 ^ (LENGTH('b) - 1)) \<le> uint x" by (rule order_trans [of _ 0]) simp_all
  ultimately show ?thesis
    by (simp add: sint_uint signed_take_bit_int_eq_self_iff)
qed

lemma rule_variables_exact:
  assumes "rc_client (judged_rules_context li mo client req st) = Some d"
  shows "client_data_to_value d
    = JObject [(''ip'', JString (show_ip (sa_ip client))), (''remote_port'', JInt (uint (sa_port client))),
        (''asn'', JInt (uint (gr_asn (fst (client_record li mo client st))))),
        (''country'', country_to_value (gr_country (fst (client_record li mo client st))))]"
  using assms
  by (auto simp: judged_rules_context_def judged_context_def rules_context_of_def request_context_of_def Let_def
      client_data_to_value_def sint_ucast_wide split: if_splits)

lemma request_variables_exact:
  assumes "rc_http_request (judged_rules_context li mo client req st) = Some d"
  shows "request_data_to_value d
    = JObject [(''host'', JString (get_host (handler_env li) req)), (''url'', JString (rq_uri req)), (''path'', JString (get_path req)),
        (''method'', JString (rq_method req)), (''user_agent'', JString (get_user_agent (handler_env li) req))]"
  using assms
  by (auto simp: judged_rules_context_def judged_context_def rules_context_of_def request_context_of_def Let_def
      request_data_to_value_def http_uri_serialize_def http_method_serialize_def handler_env_def get_path_def split: if_splits)

end
