(* ===== verification/Acme_File.thy ===== *)
theory Acme_File
  imports Acme Jwk_Json
begin

text \<open>
  The JSON form of the ACME account file: the serde attributes of \<^verbatim>\<open>pingoo/tls/acme.rs\<close>
  and the adapter of private keys in \<^verbatim>\<open>pingoo/serde_utils.rs\<close>. \<open>enc\<close> and
  \<open>dec\<close> are the base64 library's; a private key is the bytes of its PKCS#8 form.
\<close>

definition private_key_serialize :: "(bytes \<Rightarrow> string) \<Rightarrow> bytes \<Rightarrow> json" where
  "private_key_serialize enc key = JString (enc key)"

definition private_key_deserialize :: "(string \<Rightarrow> bytes option) \<Rightarrow> json \<Rightarrow> bytes option" where
  "private_key_deserialize dec v = Option.bind (as_str v) dec"

definition acme_account_to_value :: "(bytes \<Rightarrow> string) \<Rightarrow> acme_account \<Rightarrow> json" where
  "acme_account_to_value enc a = JObject [(''id'', JString (aa_id a)), (''key'', private_key_serialize enc (aa_key a))]"

definition acme_account_of_value :: "(string \<Rightarrow> bytes option) \<Rightarrow> json \<Rightarrow> acme_account option" where
  "acme_account_of_value dec v =
     Option.bind (as_object v) (\<lambda>fs.
       Option.bind (get_field fs ''id'' as_str) (\<lambda>i.
         map_option (\<lambda>key. \<lparr>aa_id = i, aa_key = key\<rparr>) (get_field fs ''key'' (private_key_deserialize dec))))"

text \<open>The accounts are an object from directory URLs; the enumeration of versions is tagged beside its data.\<close>

definition acme_file_to_value :: "(bytes \<Rightarrow> string) \<Rightarrow> acme_file \<Rightarrow> json" where
  "acme_file_to_value enc f =
     (case f of V1 accounts \<Rightarrow>
        JObject [(''version'', JString ''1''),
                 (''data'', JObject [(''accounts'', JObject (map (\<lambda>(url, a). (url, acme_account_to_value enc a)) accounts))])])"

definition accounts_of_value :: "(string \<Rightarrow> bytes option) \<Rightarrow> json \<Rightarrow> (string \<times> acme_account) list option" where
  "accounts_of_value dec v =
     Option.bind (as_object v) (all_elements (\<lambda>(url, v). map_option (Pair url) (acme_account_of_value dec v)))"

definition acme_file_of_value :: "(string \<Rightarrow> bytes option) \<Rightarrow> json \<Rightarrow> acme_file option" where
  "acme_file_of_value dec v =
     Option.bind (as_object v) (\<lambda>fs.
       Option.bind (get_field fs ''version'' as_str) (\<lambda>version.
         if version \<noteq> ''1'' then None
         else Option.bind (get_field fs ''data'' as_object) (\<lambda>data.
           map_option V1 (get_field data ''accounts'' (accounts_of_value dec)))))"

lemma acme_account_roundtrip:
  "(\<And>b. dec (enc b) = Some b) \<Longrightarrow> acme_account_of_value dec (acme_account_to_value enc a) = Some a"
  by (simp add: acme_account_of_value_def acme_account_to_value_def get_field_def private_key_serialize_def
      private_key_deserialize_def)

lemma accounts_roundtrip:
  assumes "\<And>b. dec (enc b) = Some b"
  shows "all_elements (\<lambda>(url, v). map_option (Pair url) (acme_account_of_value dec v))
      (map (\<lambda>(url, a). (url, acme_account_to_value enc a)) accounts) = Some accounts"
proof (induction accounts)
  case (Cons ua accounts)
  then show ?case by (cases ua) (simp add: acme_account_roundtrip [where enc = enc, OF assms])
qed simp

text \<open>What the file is relied on for: the accounts that are written are the accounts that are read.\<close>

lemma acme_file_roundtrip:
  assumes "\<And>b. dec (enc b) = Some b"
  shows "acme_file_of_value dec (acme_file_to_value enc f) = Some f"
  by (cases f) (simp add: acme_file_of_value_def acme_file_to_value_def get_field_def accounts_of_value_def
      accounts_roundtrip [where enc = enc, OF assms])

text \<open>Files of another version are not read.\<close>

lemma other_version_refused:
  "map_of fs ''version'' \<noteq> Some (JString ''1'') \<Longrightarrow> acme_file_of_value dec (JObject fs) = None"
  by (cases "map_of fs ''version''")
    (auto simp: acme_file_of_value_def get_field_def bind_eq_None_conv as_str_Some)

text \<open>
  An environment whose file is this JSON keeps what it prints, as the property of the kept account
  asks of it.
\<close>

definition with_json ::
  "(json \<Rightarrow> string) \<Rightarrow> (string \<Rightarrow> json option) \<Rightarrow> (bytes \<Rightarrow> string) \<Rightarrow> (string \<Rightarrow> bytes option) \<Rightarrow> account_env \<Rightarrow> account_env" where
  "with_json print parse enc dec env =
     env\<lparr>ae_parse := \<lambda>s. (case Option.bind (parse s) (acme_file_of_value dec) of None \<Rightarrow> Inl () | Some f \<Rightarrow> Inr f),
         ae_print := \<lambda>f. Inr (print (acme_file_to_value enc f))\<rparr>"

lemma json_file_kept:
  assumes "\<And>v. parse (print v) = Some v" and "\<And>b. dec (enc b) = Some b"
  shows "\<forall>f s. ae_print (with_json print parse enc dec env) f = Inr s \<longrightarrow> ae_parse (with_json print parse enc dec env) s = Inr f"
  using acme_file_roundtrip [where enc = enc and dec = dec, OF assms(2)] by (auto simp: with_json_def assms(1))

end
