(* ===== verification/Listener_Start.thy ===== *)
theory Listener_Start
  imports Server
begin

text \<open>
  The life of a listener before its accept loop: construction, binding and \<open>listen\<close>, which panics
  on a listener that is not bound (\<^verbatim>\<open>pingoo/listeners/*.rs\<close>), the HTTP listener's loop,
  and the TLS configurations that connections are accepted with (\<^verbatim>\<open>tls/tls_manager.rs\<close>,
  \<^verbatim>\<open>tls/acme.rs\<close>).
\<close>

section \<open>Listener objects\<close>

text \<open>What all four kinds of listener share; \<open>lo_serves\<close> is what connections are handed to.\<close>

record 'serves listener_object =
  lo_name :: string
  lo_address :: socket_addr
  lo_socket :: "unit option"
  lo_serves :: 'serves

definition tcp_listener_new :: "listener_config \<Rightarrow> tcp_proxy_service \<Rightarrow> tcp_proxy_service listener_object" where
  "tcp_listener_new config service =
     \<lparr>lo_name = lc_name config, lo_address = lc_address config, lo_socket = None, lo_serves = service\<rparr>"

definition tcp_tls_listener_new ::
  "listener_config \<Rightarrow> ('key, 'acme) tls_manager \<Rightarrow> tcp_proxy_service \<Rightarrow>
     (('key, 'acme) tls_manager \<times> tcp_proxy_service) listener_object" where
  "tcp_tls_listener_new config tls_manager service =
     \<lparr>lo_name = lc_name config, lo_address = lc_address config, lo_socket = None, lo_serves = (tls_manager, service)\<rparr>"

definition http_listener_new :: "listener_config \<Rightarrow> 'handler \<Rightarrow> 'handler listener_object" where
  "http_listener_new config handler =
     \<lparr>lo_name = lc_name config, lo_address = lc_address config, lo_socket = None, lo_serves = handler\<rparr>"

definition https_listener_new ::
  "listener_config \<Rightarrow> ('key, 'acme) tls_manager \<Rightarrow> 'handler \<Rightarrow> (('key, 'acme) tls_manager \<times> 'handler) listener_object" where
  "https_listener_new config tls_manager handler =
     \<lparr>lo_name = lc_name config, lo_address = lc_address config, lo_socket = None, lo_serves = (tls_manager, handler)\<rparr>"

definition listener_bind :: "(socket_call \<Rightarrow> bool) \<Rightarrow> 'serves listener_object \<Rightarrow> (error + unit) \<times> 'serves listener_object" where
  "listener_bind works l =
     (case fst (bind_tcp_socket works (lo_address l) (lo_name l)) of
        Inl e \<Rightarrow> (Inl e, l)
      | Inr socket \<Rightarrow> (Inr (), l\<lparr>lo_socket := Some socket\<rparr>))"

text \<open>\<open>None\<close> is the panic of \<open>expect\<close>; \<open>accept_loop\<close> runs on the listener otherwise.\<close>

definition listener_listen :: "('serves listener_object \<Rightarrow> 'r) \<Rightarrow> 'serves listener_object \<Rightarrow> 'r option" where
  "listener_listen accept_loop l = map_option (\<lambda>_. accept_loop l) (lo_socket l)"

text \<open>The loop of the HTTP listener: each connection is served in a task of its own, without TLS.\<close>

fun http_listen :: "'conn event list \<Rightarrow> (instant \<times> 'conn \<times> bool) list" where
  "http_listen [] = []"
| "http_listen (Arrives t conn # es) = (t, conn, False) # http_listen es"
| "http_listen (AcceptFails # es) = http_listen es"
| "http_listen (Shutdown # es) = []"

section \<open>TLS configurations\<close>

definition tls_alpn_http2 :: string where
  "tls_alpn_http2 = ''h2''"

definition tls_alpn_http11 :: string where
  "tls_alpn_http11 = ''http/1.1''"

text \<open>Certificates come from the manager or are one single key; no versions given means the library's.\<close>

datatype tls_version = TLS12 | TLS13

datatype 'key cert_resolver = ByManager | SingleCertAndKey 'key

record 'key tls_server_config =
  tsc_versions :: "tls_version list option"
  tsc_client_auth :: bool
  tsc_resolver :: "'key cert_resolver"
  tsc_alpn_protocols :: "string list"

definition get_tls_server_config :: "string list \<Rightarrow> 'key tls_server_config" where
  "get_tls_server_config alpn_protocols =
     \<lparr>tsc_versions = Some [TLS13], tsc_client_auth = False, tsc_resolver = ByManager, tsc_alpn_protocols = alpn_protocols\<rparr>"

definition https_server_config :: "'key tls_server_config" where
  "https_server_config = get_tls_server_config [tls_alpn_http2, tls_alpn_http11]"

definition tcp_tls_server_config :: "'key tls_server_config" where
  "tcp_tls_server_config = get_tls_server_config []"

definition alpn_01_server_config :: "'key alpn_env \<Rightarrow> challenges option \<Rightarrow> string option \<Rightarrow> 'key tls_server_config" where
  "alpn_01_server_config env acme server_name =
     (case get_tls_alpn_01_server_config env acme server_name of
        ChallengeConfig certified_key \<Rightarrow>
          \<lparr>tsc_versions = None, tsc_client_auth = False, tsc_resolver = SingleCertAndKey certified_key,
           tsc_alpn_protocols = [tls_alpn_acme]\<rparr>
      | ServerConfig \<Rightarrow> get_tls_server_config [])"

text \<open>The configuration a connection is accepted with, chosen by its client hello.\<close>

definition config_for_hello ::
  "'key alpn_env \<Rightarrow> challenges option \<Rightarrow> 'key tls_server_config \<Rightarrow> string list option \<times> string option \<Rightarrow> 'key tls_server_config" where
  "config_for_hello env acme tls_server_config = (\<lambda>(alpn, server_name).
     if is_tls_alpn_challenge alpn then alpn_01_server_config env acme server_name else tls_server_config)"

section \<open>What they guarantee\<close>

text \<open>A listener that was bound listens, one that was not panics, and only the socket changes by binding.\<close>

lemma bound_listens:
  "listener_bind works l = (Inr (), l') \<Longrightarrow> listener_listen accept_loop l' = Some (accept_loop l') \<and> l' = l\<lparr>lo_socket := Some ()\<rparr>"
  by (auto simp: listener_bind_def listener_listen_def split: sum.splits)

lemma unbound_panics:
  "listener_listen accept_loop (tcp_listener_new config service) = None"
  "listener_listen accept_loop' (tcp_tls_listener_new config tls_manager service) = None"
  "listener_listen accept_loop'' (http_listener_new config handler) = None"
  "listener_listen accept_loop''' (https_listener_new config tls_manager handler) = None"
  by (simp_all add: listener_listen_def tcp_listener_new_def tcp_tls_listener_new_def http_listener_new_def https_listener_new_def)

text \<open>A bind that fails names the listener and its address, and leaves it unbound.\<close>

lemma bind_fails:
  "listener_bind works l = (Inl e, l') \<Longrightarrow> e = Listening (lo_name l) (lo_address l) \<and> l' = l"
  by (auto simp: listener_bind_def bind_tcp_socket_def run_calls_exact split: sum.splits if_splits)

lemma http_listen_serves: "http_listen es = map (\<lambda>(t, conn). (t, conn, False)) (until_shutdown es)"
  by (induction es rule: http_listen.induct) auto

text \<open>
  Traffic is accepted with TLS 1.3 and the manager's certificates only. The certificate of a challenge
  is used for nothing but a client that offers exactly the challenge protocol, and never with one of
  the protocols of traffic.
\<close>

lemma traffic_is_tls13:
  assumes "\<not> is_tls_alpn_challenge alpn" and "cfg \<in> {https_server_config, tcp_tls_server_config}"
  shows "tsc_versions (config_for_hello env acme cfg (alpn, name)) = Some [TLS13]
    \<and> tsc_resolver (config_for_hello env acme cfg (alpn, name)) = ByManager
    \<and> tls_alpn_acme \<notin> set (tsc_alpn_protocols (config_for_hello env acme cfg (alpn, name)))"
  using assms
  by (auto simp: config_for_hello_def https_server_config_def tcp_tls_server_config_def get_tls_server_config_def
      tls_alpn_acme_def tls_alpn_http2_def tls_alpn_http11_def)

lemma challenge_key_confined:
  assumes "tsc_resolver (config_for_hello env acme cfg (alpn, name)) = SingleCertAndKey k"
    and "cfg \<in> {https_server_config, tcp_tls_server_config}"
  shows "is_tls_alpn_challenge alpn \<and> tsc_alpn_protocols (config_for_hello env acme cfg (alpn, name)) = [tls_alpn_acme]"
  using assms
  by (auto simp: config_for_hello_def https_server_config_def tcp_tls_server_config_def get_tls_server_config_def
      alpn_01_server_config_def split: if_splits alpn_config.splits)

end
