(* ===== verification/Process.thy ===== *)
theory Process
  imports Listener_Start
begin

text \<open>
  The process (\<^verbatim>\<open>pingoo/main.rs\<close>): what it sets up before it loads its configuration, the
  task that waits for a signal, and how long after the signal the accept loops of the listeners, and
  with them the process, come to an end.
\<close>

section \<open>Setting up\<close>

text \<open>
  The filter of the log: the environment's when there is one that parses, or \<open>info\<close>.
  \<open>parse\<close> is that of the library.
\<close>

definition log_filter :: "(string \<Rightarrow> 'filter option) \<Rightarrow> (string \<Rightarrow> 'filter) \<Rightarrow> string option \<Rightarrow> 'filter" where
  "log_filter parse filter_new pingoo_log =
     (case Option.bind pingoo_log parse of Some f \<Rightarrow> f | None \<Rightarrow> filter_new ''info'')"

text \<open>
  The log and the cryptography of the process are set once: a log that is set already is a panic, a
  provider that is set already an error.
\<close>

definition main_setup :: "bool \<Rightarrow> bool \<Rightarrow> start_outcome" where
  "main_setup log_is_set provider_is_set =
     (if log_is_set then StartPanic
      else if provider_is_set then StartError (Config ''error setting up rustls crypto provider'')
      else Started)"

definition whole_main ::
  "bool \<Rightarrow> bool \<Rightarrow> 'prog load_env \<Rightarrow> (string \<Rightarrow> string list \<Rightarrow> unit + unit) \<Rightarrow>
     ('mmdb, 'ed, 'ec, 'net, 'key, 'acme) server_env \<Rightarrow> ('prog, (string \<times> 'net items) list) executor \<Rightarrow>
     start_outcome \<times> (string \<times> 'net items) list server_listener list" where
  "whole_main log_is_set provider_is_set load spawn env execute =
     (case main_setup log_is_set provider_is_set of
        Started \<Rightarrow> main_process load spawn env execute
      | failed \<Rightarrow> (failed, []))"

section \<open>The signal\<close>

text \<open>
  The task that waits for SIGINT and SIGTERM. A handler is not installed (\<open>Inl\<close>), or receives
  its signal at a moment, or never. The result is the moment at which the listeners' receivers wake up:
  the sender sends after the first signal; where it panics instead, it is dropped, which wakes them too.
\<close>

definition shutdown_signal :: "instant \<Rightarrow> unit + instant option \<Rightarrow> unit + instant option \<Rightarrow> instant option" where
  "shutdown_signal start ctrl_c terminate =
     (case ctrl_c of
        Inl _ \<Rightarrow> Some start
      | Inr interrupted \<Rightarrow>
          (case terminate of
             Inl _ \<Rightarrow> Some start
           | Inr terminated \<Rightarrow>
               (case (interrupted, terminated) of
                  (Some a, Some b) \<Rightarrow> Some (min a b)
                | (Some a, None) \<Rightarrow> Some a
                | (None, terminated) \<Rightarrow> terminated)))"

section \<open>The accept loops against the clock\<close>

text \<open>
  A loop waits for a connection or the signal. When both are there, \<open>select!\<close> takes one at random:
  the next of \<open>picks\<close> says whether the connection. The result is the choices left when the
  connection is taken.
\<close>

definition select_accept :: "instant \<Rightarrow> instant \<Rightarrow> bool list \<Rightarrow> bool list option" where
  "select_accept arrives told picks =
     (if arrives < told then Some picks
      else if told < arrives then None
      else case picks of True # picks \<Rightarrow> Some picks | _ \<Rightarrow> None)"

text \<open>
  A connection holds the loop for \<open>hold\<close>; an accept that failed, \<open>None\<close>, does not. The
  result is the moment the loop ends and the connections it has accepted, with their moments.
\<close>

fun accept_until ::
  "('conn \<Rightarrow> duration) \<Rightarrow> instant \<Rightarrow> bool list \<Rightarrow> instant \<Rightarrow> (instant \<times> 'conn option) list \<Rightarrow>
     instant \<times> (instant \<times> 'conn) list" where
  "accept_until hold signal picks free [] = (max free signal, [])"
| "accept_until hold signal picks free ((t, c) # cs) =
     (case select_accept (max free t) (max free signal) picks of
        None \<Rightarrow> (max free signal, [])
      | Some picks \<Rightarrow>
          (case c of
             None \<Rightarrow> accept_until hold signal picks free cs
           | Some conn \<Rightarrow>
               apsnd ((#) (max free t, conn)) (accept_until hold signal picks (max free t + int (hold conn)) cs)))"

text \<open>Only the loop of an HTTPS listener is held, by the handshakes it awaits.\<close>

fun loop_hold :: "listener_protocol \<Rightarrow> 'stream handshake \<Rightarrow> duration" where
  "loop_hold Https h = handshake_time h"
| "loop_hold _ h = 0"

text \<open>
  A listener that is shut down: its protocol, the moment it starts to accept, what its random choices
  are, what arrives at its socket, and when its connections end.
\<close>

record 'stream listener_end =
  le_protocol :: listener_protocol
  le_starts :: instant
  le_picks :: "bool list"
  le_arrivals :: "(instant \<times> 'stream handshake option) list"
  le_ends :: "instant option list"

definition loop_ends :: "instant \<Rightarrow> 'stream listener_end \<Rightarrow> instant" where
  "loop_ends signal l = fst (accept_until (loop_hold (le_protocol l)) signal (le_picks l) (le_starts l) (le_arrivals l))"

definition process_ends :: "instant \<Rightarrow> instant \<Rightarrow> 'stream listener_end list \<Rightarrow> instant" where
  "process_ends start signal ls = server_returns (map (\<lambda>l. (loop_ends signal l, le_ends l)) ls) start"

section \<open>Listening\<close>

text \<open>
  \<open>listen\<close> of the four listeners, from a bound socket to the return: what is served, with the
  moments its service starts, and the moment the listener returns. \<open>ends\<close> are the moments its
  connections end.
\<close>

definition listen_until ::
  "('conn \<Rightarrow> duration) \<Rightarrow> instant \<Rightarrow> bool list \<Rightarrow> instant \<Rightarrow> (instant \<times> 'conn option) list \<Rightarrow> instant option list \<Rightarrow>
     'serves listener_object \<Rightarrow> ((instant \<times> 'conn) list \<times> instant) option" where
  "listen_until hold signal picks start cs ends =
     listener_listen (\<lambda>_. let (left, accepted) = accept_until hold signal picks start cs in (accepted, listener_returns left ends))"

definition tcp_listener_listen ::
  "instant \<Rightarrow> bool list \<Rightarrow> instant \<Rightarrow> (instant \<times> 'conn option) list \<Rightarrow> instant option list \<Rightarrow>
     tcp_proxy_service listener_object \<Rightarrow> ((instant \<times> 'conn) list \<times> instant) option" where
  "tcp_listener_listen = listen_until (\<lambda>_. 0)"

definition tcp_tls_listener_listen ::
  "instant \<Rightarrow> bool list \<Rightarrow> instant \<Rightarrow> (instant \<times> 'stream handshake option) list \<Rightarrow> instant option list \<Rightarrow>
     (('key, 'acme) tls_manager \<times> tcp_proxy_service) listener_object \<Rightarrow> ((instant \<times> 'stream) list \<times> instant) option" where
  "tcp_tls_listener_listen signal picks start cs ends l =
     map_option (apfst (\<lambda>accepted. concat (map (\<lambda>(t, h). after_handshake t h) accepted)))
       (listen_until (\<lambda>_. 0) signal picks start cs ends l)"

definition http_listener_listen ::
  "instant \<Rightarrow> bool list \<Rightarrow> instant \<Rightarrow> (instant \<times> 'conn option) list \<Rightarrow> instant option list \<Rightarrow>
     'handler listener_object \<Rightarrow> ((instant \<times> 'conn \<times> bool) list \<times> instant) option" where
  "http_listener_listen signal picks start cs ends l =
     map_option (apfst (map (\<lambda>(t, conn). (t, conn, False)))) (listen_until (\<lambda>_. 0) signal picks start cs ends l)"

definition https_listener_listen ::
  "instant \<Rightarrow> bool list \<Rightarrow> instant \<Rightarrow> (instant \<times> 'stream handshake option) list \<Rightarrow> instant option list \<Rightarrow>
     (('key, 'acme) tls_manager \<times> 'handler) listener_object \<Rightarrow> ((instant \<times> 'stream \<times> bool) list \<times> instant) option" where
  "https_listener_listen signal picks start cs ends l =
     map_option (apfst (\<lambda>accepted. concat (map (\<lambda>(t, h). map (\<lambda>(t, stream). (t, stream, True)) (after_handshake t h)) accepted)))
       (listen_until handshake_time signal picks start cs ends l)"

section \<open>How long an end takes\<close>

definition waits_chosen :: "bool list \<Rightarrow> nat" where
  "waits_chosen picks = length (filter (\<lambda>p. p) picks)"

lemma waits_chosen_simps [simp]:
  "waits_chosen [] = 0"
  "waits_chosen (p # ps) = of_bool p + waits_chosen ps"
  by (simp_all add: waits_chosen_def)

definition latest_end :: "instant \<Rightarrow> duration \<Rightarrow> bool list \<Rightarrow> instant \<Rightarrow> instant" where
  "latest_end signal H picks free = (if free \<le> signal then signal + int H else free) + int (waits_chosen picks * H)"

lemma latest_end_ge: "max free signal \<le> latest_end signal H picks free"
  by (simp add: latest_end_def max_def del: of_nat_mult)

text \<open>Accepting uses up one hold: the one before the signal, or one that was chosen.\<close>

lemma latest_end_accept:
  assumes "d \<le> H" and "select_accept (max free t) (max free signal) picks = Some picks'"
  shows "latest_end signal H picks' (max free t + int d) \<le> latest_end signal H picks free"
proof -
  have "int (Suc k * H) = int H + int (k * H)" for k by simp
  then show ?thesis
    using assms by (auto simp: latest_end_def select_accept_def max_def split: if_splits list.splits bool.splits simp del: of_nat_mult)
qed

lemma latest_end_chosen:
  "select_accept a told picks = Some picks' \<Longrightarrow> latest_end signal H picks' free \<le> latest_end signal H picks free"
  by (auto simp: latest_end_def select_accept_def distrib_right split: if_splits list.splits bool.splits)

lemma accept_until_bounds:
  assumes "\<forall>(t, c) \<in> set cs. \<forall>conn. c = Some conn \<longrightarrow> hold conn \<le> H"
  shows "signal \<le> fst (accept_until hold signal picks free cs)
    \<and> fst (accept_until hold signal picks free cs) \<le> latest_end signal H picks free"
  using assms
proof (induction cs arbitrary: picks free)
  case Nil
  then show ?case using latest_end_ge by simp
next
  case (Cons e cs)
  obtain t c where e: "e = (t, c)" by fastforce
  have rest: "signal \<le> fst (accept_until hold signal ps f cs) \<and> fst (accept_until hold signal ps f cs) \<le> latest_end signal H ps f"
    for ps f
    using Cons by auto
  show ?case
  proof (cases "select_accept (max free t) (max free signal) picks")
    case None
    then show ?thesis using latest_end_ge by (simp add: e)
  next
    case (Some picks')
    note chosen = latest_end_chosen [OF Some] latest_end_accept [OF _ Some]
    show ?thesis
    proof (cases c)
      case None
      then show ?thesis using rest [of picks' free] chosen(1) [of signal H free] by (simp add: e Some)
    next
      case (Some conn)
      then have "hold conn \<le> H" using Cons.prems by (simp add: e)
      then show ?thesis
        using rest [of picks' "max free t + int (hold conn)"] chosen(2) \<open>select_accept _ _ _ = _\<close> Some by (fastforce simp: e)
    qed
  qed
qed

text \<open>A loop that is not held ends with the signal.\<close>

lemma accept_until_free:
  assumes "free \<le> signal"
  shows "fst (accept_until (\<lambda>_. 0) signal picks free cs) = signal"
  using accept_until_bounds [of cs "\<lambda>_. 0" 0 signal picks free] assms by (auto simp: latest_end_def)

text \<open>What an HTTPS listener serves is what its accept loop serves until the shutdown.\<close>

fun arrival :: "instant \<times> 'conn option \<Rightarrow> 'conn event" where
  "arrival (t, None) = AcceptFails"
| "arrival (t, Some conn) = Arrives t conn"

lemma accept_until_https:
  "\<exists>n. https_listen free (map arrival (take n cs) @ [Shutdown])
     = concat (map (\<lambda>(start, h). after_handshake start h) (snd (accept_until handshake_time signal picks free cs)))"
proof (induction cs arbitrary: picks free)
  case (Cons e cs)
  obtain t c where e: "e = (t, c)" by fastforce
  show ?case
  proof (cases "select_accept (max free t) (max free signal) picks")
    case None
    then show ?thesis by (intro exI [of _ 0]) (simp add: e)
  next
    case (Some picks')
    show ?thesis
    proof (cases c)
      case None
      obtain n where "https_listen free (map arrival (take n cs) @ [Shutdown])
          = concat (map (\<lambda>(start, h). after_handshake start h) (snd (accept_until handshake_time signal picks' free cs)))"
        using Cons.IH by blast
      then show ?thesis using Some None by (intro exI [of _ "Suc n"]) (simp add: e)
    next
      case (Some h)
      let ?free = "max free t + int (handshake_time h)"
      obtain n where "https_listen ?free (map arrival (take n cs) @ [Shutdown])
          = concat (map (\<lambda>(start, h). after_handshake start h) (snd (accept_until handshake_time signal picks' ?free cs)))"
        using Cons.IH by blast
      then show ?thesis
        using Some \<open>select_accept _ _ _ = _\<close> by (intro exI [of _ "Suc n"]) (simp add: e Let_def flip: handshake_time_def)
    qed
  qed
qed (intro exI [of _ 0], simp)

lemma loop_ends_bounds:
  assumes "le_starts l \<le> signal" and "\<forall>(t, h) \<in> set (le_arrivals l). \<forall>h'. h = Some h' \<longrightarrow> challenge_shutdown h' \<le> S"
    and "waits_chosen (le_picks l) \<le> k"
  shows "signal \<le> loop_ends signal l"
    and "le_protocol l \<noteq> Https \<Longrightarrow> loop_ends signal l = signal"
    and "loop_ends signal l \<le> signal + int (Suc k * (2 * tls_handshake_timeout + S))"
proof -
  let ?H = "2 * tls_handshake_timeout + S"
  have free: "loop_hold (le_protocol l) = (\<lambda>_. 0)" if "le_protocol l \<noteq> Https" using that by (cases "le_protocol l") auto
  have "loop_hold (le_protocol l) h \<le> ?H" if "challenge_shutdown h \<le> S" for h
    using accept_tls_time [of h] that by (cases "le_protocol l") simp_all
  then have "\<forall>(t, c) \<in> set (le_arrivals l). \<forall>h. c = Some h \<longrightarrow> loop_hold (le_protocol l) h \<le> ?H"
    using assms(2) by blast
  from accept_until_bounds [OF this, of signal "le_picks l" "le_starts l"]
  moreover have "latest_end signal h (le_picks l) (le_starts l) \<le> signal + int (Suc k * h)" for h
  proof -
    have "h + waits_chosen (le_picks l) * h \<le> Suc k * h" using assms(3) by simp
    then have "int h + int (waits_chosen (le_picks l) * h) \<le> int (Suc k * h)" unfolding of_nat_add [symmetric] of_nat_le_iff .
    then show ?thesis using assms(1) by (simp add: latest_end_def del: of_nat_mult mult_Suc)
  qed
  ultimately show "signal \<le> loop_ends signal l" and "loop_ends signal l \<le> signal + int (Suc k * ?H)"
    unfolding loop_ends_def by (blast intro: order_trans)+
  show "loop_ends signal l = signal" if "le_protocol l \<noteq> Https"
    unfolding loop_ends_def by (subst free [OF that]) (rule accept_until_free [OF assms(1)])
qed

text \<open>
  A listener that is bound returns, whatever arrives: all four within the graceful timeout after their
  loops end.
\<close>

lemma listen_until_returns:
  assumes "lo_socket l \<noteq> None"
  shows "\<exists>accepted returns. listen_until hold signal picks start cs ends l = Some (accepted, returns)
    \<and> accepted = snd (accept_until hold signal picks start cs)
    \<and> returns \<le> fst (accept_until hold signal picks start cs) + int graceful_shutdown_timeout"
  using assms listener_returns_bounds
  by (auto simp: listen_until_def listener_listen_def Let_def split: prod.split)

lemma listening_returns:
  "lo_socket l1 \<noteq> None \<Longrightarrow> tcp_listener_listen signal picks start cs ends l1 \<noteq> None"
  "lo_socket l2 \<noteq> None \<Longrightarrow> tcp_tls_listener_listen signal picks start hs ends l2 \<noteq> None"
  "lo_socket l3 \<noteq> None \<Longrightarrow> http_listener_listen signal picks start cs ends l3 \<noteq> None"
  "lo_socket l4 \<noteq> None \<Longrightarrow> https_listener_listen signal picks start hs ends l4 \<noteq> None"
  unfolding tcp_listener_listen_def tcp_tls_listener_listen_def http_listener_listen_def https_listener_listen_def
  using listen_until_returns by (auto simp: option.map_disc_iff) fastforce+

section \<open>The end of the process\<close>

text \<open>C32: the process ends in time: after the signal every listener but an HTTPS one stops accepting at once, an
  HTTPS one when the handshakes are over that its loop still waits for, and all have returned 20
  seconds later at most; so without HTTPS the process ends within its timeout of 20 seconds. With HTTPS
  the loop may still wait for the handshake under way, and for one more each of the at most \<open>k\<close> times
  that the random choice of \<open>select!\<close> takes a waiting connection instead of the signal; each takes up to
  20 seconds and \<open>S\<close>, the longest shutdown of the stream of an answered ACME challenge, for which the
  code has no timeout.\<close>

theorem process_ends_in_time:
  assumes "start \<le> signal" and "\<forall>l \<in> set ls. le_starts l \<le> signal \<and> waits_chosen (le_picks l) \<le> k"
    and "\<forall>l \<in> set ls. \<forall>(t, h) \<in> set (le_arrivals l). \<forall>h'. h = Some h' \<longrightarrow> challenge_shutdown h' \<le> S"
  shows "(\<forall>l \<in> set ls. signal \<le> loop_ends signal l \<and> (le_protocol l \<noteq> Https \<longrightarrow> loop_ends signal l = signal))
    \<and> process_ends start signal ls \<le> signal + int (Suc k * (2 * tls_handshake_timeout + S)) + int graceful_shutdown_timeout
    \<and> ((\<forall>l \<in> set ls. le_protocol l \<noteq> Https) \<longrightarrow> process_ends start signal ls \<le> signal + int graceful_shutdown_timeout)"
proof -
  have ends: "signal \<le> loop_ends signal l" "le_protocol l \<noteq> Https \<Longrightarrow> loop_ends signal l = signal"
    "loop_ends signal l \<le> signal + int (Suc k * (2 * tls_handshake_timeout + S))" if "l \<in> set ls" for l
    using loop_ends_bounds [of l signal S k] assms(2,3) that by auto
  have "process_ends start signal ls \<le> latest + int graceful_shutdown_timeout"
    if "\<forall>l \<in> set ls. loop_ends signal l \<le> latest" "start \<le> latest" for latest
    unfolding process_ends_def using that by (intro server_returns_in_time) auto
  from this [of "signal + int (Suc k * (2 * tls_handshake_timeout + S))"] this [of signal] assms(1) ends
  show ?thesis by (auto simp del: of_nat_mult of_nat_add)
qed

text \<open>
  A client that connects just before the signal and stays silent keeps an HTTPS listener for ten seconds
  more; one that delays the shutdown after a challenge, for as long as it likes.
\<close>

definition demo_last_client :: "unit handshake \<Rightarrow> unit listener_end" where
  "demo_last_client h =
     \<lparr>le_protocol = Https, le_starts = 0, le_picks = [], le_arrivals = [(4, Some h)], le_ends = [None]\<rparr>"

lemma last_client_holds: "5 \<le> 4 + int (handshake_time h) \<Longrightarrow> loop_ends 5 (demo_last_client h) = 4 + int (handshake_time h)"
  by (simp add: loop_ends_def demo_last_client_def select_accept_def)

lemma challenge_delays_end: "loop_ends 5 (demo_last_client (slow_challenger (Suc d))) = 5 + int d"
  using last_client_holds [of "slow_challenger (Suc d)"] by (simp add: challenge_unlimited)

theorem process_ends_in_time_witness:
  "loop_ends 5 (demo_last_client silent_client) = 4 + int (from_secs 10)
   \<and> process_ends 0 5 [demo_last_client silent_client] \<le> 5 + int (from_secs 40)"
proof -
  have "handshake_time silent_client = from_secs 10"
    by (simp add: handshake_time_def accept_tls_connection_def silent_client_def tls_handshake_timeout_def)
  then have "loop_ends 5 (demo_last_client silent_client) = 4 + int (from_secs 10)"
    using last_client_holds [of silent_client] by (simp add: from_secs_def)
  moreover have "\<forall>l \<in> set [demo_last_client silent_client]. le_starts l \<le> 5 \<and> waits_chosen (le_picks l) \<le> 0"
    "\<forall>l \<in> set [demo_last_client silent_client]. \<forall>(t, h) \<in> set (le_arrivals l). \<forall>h'. h = Some h' \<longrightarrow> challenge_shutdown h' \<le> 0"
    by (simp_all add: demo_last_client_def silent_client_def challenge_shutdown_def)
  ultimately show ?thesis
    using process_ends_in_time [of 0 5 "[demo_last_client silent_client]" 0 0]
    by (simp add: tls_handshake_timeout_def graceful_shutdown_timeout_def from_secs_def)
qed

section \<open>The signal reaches the listeners\<close>

text \<open>
  Either signal ends the accept loops, and so does a handler that could not be installed, at once.
\<close>

lemma shutdown_signal_first:
  "shutdown_signal start (Inr (Some a)) terminate \<noteq> None"
  "shutdown_signal start ctrl_c (Inr (Some b)) \<noteq> None"
  "shutdown_signal start (Inr interrupted) (Inr terminated) = Some t \<Longrightarrow> Some t \<in> {interrupted, terminated}"
  "shutdown_signal start (Inl ()) terminate = Some start"
  "shutdown_signal start ctrl_c (Inl ()) = Some start"
  by (auto simp: shutdown_signal_def min_def split: sum.split option.splits if_splits)

end
