(* ===== verification/Programs.thy ===== *)
theory Programs
  imports Process Docker
begin

text \<open>
  The two small programs of the repository: the test server \<^verbatim>\<open>pong/pong.rs\<close> and the
  example of the Docker client, \<^verbatim>\<open>docker/src/main.rs\<close>.
\<close>

section \<open>The test server\<close>

definition hello :: "'request \<Rightarrow> response" where
  "hello req = \<lparr>res_status = 200, res_headers = [], res_body = Full ''Hello World!''\<rparr>"

text \<open>
  An accept gives a connection or fails, and a failure ends the program. A connection is served in a
  task of its own: its requests are answered until it breaks.
\<close>

datatype pong_error = BadPort | BindFailed | AcceptFailed

fun pong_serves :: "(unit + 'request list) list \<Rightarrow> (pong_error + unit) \<times> response list list" where
  "pong_serves [] = (Inr (), [])"
| "pong_serves (Inl _ # accepts) = (Inl AcceptFailed, [])"
| "pong_serves (Inr requests # accepts) = apsnd ((#) (map hello requests)) (pong_serves accepts)"

definition pong_address :: "string option \<Rightarrow> socket_addr option" where
  "pong_address env_port =
     map_option (SocketAddr ipv4_localhost) (parse_u16 (case env_port of Some port \<Rightarrow> port | None \<Rightarrow> ''8080''))"

definition pong_main ::
  "string option \<Rightarrow> (socket_addr \<Rightarrow> bool) \<Rightarrow> (unit + 'request list) list \<Rightarrow> (pong_error + unit) \<times> response list list" where
  "pong_main env_port binds accepts =
     (case pong_address env_port of
        None \<Rightarrow> (Inl BadPort, [])
      | Some addr \<Rightarrow> if binds addr then pong_serves accepts else (Inl BindFailed, []))"

lemma pong_default_address: "pong_address None = Some (SocketAddr ipv4_localhost 8080)"
  by (simp add: pong_address_def) code_simp

text \<open>The server only listens on the loopback address, and a port that does not fit 16 bits is refused.\<close>

lemma pong_address_local: "pong_address env_port = Some addr \<Longrightarrow> sa_ip addr = ipv4_localhost"
  by (auto simp: pong_address_def)

lemma pong_port_refused: "pong_main (Some ''65536'') binds accepts = (Inl BadPort, [])"
proof -
  have "pong_address (Some ''65536'') = None" by code_simp
  then show ?thesis by (simp add: pong_main_def)
qed

text \<open>Up to the first accept that fails every request of every connection is greeted.\<close>

lemma pong_serves_exact:
  "snd (pong_serves accepts) = map (map hello) (map projr (takeWhile (\<lambda>a. \<not> isl a) accepts))"
  by (induction accepts rule: pong_serves.induct) auto

section \<open>The example of the Docker client\<close>

text \<open>The containers it prints, or a panic.\<close>

definition docker_example :: "'conn docker_env \<Rightarrow> container_summary list option" where
  "docker_example env =
     (case fst (list_containers env (Some (list_containers_options_default\<lparr>lco_filters := [(''label'', [''my.service=test''])]\<rparr>))
             (client_new None)) of
        Inl _ \<Rightarrow> None
      | Inr containers \<Rightarrow> Some containers)"

text \<open>It prints what the daemon lists for that label, in one request on a fresh connection.\<close>

lemma docker_example_lists:
  assumes "de_dial env default_docker_socket = Inr conn"
    and "de_to_query env (list_containers_options_default\<lparr>lco_filters := [(''label'', [''my.service=test''])]\<rparr>) = Inr q"
    and "de_send env conn (''/containers/json?'' @ q) = Inr (200, Inr body)" and "de_from_json env body = Inr containers"
  shows "docker_example env = Some containers"
  using assms by (simp add: docker_example_def list_containers_def send_request_def connect_def client_new_def exchange_def)

end
