(* ===== verification/Clients.thy ===== *)
theory Clients
  imports Process Dns Http_Proxy Lists Geoip
begin

text \<open>
  How the program configures the libraries it asks, and what it shows them: the HTTP client of the
  proxy, the resolver, the lists as values of the expression language, and the debug output of the types
  that hold secrets.
\<close>

section \<open>The HTTP client of the proxy\<close>

text \<open>
  The settings that \<open>HttpProxyService::new\<close> gives its client; loading the certificates of the
  system may fail, which is a panic.
\<close>

record http_client_config =
  hc_connect_timeout :: "duration option"
  hc_enforce_http :: bool
  hc_https_or_http :: bool
  hc_http1 :: bool
  hc_http2 :: bool
  hc_client_auth :: bool

definition http_proxy_client :: "unit + unit \<Rightarrow> http_client_config option" where
  "http_proxy_client native_roots =
     (case native_roots of
        Inl _ \<Rightarrow> None
      | Inr _ \<Rightarrow> Some \<lparr>hc_connect_timeout = Some (from_secs 4), hc_enforce_http = False, hc_https_or_http = True,
                        hc_http1 = True, hc_http2 = True, hc_client_auth = False\<rparr>)"

section \<open>The resolver\<close>

record resolver_opts =
  ro_timeout :: duration
  ro_positive_min_ttl :: "duration option"
  ro_positive_max_ttl :: "duration option"
  ro_negative_max_ttl :: "duration option"

definition default_resolver_opts :: "resolver_opts \<Rightarrow> resolver_opts" where
  "default_resolver_opts opts =
     opts\<lparr>ro_timeout := from_secs 8, ro_positive_min_ttl := Some (from_secs 60),
          ro_positive_max_ttl := Some (from_secs 7200), ro_negative_max_ttl := Some (from_secs 1800)\<rparr>"

definition dns_discoverer_new ::
  "(resolver_opts \<Rightarrow> 'resolver) option \<Rightarrow> resolver_opts \<Rightarrow> 'prog service_config list \<Rightarrow> ('resolver \<times> host_map) option" where
  "dns_discoverer_new builder library_opts services_config =
     map_option (\<lambda>build. (build (default_resolver_opts library_opts), get_upstream_hosts services_config)) builder"

section \<open>Lists in expressions\<close>

text \<open>The conversions into values are the expression library's.\<close>

record ('net, 'v) bel_env =
  be_strings :: "string list \<Rightarrow> 'v"
  be_ints :: "int list \<Rightarrow> 'v"
  be_ips :: "'net list \<Rightarrow> 'v"
  be_map :: "(string \<times> 'v) list \<Rightarrow> 'v"

fun bel_of_items :: "('net, 'v) bel_env \<Rightarrow> 'net items \<Rightarrow> 'v" where
  "bel_of_items env (StringItems items) = be_strings env items"
| "bel_of_items env (IntItems items) = be_ints env items"
| "bel_of_items env (IpItems items) = be_ips env items"

definition bel_lists :: "('net, 'v) bel_env \<Rightarrow> (string \<times> 'net items) list \<Rightarrow> (string \<times> 'v) list" where
  "bel_lists env ls = map (\<lambda>(key, items). (key, bel_of_items env items)) ls"

definition lists_to_bel_value :: "('net, 'v) bel_env \<Rightarrow> (string \<times> 'net items) list \<Rightarrow> 'v" where
  "lists_to_bel_value env ls = be_map env (bel_lists env ls)"

text \<open>A list is found under its name, with all its items, and nothing is found under another name.\<close>

lemma bel_list_found: "map_of (bel_lists env ls) key = map_option (bel_of_items env) (map_of ls key)"
  by (simp add: bel_lists_def map_of_map)

section \<open>Debug output\<close>

text \<open>What \<open>Debug\<close> implementations hand to the formatter.\<close>

datatype debug_value = DebugStr string | DebugList "debug_value list"
  | DebugStruct string "(string \<times> debug_value) list" | DebugTuple string "debug_value list"

definition country_display :: "country_code \<Rightarrow> string" where
  "country_display c = country_str c"

definition country_debug :: "country_code \<Rightarrow> debug_value" where
  "country_debug c = DebugTuple ''CountryCode'' [DebugStr (country_str c)]"

definition acme_account_debug :: "acme_account \<Rightarrow> debug_value" where
  "acme_account_debug account =
     DebugStruct ''AcmeAccount'' [(''id'', DebugStr (aa_id account)), (''key'', DebugStr ''[REDACTED]'')]"

record acme_state =
  as_account :: acme_account
  as_domains :: "string list"
  as_challenges :: challenges

definition acme_config_debug :: "acme_state \<Rightarrow> debug_value" where
  "acme_config_debug s =
     DebugStruct ''AcmeConfig''
       [(''account'', DebugStr ''[REDACTED]''), (''domains'', DebugList (map DebugStr (as_domains s))),
        (''challenges'', DebugStr ''[REDACTED]'')]"

text \<open>The log never tells two accounts with other keys apart, nor the challenges under way.\<close>

lemma account_key_redacted: "acme_account_debug (a\<lparr>aa_key := k\<rparr>) = acme_account_debug a"
  by (simp add: acme_account_debug_def)

lemma challenges_redacted: "acme_config_debug (s\<lparr>as_account := a, as_challenges := cs\<rparr>) = acme_config_debug s"
  by (simp add: acme_config_debug_def)

end
