(* ===== verification/Running_Rules.thy ===== *)
theory Running_Rules
  imports Running_Progress
begin

text \<open>
  The rules are enforced in the running server: a request only goes on to the services when every rule
  that matches it has let it through, whatever other tasks have done between its actions.
\<close>

section \<open>What a task has passed\<close>

fun task_items :: "task \<Rightarrow> item list" where
  "task_items (Running ip v past todo) = past @ todo"
| "task_items (Finished ip items w) = items"

text \<open>An action behind a task did not stop it; \<open>v\<close> is whether its captcha is proven.\<close>

definition lets_through :: "bool \<Rightarrow> item list \<Rightarrow> bool" where
  "lets_through v items \<longleftrightarrow> (\<forall>(act, tx) \<in> set items. act \<noteq> Block \<and> (act = Captcha \<longrightarrow> v))"

lemma lets_through_simps [simp]:
  "lets_through v []"
  "lets_through v (items @ items') \<longleftrightarrow> lets_through v items \<and> lets_through v items'"
  "lets_through v ((act, tx) # items) \<longleftrightarrow> act \<noteq> Block \<and> (act = Captcha \<longrightarrow> v) \<and> lets_through v items"
  by (auto simp: lets_through_def)

fun task_passes :: "bool \<Rightarrow> task \<Rightarrow> bool" where
  "task_passes v (Running ip v' past todo) = (v' = v \<and> lets_through v past)"
| "task_passes v (Finished ip items w) = (w = Continue \<longrightarrow> lets_through v items)"

lemma task_step_passes:
  "task_passes v t \<Longrightarrow> task_step alloc clock t ls = (t', ls') \<Longrightarrow> task_passes v t' \<and> task_items t' = task_items t"
  by (induction alloc clock t ls rule: task_step.induct) (auto split: if_splits prod.splits option.splits)

section \<open>The captcha cookie of a request\<close>

text \<open>The request of a task carried a cookie that validated for its client.\<close>

definition captcha_shown :: "('prog, 'lists, 'mmdb, 'ed, 'ec) request_task \<Rightarrow> bool" where
  "captcha_shown t \<longleftrightarrow>
     (\<exists>cid c now1 now2.
        generate_captcha_client_id (li_captcha_env (rt_listener t)) (sa_ip (ctx_client_address (rt_context t)))
          (get_user_agent (cpe_headers (li_captcha_env (rt_listener t))) (rt_request t))
          (get_host (cpe_headers (li_captcha_env (rt_listener t))) (rt_request t)) = Some cid
        \<and> c \<in> set (parsed_cookies (cpe_headers (li_captcha_env (rt_listener t))) (li_parse_cookies (rt_listener t)) (rt_request t))
        \<and> ck_name c = captcha_verified_cookie_name
        \<and> validate_captcha_verified_cookie (li_captcha_env (rt_listener t)) (li_captcha_manager (rt_listener t)) (ck_value c) cid
            now1 now2 = Some (Inr ()))"

lemma context_hidden:
  "get_user_agent he (req\<lparr>rq_context := c\<rparr>) = get_user_agent he req"
  "get_host he (req\<lparr>rq_context := c\<rparr>) = get_host he req"
  "parsed_cookies he parse (req\<lparr>rq_context := c\<rparr>) = parsed_cookies he parse req"
  by (simp_all add: get_user_agent_def get_host_def parsed_cookies_def cong: option.case_cong)

lemma cookie_decision_proven:
  "cookie_decision li mo cid cookies = Inr True \<Longrightarrow>
     \<exists>c \<in> set cookies. ck_name c = captcha_verified_cookie_name
       \<and> validate_captcha_verified_cookie (li_captcha_env li) (li_captcha_manager li) (ck_value c) cid (mo_now1 mo) (mo_now2 mo)
         = Some (Inr ())"
  by (auto simp: cookie_decision_def find_Some_iff split: option.splits sum.splits)

lemma received_shown:
  assumes "receive_request li mo client req st = (Inr (req', ctx, ua, True), st')"
  shows "captcha_shown (new_task li req' ctx ua v)"
proof -
  let ?he = "cpe_headers (li_captcha_env li)"
  obtain cid c where req: "req' = req\<lparr>rq_context := Some ctx\<rparr>"
    and cid: "generate_captcha_client_id (li_captcha_env li) (sa_ip client) (get_user_agent ?he req) (get_host ?he req) = Some cid"
    and decided: "cookie_decision li mo cid (parsed_cookies ?he (li_parse_cookies li) req) = Inr True"
    and client: "ctx_client_address ctx = client"
    using assms receive_context [OF assms]
    by (auto simp: receive_request_def Let_def split: prod.splits option.splits sum.splits if_splits)
  from cookie_decision_proven [OF decided] cid show ?thesis
    unfolding captcha_shown_def new_task_def Let_def by (auto simp: req client context_hidden)
qed

section \<open>Enforcement\<close>

definition rules_enforced :: "('prog, 'lists, 'mmdb, 'ed, 'ec) request_task \<Rightarrow> bool" where
  "rules_enforced t \<longleftrightarrow>
     task_items (rt_rules t) = request_items (rt_listener t) (rt_rules_context t)
     \<and> (\<exists>v. task_passes v (rt_rules t) \<and> (v \<longrightarrow> captcha_shown t))"

lemma captcha_shown_same:
  "captcha_shown (t\<lparr>rt_rules := x\<rparr>) = captcha_shown t" "captcha_shown (t\<lparr>rt_answer := a\<rparr>) = captcha_shown t"
  by (simp_all add: captcha_shown_def)

lemma enforced_step:
  assumes "server_step d e s s'" and "\<forall>t \<in> set (rn_tasks s). rules_enforced t"
  shows "\<forall>t \<in> set (rn_tasks s'). rules_enforced t"
  using assms
proof (induction rule: server_step.induct)
  case (received li mo client req s req' ctx ua v st t)
  have "captcha_shown t" if v
  proof -
    have "receive_request li mo client req (rn_handlers s) = (Inr (req', ctx, ua, True), st)" using received(3) that by simp
    from received_shown [OF this] show ?thesis unfolding received(4) .
  qed
  then have "rules_enforced t" unfolding received(4) rules_enforced_def new_task_def Let_def by simp
  with received(5) show ?case by auto
next
  case (acts n s clock t ls)
  let ?t = "rn_tasks s ! n"
  have "rules_enforced ?t" using acts(1,3) by simp
  then obtain v where "task_items (rt_rules ?t) = request_items (rt_listener ?t) (rt_rules_context ?t)"
    "task_passes v (rt_rules ?t)" "v \<longrightarrow> captcha_shown ?t"
    unfolding rules_enforced_def by blast
  then have "rules_enforced (?t\<lparr>rt_rules := t\<rparr>)"
    using task_step_passes [OF _ acts(2)] by (auto simp: rules_enforced_def captcha_shown_same)
  then show ?case using acts(3) all_set_update [of "rn_tasks s" rules_enforced] by simp
next
  case (answered n s t ip items w io res services)
  have "rules_enforced t" using answered(1,2,7) by auto
  then have "rules_enforced (t\<lparr>rt_answer := Some res\<rparr>)" by (simp add: rules_enforced_def captcha_shown_same)
  then show ?case using answered(7) all_set_update [of "rn_tasks s" rules_enforced] by simp
qed simp_all

lemma enforced_reachable:
  assumes "server_reachable d s" and "t \<in> set (rn_tasks s)"
  shows "rules_enforced t"
proof -
  obtain now later es where "server_runs d es (server_starts d now later) s"
    using assms(1) by (auto simp: server_reachable_def)
  then have "\<forall>t \<in> set (rn_tasks s). rules_enforced t"
    by (rule server_run_induct) (simp add: server_starts_def, rule enforced_step)
  with assms(2) show ?thesis by blast
qed

text \<open>C4: rules are enforced in the running server: a request that goes on to the services is matched by no
  rule that blocks, and where a rule that matches it asks for the captcha it has brought a cookie that
  validated for its client, whatever other tasks did between its actions.\<close>

theorem running_rules_enforced:
  assumes "server_reachable d s" and "t \<in> set (rn_tasks s)" and "rt_rules t = Finished ip items Continue"
    and "rule \<in> set (li_rules (rt_listener t))" and "match_rule (li_execute (rt_listener t)) rule (rt_rules_context t)"
  shows "Block \<notin> set (rule_actions rule) \<and> (Captcha \<in> set (rule_actions rule) \<longrightarrow> captcha_shown t)"
proof -
  obtain v where "lets_through v (request_items (rt_listener t) (rt_rules_context t))" and v: "v \<longrightarrow> captcha_shown t"
    using enforced_reachable [OF assms(1,2)] assms(3) by (auto simp: rules_enforced_def)
  moreover have "set (rule_items rule) \<subseteq> set (request_items (rt_listener t) (rt_rules_context t))"
    using assms(4,5) by (auto simp: request_items_def agenda_def)
  ultimately have "\<forall>(act, tx) \<in> set (rule_items rule). act \<noteq> Block \<and> (act = Captcha \<longrightarrow> v)"
    by (auto simp: lets_through_def)
  with v show ?thesis by (auto simp: rule_items_def)
qed

theorem running_rules_enforced_witness:
  "\<exists>(d :: (unit, nat, unit, bytes, ec_curve \<times> bytes, string, unit) deployment) s t items.
     server_reachable d s \<and> t \<in> set (rn_tasks s) \<and> rt_rules t = Finished (V4 16909060) items Continue
     \<and> demo_limit_rule \<in> set (li_rules (rt_listener t)) \<and> Block \<notin> set (rule_actions demo_limit_rule)"
proof -
  obtain d :: "(unit, nat, unit, bytes, ec_curve \<times> bytes, string, unit) deployment" and s t e where
    d: "deployed demo_geoip_env d" "dp_libraries d = demo_libraries" "dp_config d = demo_ruled_config demo_limit_rule"
    and first: "server_step d (Rules e) (server_starts d 0 0) s" "rn_tasks s = [t]"
    and limiters: "ls_limiters (rn_handlers s) = ls_limiters (rn_handlers (server_starts d 0 0))"
    and t: "rt_rules t = Running (V4 16909060) False [] (rule_items demo_limit_rule)"
    by (rule demo_visited [of demo_limit_rule]) (simp, blast)
  note reachable = demo_visited_reachable [OF first(1)]
  have alloc: "li_alloc (dp_libraries d) = (\<lambda>n. n)" by (simp add: d(2) demo_libraries_def)
  have ls: "ls_limiters (rn_handlers s) = [Some (rate_limiter_new (\<lambda>n. n) 10 (from_secs 60) 100 0 0)]"
    unfolding limiters by (simp add: server_starts_def initial_state_def d demo_libraries_def demo_ruled_config_def)
  have "fst (acts_alone (\<lambda>n. n) [(0, 0), (0, 0)] (Running (V4 16909060) False [] (rule_items demo_limit_rule),
      [Some (rate_limiter_new (\<lambda>n. n) 10 (from_secs 60) 100 0 0)])) = Finished (V4 16909060) (rule_items demo_limit_rule) Continue"
    by code_simp
  then obtain s' t' where run: "server_runs d (map (\<lambda>clock. Rules (Advance 0 clock)) [(0, 0), (0, 0)]) s s'"
    and t': "t' \<in> set (rn_tasks s')" "rt_rules t' = Finished (V4 16909060) (rule_items demo_limit_rule) Continue"
    and same: "rt_listener t' = rt_listener t"
    using server_acts_alone [of 0 s d "[(0, 0), (0, 0)]"] first(2)
    by (fastforce simp: alloc ls t with_rules_def split: prod.splits)
  have reachable': "server_reachable d s'" by (rule server_reachable_run [OF reachable run])
  have "rt_listener t \<in> handlers d"
    using running_ok_reachable [OF d(1) reachable] first(2) by (simp add: running_ok_def request_sound_def)
  then have rule: "demo_limit_rule \<in> set (li_rules (rt_listener t'))"
    using handlers_share [of "rt_listener t" d] by (simp add: same d(3) demo_ruled_config_def)
  have "match_rule (li_execute (rt_listener t')) demo_limit_rule (rt_rules_context t')"
    by (simp add: match_rule_def demo_limit_rule_def)
  from running_rules_enforced [OF reachable' t' rule this] reachable' t' rule show ?thesis by blast
qed

end
