(* ===== verification/Spec2Isabelle.thy ===== *)
theory Spec2Isabelle
  imports Rate_Limiter_Tests Instances Config_Values Docker Jwt Captcha_Keys Geoip Lists Rules Static_Site_Spec Http_Proxy_Spec
    Tcp_Proxy Http_Listener_Spec Tls_Manager Acme Listeners Interleaving Running_Server Running_Spec Running_Progress Rule_Variables
    Acme_File Listener_Start Process Programs Clients Running_Rules
begin

text \<open>
  Pingoo is a reverse proxy with a web application firewall, written in Rust. This development
  models its crates \<^verbatim>\<open>pingoo\<close>, \<^verbatim>\<open>jwt\<close>,
  \<^verbatim>\<open>rules\<close> and \<^verbatim>\<open>docker\<close> and proves what makes them correct.

  \<^bold>\<open>How the program works.\<close> \<^verbatim>\<open>main.rs\<close> loads the
  configuration, starts an optional child process and runs the server. \<^verbatim>\<open>server.rs\<close> makes
  the service registry, the GeoIP database, the captcha manager, the lists, the services and the TLS
  manager, and starts a listener for every configured address. An HTTP or HTTPS listener gives every
  request to one handler, which looks up the client's country, derives the client's identifier,
  answers the captcha's own paths, checks the captcha cookie, applies the rules (block, captcha, limit)
  and hands the request to the first service that takes it: a static site, or a proxy that asks the
  registry for the service's upstreams. A TCP listener joins each connection with an upstream. In the
  background the registry refreshes its upstreams from the configuration, DNS and Docker, every limit
  rule has a task that counts probes, and ACME certificates are renewed.

  \<^bold>\<open>Conventions.\<close> A string is the list of its UTF-8 bytes. Machine integers are
  words; times are nanoseconds as integers, or seconds where the code has seconds. A fallible function
  returns a sum, \<open>Inl\<close> an error whose text keeps the literal part of the message, and a
  panic is \<open>None\<close>. State is passed and returned. Hash maps are association lists with
  distinct keys. Code outside the repository (cryptography, text encodings, X.509, HTTP, DNS, the
  expression language, the file system, clocks and random numbers) is a field of an environment or an
  argument; what the proofs rely on of it is a named predicate (\<open>crypto_ok\<close>,
  \<open>header_env_ok\<close>, \<open>proxy_env_ok\<close>, \<open>content_stable\<close>,
  \<open>evicts\<close>, and so on), for which concrete instances are given. What the caches of the
  moka library drop is a function of each call. No definition needs fuel: every loop of the code that
  ends is a structural or measured recursion, and the endless ones (accepting connections, refreshing,
  renewing, counting) are functions of the finite sequence of events they have seen.

  \<^bold>\<open>Foundations.\<close> \<open>Prelude\<close> holds the vocabulary of integers,
  results and maps with the shared lemmas, \<open>Net\<close> addresses and their texts,
  \<open>Strings\<close> and \<open>Paths\<close> the operations of Rust's \<^verbatim>\<open>str\<close> and
  \<^verbatim>\<open>PathBuf\<close> that the program uses, \<open>Http\<close> messages and the fixed responses of
  \<^verbatim>\<open>services/http_utils.rs\<close>, \<open>Json\<close> values, and \<open>Instances\<close>
  small instances of libraries for concrete inputs.

  \<^bold>\<open>Interfaces.\<close> Four contracts are locales, each interpreted on the code's own
  definitions. \<open>Admission\<close>: a counter that admits within a budget (provider
  \<open>Rate_Limiter\<close>). \<open>Upstream_Source\<close>: a registry whose answers come from the last
  refresh (provider \<open>Service_Registry\<close>, client \<open>Http_Proxy_Spec\<close>).
  \<open>Signer\<close>: keys whose signatures verify (provider \<open>Jwt_Key\<close>, client
  \<open>Jwt\<close>). \<open>Cached\<close>: a server whose cache does not show (providers
  \<open>Geoip\<close> and \<open>Static_Site_Spec\<close>).

  \<^bold>\<open>Components.\<close>
  \<^item> \<open>Rate_Limiter\<close> (\<^verbatim>\<open>rate_limiter.rs\<close>): the counter of two buckets and
    its task. The decision of every probe on naturals, the budget of a window under any interleaving,
    the invariant of reachable limiters, that the task answers every probe, and what is lost when the
    blue window ends. \<open>Rate_Limiter_Tests\<close> has the unit tests as predicates, and that they pass.
  \<^item> \<open>Service_Registry\<close>, \<open>Dns\<close>, \<open>Docker_Model\<close>,
    \<open>Docker\<close> (\<^verbatim>\<open>service_discovery\<close>, \<^verbatim>\<open>docker\<close>): the exact effect of
    a refresh, that no stale upstream is served, convergence in two refreshes, what each source offers,
    and that the Docker client never reconnects.
  \<^item> \<open>Config_Types\<close>, \<open>Config_File\<close>, \<open>Load_Config\<close>
    (\<^verbatim>\<open>config\<close>), with \<open>Config_Values\<close> for what serde makes of a document,
    \<open>Lists\<close> (\<^verbatim>\<open>lists.rs\<close>), \<open>Rules\<close>
    (\<^verbatim>\<open>rules.rs\<close> of both crates), \<open>Rule_Variables\<close> for what expressions see: what loads is valid, with the exact behaviour of the
    parsers and validators as lemmas.
  \<^item> \<open>Jwt_Key\<close>, \<open>Jwk_Json\<close>, \<open>Jwt\<close> (\<^verbatim>\<open>jwt\<close>): exactly
    which tokens are accepted, round trips of tokens and keys, soundness of keys made from JWKs.
  \<^item> \<open>Captcha\<close>, \<open>Captcha_Spec\<close>, \<open>Captcha_Keys\<close>
    (\<^verbatim>\<open>captcha.rs\<close>): who may skip the captcha, that only a solved challenge gives the proof,
    that an honest client passes and gets a proof that validates, that keys survive a restart.
  \<^item> \<open>Geoip\<close> (\<^verbatim>\<open>geoip.rs\<close>): the cache is transparent, codes that are
    read are well formed.
  \<^item> \<open>Http_Listener\<close>, \<open>Http_Listener_Spec\<close>
    (\<^verbatim>\<open>listeners/http_listener.rs\<close>): barred and limited requests reach no service; which
    requests are answered.
  \<^item> \<open>Static_Site\<close>, \<open>Static_Site_Spec\<close>
    (\<^verbatim>\<open>services/http_static_site_service.rs\<close>): answers depend on files inside the root
    only, but for three kinds of request that are shown to escape; the cached service refines one without a
    cache.
  \<^item> \<open>Http_Proxy\<close>, \<open>Http_Proxy_Spec\<close>, \<open>Tcp_Proxy\<close>
    (\<^verbatim>\<open>services/http_proxy_service.rs\<close>, \<^verbatim>\<open>services/tcp_proxy_service.rs\<close>): every
    header an upstream receives, which upstreams are contacted, the one panic of the proxy (on an
    upstream's URI that the library refuses), and that the retry loop ends with the first success or the
    last error.
  \<^item> \<open>Tls_Certificate\<close>, \<open>Tls_Manager\<close>, \<open>Acme\<close>, \<open>Acme_File\<close>
    (\<^verbatim>\<open>tls\<close>): the names of certificates, the certificate each connection gets, the state after
    a round of renewals, the account file and its JSON.
  \<^item> \<open>Listeners\<close>, \<open>Listener_Start\<close> (\<^verbatim>\<open>listeners\<close>):
    construction and binding, the TLS configurations, the TLS handshake with its timeouts, the accept
    loops with the moments connections are served, and the end of a listener.
  \<^item> \<open>Server\<close>, \<open>Server_Spec\<close> (\<^verbatim>\<open>server.rs\<close>,
    \<^verbatim>\<open>main.rs\<close>): the composition. When the start panics, that the server otherwise runs exactly its
    configuration, and that upstreams learn only the truth about the client.
  \<^item> \<open>Interleaving\<close>, \<open>Running_Server\<close>, \<open>Running_Spec\<close>,
    \<open>Running_Progress\<close>, \<open>Running_Rules\<close>: the server after its start, as a step relation on the state its tasks
    share. A request is received, does the actions of its rules one at a time, and is answered; the steps
    of all requests, refreshes of the registry and rounds of renewals interleave freely, and their events
    carry the responses. The handler as one function is a run of events of its request alone; rules are
    enforced and limits hold under concurrency; the invariant of the shared state; rules never fail for a
    dead limiter; requests are judged by the database; every request gets its answer, a response unless
    the proxy panics on an upstream's URI.
  \<^item> \<open>Process\<close> (\<^verbatim>\<open>main.rs\<close>, \<^verbatim>\<open>listeners\<close>): what is set up,
    the signal, the accept loops against the clock, and how long the end of the process takes, with the
    two things that have no bound of their own: the random choices of \<^verbatim>\<open>select!\<close> and the
    shutdown of the stream of an answered ACME challenge.
  \<^item> \<open>Clients\<close>, \<open>Programs\<close>: the settings of the HTTP client and the resolver, lists as
    values, debug output without secrets; the test server \<^verbatim>\<open>pong\<close> and the example of the
    Docker client.

  \<^bold>\<open>Where the code departs from its intent\<close>, the property or lemma states the behaviour
  it has: \<open>double_burst\<close>, \<open>lost_upstream_empties_service\<close>,
  \<open>docker_client_never_reconnects\<close>, \<open>listener_path_ignored\<close>,
  \<open>ec_jwk_roundtrip_broken\<close>, \<open>client_id_ambiguous\<close>,
  \<open>parent_index_served\<close>, \<open>absolute_path_served\<close>, \<open>rootless_html_served\<close>,
  \<open>long_target_panics\<close>, \<open>challenge_unlimited\<close>, \<open>challenge_delays_end\<close>,
  \<open>geoip_headers_spoofable\<close>, \<open>tls_upstream_port_dropped\<close>,
  \<open>handshakes_queue\<close>, \<open>process_ends_in_time\<close>, \<open>self_signed_panics_exactly\<close>,
  \<open>default_hides_wildcards\<close>, \<open>start_panics_exactly\<close>, \<open>public_jwk_refused\<close>,
  \<open>rfc_oct_refused\<close>, \<open>documented_limit_refused\<close>,
  \<open>documented_list_types_refused\<close> and \<open>backpressure_test_exact\<close>.

  \<^bold>\<open>Not modelled\<close>: what is logged, and the macro \<^verbatim>\<open>tracing_utils.rs\<close>; the adapter of
  \<^verbatim>\<open>serde_utils.rs\<close> for private keys outside the account file; the embedded front end of the captcha
  and its browser side in TypeScript; the TLS and HTTP engines behind the settings that are modelled; the
  parsing of HTTP and the copying of bytes between two TCP streams, which the runtime does. In the
  running server receiving a request with its GeoIP lookup, one probe of a limiter, and the answer of a
  service are one step each, so the interleaving of two cache fills or of two registry reads of one
  request is left out; a round of renewals is one step. The resolver is a function within one refresh. Two
  panics of libraries are left out: that of a hash map too large to allocate and that of a cookie dated
  after the year 9999.
  Moments are compared in whole seconds where the code's types have seconds, and times beyond the range
  of the clock library are left out.
\<close>

end
